(* ===== verification/Prelude.thy ===== *)
theory Prelude
  imports Main
begin

text \<open>
  Shared material of the development: the collections of rules the component theories extend,
  the search loop \<open>find_index\<close> (the shape of every \<^verbatim>\<open>for (i = 0; i < MAX; i++) if (...) break;\<close>
  of the program), counting lemmas for slot arrays, and the locale of invariant-preserving
  transition systems.
\<close>

named_theorems limits "the numeric limits of the C headers"
named_theorems frame "equations saying that an operation leaves a field alone"
named_theorems preserves "an operation keeps the invariant of its component"

type_synonym 'a ptr = "'a option"
  \<comment> \<open>a nullable C pointer: \<open>None\<close> is NULL\<close>

section \<open>Linear search\<close>

fun find_index :: "('a \<Rightarrow> bool) \<Rightarrow> 'a list \<Rightarrow> nat option" where
  "find_index P [] = None"
| "find_index P (x # xs) = (if P x then Some 0 else map_option Suc (find_index P xs))"

lemma find_index_SomeD:
  "find_index P xs = Some i \<Longrightarrow> i < length xs \<and> P (xs ! i) \<and> (\<forall>j < i. \<not> P (xs ! j))"
proof (induction xs arbitrary: i)
  case Nil
  then show ?case by simp
next
  case (Cons x xs)
  show ?case
  proof (cases "P x")
    case True
    with Cons.prems show ?thesis by simp
  next
    case False
    with Cons.prems obtain k where k: "find_index P xs = Some k" "i = Suc k" by auto
    from Cons.IH [OF k(1)] False k(2) show ?thesis
      by (auto simp: less_Suc_eq_0_disj)
  qed
qed

lemma find_index_less [dest]: "find_index P xs = Some i \<Longrightarrow> i < length xs"
  using find_index_SomeD by fast

lemma find_index_sat: "find_index P xs = Some i \<Longrightarrow> P (xs ! i)"
  using find_index_SomeD by fast

lemma find_index_None_iff: "find_index P xs = None \<longleftrightarrow> (\<forall>x \<in> set xs. \<not> P x)"
  by (induction xs) auto

lemma find_index_ex: "x \<in> set xs \<Longrightarrow> P x \<Longrightarrow> \<exists>i. find_index P xs = Some i"
  using find_index_None_iff [of P xs] by (cases "find_index P xs") auto

lemma find_index_cong_first:
  assumes "i < length xs" and "P (xs ! i)" and "\<And>j. j < i \<Longrightarrow> \<not> P (xs ! j)"
  shows "find_index P xs = Some i"
proof -
  from assms(1,2) obtain k where k: "find_index P xs = Some k"
    using find_index_ex [of "xs ! i" xs P] by auto
  with find_index_SomeD [OF k] assms have "\<not> k < i" and "\<not> i < k"
    by auto
  with k show ?thesis by simp
qed

lemma find_index_cong: "(\<And>x. x \<in> set xs \<Longrightarrow> P x = Q x) \<Longrightarrow> find_index P xs = find_index Q xs"
  by (induction xs) auto

lemma find_index_update_same:
  "i < length xs \<Longrightarrow> P (xs ! i) = P y \<Longrightarrow> find_index P (xs[i := y]) = find_index P xs"
proof (induction xs arbitrary: i)
  case Nil
  then show ?case by simp
next
  case (Cons x xs)
  then show ?case by (cases i) auto
qed

text \<open>A first-match search is the lookup of an association list.\<close>

lemma map_of_filter_find_index:
  "map_of (map (\<lambda>x. (key x, val x)) (filter P xs)) k =
     map_option (\<lambda>i. val (xs ! i)) (find_index (\<lambda>x. P x \<and> key x = k) xs)"
  by (induction xs) (auto simp: option.map_comp o_def)

section \<open>Counting the used slots of an array\<close>

definition used_count :: "('a \<Rightarrow> bool) \<Rightarrow> 'a list \<Rightarrow> int" where
  "used_count P xs = int (length (filter P xs))"

lemma used_count_nonneg [simp]: "0 \<le> used_count P xs"
  by (simp add: used_count_def)

lemma used_count_le_length: "used_count P xs \<le> int (length xs)"
  by (simp add: used_count_def)

lemma used_count_Nil [simp]: "used_count P [] = 0"
  by (simp add: used_count_def)

lemma used_count_Cons [simp]: "used_count P (x # xs) = of_bool (P x) + used_count P xs"
  by (simp add: used_count_def)

lemma used_count_update:
  "i < length xs \<Longrightarrow>
     used_count P (xs[i := x]) = used_count P xs - of_bool (P (xs ! i)) + of_bool (P x)"
proof (induction xs arbitrary: i)
  case Nil
  then show ?case by simp
next
  case (Cons y ys)
  then show ?case by (cases i) auto
qed

lemma used_count_zero_iff: "used_count P xs = 0 \<longleftrightarrow> (\<forall>x \<in> set xs. \<not> P x)"
  by (induction xs) (auto simp: of_bool_def add_nonneg_eq_0_iff)

lemma used_count_full_iff: "used_count P xs = int (length xs) \<longleftrightarrow> (\<forall>x \<in> set xs. P x)"
proof (induction xs)
  case Nil
  then show ?case by simp
next
  case (Cons x xs)
  then show ?case using used_count_le_length [of P xs] by (auto simp: of_bool_def)
qed

lemma used_count_full_find:
  "find_index (\<lambda>x. \<not> P x) xs = None \<longleftrightarrow> used_count P xs = int (length xs)"
  by (simp add: find_index_None_iff used_count_full_iff)

lemma used_count_replicate: "\<not> P x \<Longrightarrow> used_count P (replicate n x) = 0"
  by (simp add: used_count_zero_iff)

lemma used_count_pos: "x \<in> set xs \<Longrightarrow> P x \<Longrightarrow> 0 < used_count P xs"
proof (induction xs)
  case Nil
  then show ?case by simp
next
  case (Cons y ys)
  then show ?case by (cases "x = y") (auto simp: add_pos_nonneg add_nonneg_pos)
qed

section \<open>Sets and distinctness under slot updates\<close>

lemma set_update_fresh_slot:
  assumes "i < length xs" and "xs ! i = e" and "x \<noteq> e"
  shows "set (filter (\<lambda>y. y \<noteq> e) (xs[i := x])) = insert x (set (filter (\<lambda>y. y \<noteq> e) xs))"
  using assms
proof (induction xs arbitrary: i)
  case Nil
  then show ?case by simp
next
  case (Cons y ys)
  then show ?case by (cases i) auto
qed

lemma distinct_fresh_slot:
  assumes "i < length xs" and "xs ! i = e" and "x \<notin> set xs"
    and "distinct (filter (\<lambda>y. y \<noteq> e) xs)"
  shows "distinct (filter (\<lambda>y. y \<noteq> e) (xs[i := x]))"
  using assms
proof (induction xs arbitrary: i)
  case Nil
  then show ?case by simp
next
  case (Cons y ys)
  show ?case
  proof (cases i)
    case 0
    with Cons.prems show ?thesis by auto
  next
    case (Suc k)
    from Cons.prems Suc have "k < length ys" "ys ! k = e" "x \<notin> set ys"
        "distinct (filter (\<lambda>y. y \<noteq> e) ys)"
      by (simp_all split: if_splits)
    then have "distinct (filter (\<lambda>y. y \<noteq> e) (ys[k := x]))" by (rule Cons.IH)
    moreover from Cons.prems Suc have "y \<noteq> e \<Longrightarrow> y \<notin> set (ys[k := x])"
      using set_update_subset_insert [of ys k x] by (auto split: if_splits)
    ultimately show ?thesis using Suc by simp
  qed
qed

lemma filter_clear_slot:
  assumes "i < length xs" and "distinct (filter (\<lambda>y. y \<noteq> e) xs)" and "xs ! i \<noteq> e"
  shows "distinct (filter (\<lambda>y. y \<noteq> e) (xs[i := e])) \<and>
    set (filter (\<lambda>y. y \<noteq> e) (xs[i := e])) = set (filter (\<lambda>y. y \<noteq> e) xs) - {xs ! i}"
  using assms
proof (induction xs arbitrary: i)
  case Nil
  then show ?case by simp
next
  case (Cons y ys)
  show ?case
  proof (cases i)
    case 0
    with Cons.prems show ?thesis by auto
  next
    case (Suc k)
    with Cons.prems have k: "k < length ys" "distinct (filter (\<lambda>y. y \<noteq> e) ys)" "ys ! k \<noteq> e"
      by (simp_all split: if_splits)
    have in_ys: "ys ! k \<in> set (filter (\<lambda>y. y \<noteq> e) ys)" using k by simp
    note IH = Cons.IH [OF k]
    show ?thesis
    proof (cases "y = e")
      case True
      with IH Suc show ?thesis by simp
    next
      case False
      with Cons.prems(2) have y: "y \<notin> set (filter (\<lambda>y. y \<noteq> e) ys)" by simp
      with in_ys have "y \<noteq> ys ! k" by metis
      moreover have "y \<notin> set (filter (\<lambda>y. y \<noteq> e) (ys[k := e]))"
        using IH y by blast
      ultimately show ?thesis using False IH Suc by auto
    qed
  qed
qed

lemma all_set_update:
  "(\<forall>x \<in> set xs. P x) \<Longrightarrow> P y \<Longrightarrow> \<forall>x \<in> set (xs[i := y]). P x"
  using set_update_subset_insert [of xs i y] by auto

lemma length_concat_bound:
  "\<forall>x \<in> set xs. length x \<le> k \<Longrightarrow> length (concat xs) \<le> k * length xs"
  by (induction xs) auto

section \<open>Transition systems and their invariants\<close>

inductive reach :: "('s \<Rightarrow> bool) \<Rightarrow> ('s \<Rightarrow> 's \<Rightarrow> bool) \<Rightarrow> 's \<Rightarrow> bool"
  for start :: "'s \<Rightarrow> bool" and step :: "'s \<Rightarrow> 's \<Rightarrow> bool" where
  reach_start: "start s \<Longrightarrow> reach start step s"
| reach_step: "reach start step s \<Longrightarrow> step s t \<Longrightarrow> reach start step t"

locale invariant_system =
  fixes start :: "'s \<Rightarrow> bool"
    and step :: "'s \<Rightarrow> 's \<Rightarrow> bool"
    and inv :: "'s \<Rightarrow> bool"
  assumes inv_start: "start s \<Longrightarrow> inv s"
    and inv_step: "inv s \<Longrightarrow> step s t \<Longrightarrow> inv t"
begin

lemma reach_inv: "reach start step s \<Longrightarrow> inv s"
  by (induction rule: reach.induct) (auto intro: inv_start inv_step)

lemma steps_inv: "rtranclp step s t \<Longrightarrow> inv s \<Longrightarrow> inv t"
  by (induction rule: rtranclp_induct) (auto intro: inv_step)

end

end
