(* ===== verification/CLib.thy ===== *)
theory CLib
  imports Prelude "HOL-Library.Word"
begin

text \<open>
  The part of the C standard library the program uses, on explicit data.
  A \<^verbatim>\<open>char[n]\<close> array is a list of exactly \<open>n\<close> characters, terminator and the bytes after it
  included; \<open>cstr\<close> is the string a NUL-terminated array holds. A string passed as
  \<^verbatim>\<open>const char *\<close> is its characters up to the terminator. \<^verbatim>\<open>uint8_t\<close> data is a list of bytes.
\<close>

unbundle bit_operations_syntax

type_synonym byte = "8 word"
type_synonym u32 = "32 word"
type_synonym u64 = "64 word"

abbreviation NUL :: char where "NUL \<equiv> CHR 0x00"
abbreviation LF :: char where "LF \<equiv> CHR 0x0A"
abbreviation CR :: char where "CR \<equiv> CHR 0x0D"
abbreviation TAB :: char where "TAB \<equiv> CHR 0x09"

section \<open>Strings in arrays\<close>

definition cstr :: "char list \<Rightarrow> string" where
  "cstr b = takeWhile (\<lambda>c. c \<noteq> NUL) b"

definition strlen :: "char list \<Rightarrow> nat" where
  "strlen b = length (cstr b)"

text \<open>\<open>strncpy dst src n\<close>: at most \<open>n\<close> characters, padded with NUL up to \<open>n\<close>; the array is
  terminated only if the source is shorter than \<open>n\<close>.\<close>

definition strncpy :: "char list \<Rightarrow> char list \<Rightarrow> nat \<Rightarrow> char list" where
  "strncpy dst src n = take n (cstr src @ replicate n NUL) @ drop n dst"

text \<open>\<open>snprintf\<close> into an array keeps the bytes after the terminator it writes.\<close>

definition snprintf_buf :: "char list \<Rightarrow> nat \<Rightarrow> string \<Rightarrow> char list" where
  "snprintf_buf dst n s =
     (if n = 0 then dst
      else take (n - 1) s @ NUL # drop (Suc (length (take (n - 1) s))) dst)"

text \<open>The string a local array of size \<open>n\<close> holds after \<open>snprintf\<close> into it.\<close>

definition snprintf_str :: "nat \<Rightarrow> string \<Rightarrow> string" where
  "snprintf_str n s = take (n - 1) (cstr s)"

text \<open>\<open>strncat(dst, src, n)\<close> on the strings.\<close>

definition strncat :: "string \<Rightarrow> string \<Rightarrow> nat \<Rightarrow> string" where
  "strncat dst src n = dst @ take n (cstr src)"

text \<open>Subtraction of \<^verbatim>\<open>size_t\<close> values wraps.\<close>

definition size_sub :: "nat \<Rightarrow> nat \<Rightarrow> nat" where
  "size_sub a b = (if b \<le> a then a - b else 2 ^ 64 + a - b)"

definition strncmp_eq :: "string \<Rightarrow> string \<Rightarrow> nat \<Rightarrow> bool" where
  "strncmp_eq a b n \<longleftrightarrow> take n (a @ [NUL]) = take n (b @ [NUL])"

definition strcspn :: "string \<Rightarrow> string \<Rightarrow> nat" where
  "strcspn s reject = length (takeWhile (\<lambda>c. c \<notin> set reject) s)"

definition buf_ok :: "nat \<Rightarrow> char list \<Rightarrow> bool" where
  "buf_ok n b \<longleftrightarrow> length b = n \<and> NUL \<in> set b"
  \<comment> \<open>an array of \<open>n\<close> characters that holds a terminated string\<close>

lemma takeWhile_no_stop: "\<forall>x \<in> set xs. P x \<Longrightarrow> takeWhile P (xs @ ys) = xs @ takeWhile P ys"
  by (induction xs) auto

lemma cstr_no_NUL [simp]: "NUL \<notin> set (cstr b)"
  by (auto simp: cstr_def dest: set_takeWhileD)

lemma cstr_id: "NUL \<notin> set s \<Longrightarrow> cstr s = s"
  unfolding cstr_def by (subst takeWhile_eq_all_conv) auto

lemma cstr_cstr [simp]: "cstr (cstr b) = cstr b"
  by (simp add: cstr_id)

lemma cstr_Nil [simp]: "cstr [] = []"
  by (simp add: cstr_def)

lemma cstr_NUL [simp]: "cstr (NUL # b) = []"
  by (simp add: cstr_def)

lemma cstr_append_NUL: "NUL \<notin> set s \<Longrightarrow> cstr (s @ NUL # b) = s"
  unfolding cstr_def by (subst takeWhile_no_stop) auto

lemma cstr_append_replicate:
  "NUL \<notin> set s \<Longrightarrow> cstr (s @ replicate n NUL) = s"
  by (cases n) (auto simp: cstr_append_NUL cstr_id)

lemma cstr_replicate [simp]: "cstr (replicate n NUL) = []"
  using cstr_append_replicate [of "[]" n] by simp

lemma cstr_take_no_NUL: "NUL \<notin> set (take n (cstr s))"
  using in_set_takeD [of NUL n "cstr s"] by auto

lemma cstr_take: "cstr (take n b) = take n (cstr b)"
proof (induction b arbitrary: n)
  case Nil
  then show ?case by simp
next
  case (Cons c b)
  then show ?case by (cases n) (auto simp: cstr_def)
qed

lemma take_takeWhile_prefix:
  "k \<le> length (takeWhile P xs) \<Longrightarrow> take k (takeWhile P xs) = take k xs"
proof (induction xs arbitrary: k)
  case Nil
  then show ?case by simp
next
  case (Cons x xs)
  then show ?case by (cases k) (auto split: if_splits)
qed

lemma take_length_takeWhile: "take (length (takeWhile P xs)) xs = takeWhile P xs"
  using take_takeWhile_prefix [of "length (takeWhile P xs)" P xs] by simp

lemma strlen_le: "strlen b \<le> length b"
  by (simp add: strlen_def cstr_def length_takeWhile_le)

lemma strlen_less: "buf_ok n b \<Longrightarrow> strlen b < n"
proof -
  assume b: "buf_ok n b"
  then obtain xs ys where xs: "b = xs @ NUL # ys" "NUL \<notin> set xs"
    unfolding buf_ok_def by (meson split_list_first)
  then have "cstr b = xs" by (simp add: cstr_append_NUL)
  with xs b show ?thesis by (simp add: strlen_def buf_ok_def)
qed

lemma length_strncpy [simp]:
  "n \<le> length dst \<Longrightarrow> length (strncpy dst src n) = length dst"
  by (simp add: strncpy_def)

text \<open>The idiom \<^verbatim>\<open>strncpy(buf, s, n); buf[n] = '\0';\<close> on an array of \<open>n + 1\<close> characters.\<close>

lemma strncpy_terminated:
  assumes "length dst = Suc n"
  shows "buf_ok (Suc n) ((strncpy dst src n)[n := NUL])"
    and "cstr ((strncpy dst src n)[n := NUL]) = take n (cstr src)"
proof -
  let ?p = "take n (cstr src @ replicate n NUL)"
  have len: "length ?p = n" by simp
  have eq: "(strncpy dst src n)[n := NUL] = ?p @ [NUL]"
  proof -
    from assms obtain x where "drop n dst = [x]"
      by (metis Suc_diff_le diff_self_eq_0 length_0_conv length_Suc_conv length_drop order_refl)
    with len show ?thesis by (simp add: strncpy_def list_update_append del: take_append)
  qed
  then show "buf_ok (Suc n) ((strncpy dst src n)[n := NUL])"
    by (simp add: buf_ok_def)
  have "?p = take n (cstr src) @ replicate (n - strlen src) NUL"
    by (simp add: strlen_def)
  with eq have "(strncpy dst src n)[n := NUL] =
      take n (cstr src) @ replicate (Suc (n - strlen src)) NUL"
    by (simp add: replicate_append_same)
  then show "cstr ((strncpy dst src n)[n := NUL]) = take n (cstr src)"
    using cstr_append_replicate [OF cstr_take_no_NUL] by metis
qed

lemma snprintf_buf_ok:
  assumes "length dst = n" and "0 < n" and "NUL \<notin> set s"
  shows "buf_ok n (snprintf_buf dst n s)"
    and "cstr (snprintf_buf dst n s) = take (n - 1) s"
proof -
  have nn: "NUL \<notin> set (take (n - 1) s)" using assms(3) in_set_takeD by fast
  have "length (take (n - 1) s) < n" using assms(2) by auto
  with assms show "buf_ok n (snprintf_buf dst n s)"
    by (auto simp: buf_ok_def snprintf_buf_def)
  from assms(2) nn show "cstr (snprintf_buf dst n s) = take (n - 1) s"
    by (simp add: snprintf_buf_def cstr_append_NUL)
qed

lemma snprintf_str_length: "0 < n \<Longrightarrow> length (snprintf_str n s) < n"
  by (auto simp: snprintf_str_def)

lemma snprintf_str_no_NUL [simp]: "NUL \<notin> set (snprintf_str n s)"
  using cstr_take_no_NUL by (simp add: snprintf_str_def)

lemma snprintf_str_fits: "NUL \<notin> set s \<Longrightarrow> length s < n \<Longrightarrow> snprintf_str n s = s"
  by (simp add: snprintf_str_def cstr_id)

lemma strncat_length:
  "length dst < n \<Longrightarrow> length (strncat dst src (size_sub (size_sub n (length dst)) 1)) < n"
  by (auto simp: strncat_def size_sub_def)

lemma strncat_fits:
  "length dst + length src < n \<Longrightarrow> NUL \<notin> set src \<Longrightarrow>
     strncat dst src (size_sub (size_sub n (length dst)) 1) = dst @ src"
  by (auto simp: strncat_def size_sub_def cstr_id)

lemma strncmp_eq_prefix:
  assumes "length b = n" and "NUL \<notin> set b"
  shows "strncmp_eq a b n \<longleftrightarrow> take n a = b"
proof (cases "n \<le> length a")
  case True
  with assms show ?thesis by (simp add: strncmp_eq_def)
next
  case False
  then have "NUL \<in> set (take n (a @ [NUL]))" by (cases "n - length a") auto
  moreover have "take n (b @ [NUL]) = b" using assms by simp
  ultimately have "\<not> strncmp_eq a b n" using assms(2) unfolding strncmp_eq_def by metis
  with False assms show ?thesis by auto
qed

section \<open>Cutting a line\<close>

text \<open>
  The idiom of \<^verbatim>\<open>chat_protocol_handle_message\<close> and \<^verbatim>\<open>chat_protocol_handle_nickname_change\<close>:
  copy into an array of \<open>n\<close> characters, terminate it, and cut it at the first character of
  \<open>reject\<close>. Every byte of the array is written, so its previous content does not matter.
\<close>

definition clean_line :: "nat \<Rightarrow> string \<Rightarrow> char list \<Rightarrow> string" where
  "clean_line n reject s =
     (let b = (strncpy (replicate n NUL) s (n - 1))[n - 1 := NUL]
      in cstr (b[strcspn (cstr b) reject := NUL]))"

lemma cstr_update_NUL:
  assumes "k \<le> strlen b" and "buf_ok n b"
  shows "cstr (b[k := NUL]) = take k (cstr b)"
proof -
  have kl: "k < length b" using assms strlen_less [OF assms(2)] by (simp add: buf_ok_def)
  have tk: "take k b = take k (cstr b)"
    using assms(1) unfolding cstr_def strlen_def by (rule take_takeWhile_prefix [symmetric])
  have "b[k := NUL] = take k b @ NUL # drop (Suc k) b"
    using kl by (simp add: upd_conv_take_nth_drop)
  also have "cstr \<dots> = take k (cstr b)"
    using tk cstr_take_no_NUL [of k b] by (simp add: cstr_append_NUL)
  finally show ?thesis .
qed

lemma clean_line_eq:
  assumes "0 < n"
  shows "clean_line n reject s = takeWhile (\<lambda>c. c \<notin> set reject) (take (n - 1) (cstr s))"
proof -
  let ?b = "(strncpy (replicate n NUL) s (n - 1))[n - 1 := NUL]"
  have n: "length (replicate n NUL) = Suc (n - 1)" using assms by simp
  note b = strncpy_terminated [OF n, of s]
  have "strcspn (cstr ?b) reject \<le> strlen ?b"
    by (simp add: strcspn_def strlen_def length_takeWhile_le)
  then have "clean_line n reject s = take (strcspn (cstr ?b) reject) (cstr ?b)"
    unfolding clean_line_def Let_def using cstr_update_NUL b(1) by blast
  then show ?thesis
    unfolding b(2) strcspn_def by (simp only: take_length_takeWhile)
qed

lemma clean_line_length: "0 < n \<Longrightarrow> length (clean_line n reject s) < n"
proof -
  assume n: "0 < n"
  have "length (clean_line n reject s) \<le> length (take (n - 1) (cstr s))"
    using n by (simp add: clean_line_eq length_takeWhile_le del: length_take)
  also have "\<dots> \<le> n - 1" by simp
  finally show ?thesis using n by simp
qed

lemma clean_line_set: "0 < n \<Longrightarrow> set (clean_line n reject s) \<inter> set reject = {}"
  by (auto simp: clean_line_eq dest: set_takeWhileD)

lemma clean_line_no_NUL [simp]: "NUL \<notin> set (clean_line n reject s)"
  by (simp add: clean_line_def Let_def)

section \<open>Decimal output\<close>

fun show_nat :: "nat \<Rightarrow> string" where
  "show_nat n = (if n < 10 then [char_of (48 + n)]
     else show_nat (n div 10) @ [char_of (48 + n mod 10)])"

declare show_nat.simps [simp del]

definition show_int :: "int \<Rightarrow> string" where
  "show_int i = (if i < 0 then CHR ''-'' # show_nat (nat (- i)) else show_nat (nat i))"

lemma char_of_digit_neq_NUL: "d < 10 \<Longrightarrow> char_of (48 + d :: nat) \<noteq> NUL"
proof
  assume d: "d < 10" and "char_of (48 + d) = NUL"
  then have "of_char (char_of (48 + d)) = (of_char NUL :: nat)" by simp
  with d show False by simp
qed

lemma show_nat_no_NUL [simp]: "NUL \<notin> set (show_nat n)"
proof (induction n rule: show_nat.induct)
  case (1 n)
  show ?case
  proof (cases "n < 10")
    case True
    then show ?thesis using char_of_digit_neq_NUL [of n]
      by (simp add: show_nat.simps [of n])
  next
    case False
    with 1 show ?thesis using char_of_digit_neq_NUL [of "n mod 10"]
      by (simp add: show_nat.simps [of n])
  qed
qed

lemma show_int_no_NUL [simp]: "NUL \<notin> set (show_int i)"
  by (simp add: show_int_def)

lemma show_nat_length: "n < 10 ^ Suc k \<Longrightarrow> length (show_nat n) \<le> Suc k"
proof (induction k arbitrary: n)
  case 0
  then show ?case by (simp add: show_nat.simps [of n])
next
  case (Suc k)
  show ?case
  proof (cases "n < 10")
    case True
    then show ?thesis by (simp add: show_nat.simps [of n])
  next
    case False
    have "n div 10 < 10 ^ Suc k" using Suc.prems by (simp add: less_mult_imp_div_less)
    from Suc.IH [OF this] False show ?thesis by (simp add: show_nat.simps [of n])
  qed
qed

section \<open>Bytes and characters\<close>

definition bytes_of :: "string \<Rightarrow> byte list" where
  "bytes_of s = map (\<lambda>c. word_of_nat (of_char c)) s"

definition chars_of :: "byte list \<Rightarrow> string" where
  "chars_of bs = map (\<lambda>b. char_of (unat b)) bs"

lemma of_char_less_256: "(of_char c :: nat) < 256"
  by (metis of_char_mod_256 mod_less_divisor zero_less_numeral)

lemma chars_of_bytes_of [simp]: "chars_of (bytes_of s) = s"
proof -
  have "char_of (unat (word_of_nat (of_char c) :: byte)) = c" for c
    using of_char_less_256 [of c] by (simp add: unat_of_nat take_bit_eq_mod)
  then show ?thesis by (simp add: chars_of_def bytes_of_def o_def)
qed

lemma unat_byte_less_256: "unat (b :: byte) < 256"
  using unsigned_less [of b] by simp

lemma bytes_of_chars_of [simp]: "bytes_of (chars_of bs) = bs"
proof -
  have "(word_of_nat (of_char (char_of (unat b) :: char)) :: byte) = b" for b
    using unat_byte_less_256 [of b] by simp
  then show ?thesis by (simp add: chars_of_def bytes_of_def o_def)
qed

lemma length_bytes_of [simp]: "length (bytes_of s) = length s"
  by (simp add: bytes_of_def)

lemma length_chars_of [simp]: "length (chars_of bs) = length bs"
  by (simp add: chars_of_def)

lemma bytes_of_inject [simp]: "bytes_of s = bytes_of t \<longleftrightarrow> s = t"
  by (metis chars_of_bytes_of)

section \<open>Exclusive or\<close>

lemma xor_cancel [simp]: "((a :: 'a :: len word) XOR b) XOR b = a"
  by (simp add: xor.assoc)

lemma xor_eq_0_iff [simp]: "(a :: 'a :: len word) XOR b = 0 \<longleftrightarrow> a = b"
  by (metis xor.left_neutral xor_cancel xor_self_eq)

lemma xor_left_cancel [simp]: "(z :: 'a :: len word) XOR x = z XOR y \<longleftrightarrow> x = y"
  by (metis xor.left_commute xor_self_eq xor.right_neutral)

lemma xor_right_cancel [simp]: "(x :: 'a :: len word) XOR z = y XOR z \<longleftrightarrow> x = y"
  by (metis xor_cancel)

lemma xor3_cancel: "(x :: 'a :: len word) XOR u XOR c XOR u XOR c = x"
  by (metis xor.assoc xor.commute xor_cancel)

lemma xor3_cancel2: "(u XOR (x :: 'a :: len word) XOR c) XOR u XOR c = x"
proof -
  have "(u XOR x XOR c) XOR u XOR c = (x XOR u XOR c) XOR u XOR c" by (simp only: xor.left_commute [of u x])
  also have "\<dots> = x" using xor3_cancel [of x u c] by (simp only: xor.assoc)
  finally show ?thesis .
qed

end
