(* ===== verification/World.thy ===== *)
theory World
  imports CLib
begin

text \<open>
  The operating system as the program sees it: a trace of the system calls made (in order), and
  the answers the system gives, which are inputs of the model. \<open>sys_send\<close> is \<^verbatim>\<open>send()\<close>, whose
  result the network chooses; \<open>sys_close\<close> is \<^verbatim>\<open>close()\<close>. The record \<open>libc\<close> holds what
  \<^verbatim>\<open>time()\<close>, \<^verbatim>\<open>getpid()\<close>, the generator behind \<^verbatim>\<open>srand()\<close>/\<^verbatim>\<open>rand()\<close> and the allocator answer during
  one operation: the clock is read as one value per operation, and the generator is a function of
  the seed and of the number of the call, which is what the C standard promises of \<^verbatim>\<open>srand\<close>.
  Log output is not modelled.
\<close>

datatype sysev =
    Sent int "byte list" int \<comment> \<open>socket, data, result of \<^verbatim>\<open>send()\<close>\<close>
  | Closed int \<comment> \<open>socket\<close>
  | Cancelled nat \<comment> \<open>thread\<close>

record world =
  send_res :: "nat \<Rightarrow> int \<Rightarrow> nat \<Rightarrow> int"
    \<comment> \<open>result of the system call with this number, for this socket and length\<close>
  trace :: "sysev list"

text \<open>
  What \<^verbatim>\<open>__get_cpuid_max(0)\<close>, \<^verbatim>\<open>__get_cpuid(1)\<close> and \<^verbatim>\<open>__get_cpuid_count(7, 0)\<close> answer: the highest
  leaf, \<^verbatim>\<open>ecx\<close> of leaf 1 and \<^verbatim>\<open>(ebx, ecx)\<close> of leaf 7, with \<open>None\<close> for an unsupported leaf.
\<close>

record cpuid =
  cpuid_max :: nat
  cpuid_leaf1 :: "u32 option"
  cpuid_leaf7 :: "(u32 \<times> u32) option"

record libc =
  libc_time :: int
  libc_usec :: int \<comment> \<open>the microseconds of \<^verbatim>\<open>gettimeofday()\<close>\<close>
  libc_pid :: int
  libc_rand :: "u32 \<Rightarrow> nat \<Rightarrow> nat"
    \<comment> \<open>result of the n-th \<^verbatim>\<open>rand()\<close> after \<^verbatim>\<open>srand(seed)\<close>\<close>
  libc_cpu :: cpuid
  libc_alloc :: "nat \<Rightarrow> bool"
    \<comment> \<open>whether the n-th resource request (allocation, mutex) of the operation succeeds\<close>
  libc_stack :: "char list"
    \<comment> \<open>the indeterminate bytes behind the initialised part of a local array\<close>

definition sys_send :: "world \<Rightarrow> int \<Rightarrow> byte list \<Rightarrow> int \<times> world" where
  "sys_send w fd data =
     (let r = send_res w (length (trace w)) fd (length data)
      in (r, w\<lparr>trace := trace w @ [Sent fd data r]\<rparr>))"

definition sys_close :: "world \<Rightarrow> int \<Rightarrow> world" where
  "sys_close w fd = w\<lparr>trace := trace w @ [Closed fd]\<rparr>"

definition sys_cancel :: "world \<Rightarrow> nat \<Rightarrow> world" where
  "sys_cancel w t = w\<lparr>trace := trace w @ [Cancelled t]\<rparr>"

text \<open>What one call of \<^verbatim>\<open>recv()\<close> returns; the data is never longer than the buffer given. A receive
  with a timeout that finds no further input fails.\<close>

datatype recv_result = RecvData "byte list" | RecvClosed | RecvError

fun next_recv :: "recv_result list \<Rightarrow> recv_result \<times> recv_result list" where
  "next_recv [] = (RecvError, [])"
| "next_recv (r # rs) = (r, rs)"

text \<open>What the calls of \<^verbatim>\<open>recv()\<close> with a buffer of \<open>n\<close> bytes return for waiting bytes when no more arrive
  meanwhile: as many as fit, the rest with the next calls.\<close>

function recv_chunks :: "nat \<Rightarrow> byte list \<Rightarrow> recv_result list" where
  "recv_chunks n bs =
     (if n = 0 \<or> bs = [] then [] else RecvData (take n bs) # recv_chunks n (drop n bs))"
  by pat_completeness auto
termination by (relation "measure (\<lambda>(n, bs). length bs)") auto

declare recv_chunks.simps [simp del]

lemma recv_chunks_one: "bs \<noteq> [] \<Longrightarrow> length bs \<le> n \<Longrightarrow> recv_chunks n bs = [RecvData bs]"
  by (subst recv_chunks.simps, subst recv_chunks.simps) (cases bs; auto)

lemma recv_chunks_more:
  "0 < n \<Longrightarrow> n < length bs \<Longrightarrow> recv_chunks n bs = RecvData (take n bs) # recv_chunks n (drop n bs)"
  by (subst recv_chunks.simps) auto

text \<open>What an operation did: the part of the trace that it added.\<close>

definition emitted :: "world \<Rightarrow> world \<Rightarrow> sysev list" where
  "emitted w w' = drop (length (trace w)) (trace w')"

definition extends :: "world \<Rightarrow> world \<Rightarrow> bool" where
  "extends w w' \<longleftrightarrow> send_res w' = send_res w \<and> (\<exists>es. trace w' = trace w @ es)"

lemma extends_refl [simp, intro]: "extends w w"
  by (simp add: extends_def)

lemma extends_trans [trans]: "extends u v \<Longrightarrow> extends v w \<Longrightarrow> extends u w"
  by (auto simp: extends_def)

lemma extends_trace: "extends w w' \<Longrightarrow> trace w' = trace w @ emitted w w'"
  by (auto simp: extends_def emitted_def)

lemma emitted_same [simp]: "emitted w w = []"
  by (simp add: emitted_def)

lemma emitted_trans:
  "extends u v \<Longrightarrow> extends v w \<Longrightarrow> emitted u w = emitted u v @ emitted v w"
  by (auto simp: extends_def emitted_def)

lemma emitted_append [simp]: "emitted w (w\<lparr>trace := trace w @ es\<rparr>) = es"
  by (simp add: emitted_def)

lemma extends_send [simp]: "extends w (snd (sys_send w fd d))"
  by (simp add: extends_def sys_send_def Let_def)

lemma emitted_send [simp]:
  "emitted w (snd (sys_send w fd d)) = [Sent fd d (fst (sys_send w fd d))]"
  by (simp add: emitted_def sys_send_def Let_def)

lemma extends_close [simp]: "extends w (sys_close w fd)"
  by (simp add: extends_def sys_close_def)

lemma emitted_close [simp]: "emitted w (sys_close w fd) = [Closed fd]"
  by (simp add: emitted_def sys_close_def)

lemma extends_cancel [simp]: "extends w (sys_cancel w t)"
  by (simp add: extends_def sys_cancel_def)

text \<open>The data sent on a socket, in order.\<close>

fun sent_on :: "int \<Rightarrow> sysev list \<Rightarrow> byte list list" where
  "sent_on fd [] = []"
| "sent_on fd (Sent g d r # es) = (if g = fd then d # sent_on fd es else sent_on fd es)"
| "sent_on fd (_ # es) = sent_on fd es"

lemma sent_on_append [simp]: "sent_on fd (es @ fs) = sent_on fd es @ sent_on fd fs"
  by (induction es rule: sent_on.induct) auto

end
