(* ===== verification/ServerTypes.thy ===== *)
theory ServerTypes
  imports World
begin

text \<open>The limits and the client state of \<^verbatim>\<open>server/include/types.h\<close>.\<close>

definition MAX_CLIENTS :: nat where "MAX_CLIENTS = 100"
definition BUFFER_SIZE :: nat where "BUFFER_SIZE = 1024"
definition MAX_NICKNAME_LEN :: nat where "MAX_NICKNAME_LEN = 32"
definition MAX_ROOMS :: nat where "MAX_ROOMS = 50"
definition MAX_ROOM_NAME :: nat where "MAX_ROOM_NAME = 64"
definition ROOM_ID_LENGTH :: nat where "ROOM_ID_LENGTH = 6"
definition MAX_CLIENTS_PER_ROOM :: nat where "MAX_CLIENTS_PER_ROOM = 20"

lemmas server_limits [limits] =
  MAX_CLIENTS_def BUFFER_SIZE_def MAX_NICKNAME_LEN_def MAX_ROOMS_def MAX_ROOM_NAME_def
  ROOM_ID_LENGTH_def MAX_CLIENTS_PER_ROOM_def

datatype client_state = CLIENT_STATE_CONNECTED | CLIENT_STATE_IN_LOBBY | CLIENT_STATE_IN_ROOM

end
