(* ===== verification/Room.thy ===== *)
theory Room
  imports ServerTypes
begin

text \<open>
  One chat room: \<^verbatim>\<open>room_t\<close> of \<^verbatim>\<open>server/include/room_manager.h\<close> and the room-specific functions at the
  end of \<^verbatim>\<open>server/src/room_manager.c\<close>. A room is passed by value: every caller of these functions
  passes the address of an element of \<^verbatim>\<open>manager->rooms\<close>, so a NULL room has no counterpart.
  Each function runs under \<^verbatim>\<open>room->mutex\<close> or \<^verbatim>\<open>manager->global_mutex\<close> and is one atomic step.
\<close>

record room =
  room_id :: "char list"
  room_name :: "char list"
  client_ids :: "int list"
  client_count :: int
  created_at :: int
  is_active :: bool

definition room_initialize :: "libc \<Rightarrow> room \<Rightarrow> string ptr \<Rightarrow> string ptr \<Rightarrow> room" where
  "room_initialize e r idp namep =
     (case (idp, namep) of
        (Some rid, Some nm) \<Rightarrow>
          r\<lparr>room_id := (strncpy (room_id r) rid ROOM_ID_LENGTH)[ROOM_ID_LENGTH := NUL],
            room_name := (strncpy (room_name r) nm (MAX_ROOM_NAME - 1))[MAX_ROOM_NAME - 1 := NUL],
            client_count := 0,
            created_at := libc_time e,
            is_active := True,
            client_ids := replicate MAX_CLIENTS_PER_ROOM (-1)\<rparr>
      | _ \<Rightarrow> r)"

definition room_cleanup :: "room \<Rightarrow> room" where
  "room_cleanup r =
     r\<lparr>room_id := replicate (ROOM_ID_LENGTH + 1) NUL,
       room_name := replicate MAX_ROOM_NAME NUL,
       client_count := 0,
       created_at := 0,
       is_active := False,
       client_ids := replicate MAX_CLIENTS_PER_ROOM (-1)\<rparr>"

definition room_has_client :: "room \<Rightarrow> int \<Rightarrow> bool" where
  "room_has_client r cid =
     (if cid < 0 then False else find_index (\<lambda>c. c = cid) (client_ids r) \<noteq> None)"

definition room_add_client :: "room \<Rightarrow> int \<Rightarrow> int \<times> room" where
  "room_add_client r cid =
     (if cid < 0 then (-1, r)
      else if room_has_client r cid then (-1, r)
      else if client_count r \<ge> int MAX_CLIENTS_PER_ROOM then (-1, r)
      else case find_index (\<lambda>c. c = -1) (client_ids r) of
             Some i \<Rightarrow> (0, r\<lparr>client_ids := (client_ids r)[i := cid],
                            client_count := client_count r + 1\<rparr>)
           | None \<Rightarrow> (-1, r))"

definition room_remove_client :: "room \<Rightarrow> int \<Rightarrow> int \<times> room" where
  "room_remove_client r cid =
     (if cid < 0 then (-1, r)
      else case find_index (\<lambda>c. c = cid) (client_ids r) of
             Some i \<Rightarrow> (0, r\<lparr>client_ids := (client_ids r)[i := -1],
                            client_count := client_count r - 1\<rparr>)
           | None \<Rightarrow> (-1, r))"

text \<open>\<^verbatim>\<open>room_generate_id\<close>: seeded from the clock and the process id on every call; its result is a
  static buffer, never NULL.\<close>

definition charset :: string where
  "charset = ''ABCDEFGHIJKLMNOPQRSTUVWXYZ0123456789''"

definition room_id_seed :: "libc \<Rightarrow> u32" where
  "room_id_seed e = word_of_int (libc_time e + libc_pid e)"

definition room_generate_id :: "libc \<Rightarrow> string ptr" where
  "room_generate_id e =
     Some (map (\<lambda>i. charset ! (libc_rand e (room_id_seed e) i mod length charset))
             [0 ..< ROOM_ID_LENGTH])"

section \<open>Well-formed rooms\<close>

abbreviation member_slot :: "int \<Rightarrow> bool" where
  "member_slot c \<equiv> c \<noteq> -1"

definition room_members :: "room \<Rightarrow> int set" where
  "room_members r = set (filter member_slot (client_ids r))"

definition room_wf :: "room \<Rightarrow> bool" where
  "room_wf r \<longleftrightarrow>
     buf_ok (ROOM_ID_LENGTH + 1) (room_id r) \<and> buf_ok MAX_ROOM_NAME (room_name r) \<and>
     length (client_ids r) = MAX_CLIENTS_PER_ROOM \<and>
     (\<forall>c \<in> set (client_ids r). -1 \<le> c) \<and>
     distinct (filter member_slot (client_ids r)) \<and>
     client_count r = used_count member_slot (client_ids r)"

lemma room_wfD:
  assumes "room_wf r"
  shows "length (client_ids r) = MAX_CLIENTS_PER_ROOM"
    and "distinct (filter member_slot (client_ids r))"
    and "client_count r = used_count member_slot (client_ids r)"
    and "c \<in> set (client_ids r) \<Longrightarrow> -1 \<le> c"
    and "buf_ok (ROOM_ID_LENGTH + 1) (room_id r)"
    and "buf_ok MAX_ROOM_NAME (room_name r)"
  using assms by (auto simp: room_wf_def)

lemma room_members_finite [simp]: "finite (room_members r)"
  by (simp add: room_members_def)

lemma room_members_nonneg: "room_wf r \<Longrightarrow> c \<in> room_members r \<Longrightarrow> 0 \<le> c"
  using room_wfD(4) [of r c] by (auto simp: room_members_def)

lemma room_count_card: "room_wf r \<Longrightarrow> client_count r = int (card (room_members r))"
  by (simp add: room_wfD(3) room_members_def used_count_def distinct_card [symmetric] room_wfD(2)
      del: set_filter)

lemma room_count_bounds:
  "room_wf r \<Longrightarrow> 0 \<le> client_count r \<and> client_count r \<le> int MAX_CLIENTS_PER_ROOM"
  using used_count_le_length [of member_slot "client_ids r"] by (simp add: room_wf_def)

lemma room_members_empty_iff: "room_wf r \<Longrightarrow> client_count r = 0 \<longleftrightarrow> room_members r = {}"
  by (auto simp: room_wfD(3) used_count_zero_iff room_members_def)

lemma room_has_client_iff: "room_has_client r c \<longleftrightarrow> 0 \<le> c \<and> c \<in> room_members r"
  using find_index_None_iff [of "\<lambda>x. x = c" "client_ids r"]
  by (auto simp: room_has_client_def room_members_def)

section \<open>The client set of a room\<close>

text \<open>The interface the room manager relies on: a bounded set of client ids with result codes.\<close>

locale bounded_id_set =
  fixes add :: "'s \<Rightarrow> int \<Rightarrow> int \<times> 's"
    and remove :: "'s \<Rightarrow> int \<Rightarrow> int \<times> 's"
    and has :: "'s \<Rightarrow> int \<Rightarrow> bool"
    and members :: "'s \<Rightarrow> int set"
    and ok :: "'s \<Rightarrow> bool"
    and cap :: nat
  assumes fin: "ok s \<Longrightarrow> finite (members s)"
    and has_iff: "ok s \<Longrightarrow> has s c \<longleftrightarrow> 0 \<le> c \<and> c \<in> members s"
    and add_ok: "ok s \<Longrightarrow> 0 \<le> c \<Longrightarrow> c \<notin> members s \<Longrightarrow> card (members s) < cap \<Longrightarrow>
        fst (add s c) = 0 \<and> ok (snd (add s c)) \<and> members (snd (add s c)) = insert c (members s)"
    and add_fail: "ok s \<Longrightarrow> c < 0 \<or> c \<in> members s \<or> cap \<le> card (members s) \<Longrightarrow>
        add s c = (-1, s)"
    and remove_ok: "ok s \<Longrightarrow> 0 \<le> c \<Longrightarrow> c \<in> members s \<Longrightarrow>
        fst (remove s c) = 0 \<and> ok (snd (remove s c)) \<and> members (snd (remove s c)) = members s - {c}"
    and remove_fail: "ok s \<Longrightarrow> c < 0 \<or> c \<notin> members s \<Longrightarrow> remove s c = (-1, s)"
begin

lemma add_preserves: "ok s \<Longrightarrow> ok (snd (add s c))"
  using add_ok [of s c] add_fail [of s c] by (metis linorder_not_less snd_conv)

lemma remove_preserves: "ok s \<Longrightarrow> ok (snd (remove s c))"
  using remove_ok [of s c] remove_fail [of s c] by (metis linorder_not_less snd_conv)

lemma add_result_iff:
  "ok s \<Longrightarrow> fst (add s c) = 0 \<longleftrightarrow> 0 \<le> c \<and> c \<notin> members s \<and> card (members s) < cap"
  using add_ok [of s c] add_fail [of s c] by (smt (verit) fst_conv linorder_not_less)

lemma add_result_cases: "ok s \<Longrightarrow> fst (add s c) = 0 \<or> add s c = (-1, s)"
  using add_ok [of s c] add_fail [of s c] by (metis linorder_not_less)

lemma add_remove_members:
  assumes "ok s" and "fst (add s c) = 0"
  shows "fst (remove (snd (add s c)) c) = 0 \<and>
    members (snd (remove (snd (add s c)) c)) = members s"
proof -
  from assms have c: "0 \<le> c" "c \<notin> members s" "card (members s) < cap"
    by (simp_all add: add_result_iff)
  from add_ok [OF assms(1) c] remove_ok [of "snd (add s c)" c] c show ?thesis by auto
qed

lemma members_bounded: "ok s \<Longrightarrow> card (members s) \<le> cap \<Longrightarrow> card (members (snd (add s c))) \<le> cap"
  using add_ok [of s c] add_fail [of s c] fin [of s]
  by (metis Suc_leI card_insert_disjoint linorder_not_less snd_conv)

end

lemma room_add_client_ok:
  assumes wf: "room_wf r" and c: "0 \<le> c" "c \<notin> room_members r"
    and room: "card (room_members r) < MAX_CLIENTS_PER_ROOM"
  shows "fst (room_add_client r c) = 0 \<and> room_wf (snd (room_add_client r c)) \<and>
    room_members (snd (room_add_client r c)) = insert c (room_members r)"
proof -
  have cnt: "client_count r < int MAX_CLIENTS_PER_ROOM"
    using room_count_card [OF wf] room by simp
  then have "find_index (\<lambda>x. \<not> member_slot x) (client_ids r) \<noteq> None"
    unfolding used_count_full_find using room_wfD(1,3) [OF wf] by simp
  then obtain i where i: "find_index (\<lambda>x. x = -1) (client_ids r) = Some i" by auto
  let ?r = "r\<lparr>client_ids := (client_ids r)[i := c], client_count := client_count r + 1\<rparr>"
  have add: "room_add_client r c = (0, ?r)"
    using c cnt i by (simp add: room_add_client_def room_has_client_iff)
  note il = find_index_less [OF i] find_index_sat [OF i]
  have fresh: "c \<notin> set (client_ids r)" using c by (auto simp: room_members_def)
  have "room_wf ?r"
    unfolding room_wf_def
  proof (intro conjI)
    show "\<forall>x \<in> set (client_ids ?r). - 1 \<le> x"
      using all_set_update [of "client_ids r" "\<lambda>x. - 1 \<le> x" c i] room_wfD(4) [OF wf] c(1)
      by auto
  qed (use wf il c fresh in \<open>auto simp: room_wf_def used_count_update
        intro: distinct_fresh_slot\<close>)
  moreover have "room_members ?r = insert c (room_members r)"
    using set_update_fresh_slot [OF il(1), of "-1" c] il(2) c(1)
    by (simp add: room_members_def)
  ultimately show ?thesis by (simp add: add)
qed

lemma room_remove_client_ok:
  assumes wf: "room_wf r" and c: "0 \<le> c" "c \<in> room_members r"
  shows "fst (room_remove_client r c) = 0 \<and> room_wf (snd (room_remove_client r c)) \<and>
    room_members (snd (room_remove_client r c)) = room_members r - {c}"
proof -
  from c(2) obtain i where i: "find_index (\<lambda>x. x = c) (client_ids r) = Some i"
    using find_index_ex [of c "client_ids r" "\<lambda>x. x = c"] by (auto simp: room_members_def)
  let ?r = "r\<lparr>client_ids := (client_ids r)[i := -1], client_count := client_count r - 1\<rparr>"
  have rm: "room_remove_client r c = (0, ?r)"
    using c i by (simp add: room_remove_client_def)
  note il = find_index_less [OF i] find_index_sat [OF i]
  have ne: "client_ids r ! i \<noteq> -1" using il(2) c(1) by simp
  note clear = filter_clear_slot [OF il(1) room_wfD(2) [OF wf] ne]
  have "room_wf ?r"
    unfolding room_wf_def
  proof (intro conjI)
    show "\<forall>x \<in> set (client_ids ?r). - 1 \<le> x"
      using all_set_update [of "client_ids r" "\<lambda>x. - 1 \<le> x" "-1" i] room_wfD(4) [OF wf]
      by auto
  qed (use wf il c ne clear in \<open>auto simp: room_wf_def used_count_update\<close>)
  moreover have "room_members ?r = room_members r - {c}"
    using clear il(2) by (simp add: room_members_def)
  ultimately show ?thesis by (simp add: rm)
qed

interpretation room_clients: bounded_id_set room_add_client room_remove_client room_has_client
    room_members room_wf MAX_CLIENTS_PER_ROOM
proof unfold_locales
  fix r c
  assume wf: "room_wf r"
  show "finite (room_members r)" by simp
  show "room_has_client r c \<longleftrightarrow> 0 \<le> c \<and> c \<in> room_members r"
    by (rule room_has_client_iff)
  show "room_add_client r c = (-1, r)"
    if "c < 0 \<or> c \<in> room_members r \<or> MAX_CLIENTS_PER_ROOM \<le> card (room_members r)"
    using that room_count_card [OF wf] by (auto simp: room_add_client_def room_has_client_iff)
  show "room_remove_client r c = (-1, r)" if "c < 0 \<or> c \<notin> room_members r"
  proof (cases "c < 0")
    case False
    with that have "find_index (\<lambda>x. x = c) (client_ids r) = None"
      by (auto simp: find_index_None_iff room_members_def)
    then show ?thesis by (simp add: room_remove_client_def)
  qed (simp add: room_remove_client_def)
qed (simp_all add: room_add_client_ok room_remove_client_ok)

section \<open>The other room operations\<close>

lemma room_fields [frame]:
  "room_id (snd (room_add_client r c)) = room_id r"
  "room_name (snd (room_add_client r c)) = room_name r"
  "is_active (snd (room_add_client r c)) = is_active r"
  "room_id (snd (room_remove_client r c)) = room_id r"
  "room_name (snd (room_remove_client r c)) = room_name r"
  "is_active (snd (room_remove_client r c)) = is_active r"
  by (auto simp: room_add_client_def room_remove_client_def split: option.splits)

lemma room_initialize_wf:
  assumes "length (room_id r) = ROOM_ID_LENGTH + 1" and "length (room_name r) = MAX_ROOM_NAME"
  shows "room_wf (room_initialize e r (Some rid) (Some nm))"
  using strncpy_terminated(1) [of "room_id r" ROOM_ID_LENGTH rid]
    strncpy_terminated(1) [of "room_name r" "MAX_ROOM_NAME - 1" nm] assms
  by (auto simp: room_wf_def room_initialize_def used_count_replicate filter_replicate
      MAX_ROOM_NAME_def)

lemma room_initialize_simps [simp]:
  assumes "length (room_id r) = ROOM_ID_LENGTH + 1" and "length (room_name r) = MAX_ROOM_NAME"
  shows "cstr (room_id (room_initialize e r (Some rid) (Some nm))) = take ROOM_ID_LENGTH (cstr rid)"
    and "cstr (room_name (room_initialize e r (Some rid) (Some nm))) =
      take (MAX_ROOM_NAME - 1) (cstr nm)"
  using strncpy_terminated(2) [of "room_id r" ROOM_ID_LENGTH rid]
    strncpy_terminated(2) [of "room_name r" "MAX_ROOM_NAME - 1" nm] assms
  by (auto simp: room_initialize_def MAX_ROOM_NAME_def)

lemma room_initialize_flags [simp]:
  "is_active (room_initialize e r (Some rid) (Some nm))"
  "room_members (room_initialize e r (Some rid) (Some nm)) = {}"
  by (simp_all add: room_initialize_def room_members_def filter_replicate)

lemma room_cleanup_wf [simp]: "room_wf (room_cleanup r)"
  by (simp add: room_wf_def room_cleanup_def used_count_replicate filter_replicate buf_ok_def
      limits)

lemma room_cleanup_simps [simp]:
  "\<not> is_active (room_cleanup r)" "room_members (room_cleanup r) = {}"
  by (simp_all add: room_cleanup_def room_members_def filter_replicate)

lemma room_generate_id_length: "room_generate_id e = Some rid \<Longrightarrow> length rid = ROOM_ID_LENGTH"
  by (auto simp: room_generate_id_def)

lemma room_generate_id_charset: "room_generate_id e = Some rid \<Longrightarrow> set rid \<subseteq> set charset"
proof -
  assume a: "room_generate_id e = Some rid"
  have "charset ! (n mod length charset) \<in> set charset" for n
    by (rule nth_mem) (simp add: charset_def)
  with a show ?thesis by (auto simp: room_generate_id_def)
qed

lemma charset_no_NUL: "NUL \<notin> set charset"
  by (simp add: charset_def)

lemma room_generate_id_cstr: "room_generate_id e = Some rid \<Longrightarrow> cstr rid = rid"
  using room_generate_id_charset charset_no_NUL by (intro cstr_id) blast

end
