(* ===== verification/RoomManager.thy ===== *)
theory RoomManager
  imports Room
begin

text \<open>
  The room table: \<^verbatim>\<open>room_manager_t\<close> and the room manager functions of
  \<^verbatim>\<open>server/src/room_manager.c\<close> except the two that read the client table
  (\<^verbatim>\<open>room_manager_broadcast_to_room\<close>, \<^verbatim>\<open>room_manager_get_room_users\<close>: theory RoomMessaging).
  Each function holds \<^verbatim>\<open>global_mutex\<close> from its first read to its last write, so it is one atomic
  step. A manager argument is a nullable pointer, since \<^verbatim>\<open>g_room_manager\<close> can be NULL; a room
  pointer is the index of the room in \<^verbatim>\<open>manager->rooms\<close>.
\<close>

record room_manager =
  rooms :: "room list"
  room_count :: int

definition room_manager_initialize :: "room_manager ptr \<Rightarrow> room_manager ptr" where
  "room_manager_initialize mp =
     (case mp of
        None \<Rightarrow> None
      | Some m \<Rightarrow> Some (m\<lparr>room_count := 0,
          rooms := map (\<lambda>r. r\<lparr>room_id := replicate (ROOM_ID_LENGTH + 1) NUL,
                              room_name := replicate MAX_ROOM_NAME NUL,
                              client_count := 0,
                              created_at := 0,
                              is_active := False,
                              client_ids := replicate MAX_CLIENTS_PER_ROOM (-1)\<rparr>) (rooms m)\<rparr>))"

definition room_manager_cleanup :: "room_manager ptr \<Rightarrow> room_manager ptr" where
  "room_manager_cleanup mp =
     (case mp of
        None \<Rightarrow> None
      | Some m \<Rightarrow> Some (m\<lparr>rooms := map (\<lambda>r. if is_active r then room_cleanup r else r) (rooms m)\<rparr>))"

definition room_manager_find_room :: "room_manager ptr \<Rightarrow> string ptr \<Rightarrow> nat ptr" where
  "room_manager_find_room mp idp =
     (case (mp, idp) of
        (Some m, Some rid) \<Rightarrow>
          find_index (\<lambda>r. is_active r \<and> cstr (room_id r) = cstr rid) (rooms m)
      | _ \<Rightarrow> None)"

definition room_manager_create_room ::
  "libc \<Rightarrow> room_manager ptr \<Rightarrow> string ptr \<Rightarrow> int \<Rightarrow> string ptr \<times> room_manager ptr" where
  "room_manager_create_room e mp namep creator =
     (case (mp, namep) of
        (Some m, Some nm) \<Rightarrow>
          if room_count m \<ge> int MAX_ROOMS then (None, mp)
          else (case find_index (\<lambda>r. \<not> is_active r) (rooms m) of
              None \<Rightarrow> (None, mp)
            | Some i \<Rightarrow>
                (case room_generate_id e of
                   None \<Rightarrow> (None, mp)
                 | Some rid \<Rightarrow>
                     (let r1 = room_initialize e (rooms m ! i) (Some rid) (Some nm);
                          (_, r2) = room_add_client r1 creator;
                          m' = m\<lparr>rooms := (rooms m)[i := r2], room_count := room_count m + 1\<rparr>
                      in (if libc_alloc e 0 then Some rid else None, Some m'))))
      | _ \<Rightarrow> (None, mp))"

definition room_manager_join_room ::
  "room_manager ptr \<Rightarrow> string ptr \<Rightarrow> int \<Rightarrow> int \<times> room_manager ptr" where
  "room_manager_join_room mp idp cid =
     (case (mp, idp) of
        (Some m, Some rid) \<Rightarrow>
          (case room_manager_find_room mp idp of
             None \<Rightarrow> (-1, mp)
           | Some i \<Rightarrow>
               (let (result, r') = room_add_client (rooms m ! i) cid
                in (result, Some (m\<lparr>rooms := (rooms m)[i := r']\<rparr>))))
      | _ \<Rightarrow> (-1, mp))"

definition room_manager_leave_room ::
  "room_manager ptr \<Rightarrow> string ptr \<Rightarrow> int \<Rightarrow> int \<times> room_manager ptr" where
  "room_manager_leave_room mp idp cid =
     (case (mp, idp) of
        (Some m, Some rid) \<Rightarrow>
          (case room_manager_find_room mp idp of
             None \<Rightarrow> (-1, mp)
           | Some i \<Rightarrow>
               (let (result, r') = room_remove_client (rooms m ! i) cid;
                    m' = m\<lparr>rooms := (rooms m)[i := r']\<rparr>
                in if client_count r' = 0
                   then (result, Some (m'\<lparr>rooms := (rooms m')[i := room_cleanup r'],
                                          room_count := room_count m' - 1\<rparr>))
                   else (result, Some m')))
      | _ \<Rightarrow> (-1, mp))"

text \<open>\<^verbatim>\<open>room_manager_list_rooms\<close> fills the caller's array; the strings it holds are modelled.\<close>

definition room_info_line :: "room \<Rightarrow> string" where
  "room_info_line r = snprintf_str 128
     (''ID: '' @ cstr (room_id r) @ '' | Name: '' @ cstr (room_name r) @
      '' | Users: '' @ show_int (client_count r) @ [LF])"

fun list_rooms_loop :: "nat \<Rightarrow> room list \<Rightarrow> string \<Rightarrow> string" where
  "list_rooms_loop n [] buf = buf"
| "list_rooms_loop n (r # rs) buf =
     (if length buf < size_sub n 100
      then list_rooms_loop n rs
        (if is_active r
         then strncat buf (room_info_line r) (size_sub (size_sub n (length buf)) 1)
         else buf)
      else buf)"

definition room_manager_list_rooms :: "room_manager ptr \<Rightarrow> string ptr \<Rightarrow> nat \<Rightarrow> string ptr" where
  "room_manager_list_rooms mp bufp n =
     (case (mp, bufp) of
        (Some m, Some _) \<Rightarrow>
          if n = 0 then bufp
          else (let b0 = snprintf_str n (''=== Active Rooms ==='' @ [LF]);
                    b1 = (if room_count m = 0
                          then strncat b0 (''No active rooms'' @ [LF])
                                 (size_sub (size_sub n (length b0)) 1)
                          else list_rooms_loop n (rooms m) b0)
                in Some (strncat b1 (''=================='' @ [LF])
                           (size_sub (size_sub n (length b1)) 1)))
      | _ \<Rightarrow> bufp)"

section \<open>The invariant of the room table\<close>

definition room_ok :: "room \<Rightarrow> bool" where
  "room_ok r \<longleftrightarrow> room_wf r \<and>
     (is_active r \<longrightarrow> 0 < client_count r \<and> strlen (room_id r) = ROOM_ID_LENGTH) \<and>
     (\<not> is_active r \<longrightarrow> room_members r = {})"

definition rm_inv :: "room_manager \<Rightarrow> bool" where
  "rm_inv m \<longleftrightarrow> length (rooms m) = MAX_ROOMS \<and> (\<forall>r \<in> set (rooms m). room_ok r) \<and>
     room_count m = used_count is_active (rooms m)"

definition distinct_room_ids :: "room_manager \<Rightarrow> bool" where
  "distinct_room_ids m \<longleftrightarrow>
     (\<forall>i < length (rooms m). \<forall>j < length (rooms m).
        is_active (rooms m ! i) \<and> is_active (rooms m ! j) \<and>
        cstr (room_id (rooms m ! i)) = cstr (room_id (rooms m ! j)) \<longrightarrow> i = j)"

text \<open>The directory the room table stands for: room id to member set, first room first.\<close>

definition room_dir :: "room_manager \<Rightarrow> string \<Rightarrow> int set option" where
  "room_dir m = map_of (map (\<lambda>r. (cstr (room_id r), room_members r)) (filter is_active (rooms m)))"

lemma rm_invD:
  assumes "rm_inv m"
  shows "length (rooms m) = MAX_ROOMS"
    and "room_count m = used_count is_active (rooms m)"
    and "i < length (rooms m) \<Longrightarrow> room_ok (rooms m ! i)"
  using assms by (auto simp: rm_inv_def)

lemma room_ok_wf: "room_ok r \<Longrightarrow> room_wf r"
  by (simp add: room_ok_def)

lemma room_dir_find:
  "room_dir m rid = map_option (\<lambda>i. room_members (rooms m ! i))
     (find_index (\<lambda>r. is_active r \<and> cstr (room_id r) = rid) (rooms m))"
  by (simp add: room_dir_def map_of_filter_find_index)

lemma find_room_dir:
  "room_manager_find_room (Some m) (Some rid) = Some i \<Longrightarrow>
     room_dir m (cstr rid) = Some (room_members (rooms m ! i)) \<and> i < length (rooms m) \<and>
     is_active (rooms m ! i) \<and> cstr (room_id (rooms m ! i)) = cstr rid"
  unfolding room_manager_find_room_def
  by (auto simp: room_dir_find dest: find_index_sat)

lemma find_room_None:
  "room_manager_find_room (Some m) (Some rid) = None \<longleftrightarrow> room_dir m (cstr rid) = None"
  by (auto simp: room_manager_find_room_def room_dir_find)

lemma room_dir_update:
  assumes "i < length (rooms m)"
    and "(is_active (rooms m ! i) \<and> cstr (room_id (rooms m ! i)) = k) =
      (is_active r \<and> cstr (room_id r) = k)"
    and "is_active r \<Longrightarrow> cstr (room_id r) = k \<Longrightarrow> room_members r = room_members (rooms m ! i)"
  shows "room_dir (m\<lparr>rooms := (rooms m)[i := r]\<rparr>) k = room_dir m k"
proof -
  let ?P = "\<lambda>r. is_active r \<and> cstr (room_id r) = k"
  have same: "find_index ?P ((rooms m)[i := r]) = find_index ?P (rooms m)"
    using assms(1,2) by (intro find_index_update_same) auto
  have "room_members ((rooms m)[i := r] ! j) = room_members (rooms m ! j)"
    if "find_index ?P (rooms m) = Some j" for j
  proof (cases "j = i")
    case True
    with find_index_sat [OF that] assms show ?thesis by simp
  qed simp
  then have "map_option (\<lambda>j. room_members ((rooms m)[i := r] ! j)) (find_index ?P (rooms m)) =
      map_option (\<lambda>j. room_members (rooms m ! j)) (find_index ?P (rooms m))"
    by (cases "find_index ?P (rooms m)") auto
  with same show ?thesis by (simp add: room_dir_find)
qed

lemma rm_inv_update:
  assumes "rm_inv m" and "i < length (rooms m)" and "room_ok r"
    and "c = room_count m - of_bool (is_active (rooms m ! i)) + of_bool (is_active r)"
  shows "rm_inv (m\<lparr>rooms := (rooms m)[i := r], room_count := c\<rparr>)"
  using assms all_set_update [of "rooms m" room_ok r i]
  by (auto simp: rm_inv_def used_count_update)

lemma room_manager_find_create_slot:
  "rm_inv m \<Longrightarrow> room_count m < int MAX_ROOMS \<longleftrightarrow> (\<exists>i. find_index (\<lambda>r. \<not> is_active r) (rooms m) = Some i)"
  using used_count_full_find [of is_active "rooms m"] used_count_le_length [of is_active "rooms m"]
  unfolding rm_inv_def by (cases "find_index (\<lambda>r. \<not> is_active r) (rooms m)") simp_all

section \<open>What each operation does\<close>

text \<open>The room a successful creation puts into its slot.\<close>

lemma created_room:
  fixes nm :: string
  assumes ok: "room_ok r" and gen: "room_generate_id e = Some rid" and c: "0 \<le> c"
  defines r': "r' \<equiv> snd (room_add_client (room_initialize e r (Some rid) (Some nm)) c)"
  shows "room_ok r'" and "is_active r'" and "room_members r' = {c}"
    and "cstr (room_id r') = rid"
    and "cstr (room_name r') = take (MAX_ROOM_NAME - 1) (cstr nm)"
proof -
  from room_ok_wf [OF ok] have len:
      "length (room_id r) = ROOM_ID_LENGTH + 1" "length (room_name r) = MAX_ROOM_NAME"
    by (simp_all add: room_wf_def buf_ok_def)
  let ?r1 = "room_initialize e r (Some rid) (Some nm)"
  have wf1: "room_wf ?r1" using len by (rule room_initialize_wf)
  have add: "room_wf r' \<and> room_members r' = {c}"
    unfolding r' using room_clients.add_ok [OF wf1 c] by (simp add: limits)
  show act: "is_active r'" by (simp add: r' frame)
  show mem: "room_members r' = {c}" using add ..
  show idr: "cstr (room_id r') = rid"
    using len room_generate_id_cstr [OF gen] room_generate_id_length [OF gen]
    by (simp add: r' frame)
  show "cstr (room_name r') = take (MAX_ROOM_NAME - 1) (cstr nm)"
    using len by (simp add: r' frame)
  have "client_count r' = 1" using add room_count_card [of r'] by simp
  with add act idr room_generate_id_length [OF gen] show "room_ok r'"
    by (simp add: room_ok_def strlen_def)
qed

lemma create_room_success:
  assumes inv: "rm_inv m" and room: "room_count m < int MAX_ROOMS"
    and res: "room_manager_create_room e (Some m) (Some nm) c = (p, Some m')"
  obtains i rid where
    "find_index (\<lambda>r. \<not> is_active r) (rooms m) = Some i"
    "room_generate_id e = Some rid"
    "p = (if libc_alloc e 0 then Some rid else None)"
    "m' = m\<lparr>rooms := (rooms m)[i := snd (room_add_client
              (room_initialize e (rooms m ! i) (Some rid) (Some nm)) c)],
            room_count := room_count m + 1\<rparr>"
proof -
  obtain i where "find_index (\<lambda>r. \<not> is_active r) (rooms m) = Some i"
    using room_manager_find_create_slot [OF inv] room by blast
  moreover obtain rid where "room_generate_id e = Some rid"
    by (simp add: room_generate_id_def)
  ultimately show thesis using that room res
    by (simp add: room_manager_create_room_def Let_def split_def)
qed

lemma create_room_full:
  "int MAX_ROOMS \<le> room_count m \<Longrightarrow>
     room_manager_create_room e (Some m) nmp c = (None, Some m)"
  by (cases nmp) (auto simp: room_manager_create_room_def)

lemma create_room_inv:
  assumes inv: "rm_inv m" and c: "0 \<le> c"
    and res: "room_manager_create_room e (Some m) (Some nm) c = (p, Some m')"
  shows "rm_inv m'"
proof (cases "room_count m < int MAX_ROOMS")
  case False
  with res inv show ?thesis by (simp add: create_room_full)
next
  case True
  from create_room_success [OF inv True res] obtain i rid where
    i: "find_index (\<lambda>r. \<not> is_active r) (rooms m) = Some i" and
    gen: "room_generate_id e = Some rid" and
    eq: "m' = m\<lparr>rooms := (rooms m)[i := snd (room_add_client
           (room_initialize e (rooms m ! i) (Some rid) (Some nm)) c)],
         room_count := room_count m + 1\<rparr>"
    by blast
  note il = find_index_less [OF i] find_index_sat [OF i]
  note new = created_room [OF rm_invD(3) [OF inv il(1)] gen c]
  show ?thesis unfolding eq using il new by (intro rm_inv_update [OF inv]) auto
qed

lemma create_room_dir:
  assumes inv: "rm_inv m" and c: "0 \<le> c" and room: "room_count m < int MAX_ROOMS"
    and res: "room_manager_create_room e (Some m) (Some nm) c = (p, Some m')"
    and gen: "room_generate_id e = Some rid" and fresh: "room_dir m rid = None"
  shows "room_dir m' = (room_dir m)(rid \<mapsto> {c})"
proof -
  from create_room_success [OF inv room res] gen obtain i where
    i: "find_index (\<lambda>r. \<not> is_active r) (rooms m) = Some i" and
    eq: "m' = m\<lparr>rooms := (rooms m)[i := snd (room_add_client
           (room_initialize e (rooms m ! i) (Some rid) (Some nm)) c)],
         room_count := room_count m + 1\<rparr>"
    by auto
  note il = find_index_less [OF i] find_index_sat [OF i]
  let ?r = "snd (room_add_client (room_initialize e (rooms m ! i) (Some rid) (Some nm)) c)"
  note new = created_room [OF rm_invD(3) [OF inv il(1)] gen c, of nm]
  have dir: "room_dir m' k = room_dir (m\<lparr>rooms := (rooms m)[i := ?r]\<rparr>) k" for k
    unfolding eq by (simp add: room_dir_def)
  have other: "room_dir m' k = room_dir m k" if "k \<noteq> rid" for k
    unfolding dir using that il new by (intro room_dir_update) auto
  have "find_index (\<lambda>r. is_active r \<and> cstr (room_id r) = rid) ((rooms m)[i := ?r]) = Some i"
  proof (rule find_index_cong_first)
    fix j assume "j < i"
    moreover have "find_index (\<lambda>r. is_active r \<and> cstr (room_id r) = rid) (rooms m) = None"
      using fresh by (auto simp: room_dir_find)
    ultimately show "\<not> (is_active ((rooms m)[i := ?r] ! j) \<and>
        cstr (room_id ((rooms m)[i := ?r] ! j)) = rid)"
      using il(1) by (auto simp: find_index_None_iff)
  qed (use il new in auto)
  then have "room_dir (m\<lparr>rooms := (rooms m)[i := ?r]\<rparr>) rid = Some {c}"
    using il(1) new(3) by (simp add: room_dir_find)
  then have "room_dir m' rid = Some {c}" by (simp add: dir)
  with other show ?thesis by (auto simp: fun_eq_iff)
qed

lemma create_room_distinct:
  assumes inv: "rm_inv m" and c: "0 \<le> c" and d: "distinct_room_ids m"
    and res: "room_manager_create_room e (Some m) (Some nm) c = (p, Some m')"
    and gen: "room_generate_id e = Some rid" and fresh: "room_dir m rid = None"
  shows "distinct_room_ids m'"
proof (cases "room_count m < int MAX_ROOMS")
  case False
  with res d show ?thesis by (simp add: create_room_full)
next
  case True
  from create_room_success [OF inv True res] gen obtain i where
    i: "find_index (\<lambda>r. \<not> is_active r) (rooms m) = Some i" and
    eq: "m' = m\<lparr>rooms := (rooms m)[i := snd (room_add_client
           (room_initialize e (rooms m ! i) (Some rid) (Some nm)) c)],
         room_count := room_count m + 1\<rparr>"
    by auto
  note il = find_index_less [OF i] find_index_sat [OF i]
  note new = created_room [OF rm_invD(3) [OF inv il(1)] gen c, of nm]
  have free: "\<not> (is_active r \<and> cstr (room_id r) = rid)" if "r \<in> set (rooms m)" for r
    using fresh that by (auto simp: room_dir_find find_index_None_iff)
  then have free_nth: "is_active (rooms m ! j) \<Longrightarrow> j < length (rooms m) \<Longrightarrow>
      cstr (room_id (rooms m ! j)) \<noteq> rid" for j
    by auto
  show ?thesis
    unfolding distinct_room_ids_def eq
    using d il new free_nth by (auto simp: distinct_room_ids_def nth_list_update)
qed

lemma join_room_found:
  assumes "room_manager_find_room (Some m) (Some rid) = Some i"
  shows "room_manager_join_room (Some m) (Some rid) c =
    (fst (room_add_client (rooms m ! i) c),
     Some (m\<lparr>rooms := (rooms m)[i := snd (room_add_client (rooms m ! i) c)]\<rparr>))"
  using assms by (simp add: room_manager_join_room_def split_def Let_def)

lemma join_room_missing:
  "room_dir m (cstr rid) = None \<Longrightarrow>
     room_manager_join_room (Some m) (Some rid) c = (-1, Some m)"
  using find_room_None [of m rid] by (simp add: room_manager_join_room_def)

lemma room_ok_add:
  assumes ok: "room_ok r" and act: "is_active r"
  shows "room_ok (snd (room_add_client r c))"
proof (cases "fst (room_add_client r c) = 0")
  case True
  note wf = room_ok_wf [OF ok]
  then have wf': "room_wf (snd (room_add_client r c))" by (rule room_clients.add_preserves)
  from True wf have "0 \<le> c" "c \<notin> room_members r"
    "card (room_members r) < MAX_CLIENTS_PER_ROOM"
    using room_clients.add_result_iff by auto
  then have "room_members (snd (room_add_client r c)) \<noteq> {}"
    using room_clients.add_ok [OF wf] by auto
  with wf' ok act show ?thesis
    using room_members_empty_iff [OF wf'] room_count_bounds [OF wf']
    by (auto simp: room_ok_def frame)
next
  case False
  with room_clients.add_result_cases [OF room_ok_wf [OF ok], of c] ok show ?thesis by auto
qed

lemma join_room_inv:
  assumes inv: "rm_inv m" and res: "room_manager_join_room (Some m) (Some rid) c = (x, Some m')"
  shows "rm_inv m'"
proof (cases "room_manager_find_room (Some m) (Some rid)")
  case None
  with res inv show ?thesis by (simp add: room_manager_join_room_def)
next
  case (Some i)
  let ?r = "snd (room_add_client (rooms m ! i) c)"
  from find_room_dir [OF Some] have i: "i < length (rooms m)" "is_active (rooms m ! i)" by auto
  have "m' = m\<lparr>rooms := (rooms m)[i := ?r], room_count := room_count m\<rparr>"
    using res join_room_found [OF Some] by auto
  moreover have "rm_inv (m\<lparr>rooms := (rooms m)[i := ?r], room_count := room_count m\<rparr>)"
    using i by (intro rm_inv_update [OF inv] room_ok_add rm_invD(3) [OF inv]) (auto simp: frame)
  ultimately show ?thesis by simp
qed

lemma join_room_dir:
  assumes inv: "rm_inv m" and res: "room_manager_join_room (Some m) (Some rid) c = (0, Some m')"
  shows "\<exists>S. room_dir m (cstr rid) = Some S \<and> c \<notin> S \<and> 0 \<le> c \<and>
    card S < MAX_CLIENTS_PER_ROOM \<and> room_dir m' = (room_dir m)(cstr rid \<mapsto> insert c S)"
proof (cases "room_manager_find_room (Some m) (Some rid)")
  case None
  with res show ?thesis by (simp add: room_manager_join_room_def)
next
  case (Some i)
  let ?r = "snd (room_add_client (rooms m ! i) c)"
  note f = find_room_dir [OF Some]
  have wf: "room_wf (rooms m ! i)" using rm_invD(3) [OF inv] f room_ok_wf by blast
  from res join_room_found [OF Some, of c] have
    add: "fst (room_add_client (rooms m ! i) c) = 0" and
    eq: "m' = m\<lparr>rooms := (rooms m)[i := ?r]\<rparr>"
    by auto
  from add room_clients.add_result_iff [OF wf] have
    c: "0 \<le> c" "c \<notin> room_members (rooms m ! i)"
       "card (room_members (rooms m ! i)) < MAX_CLIENTS_PER_ROOM" by auto
  have mem: "room_members ?r = insert c (room_members (rooms m ! i))"
    using room_clients.add_ok [OF wf c] by simp
  have "room_dir m' k = room_dir m k" if "k \<noteq> cstr rid" for k
    unfolding eq using f that by (intro room_dir_update) (auto simp: frame)
  moreover have "room_dir m' (cstr rid) = Some (insert c (room_members (rooms m ! i)))"
  proof -
    have "find_index (\<lambda>r. is_active r \<and> cstr (room_id r) = cstr rid) ((rooms m)[i := ?r]) = Some i"
      using f Some by (subst find_index_update_same) (auto simp: frame room_manager_find_room_def)
    with f mem show ?thesis by (simp add: eq room_dir_find)
  qed
  ultimately have "room_dir m' = (room_dir m)(cstr rid \<mapsto> insert c (room_members (rooms m ! i)))"
    by (auto simp: fun_eq_iff)
  with f c show ?thesis by blast
qed

lemma join_room_result:
  assumes inv: "rm_inv m" and res: "room_manager_join_room (Some m) (Some rid) c = (x, Some m')"
  shows "x = 0 \<or> x = -1 \<and> m' = m"
proof (cases "room_manager_find_room (Some m) (Some rid)")
  case None
  with res show ?thesis by (simp add: room_manager_join_room_def)
next
  case (Some i)
  then have wf: "room_wf (rooms m ! i)"
    using rm_invD(3) [OF inv] find_room_dir room_ok_wf by blast
  with room_clients.add_result_cases [OF wf, of c] res join_room_found [OF Some, of c]
  show ?thesis by (auto simp: find_room_dir [OF Some])
qed

lemma leave_room_missing:
  "room_dir m (cstr rid) = None \<Longrightarrow>
     room_manager_leave_room (Some m) (Some rid) c = (-1, Some m)"
  using find_room_None [of m rid] by (simp add: room_manager_leave_room_def)

lemma leave_room_refused:
  assumes inv: "rm_inv m" and dir: "room_dir m (cstr rid) = Some S" and c: "c < 0 \<or> c \<notin> S"
  shows "room_manager_leave_room (Some m) (Some rid) c = (-1, Some m)"
proof -
  obtain i where f: "room_manager_find_room (Some m) (Some rid) = Some i"
    using find_room_None [of m rid] dir by fastforce
  note fd = find_room_dir [OF f]
  have ok: "room_ok (rooms m ! i)" using rm_invD(3) [OF inv] fd by blast
  have "room_remove_client (rooms m ! i) c = (-1, rooms m ! i)"
    using room_clients.remove_fail [OF room_ok_wf [OF ok]] c dir fd by simp
  moreover have "client_count (rooms m ! i) \<noteq> 0" using ok fd by (simp add: room_ok_def)
  ultimately show ?thesis using f
    by (simp add: room_manager_leave_room_def Let_def split_def)
qed

text \<open>The table after a member has left: the room shrinks, or its slot is freed.\<close>

lemma leave_room_success:
  assumes inv: "rm_inv m" and f: "room_manager_find_room (Some m) (Some rid) = Some i"
    and c: "0 \<le> c" "c \<in> room_members (rooms m ! i)"
  defines r': "r' \<equiv> snd (room_remove_client (rooms m ! i) c)"
  shows "room_members r' = room_members (rooms m ! i) - {c}" and "room_wf r'"
    and "room_members r' = {} \<Longrightarrow> room_manager_leave_room (Some m) (Some rid) c =
      (0, Some (m\<lparr>rooms := (rooms m)[i := room_cleanup r'], room_count := room_count m - 1\<rparr>))"
    and "room_members r' \<noteq> {} \<Longrightarrow> room_ok r' \<and> room_manager_leave_room (Some m) (Some rid) c =
      (0, Some (m\<lparr>rooms := (rooms m)[i := r']\<rparr>))"
proof -
  note fd = find_room_dir [OF f]
  have ok: "room_ok (rooms m ! i)" using rm_invD(3) [OF inv] fd by blast
  note rem = room_clients.remove_ok [OF room_ok_wf [OF ok] c, folded r']
  then show mem: "room_members r' = room_members (rooms m ! i) - {c}" and wf: "room_wf r'"
    by auto
  note emp = room_members_empty_iff [OF wf]
  show "room_manager_leave_room (Some m) (Some rid) c =
      (0, Some (m\<lparr>rooms := (rooms m)[i := room_cleanup r'], room_count := room_count m - 1\<rparr>))"
    if "room_members r' = {}"
    using that rem emp f
    by (simp add: room_manager_leave_room_def Let_def split_def r' [symmetric])
  show "room_ok r' \<and> room_manager_leave_room (Some m) (Some rid) c =
      (0, Some (m\<lparr>rooms := (rooms m)[i := r']\<rparr>))" if "room_members r' \<noteq> {}"
  proof
    have "client_count r' \<noteq> 0" using that emp by simp
    then show "room_manager_leave_room (Some m) (Some rid) c =
        (0, Some (m\<lparr>rooms := (rooms m)[i := r']\<rparr>))"
      using rem f by (simp add: room_manager_leave_room_def Let_def split_def r' [symmetric])
    show "room_ok r'"
      using that emp wf ok fd room_count_bounds [OF wf] by (auto simp: room_ok_def r' frame)
  qed
qed

lemma leave_room_cases:
  assumes inv: "rm_inv m" and res: "room_manager_leave_room (Some m) (Some rid) c = (x, Some m')"
  obtains (refused) "x = -1" "m' = m"
      "room_dir m (cstr rid) = None \<or> c < 0 \<or> (\<exists>S. room_dir m (cstr rid) = Some S \<and> c \<notin> S)"
  | (left) i where "x = 0" "room_manager_find_room (Some m) (Some rid) = Some i" "0 \<le> c"
      "c \<in> room_members (rooms m ! i)"
proof (cases "room_manager_find_room (Some m) (Some rid)")
  case None
  then have "room_dir m (cstr rid) = None" by (simp add: find_room_None)
  with leave_room_missing [OF this, of c] res show thesis by (intro refused) auto
next
  case (Some i)
  note fd = find_room_dir [OF Some]
  show thesis
  proof (cases "c < 0 \<or> c \<notin> room_members (rooms m ! i)")
    case True
    with leave_room_refused [OF inv, of rid "room_members (rooms m ! i)" c] fd res
    show thesis by (intro refused) auto
  next
    case False
    then have c: "0 \<le> c" "c \<in> room_members (rooms m ! i)" by auto
    from leave_room_success(3,4) [OF inv Some c] res have "x = 0" by fastforce
    with Some c show thesis by (intro left) auto
  qed
qed

lemma leave_room_inv:
  assumes inv: "rm_inv m" and res: "room_manager_leave_room (Some m) (Some rid) c = (x, Some m')"
  shows "rm_inv m'"
  using inv res
proof (cases rule: leave_room_cases)
  case refused
  with inv show ?thesis by simp
next
  case (left i)
  let ?r = "snd (room_remove_client (rooms m ! i) c)"
  note fd = find_room_dir [OF left(2)]
  note succ = leave_room_success [OF inv left(2-4)]
  show ?thesis
  proof (cases "room_members ?r = {}")
    case True
    then have "m' = m\<lparr>rooms := (rooms m)[i := room_cleanup ?r], room_count := room_count m - 1\<rparr>"
      using succ(3) res by simp
    moreover have "rm_inv (m\<lparr>rooms := (rooms m)[i := room_cleanup ?r],
        room_count := room_count m - 1\<rparr>)"
      using fd by (intro rm_inv_update [OF inv]) (auto simp: room_ok_def)
    ultimately show ?thesis by simp
  next
    case False
    with succ(4) have ok: "room_ok ?r" and
      "room_manager_leave_room (Some m) (Some rid) c = (0, Some (m\<lparr>rooms := (rooms m)[i := ?r]\<rparr>))"
      by auto
    then have "m' = m\<lparr>rooms := (rooms m)[i := ?r], room_count := room_count m\<rparr>" using res by simp
    moreover have "rm_inv (m\<lparr>rooms := (rooms m)[i := ?r], room_count := room_count m\<rparr>)"
      using fd ok by (intro rm_inv_update [OF inv]) (auto simp: frame)
    ultimately show ?thesis by simp
  qed
qed

lemma find_unique_room:
  assumes d: "distinct_room_ids m" and f: "room_manager_find_room (Some m) (Some rid) = Some i"
    and j: "j < length (rooms m)" "is_active (rooms m ! j)"
      "cstr (room_id (rooms m ! j)) = cstr rid"
  shows "j = i"
  using find_room_dir [OF f] j d unfolding distinct_room_ids_def by (metis (no_types, lifting))

lemma leave_room_dir:
  assumes inv: "rm_inv m" and d: "distinct_room_ids m"
    and dir: "room_dir m (cstr rid) = Some S" and c: "0 \<le> c" "c \<in> S"
    and res: "room_manager_leave_room (Some m) (Some rid) c = (x, Some m')"
  shows "x = 0 \<and>
    room_dir m' = (room_dir m)(cstr rid := if S - {c} = {} then None else Some (S - {c}))"
proof -
  obtain i where f: "room_manager_find_room (Some m) (Some rid) = Some i"
    using find_room_None [of m rid] dir by fastforce
  note fd = find_room_dir [OF f]
  from fd dir c have ci: "c \<in> room_members (rooms m ! i)" and S: "S = room_members (rooms m ! i)"
    by auto
  let ?r = "snd (room_remove_client (rooms m ! i) c)"
  note succ = leave_room_success [OF inv f c(1) ci]
  show ?thesis
  proof (cases "room_members ?r = {}")
    case True
    then have eq: "m' = m\<lparr>rooms := (rooms m)[i := room_cleanup ?r], room_count := room_count m - 1\<rparr>"
      and x: "x = 0" using succ(3) res by simp_all
    have dir': "room_dir m' k = room_dir (m\<lparr>rooms := (rooms m)[i := room_cleanup ?r]\<rparr>) k" for k
      unfolding eq by (simp add: room_dir_def)
    have "room_dir m' k = room_dir m k" if "k \<noteq> cstr rid" for k
      unfolding dir' using fd that by (intro room_dir_update) auto
    moreover have "room_dir m' (cstr rid) = None"
    proof -
      have "\<not> (is_active r \<and> cstr (room_id r) = cstr rid)"
        if "r \<in> set ((rooms m)[i := room_cleanup ?r])" for r
      proof -
        from that obtain j where j: "j < length (rooms m)" "r = (rooms m)[i := room_cleanup ?r] ! j"
          by (auto simp: in_set_conv_nth)
        with find_unique_room [OF d f j(1)] fd show ?thesis by (cases "j = i") auto
      qed
      then have "room_dir (m\<lparr>rooms := (rooms m)[i := room_cleanup ?r]\<rparr>) (cstr rid) = None"
        by (auto simp: room_dir_find find_index_None_iff)
      then show ?thesis by (simp add: dir')
    qed
    ultimately show ?thesis using x succ(1) S True by (auto simp: fun_eq_iff)
  next
    case False
    with succ(4) res have eq: "m' = m\<lparr>rooms := (rooms m)[i := ?r]\<rparr>" and x: "x = 0" by auto
    have "room_dir m' k = room_dir m k" if "k \<noteq> cstr rid" for k
      unfolding eq using fd that by (intro room_dir_update) (auto simp: frame)
    moreover have "room_dir m' (cstr rid) = Some (S - {c})"
    proof -
      have "find_index (\<lambda>r. is_active r \<and> cstr (room_id r) = cstr rid) ((rooms m)[i := ?r]) = Some i"
        using fd f by (subst find_index_update_same) (auto simp: frame room_manager_find_room_def)
      with fd succ(1) S show ?thesis by (simp add: eq room_dir_find)
    qed
    ultimately show ?thesis using x succ(1) S False by (auto simp: fun_eq_iff)
  qed
qed

lemma distinct_room_ids_update:
  assumes d: "distinct_room_ids m" and i: "i < length (rooms m)"
    and r: "is_active r \<Longrightarrow> is_active (rooms m ! i) \<and> cstr (room_id r) = cstr (room_id (rooms m ! i))"
  shows "distinct_room_ids (m\<lparr>rooms := (rooms m)[i := r], room_count := n\<rparr>)"
  using assms unfolding distinct_room_ids_def by (simp add: nth_list_update) metis

lemma join_room_distinct:
  assumes d: "distinct_room_ids m"
    and res: "room_manager_join_room (Some m) (Some rid) c = (x, Some m')"
  shows "distinct_room_ids m'"
proof (cases "room_manager_find_room (Some m) (Some rid)")
  case None
  with res d show ?thesis by (simp add: room_manager_join_room_def)
next
  case (Some i)
  let ?r = "snd (room_add_client (rooms m ! i) c)"
  have "m' = m\<lparr>rooms := (rooms m)[i := ?r], room_count := room_count m\<rparr>"
    using res join_room_found [OF Some] by auto
  with distinct_room_ids_update [OF d, of i ?r "room_count m"] find_room_dir [OF Some]
  show ?thesis by (simp add: frame)
qed

lemma leave_room_distinct:
  assumes d: "distinct_room_ids m"
    and res: "room_manager_leave_room (Some m) (Some rid) c = (x, Some m')"
  shows "distinct_room_ids m'"
proof (cases "room_manager_find_room (Some m) (Some rid)")
  case None
  with res d show ?thesis by (simp add: room_manager_leave_room_def)
next
  case (Some i)
  let ?r = "snd (room_remove_client (rooms m ! i) c)"
  have "m' = m\<lparr>rooms := (rooms m)[i := ?r], room_count := room_count m\<rparr> \<or>
      m' = m\<lparr>rooms := (rooms m)[i := room_cleanup ?r], room_count := room_count m - 1\<rparr>"
    using res Some by (auto simp: room_manager_leave_room_def Let_def split_def split: if_splits)
  with distinct_room_ids_update [OF d, of i ?r "room_count m"] find_room_dir [OF Some]
    distinct_room_ids_update [OF d, of i "room_cleanup ?r" "room_count m - 1"]
  show ?thesis by (auto simp: frame)
qed

end
