(* ===== verification/RoomDirectory.thy ===== *)
theory RoomDirectory
  imports RoomManager
begin

text \<open>
  What the chat protocol relies on: the room table is a directory from room ids to member sets.
  The locale \<open>room_directory\<close> states the contract of create, join and leave; it is interpreted on the
  room manager. The theory also has the reachable states of the room table under any interleaving
  of its operations, and the text of the room list.
\<close>

section \<open>The contract\<close>

locale room_directory =
  fixes dir :: "'m \<Rightarrow> string \<Rightarrow> int set option"
    and create :: "'e \<Rightarrow> 'm ptr \<Rightarrow> string ptr \<Rightarrow> int \<Rightarrow> string ptr \<times> 'm ptr"
    and join :: "'m ptr \<Rightarrow> string ptr \<Rightarrow> int \<Rightarrow> int \<times> 'm ptr"
    and leave :: "'m ptr \<Rightarrow> string ptr \<Rightarrow> int \<Rightarrow> int \<times> 'm ptr"
    and new_id :: "'e \<Rightarrow> string ptr"
    and has_slot :: "'m \<Rightarrow> bool"
    and inv :: "'m \<Rightarrow> bool"
    and cap :: nat
  assumes create_ok: "inv m \<Longrightarrow> 0 \<le> c \<Longrightarrow> has_slot m \<Longrightarrow> new_id e = Some rid \<Longrightarrow>
      dir m rid = None \<Longrightarrow>
      \<exists>p m'. create e (Some m) (Some nm) c = (p, Some m') \<and> inv m' \<and> dir m' = (dir m)(rid \<mapsto> {c})"
    and create_refused: "inv m \<Longrightarrow> \<not> has_slot m \<Longrightarrow> create e (Some m) (Some nm) c = (None, Some m)"
    and join_ok: "inv m \<Longrightarrow> dir m (cstr rid) = Some S \<Longrightarrow> 0 \<le> c \<Longrightarrow> c \<notin> S \<Longrightarrow> card S < cap \<Longrightarrow>
      \<exists>m'. join (Some m) (Some rid) c = (0, Some m') \<and> inv m' \<and>
        dir m' = (dir m)(cstr rid \<mapsto> insert c S)"
    and join_refused: "inv m \<Longrightarrow> dir m (cstr rid) = None \<or>
        (\<exists>S. dir m (cstr rid) = Some S \<and> (c < 0 \<or> c \<in> S \<or> cap \<le> card S)) \<Longrightarrow>
      join (Some m) (Some rid) c = (-1, Some m)"
    and leave_ok: "inv m \<Longrightarrow> dir m (cstr rid) = Some S \<Longrightarrow> 0 \<le> c \<Longrightarrow> c \<in> S \<Longrightarrow>
      \<exists>m'. leave (Some m) (Some rid) c = (0, Some m') \<and> inv m' \<and>
        dir m' = (dir m)(cstr rid := if S - {c} = {} then None else Some (S - {c}))"
    and leave_refused: "inv m \<Longrightarrow> dir m (cstr rid) = None \<or>
        (\<exists>S. dir m (cstr rid) = Some S \<and> (c < 0 \<or> c \<notin> S)) \<Longrightarrow>
      leave (Some m) (Some rid) c = (-1, Some m)"
begin

lemma join_total:
  assumes "inv m" and "0 \<le> c"
  obtains (joined) m' S where "join (Some m) (Some rid) c = (0, Some m')" "inv m'"
      "dir m (cstr rid) = Some S" "c \<notin> S" "card S < cap"
      "dir m' = (dir m)(cstr rid \<mapsto> insert c S)"
  | (refused) "join (Some m) (Some rid) c = (-1, Some m)"
proof (cases "\<exists>S. dir m (cstr rid) = Some S \<and> c \<notin> S \<and> card S < cap")
  case True
  then show ?thesis using join_ok [OF assms(1) _ assms(2)] joined by blast
next
  case False
  then have "join (Some m) (Some rid) c = (-1, Some m)"
    using join_refused [OF assms(1)] by (cases "dir m (cstr rid)") auto
  then show ?thesis by (rule refused)
qed

lemma leave_total:
  assumes "inv m" and "0 \<le> c"
  obtains (left) m' S where "leave (Some m) (Some rid) c = (0, Some m')" "inv m'"
      "dir m (cstr rid) = Some S" "c \<in> S"
      "dir m' = (dir m)(cstr rid := if S - {c} = {} then None else Some (S - {c}))"
  | (refused) "leave (Some m) (Some rid) c = (-1, Some m)"
proof (cases "\<exists>S. dir m (cstr rid) = Some S \<and> c \<in> S")
  case True
  then show ?thesis using leave_ok [OF assms(1) _ assms(2)] left by blast
next
  case False
  then have "leave (Some m) (Some rid) c = (-1, Some m)"
    using leave_refused [OF assms(1)] by (cases "dir m (cstr rid)") auto
  then show ?thesis by (rule refused)
qed

text \<open>Joining and leaving again gives the directory back, when the room had other members.\<close>

lemma join_leave_roundtrip:
  assumes inv: "inv m" and c: "0 \<le> c" and dir: "dir m (cstr rid) = Some S"
    and S: "c \<notin> S" "card S < cap" "S \<noteq> {}"
  shows "\<exists>m1 m2. join (Some m) (Some rid) c = (0, Some m1) \<and>
    leave (Some m1) (Some rid) c = (0, Some m2) \<and> dir m2 = dir m"
proof -
  from join_ok [OF inv dir c S(1,2)] obtain m1 where
    j: "join (Some m) (Some rid) c = (0, Some m1)" "inv m1"
       "dir m1 = (dir m)(cstr rid \<mapsto> insert c S)" by blast
  from leave_ok [OF j(2), of rid "insert c S" c] j(3) c obtain m2 where
    l: "leave (Some m1) (Some rid) c = (0, Some m2)"
       "dir m2 = (dir m1)(cstr rid := if insert c S - {c} = {} then None else Some (insert c S - {c}))"
    by auto
  have "insert c S - {c} = S" using S(1) by auto
  with l(2) S(3) have "dir m2 = (dir m1)(cstr rid \<mapsto> S)" by simp
  also have "\<dots> = dir m" unfolding j(3) fun_upd_upd using dir by (rule fun_upd_idem)
  finally show ?thesis using j(1) l(1) by (intro exI conjI)
qed

text \<open>An operation on one room leaves every other room alone.\<close>

lemma join_others:
  assumes "inv m" "0 \<le> c" "join (Some m) (Some rid) c = (x, Some m')" "k \<noteq> cstr rid"
  shows "dir m' k = dir m k"
  by (rule join_total [OF assms(1,2), of rid]) (use assms(3,4) in simp_all)

lemma leave_others:
  assumes "inv m" "0 \<le> c" "leave (Some m) (Some rid) c = (x, Some m')" "k \<noteq> cstr rid"
  shows "dir m' k = dir m k"
  by (rule leave_total [OF assms(1,2), of rid]) (use assms(3,4) in simp_all)

text \<open>Moving from one room to another, as the join command does: leave, then join.\<close>

lemma move_rooms:
  assumes inv: "inv m" and c: "0 \<le> c" and ne: "cstr old \<noteq> cstr new"
    and old: "dir m (cstr old) = Some T" "c \<in> T"
    and new: "dir m (cstr new) = Some S" "c \<notin> S" "card S < cap"
  shows "\<exists>m1 m2. leave (Some m) (Some old) c = (0, Some m1) \<and>
    join (Some m1) (Some new) c = (0, Some m2) \<and> inv m2 \<and>
    dir m2 = (dir m)(cstr old := (if T - {c} = {} then None else Some (T - {c})),
                     cstr new \<mapsto> insert c S)"
proof -
  from leave_ok [OF inv old(1) c old(2)] obtain m1 where
    l: "leave (Some m) (Some old) c = (0, Some m1)" "inv m1"
       "dir m1 = (dir m)(cstr old := if T - {c} = {} then None else Some (T - {c}))" by blast
  have "dir m1 (cstr new) = Some S" using l(3) ne new by simp
  from join_ok [OF l(2) this c new(2,3)] obtain m2 where
    "join (Some m1) (Some new) c = (0, Some m2)" "inv m2"
    "dir m2 = (dir m1)(cstr new \<mapsto> insert c S)" by blast
  with l show ?thesis by auto
qed

end

section \<open>The room manager provides it\<close>

definition rm_unique :: "room_manager \<Rightarrow> bool" where
  "rm_unique m \<longleftrightarrow> rm_inv m \<and> distinct_room_ids m"

definition rm_has_slot :: "room_manager \<Rightarrow> bool" where
  "rm_has_slot m \<longleftrightarrow> room_count m < int MAX_ROOMS"

lemma room_dir_SomeE:
  assumes "rm_inv m" and "room_dir m (cstr rid) = Some S"
  obtains i where "room_manager_find_room (Some m) (Some rid) = Some i"
    "S = room_members (rooms m ! i)" "room_wf (rooms m ! i)"
proof -
  obtain i where i: "room_manager_find_room (Some m) (Some rid) = Some i"
    using find_room_None [of m rid] assms(2) by fastforce
  with find_room_dir [OF i] assms rm_invD(3) [OF assms(1)] that show thesis
    by (auto simp: room_ok_wf)
qed

lemma join_room_refused:
  assumes inv: "rm_inv m"
    and bad: "room_dir m (cstr rid) = None \<or>
      (\<exists>S. room_dir m (cstr rid) = Some S \<and>
        (c < 0 \<or> c \<in> S \<or> MAX_CLIENTS_PER_ROOM \<le> card S))"
  shows "room_manager_join_room (Some m) (Some rid) c = (-1, Some m)"
proof (cases "room_dir m (cstr rid)")
  case None
  then show ?thesis by (rule join_room_missing)
next
  case (Some S)
  from room_dir_SomeE [OF inv Some] obtain i where
    i: "room_manager_find_room (Some m) (Some rid) = Some i" "S = room_members (rooms m ! i)"
       "room_wf (rooms m ! i)" .
  with room_clients.add_fail [of "rooms m ! i" c] bad Some join_room_found [OF i(1), of c]
  show ?thesis by auto
qed

interpretation room_table: room_directory room_dir room_manager_create_room
    room_manager_join_room room_manager_leave_room room_generate_id rm_has_slot rm_unique
    MAX_CLIENTS_PER_ROOM
proof unfold_locales
  fix m c rid S e nm
  assume u: "rm_unique m"
  then have inv: "rm_inv m" and d: "distinct_room_ids m" by (simp_all add: rm_unique_def)
  show "\<exists>p m'. room_manager_create_room e (Some m) (Some nm) c = (p, Some m') \<and>
      rm_unique m' \<and> room_dir m' = (room_dir m)(rid \<mapsto> {c})"
    if c: "0 \<le> c" and slot: "rm_has_slot m" and gen: "room_generate_id e = Some rid"
      and fresh: "room_dir m rid = None"
  proof -
    obtain p m1 where r: "room_manager_create_room e (Some m) (Some nm) c = (p, m1)"
      by fastforce
    then obtain m' where r': "room_manager_create_room e (Some m) (Some nm) c = (p, Some m')"
      by (auto simp: room_manager_create_room_def Let_def split_def
          split: if_splits option.splits)
    with create_room_inv [OF inv c r'] create_room_distinct [OF inv c d r' gen fresh]
      create_room_dir [OF inv c _ r' gen fresh] slot
    show ?thesis by (auto simp: rm_unique_def rm_has_slot_def)
  qed
  show "room_manager_create_room e (Some m) (Some nm) c = (None, Some m)"
    if "\<not> rm_has_slot m"
    using that create_room_full by (simp add: rm_has_slot_def)
  show "\<exists>m'. room_manager_join_room (Some m) (Some rid) c = (0, Some m') \<and> rm_unique m' \<and>
      room_dir m' = (room_dir m)(cstr rid \<mapsto> insert c S)"
    if S: "room_dir m (cstr rid) = Some S" and c: "0 \<le> c" "c \<notin> S"
      "card S < MAX_CLIENTS_PER_ROOM"
  proof -
    from room_dir_SomeE [OF inv S] obtain i where
      i: "room_manager_find_room (Some m) (Some rid) = Some i" "S = room_members (rooms m ! i)"
         "room_wf (rooms m ! i)" .
    then obtain m' where r: "room_manager_join_room (Some m) (Some rid) c = (0, Some m')"
      using join_room_found [OF i(1), of c] room_clients.add_ok [OF i(3) c(1)] c by auto
    with join_room_dir [OF inv r] join_room_inv [OF inv r] join_room_distinct [OF d r] S
    show ?thesis by (auto simp: rm_unique_def)
  qed
  show "room_manager_join_room (Some m) (Some rid) c = (-1, Some m)"
    if "room_dir m (cstr rid) = None \<or> (\<exists>S. room_dir m (cstr rid) = Some S \<and>
        (c < 0 \<or> c \<in> S \<or> MAX_CLIENTS_PER_ROOM \<le> card S))"
    using inv that by (rule join_room_refused)
  show "\<exists>m'. room_manager_leave_room (Some m) (Some rid) c = (0, Some m') \<and> rm_unique m' \<and>
      room_dir m' = (room_dir m)(cstr rid := if S - {c} = {} then None else Some (S - {c}))"
    if S: "room_dir m (cstr rid) = Some S" and c: "0 \<le> c" "c \<in> S"
  proof -
    from room_dir_SomeE [OF inv S] obtain i where
      i: "room_manager_find_room (Some m) (Some rid) = Some i" "S = room_members (rooms m ! i)" .
    with c have ci: "c \<in> room_members (rooms m ! i)" by simp
    obtain x m' where r: "room_manager_leave_room (Some m) (Some rid) c = (x, Some m')"
      using leave_room_success(3,4) [OF inv i(1) c(1) ci] by blast
    with leave_room_dir [OF inv d S c r] leave_room_inv [OF inv r] leave_room_distinct [OF d r]
    show ?thesis by (auto simp: rm_unique_def)
  qed
  show "room_manager_leave_room (Some m) (Some rid) c = (-1, Some m)"
    if "room_dir m (cstr rid) = None \<or>
        (\<exists>S. room_dir m (cstr rid) = Some S \<and> (c < 0 \<or> c \<notin> S))"
    using that leave_room_missing leave_room_refused [OF inv] by blast
qed

section \<open>Reachable room tables\<close>

text \<open>
  Memory holds some room table of the right shape before \<^verbatim>\<open>room_manager_initialize\<close>; afterwards the
  threads run create, join and leave in any order, each atomic under \<^verbatim>\<open>global_mutex\<close>.
\<close>

definition rm_start :: "room_manager \<Rightarrow> bool" where
  "rm_start m \<longleftrightarrow> (\<exists>m0. length (rooms m0) = MAX_ROOMS \<and> room_manager_initialize (Some m0) = Some m)"

inductive rm_step :: "room_manager \<Rightarrow> room_manager \<Rightarrow> bool" where
  rm_create: "0 \<le> c \<Longrightarrow> room_manager_create_room e (Some m) (Some nm) c = (p, Some m') \<Longrightarrow> rm_step m m'"
| rm_join: "room_manager_join_room (Some m) (Some rid) c = (x, Some m') \<Longrightarrow> rm_step m m'"
| rm_leave: "room_manager_leave_room (Some m) (Some rid) c = (x, Some m') \<Longrightarrow> rm_step m m'"

inductive_cases rm_stepE: "rm_step m m'"

lemma rm_initialize_inv:
  assumes "length (rooms m0) = MAX_ROOMS" and "room_manager_initialize (Some m0) = Some m"
  shows "rm_inv m" and "room_dir m = Map.empty" and "distinct_room_ids m"
proof -
  have m: "m = m0\<lparr>room_count := 0, rooms := map room_cleanup (rooms m0)\<rparr>"
    using assms(2) by (auto simp: room_manager_initialize_def room_cleanup_def)
  have none: "\<not> is_active r" if "r \<in> set (rooms m)" for r using that by (auto simp: m)
  then show "room_dir m = Map.empty" by (auto simp: room_dir_def fun_eq_iff)
  from none show "distinct_room_ids m" by (auto simp: distinct_room_ids_def)
  have "used_count is_active (rooms m) = 0" using none by (simp add: used_count_zero_iff)
  with assms(1) show "rm_inv m" by (auto simp: rm_inv_def room_ok_def m)
qed

interpretation rm_system: invariant_system rm_start rm_step rm_inv
  by unfold_locales
    (auto simp: rm_start_def elim!: rm_stepE
      intro: rm_initialize_inv(1) create_room_inv join_room_inv leave_room_inv)

section \<open>The room list\<close>

lemma room_info_line_exact:
  assumes "room_wf r"
  shows "room_info_line r = ''ID: '' @ cstr (room_id r) @ '' | Name: '' @ cstr (room_name r) @
      '' | Users: '' @ show_int (client_count r) @ [LF]"
    and "length (room_info_line r) \<le> 96"
proof -
  have len: "length (cstr (room_id r)) \<le> 6" "length (cstr (room_name r)) \<le> 63"
    using strlen_less [OF room_wfD(5) [OF assms]] strlen_less [OF room_wfD(6) [OF assms]]
    by (auto simp: strlen_def limits)
  have "0 \<le> client_count r" "client_count r \<le> 20"
    using room_count_bounds [OF assms] by (auto simp: limits)
  moreover from this have "nat (client_count r) < 10 ^ Suc 1" by simp
  ultimately have "length (show_int (client_count r)) \<le> 2"
    using show_nat_length [of "nat (client_count r)" 1] by (simp add: show_int_def)
  with len show eq: "room_info_line r = ''ID: '' @ cstr (room_id r) @ '' | Name: '' @
      cstr (room_name r) @ '' | Users: '' @ show_int (client_count r) @ [LF]"
    unfolding room_info_line_def by (intro snprintf_str_fits) auto
  show "length (room_info_line r) \<le> 96" unfolding eq
    using len \<open>length (show_int (client_count r)) \<le> 2\<close> by simp
qed

lemma list_rooms_loop_bound: "length buf < n \<Longrightarrow> length (list_rooms_loop n rs buf) < n"
  by (induction n rs buf rule: list_rooms_loop.induct) (auto simp: strncat_length [simplified])

lemma list_rooms_loop_exact:
  assumes "\<forall>r \<in> set rs. room_wf r" and "n \<le> 2 ^ 64" and "100 \<le> n"
    and "length buf + 96 * length (filter is_active rs) < n - 100"
  shows "list_rooms_loop n rs buf = buf @ concat (map room_info_line (filter is_active rs))"
  using assms
proof (induction n rs buf rule: list_rooms_loop.induct)
  case (1 n buf)
  then show ?case by simp
next
  case (2 n r rs buf)
  have room: "length buf < size_sub n 100" using "2.prems" by (auto simp: size_sub_def)
  show ?case
  proof (cases "is_active r")
    case False
    with room "2.IH" "2.prems" show ?thesis by auto
  next
    case True
    have line: "length (room_info_line r) \<le> 96" using "2.prems"(1) room_info_line_exact(2) by simp
    have "strncat buf (room_info_line r) (size_sub (size_sub n (length buf)) 1) =
        buf @ room_info_line r"
      using line "2.prems"(3,4) True
      by (intro strncat_fits) (auto simp: room_info_line_def)
    moreover have "length (buf @ room_info_line r) + 96 * length (filter is_active rs) < n - 100"
      using "2.prems"(4) True line by auto
    ultimately show ?thesis using room "2.IH" "2.prems" True by simp
  qed
qed

end
