(* ===== verification/ClientSession.thy ===== *)
theory ClientSession
  imports ServerTypes
begin

text \<open>
  One client connection of the server: \<^verbatim>\<open>client_session_t\<close> and the functions of
  \<^verbatim>\<open>server/src/client_session.c\<close> that work on one session (the handler thread is in theory
  ServerLoop). A session is passed by value: every caller passes the address of an element of
  \<^verbatim>\<open>manager->clients\<close>.
\<close>

datatype handshake_state =
  HANDSHAKE_IDLE | HANDSHAKE_SYN_SENT | HANDSHAKE_SYN_RECEIVED | HANDSHAKE_ESTABLISHED
| HANDSHAKE_FAILED

record sockaddr_in =
  sin_addr :: u32
  sin_port :: "16 word"

record client_session =
  socket_fd :: int
  addr :: sockaddr_in
  nickname :: "char list"
  thread :: nat
  active :: bool
  handshake_state :: handshake_state
  session_seq :: u32
  session_state :: client_state
  current_room_id :: "char list"
  session_client_id :: int
  security_validated :: bool

definition client_session_initialize :: "client_session \<Rightarrow> int \<Rightarrow> sockaddr_in \<Rightarrow> client_session" where
  "client_session_initialize s fd a =
     s\<lparr>socket_fd := fd, addr := a, active := True, handshake_state := HANDSHAKE_IDLE,
       session_seq := 0, session_state := CLIENT_STATE_CONNECTED, session_client_id := -1,
       security_validated := False, current_room_id := replicate (ROOM_ID_LENGTH + 1) NUL,
       nickname := snprintf_buf (nickname s) MAX_NICKNAME_LEN (''User'' @ show_int fd)\<rparr>"

definition client_session_cleanup :: "world \<Rightarrow> client_session \<Rightarrow> world \<times> client_session" where
  "client_session_cleanup w s =
     (if socket_fd s \<ge> 0 then sys_close w (socket_fd s) else w,
      s\<lparr>socket_fd := -1, active := False, handshake_state := HANDSHAKE_FAILED, session_seq := 0,
        session_state := CLIENT_STATE_CONNECTED, nickname := replicate MAX_NICKNAME_LEN NUL,
        current_room_id := replicate (ROOM_ID_LENGTH + 1) NUL\<rparr>)"

definition client_session_set_nickname :: "client_session \<Rightarrow> string ptr \<Rightarrow> client_session" where
  "client_session_set_nickname s np =
     (case np of
        None \<Rightarrow> s
      | Some n \<Rightarrow> s\<lparr>nickname := (strncpy (nickname s) n (MAX_NICKNAME_LEN - 1))
                                  [MAX_NICKNAME_LEN - 1 := NUL]\<rparr>)"

definition client_session_is_active :: "client_session \<Rightarrow> bool" where
  "client_session_is_active s \<longleftrightarrow> active s \<and> socket_fd s \<ge> 0"

section \<open>Well-formed sessions\<close>

text \<open>A slot holds arrays of the right size with terminated strings; a slot without a client has no
  socket, a client has one, and the room field of a client in a room is a room id.\<close>

definition session_ok :: "client_session \<Rightarrow> bool" where
  "session_ok s \<longleftrightarrow>
     buf_ok MAX_NICKNAME_LEN (nickname s) \<and>
     (active s \<longrightarrow> buf_ok (ROOM_ID_LENGTH + 1) (current_room_id s) \<and> 0 \<le> socket_fd s) \<and>
     (\<not> active s \<longrightarrow> socket_fd s = -1) \<and>
     (active s \<and> session_state s = CLIENT_STATE_IN_ROOM \<longrightarrow>
        strlen (current_room_id s) = ROOM_ID_LENGTH)"

lemma session_okD:
  assumes "session_ok s"
  shows "buf_ok MAX_NICKNAME_LEN (nickname s)"
    and "active s \<Longrightarrow> buf_ok (ROOM_ID_LENGTH + 1) (current_room_id s)"
    and "active s \<Longrightarrow> 0 \<le> socket_fd s"
    and "\<not> active s \<Longrightarrow> socket_fd s = -1"
  using assms by (auto simp: session_ok_def)

lemma session_ok_is_active: "session_ok s \<Longrightarrow> client_session_is_active s \<longleftrightarrow> active s"
  by (auto simp: session_ok_def client_session_is_active_def)

lemma buf_ok_replicate [simp]: "0 < n \<Longrightarrow> buf_ok n (replicate n NUL)"
  by (simp add: buf_ok_def)

lemma buf_ok_NUL_replicate [simp]: "buf_ok (Suc n) (NUL # replicate n NUL)"
  by (simp add: buf_ok_def)

lemma session_initialize_ok:
  assumes "length (nickname s) = MAX_NICKNAME_LEN" and "0 \<le> fd"
  shows "session_ok (client_session_initialize s fd a)"
  using snprintf_buf_ok(1) [of "nickname s" MAX_NICKNAME_LEN "''User'' @ show_int fd"] assms
  by (auto simp: session_ok_def client_session_initialize_def limits buf_ok_def)

lemma session_initialize_nickname:
  assumes "length (nickname s) = MAX_NICKNAME_LEN"
  shows "cstr (nickname (client_session_initialize s fd a)) =
    take (MAX_NICKNAME_LEN - 1) (''User'' @ show_int fd)"
  using snprintf_buf_ok(2) [of "nickname s" MAX_NICKNAME_LEN "''User'' @ show_int fd"] assms
  by (simp add: client_session_initialize_def MAX_NICKNAME_LEN_def)

lemma session_cleanup_ok [simp]: "session_ok (snd (client_session_cleanup w s))"
  by (simp add: session_ok_def client_session_cleanup_def limits)

lemma session_cleanup_fields [simp]:
  "\<not> active (snd (client_session_cleanup w s))"
  "socket_fd (snd (client_session_cleanup w s)) = -1"
  "thread (snd (client_session_cleanup w s)) = thread s"
  "session_state (snd (client_session_cleanup w s)) = CLIENT_STATE_CONNECTED"
  by (simp_all add: client_session_cleanup_def)

lemma session_cleanup_world:
  "extends w (fst (client_session_cleanup w s))"
  "emitted w (fst (client_session_cleanup w s)) =
     (if 0 \<le> socket_fd s then [Closed (socket_fd s)] else [])"
  by (simp_all add: client_session_cleanup_def)

lemma set_nickname_ok:
  assumes "length (nickname s) = MAX_NICKNAME_LEN"
  shows "buf_ok MAX_NICKNAME_LEN (nickname (client_session_set_nickname s (Some n)))"
    and "cstr (nickname (client_session_set_nickname s (Some n))) =
      take (MAX_NICKNAME_LEN - 1) (cstr n)"
  using strncpy_terminated [of "nickname s" "MAX_NICKNAME_LEN - 1" n] assms
  by (auto simp: client_session_set_nickname_def MAX_NICKNAME_LEN_def)

lemma set_nickname_frame [simp]:
  "active (client_session_set_nickname s np) = active s"
  "socket_fd (client_session_set_nickname s np) = socket_fd s"
  "session_state (client_session_set_nickname s np) = session_state s"
  "current_room_id (client_session_set_nickname s np) = current_room_id s"
  "handshake_state (client_session_set_nickname s np) = handshake_state s"
  "session_client_id (client_session_set_nickname s np) = session_client_id s"
  "thread (client_session_set_nickname s np) = thread s"
  by (auto simp: client_session_set_nickname_def split: option.splits)

lemma set_nickname_session_ok:
  assumes "session_ok s"
  shows "session_ok (client_session_set_nickname s np)"
proof (cases np)
  case None
  with assms show ?thesis by (simp add: client_session_set_nickname_def)
next
  case (Some n)
  have "length (nickname s) = MAX_NICKNAME_LEN" using assms by (simp add: session_ok_def buf_ok_def)
  from set_nickname_ok(1) [OF this, of n] assms Some show ?thesis
    by (auto simp: session_ok_def)
qed

end
