(* ===== verification/EncryptionContext.thy ===== *)
theory EncryptionContext
  imports CLib
begin

text \<open>
  The message cipher. \<^verbatim>\<open>encryption_context_t\<close> is the same structure on both sides
  (\<^verbatim>\<open>client/include/encryption_context.h\<close>, \<^verbatim>\<open>server/include/security_foundation.h\<close>), but the code is
  not: \<open>client_\<close> names model \<^verbatim>\<open>client/src/encryption_context.c\<close>, \<open>server_\<close> names the functions of the
  same C name in \<^verbatim>\<open>server/src/security_foundation.c\<close>. A context argument is a nullable pointer. The
  plaintext and ciphertext arrays are results: \<open>None\<close> is the return value -1, \<open>Some d\<close> is 0 with the
  data \<open>d\<close> and its length stored through the length pointer; the length passed in is the capacity.
  Lengths are those of lists in memory, so \<^verbatim>\<open>plaintext_len + 16\<close> does not wrap. Each function holds
  \<^verbatim>\<open>crypto_mutex\<close> over all its accesses.
\<close>

record aes256_gcm_context =
  aes_key :: "byte list"
  aes_iv :: "byte list"
  aes_counter :: u64
  aes_initialized :: bool

record chacha20_poly1305_context =
  chacha_key :: "byte list"
  chacha_nonce :: "byte list"
  chacha_counter :: u64
  chacha_initialized :: bool

record encryption_context =
  primary_cipher :: aes256_gcm_context
  backup_cipher :: chacha20_poly1305_context
  session_key :: "byte list"
  message_key :: "byte list"
  key_rotation_counter :: u64
  sequence_number :: u32

section \<open>The code\<close>

definition perform_xor :: "byte list \<Rightarrow> byte list \<Rightarrow> byte list" where
  "perform_xor key d = map (\<lambda>i. d ! i XOR key ! (i mod 32)) [0 ..< length d]"

definition tag_loop :: "byte list \<Rightarrow> byte list" where
  "tag_loop p = fold (\<lambda>i t. t[i mod 16 := t ! (i mod 16) XOR p ! i]) [0 ..< length p] (replicate 16 0)"

definition server_init_encryption_context ::
  "encryption_context ptr \<Rightarrow> byte list ptr \<Rightarrow> int \<times> encryption_context ptr" where
  "server_init_encryption_context cp kp =
     (case (cp, kp) of
        (Some c, Some key) \<Rightarrow>
          (0, Some (c\<lparr>session_key := take 32 key, message_key := take 32 key,
                     key_rotation_counter := 0, sequence_number := 0\<rparr>))
      | _ \<Rightarrow> (-1, cp))"

definition server_encrypt_data ::
  "encryption_context ptr \<Rightarrow> byte list ptr \<Rightarrow> nat \<Rightarrow> byte list option \<times> encryption_context ptr" where
  "server_encrypt_data cp pp cap =
     (case (cp, pp) of
        (Some c, Some p) \<Rightarrow>
          if cap < length p + 16 then (None, cp)
          else (Some (perform_xor (session_key c) p @ tag_loop p),
                Some (c\<lparr>sequence_number := sequence_number c + 1\<rparr>))
      | _ \<Rightarrow> (None, cp))"

definition server_decrypt_data ::
  "encryption_context ptr \<Rightarrow> byte list ptr \<Rightarrow> nat \<Rightarrow> byte list option \<times> encryption_context ptr" where
  "server_decrypt_data cp dp cap =
     (case (cp, dp) of
        (Some c, Some d) \<Rightarrow>
          if length d < 16 then (None, cp)
          else (let data_len = length d - 16
                in if cap < data_len then (None, cp)
                   else (let p = perform_xor (session_key c) (take data_len d)
                         in if drop data_len d \<noteq> tag_loop p then (None, cp)
                            else (Some p, Some (c\<lparr>sequence_number := sequence_number c + 1\<rparr>))))
      | _ \<Rightarrow> (None, cp))"

definition client_init_encryption_context ::
  "bool \<Rightarrow> encryption_context ptr \<Rightarrow> byte list ptr \<Rightarrow> int \<times> encryption_context ptr" where
  "client_init_encryption_context mutex_ok cp kp =
     (case (cp, kp) of
        (Some c, Some key) \<Rightarrow>
          if \<not> mutex_ok then (-1, cp)
          else (0, Some (c\<lparr>
            primary_cipher := (primary_cipher c)\<lparr>aes_key := take 32 key, aes_iv := replicate 16 0,
                                aes_counter := 0, aes_initialized := True\<rparr>,
            backup_cipher := (backup_cipher c)\<lparr>chacha_key := take 32 key,
                                chacha_nonce := replicate 12 0, chacha_counter := 0,
                                chacha_initialized := True\<rparr>,
            session_key := take 32 key, message_key := take 32 key,
            key_rotation_counter := 0, sequence_number := 0\<rparr>))
      | _ \<Rightarrow> (-1, cp))"

definition check_key_rotation :: "encryption_context \<Rightarrow> encryption_context" where
  "check_key_rotation c =
     (if key_rotation_counter c \<ge> 1000
      then c\<lparr>session_key := map (\<lambda>b. (b + 1) AND 255) (session_key c), key_rotation_counter := 0\<rparr>
      else c)"

definition client_encrypt_data ::
  "encryption_context ptr \<Rightarrow> byte list ptr \<Rightarrow> nat \<Rightarrow> byte list option \<times> encryption_context ptr" where
  "client_encrypt_data cp pp cap =
     (case (cp, pp) of
        (Some c, Some p) \<Rightarrow>
          if cap < length p + 16 then (None, cp)
          else (Some (perform_xor (session_key c) p @ tag_loop p),
                Some (check_key_rotation
                  (c\<lparr>sequence_number := sequence_number c + 1,
                     key_rotation_counter := key_rotation_counter c + 1\<rparr>)))
      | _ \<Rightarrow> (None, cp))"

definition client_decrypt_data ::
  "encryption_context ptr \<Rightarrow> byte list ptr \<Rightarrow> nat \<Rightarrow> byte list option \<times> encryption_context ptr" where
  "client_decrypt_data cp dp cap =
     (case (cp, dp) of
        (Some c, Some d) \<Rightarrow>
          if length d < 16 then (None, cp)
          else (let data_len = length d - 16
                in if cap < data_len then (None, cp)
                   else (let p = perform_xor (session_key c) (take data_len d)
                         in if drop data_len d \<noteq> tag_loop p then (None, cp)
                            else (Some p, Some (c\<lparr>sequence_number := sequence_number c + 1\<rparr>))))
      | _ \<Rightarrow> (None, cp))"

section \<open>The key stream\<close>

abbreviation xor_bytes :: "byte list \<Rightarrow> byte list \<Rightarrow> byte list" where
  "xor_bytes \<equiv> map2 (XOR)"

lemma length_perform_xor [simp]: "length (perform_xor k d) = length d"
  by (simp add: perform_xor_def)

lemma nth_perform_xor [simp]:
  "i < length d \<Longrightarrow> perform_xor k d ! i = d ! i XOR k ! (i mod 32)"
  by (simp add: perform_xor_def)

lemma perform_xor_involution [simp]: "perform_xor k (perform_xor k d) = d"
  by (rule nth_equalityI) simp_all

lemma perform_xor_delta:
  "length d = length e \<Longrightarrow> perform_xor k (xor_bytes d e) = xor_bytes (perform_xor k d) e"
  by (rule nth_equalityI) (simp_all add: ac_simps)

section \<open>The authentication tag\<close>

lemma tag_fold_length: "length (fold (\<lambda>i t. t[f i := g i t]) is t) = length t"
  by (induction "is" arbitrary: t) auto

lemma length_tag_loop [simp]: "length (tag_loop p) = 16"
  by (simp add: tag_loop_def tag_fold_length)

lemma tag_loop_Nil [simp]: "tag_loop [] = replicate 16 0"
  by (simp add: tag_loop_def)

lemma tag_loop_snoc:
  "tag_loop (p @ [x]) =
     (tag_loop p)[length p mod 16 := tag_loop p ! (length p mod 16) XOR x]"
proof -
  have "fold (\<lambda>i t. t[i mod 16 := t ! (i mod 16) XOR (p @ [x]) ! i]) [0 ..< length p] t =
      fold (\<lambda>i t. t[i mod 16 := t ! (i mod 16) XOR p ! i]) [0 ..< length p] t" for t
    by (rule fold_cong) (auto simp: nth_append)
  then show ?thesis by (simp add: tag_loop_def)
qed

text \<open>The tag is linear: it commutes with exclusive or.\<close>

lemma tag_loop_xor:
  "length p = length q \<Longrightarrow> tag_loop (xor_bytes p q) = xor_bytes (tag_loop p) (tag_loop q)"
proof (induction p q rule: rev_induct2)
  case (4 x p y q)
  then have len: "length p = length q" by simp
  show ?case
  proof (rule nth_equalityI)
    fix j assume "j < length (tag_loop (xor_bytes (p @ [x]) (q @ [y])))"
    then have j: "j < 16" by simp
    have "length p mod 16 < 16" by simp
    then show "tag_loop (xor_bytes (p @ [x]) (q @ [y])) ! j =
        xor_bytes (tag_loop (p @ [x])) (tag_loop (q @ [y])) ! j"
      using len j "4.IH" by (cases "j = length p mod 16") (auto simp: tag_loop_snoc ac_simps)
  qed simp
qed auto

end
