(* ===== verification/SecurityTypes.thy ===== *)
theory SecurityTypes
  imports EncryptionContext World
begin

text \<open>
  The data of the security layer that client and server share: \<^verbatim>\<open>security_level_t\<close>,
  \<^verbatim>\<open>hw_security_caps_t\<close>, \<^verbatim>\<open>entropy_pool_t\<close>, \<^verbatim>\<open>memory_protection_t\<close> and \<^verbatim>\<open>security_context_t\<close>, declared in
  \<^verbatim>\<open>server/include/security_foundation.h\<close> and, with the same fields, in the headers under
  \<^verbatim>\<open>client/include\<close>; and the feature detection, whose code is the same in both programs.
  Mutexes have no counterpart: an operation that holds one is an atomic step.
\<close>

section \<open>Security levels\<close>

datatype security_level =
  SECURITY_LEVEL_LOW | SECURITY_LEVEL_MEDIUM | SECURITY_LEVEL_HIGH | SECURITY_LEVEL_MAXIMUM

fun level_value :: "security_level \<Rightarrow> nat" where
  "level_value SECURITY_LEVEL_LOW = 1"
| "level_value SECURITY_LEVEL_MEDIUM = 2"
| "level_value SECURITY_LEVEL_HIGH = 3"
| "level_value SECURITY_LEVEL_MAXIMUM = 4"

lemma level_value_inject [simp]: "level_value a = level_value b \<longleftrightarrow> a = b"
  by (cases a; cases b) simp_all

text \<open>Levels compare as the values of the C enumeration.\<close>

instantiation security_level :: linorder
begin

definition less_eq_security_level :: "security_level \<Rightarrow> security_level \<Rightarrow> bool" where
  "less_eq_security_level a b \<longleftrightarrow> level_value a \<le> level_value b"

definition less_security_level :: "security_level \<Rightarrow> security_level \<Rightarrow> bool" where
  "less_security_level a b \<longleftrightarrow> level_value a < level_value b"

instance
  by standard (auto simp: less_eq_security_level_def less_security_level_def)

end

lemmas level_order = less_eq_security_level_def less_security_level_def

section \<open>Structures\<close>

record hw_security_caps =
  cet_supported :: bool
  rdrand_available :: bool
  aes_ni_present :: bool
  mpk_supported :: bool
  tsx_available :: bool

record entropy_pool =
  hw_entropy :: "byte list"
  timing_entropy :: "byte list"
  thermal_entropy :: "byte list"
  mixed_pool :: "byte list"
  entropy_estimate :: u32

record memory_protection =
  guard_pages :: "nat ptr list"
  num_guard_pages :: nat

record security_context =
  canary_start :: "byte list"
  enc_ctx :: "encryption_context ptr"
  ctx_entropy_pool :: "byte list"
  key_material :: "byte list"
  canary_end :: "byte list"
  hw_caps :: hw_security_caps
  mem_protection :: memory_protection
  entropy :: entropy_pool
  current_level :: security_level
  crypto_operations :: u64
  entropy_collected :: u64
  memory_allocations :: u64
  debugger_detected :: bool
  integrity_checksum :: u64

section \<open>Feature detection\<close>

definition no_caps :: hw_security_caps where
  "no_caps = \<lparr>cet_supported = False, rdrand_available = False, aes_ni_present = False,
              mpk_supported = False, tsx_available = False\<rparr>"

definition bit_RDRND :: u32 where "bit_RDRND = push_bit 30 1"
definition bit_AES :: u32 where "bit_AES = push_bit 25 1"

definition detect_hardware_security :: "cpuid \<Rightarrow> hw_security_caps" where
  "detect_hardware_security cpu =
     (if cpuid_max cpu < 1 then no_caps
      else (let caps1 = (case cpuid_leaf1 cpu of
                None \<Rightarrow> no_caps
              | Some ecx \<Rightarrow> no_caps\<lparr>rdrand_available := ecx AND bit_RDRND \<noteq> 0,
                                   aes_ni_present := ecx AND bit_AES \<noteq> 0\<rparr>)
            in (case cpuid_leaf7 cpu of
                  None \<Rightarrow> caps1
                | Some (ebx, ecx) \<Rightarrow>
                    caps1\<lparr>cet_supported := ecx AND push_bit 7 1 \<noteq> 0,
                          mpk_supported := ecx AND push_bit 3 1 \<noteq> 0,
                          tsx_available := ebx AND push_bit 11 1 \<noteq> 0\<rparr>)))"

text \<open>What \<^verbatim>\<open>memset(ctx, 0, sizeof)\<close> leaves in the structures.\<close>

definition zero_encryption_context :: encryption_context where
  "zero_encryption_context =
     \<lparr>primary_cipher = \<lparr>aes_key = replicate 32 0, aes_iv = replicate 16 0, aes_counter = 0,
                        aes_initialized = False\<rparr>,
      backup_cipher = \<lparr>chacha_key = replicate 32 0, chacha_nonce = replicate 12 0,
                       chacha_counter = 0, chacha_initialized = False\<rparr>,
      session_key = replicate 32 0, message_key = replicate 32 0,
      key_rotation_counter = 0, sequence_number = 0\<rparr>"

definition zero_security_context :: "security_level \<Rightarrow> security_context" where
  "zero_security_context level =
     \<lparr>canary_start = replicate 16 0, enc_ctx = None, ctx_entropy_pool = replicate 1024 0,
      key_material = replicate 256 0, canary_end = replicate 16 0, hw_caps = no_caps,
      mem_protection = \<lparr>guard_pages = replicate 1024 None, num_guard_pages = 0\<rparr>,
      entropy = \<lparr>hw_entropy = replicate 1024 0, timing_entropy = replicate 512 0,
                 thermal_entropy = replicate 256 0, mixed_pool = replicate 2048 0,
                 entropy_estimate = 0\<rparr>,
      current_level = level, crypto_operations = 0, entropy_collected = 0,
      memory_allocations = 0, debugger_detected = False, integrity_checksum = 0\<rparr>"

end
