(* ===== verification/CipherChannel.thy ===== *)
theory CipherChannel
  imports EncryptionContext
begin

text \<open>
  What the cipher gives: a message sent by one side is read by the other as long as their keys
  agree (locale \<open>cipher_channel\<close>, interpreted for client to server and for server to client),
  which modifications the tag notices, and what the client's key rotation does to the channel.
\<close>

section \<open>One message\<close>

lemma client_encrypt_Some:
  "client_encrypt_data (Some c) (Some p) cap = (Some d, cp') \<longleftrightarrow>
     length p + 16 \<le> cap \<and> d = perform_xor (session_key c) p @ tag_loop p \<and>
     cp' = Some (check_key_rotation
       (c\<lparr>sequence_number := sequence_number c + 1,
          key_rotation_counter := key_rotation_counter c + 1\<rparr>))"
  by (auto simp: client_encrypt_data_def)

lemma server_encrypt_Some:
  "server_encrypt_data (Some c) (Some p) cap = (Some d, cp') \<longleftrightarrow>
     length p + 16 \<le> cap \<and> d = perform_xor (session_key c) p @ tag_loop p \<and>
     cp' = Some (c\<lparr>sequence_number := sequence_number c + 1\<rparr>)"
  by (auto simp: server_encrypt_data_def)

text \<open>The text under a possibly modified ciphertext: \<open>e\<close> is the change of the data, \<open>f\<close> of the tag,
  and the reader's key may differ from the writer's.\<close>

definition key_delta :: "byte list \<Rightarrow> byte list \<Rightarrow> nat \<Rightarrow> byte list" where
  "key_delta k k' n = map (\<lambda>i. k ! (i mod 32) XOR k' ! (i mod 32)) [0 ..< n]"

lemma length_key_delta [simp]: "length (key_delta k k' n) = n"
  by (simp add: key_delta_def)

lemma nth_key_delta [simp]: "i < n \<Longrightarrow> key_delta k k' n ! i = k ! (i mod 32) XOR k' ! (i mod 32)"
  by (simp add: key_delta_def)

lemma perform_xor_other_key:
  "perform_xor k' (perform_xor k p) = xor_bytes p (key_delta k k' (length p))"
  by (rule nth_equalityI) (simp_all add: ac_simps)

lemma xor_bytes_zero [simp]: "xor_bytes d (replicate (length d) 0) = d"
  by (rule nth_equalityI) simp_all

lemma key_delta_same: "key_delta k k n = replicate n 0"
  by (rule nth_equalityI) simp_all

lemma xor_bytes_eq_iff:
  "length t = length f \<Longrightarrow> length t = length g \<Longrightarrow> xor_bytes t f = xor_bytes t g \<longleftrightarrow> f = g"
proof
  assume len: "length t = length f" "length t = length g" and eq: "xor_bytes t f = xor_bytes t g"
  show "f = g"
  proof (rule nth_equalityI)
    fix i assume i: "i < length f"
    from eq have "xor_bytes t f ! i = xor_bytes t g ! i" by (rule arg_cong)
    with i len have "t ! i XOR f ! i = t ! i XOR g ! i" by simp
    then show "f ! i = g ! i" by (metis xor.commute xor_cancel)
  qed (use len in simp)
qed simp

lemma xor_bytes_assoc:
  "length a = length b \<Longrightarrow> length b = length c \<Longrightarrow>
     xor_bytes (xor_bytes a b) c = xor_bytes a (xor_bytes b c)"
  by (rule nth_equalityI) (simp_all add: ac_simps)

lemma tag_matches_iff:
  assumes "length e = length p" and "length f = 16"
  shows "xor_bytes (tag_loop p) f = tag_loop (xor_bytes p e) \<longleftrightarrow> f = tag_loop e"
  using assms by (simp add: tag_loop_xor xor_bytes_eq_iff)

text \<open>The decision of \<^verbatim>\<open>decrypt_data\<close> on a written message with data changed by \<open>e\<close> and tag by \<open>f\<close>,
  read with the key \<open>k'\<close>.\<close>

lemma server_decrypt_modified:
  assumes len: "length e = length p" "length f = 16" and cap: "length p \<le> cap"
  shows "server_decrypt_data (Some c')
      (Some (xor_bytes (perform_xor k p) e @ xor_bytes (tag_loop p) f)) cap =
    (let e' = xor_bytes (key_delta k (session_key c') (length p)) e
     in if f = tag_loop e'
        then (Some (xor_bytes p e'), Some (c'\<lparr>sequence_number := sequence_number c' + 1\<rparr>))
        else (None, Some c'))"
proof -
  let ?k' = "session_key c'" and ?e' = "xor_bytes (key_delta k (session_key c') (length p)) e"
  have "perform_xor ?k' (xor_bytes (perform_xor k p) e) =
      xor_bytes (xor_bytes p (key_delta k ?k' (length p))) e"
    using len by (simp add: perform_xor_delta perform_xor_other_key)
  also have "\<dots> = xor_bytes p ?e'" using len by (simp add: xor_bytes_assoc)
  finally have dec: "perform_xor ?k' (xor_bytes (perform_xor k p) e) = xor_bytes p ?e'" .
  have tag: "xor_bytes (tag_loop p) f = tag_loop (xor_bytes p ?e') \<longleftrightarrow> f = tag_loop ?e'"
    using len by (intro tag_matches_iff) simp_all
  show ?thesis using len cap by (simp add: server_decrypt_data_def Let_def dec tag)
qed

lemma server_decrypt_client_encrypt:
  assumes key: "session_key c = session_key c'" and cap: "length p \<le> cap'"
    and enc: "client_encrypt_data (Some c) (Some p) cap = (Some d, cp)"
  shows "server_decrypt_data (Some c') (Some d) cap' =
    (Some p, Some (c'\<lparr>sequence_number := sequence_number c' + 1\<rparr>))"
  using enc key cap
  by (auto simp: client_encrypt_Some server_decrypt_data_def Let_def)

lemma client_decrypt_server_encrypt:
  assumes key: "session_key c = session_key c'" and cap: "length p \<le> cap'"
    and enc: "server_encrypt_data (Some c) (Some p) cap = (Some d, cp)"
  shows "client_decrypt_data (Some c') (Some d) cap' =
    (Some p, Some (c'\<lparr>sequence_number := sequence_number c' + 1\<rparr>))"
  using enc key cap
  by (auto simp: server_encrypt_Some client_decrypt_data_def Let_def)

section \<open>A channel of messages\<close>

text \<open>Writing and reading a sequence of messages, stopping at the first failure.\<close>

fun enc_all ::
  "('a ptr \<Rightarrow> byte list ptr \<Rightarrow> nat \<Rightarrow> byte list option \<times> 'a ptr) \<Rightarrow>
   'a \<Rightarrow> nat \<Rightarrow> byte list list \<Rightarrow> (byte list list \<times> 'a) option" where
  "enc_all enc a wcap [] = Some ([], a)"
| "enc_all enc a wcap (p # ps) =
     (case enc (Some a) (Some p) wcap of
        (Some d, Some a') \<Rightarrow>
          (case enc_all enc a' wcap ps of Some (ds, a'') \<Rightarrow> Some (d # ds, a'') | None \<Rightarrow> None)
      | _ \<Rightarrow> None)"

fun dec_all ::
  "('b ptr \<Rightarrow> byte list ptr \<Rightarrow> nat \<Rightarrow> byte list option \<times> 'b ptr) \<Rightarrow>
   'b \<Rightarrow> nat \<Rightarrow> byte list list \<Rightarrow> (byte list list \<times> 'b) option" where
  "dec_all dec b rcap [] = Some ([], b)"
| "dec_all dec b rcap (d # ds) =
     (case dec (Some b) (Some d) rcap of
        (Some p, Some b') \<Rightarrow>
          (case dec_all dec b' rcap ds of Some (ps, b'') \<Rightarrow> Some (p # ps, b'') | None \<Rightarrow> None)
      | _ \<Rightarrow> None)"

text \<open>
  \<open>in_step n a b\<close>: writer and reader can exchange \<open>n\<close> more messages. The writer's array holds
  \<open>wcap\<close> bytes, the reader's \<open>rcap\<close>.
\<close>

locale cipher_channel =
  fixes enc :: "'a ptr \<Rightarrow> byte list ptr \<Rightarrow> nat \<Rightarrow> byte list option \<times> 'a ptr"
    and dec :: "'b ptr \<Rightarrow> byte list ptr \<Rightarrow> nat \<Rightarrow> byte list option \<times> 'b ptr"
    and in_step :: "nat \<Rightarrow> 'a \<Rightarrow> 'b \<Rightarrow> bool"
  assumes enc_ok: "length p + 16 \<le> wcap \<Longrightarrow> \<exists>d a'. enc (Some a) (Some p) wcap = (Some d, Some a')"
    and enc_dec: "in_step (Suc n) a b \<Longrightarrow> enc (Some a) (Some p) wcap = (Some d, Some a') \<Longrightarrow>
      length p \<le> rcap \<Longrightarrow>
      \<exists>b'. dec (Some b) (Some d) rcap = (Some p, Some b') \<and> in_step n a' b'"
begin

lemma channel_delivers:
  assumes "in_step (length ps) a b" and "\<forall>p \<in> set ps. length p + 16 \<le> wcap \<and> length p \<le> rcap"
  shows "\<exists>ds a' b'. enc_all enc a wcap ps = Some (ds, a') \<and> dec_all dec b rcap ds = Some (ps, b')"
  using assms
proof (induction ps arbitrary: a b)
  case Nil
  then show ?case by simp
next
  case (Cons p ps)
  from Cons.prems(2) obtain d a' where e: "enc (Some a) (Some p) wcap = (Some d, Some a')"
    using enc_ok [of p wcap a] by auto
  from Cons.prems enc_dec [OF _ e, of "length ps" b rcap] obtain b' where
    d: "dec (Some b) (Some d) rcap = (Some p, Some b')" "in_step (length ps) a' b'"
    by auto
  from Cons.IH [OF d(2)] Cons.prems(2) obtain ds a'' b'' where
    "enc_all enc a' wcap ps = Some (ds, a'')" "dec_all dec b' rcap ds = Some (ps, b'')"
    by auto
  with e d(1) show ?case by simp
qed

end

text \<open>Client to server: the client rotates its key when its counter reaches 1000, the server never.\<close>

definition c2s_in_step :: "nat \<Rightarrow> encryption_context \<Rightarrow> encryption_context \<Rightarrow> bool" where
  "c2s_in_step n a b \<longleftrightarrow>
     n = 0 \<or> session_key a = session_key b \<and> unat (key_rotation_counter a) + n \<le> 1000"

definition s2c_in_step :: "nat \<Rightarrow> encryption_context \<Rightarrow> encryption_context \<Rightarrow> bool" where
  "s2c_in_step n a b \<longleftrightarrow> session_key a = session_key b"

lemma unat_u64_Suc:
  "unat (x :: u64) + 1 \<le> 1000 \<Longrightarrow> unat (x + 1) = unat x + 1"
  by (simp add: unat_word_ariths)

lemma rotation_not_due:
  assumes "unat (key_rotation_counter c) < 1000"
  shows "check_key_rotation c = c"
  using assms by (simp add: check_key_rotation_def word_le_nat_alt)

interpretation c2s: cipher_channel client_encrypt_data server_decrypt_data c2s_in_step
proof unfold_locales
  fix p wcap a
  show "length p + 16 \<le> wcap \<Longrightarrow>
      \<exists>d a'. client_encrypt_data (Some a) (Some p) wcap = (Some d, Some a')"
    by (simp add: client_encrypt_data_def)
next
  fix n a b p wcap d a' rcap
  assume s: "c2s_in_step (Suc n) a b" and e: "client_encrypt_data (Some a) (Some p) wcap = (Some d, Some a')"
    and cap: "length p \<le> rcap"
  from s have key: "session_key a = session_key b"
    and ctr: "unat (key_rotation_counter a) + Suc n \<le> 1000" by (auto simp: c2s_in_step_def)
  have ctr': "unat (key_rotation_counter a + 1) = unat (key_rotation_counter a) + 1"
    using ctr by (intro unat_u64_Suc) simp
  have "c2s_in_step n a' (b\<lparr>sequence_number := sequence_number b + 1\<rparr>)"
  proof (cases n)
    case (Suc m)
    then have "a' = a\<lparr>sequence_number := sequence_number a + 1,
        key_rotation_counter := key_rotation_counter a + 1\<rparr>"
      using e ctr ctr' by (auto simp: client_encrypt_Some rotation_not_due)
    with key ctr ctr' show ?thesis by (simp add: c2s_in_step_def)
  qed (simp add: c2s_in_step_def)
  with server_decrypt_client_encrypt [OF key cap e]
  show "\<exists>b'. server_decrypt_data (Some b) (Some d) rcap = (Some p, Some b') \<and> c2s_in_step n a' b'"
    by blast
qed

interpretation s2c: cipher_channel server_encrypt_data client_decrypt_data s2c_in_step
proof unfold_locales
  fix p wcap a
  show "length p + 16 \<le> wcap \<Longrightarrow>
      \<exists>d a'. server_encrypt_data (Some a) (Some p) wcap = (Some d, Some a')"
    by (simp add: server_encrypt_data_def)
next
  fix n a b p wcap d a' rcap
  assume s: "s2c_in_step (Suc n) a b" and e: "server_encrypt_data (Some a) (Some p) wcap = (Some d, Some a')"
    and cap: "length p \<le> rcap"
  then have key: "session_key a = session_key b" by (simp add: s2c_in_step_def)
  have "s2c_in_step n a' (b\<lparr>sequence_number := sequence_number b + 1\<rparr>)"
    using e key by (auto simp: server_encrypt_Some s2c_in_step_def)
  with client_decrypt_server_encrypt [OF key cap e]
  show "\<exists>b'. client_decrypt_data (Some b) (Some d) rcap = (Some p, Some b') \<and> s2c_in_step n a' b'"
    by blast
qed

section \<open>Key rotation\<close>

lemma byte_plus_one_neq: "((b :: byte) + 1) AND 255 \<noteq> b"
proof -
  have "(255 :: byte) = - 1" by simp
  then have "(b + 1) AND 255 = b + 1" by (metis and.right_neutral)
  then show ?thesis by simp
qed

lemma tag_tail_zero: "length q \<le> j \<Longrightarrow> j < 16 \<Longrightarrow> tag_loop q ! j = 0"
proof (induction q rule: rev_induct)
  case (snoc y q)
  then show ?case by (simp add: tag_loop_snoc)
qed simp

lemma tag_short:
  assumes "length p \<le> 16" and "i < length p"
  shows "tag_loop p ! i = p ! i"
  using assms
proof (induction p rule: rev_induct)
  case Nil
  then show ?case by simp
next
  case (snoc x p)
  show ?case
  proof (cases "i = length p")
    case True
    with snoc.prems tag_tail_zero [of p i] show ?thesis by (simp add: tag_loop_snoc)
  next
    case False
    with snoc show ?thesis by (simp add: tag_loop_snoc nth_append)
  qed
qed

end
