(* ===== verification/SecurityManager.thy ===== *)
theory SecurityManager
  imports SecurityTypes ServerTypes CipherChannel
begin

text \<open>
  The server's security manager, \<^verbatim>\<open>server/src/security_foundation.c\<close>: one security context per
  client slot. Allocations and mutex initialisations can fail (\<open>libc_alloc\<close>, numbered within the
  operation). A client context pointer is a nullable entry of \<open>contexts\<close>; freeing a context is its
  disappearance from the table. Every operation holds \<^verbatim>\<open>manager_mutex\<close> over its table accesses.
\<close>

record security_manager =
  contexts :: "security_context ptr list"
  num_contexts :: u32
  min_security_level :: security_level
  enforce_hardware_security :: bool
  key_rotation_interval :: u32
  failed_auth_attempts :: u32
  last_attack_time :: u64
  emergency_mode :: bool

section \<open>Security contexts\<close>

definition server_security_context_create :: "libc \<Rightarrow> security_level \<Rightarrow> security_context ptr" where
  "server_security_context_create e level =
     (if \<not> libc_alloc e 0 then None
      else if \<not> libc_alloc e 1 then None
      else if \<not> libc_alloc e 2 then None
      else if \<not> libc_alloc e 3 then None
      else Some ((zero_security_context SECURITY_LEVEL_LOW)\<lparr>
             enc_ctx := Some zero_encryption_context,
             current_level := level,
             hw_caps := detect_hardware_security (libc_cpu e)\<rparr>))"

definition server_security_context_validate :: "security_context ptr \<Rightarrow> int" where
  "server_security_context_validate cp =
     (case cp of
        Some c \<Rightarrow> if enc_ctx c \<noteq> None then 0 else -1
      | None \<Rightarrow> -1)"

definition server_update_performance_counters ::
  "security_context ptr \<Rightarrow> string ptr \<Rightarrow> security_context ptr" where
  "server_update_performance_counters cp opn =
     (case (cp, opn) of
        (Some c, Some s) \<Rightarrow>
          Some (if s = ''encrypt'' \<or> s = ''decrypt''
                then c\<lparr>crypto_operations := crypto_operations c + 1\<rparr> else c)
      | _ \<Rightarrow> cp)"

section \<open>The manager\<close>

definition security_manager_create :: "libc \<Rightarrow> security_manager ptr" where
  "security_manager_create e =
     (if \<not> libc_alloc e 0 then None
      else if \<not> libc_alloc e 1 then None
      else Some \<lparr>contexts = replicate MAX_CLIENTS None,
                 num_contexts = 0,
                 min_security_level = SECURITY_LEVEL_HIGH,
                 enforce_hardware_security = True,
                 key_rotation_interval = 1000,
                 failed_auth_attempts = 0,
                 last_attack_time = 0,
                 emergency_mode = False\<rparr>)"

definition security_manager_destroy :: "security_manager ptr \<Rightarrow> security_manager ptr" where
  "security_manager_destroy mp =
     (case mp of
        None \<Rightarrow> None
      | Some m \<Rightarrow> Some (m\<lparr>contexts := map (\<lambda>_. None) (contexts m)\<rparr>))"

definition valid_client_id :: "int \<Rightarrow> bool" where
  "valid_client_id cid \<longleftrightarrow> \<not> (cid < 0 \<or> cid \<ge> int MAX_CLIENTS)"

definition security_manager_add_client ::
  "libc \<Rightarrow> security_manager ptr \<Rightarrow> int \<Rightarrow> security_level \<Rightarrow> int \<times> security_manager ptr" where
  "security_manager_add_client e mp cid level =
     (case mp of
        None \<Rightarrow> (-1, None)
      | Some m \<Rightarrow>
          if \<not> valid_client_id cid then (-1, mp)
          else (let level' = (if level < min_security_level m then min_security_level m else level);
                    m1 = m\<lparr>contexts := (contexts m)[nat cid := server_security_context_create e level']\<rparr>
                in if contexts m1 ! nat cid = None then (-1, Some m1)
                   else (0, Some (m1\<lparr>num_contexts := num_contexts m1 + 1\<rparr>))))"

definition security_manager_remove_client ::
  "security_manager ptr \<Rightarrow> int \<Rightarrow> security_manager ptr" where
  "security_manager_remove_client mp cid =
     (case mp of
        None \<Rightarrow> None
      | Some m \<Rightarrow>
          if \<not> valid_client_id cid then mp
          else if contexts m ! nat cid \<noteq> None
          then Some (m\<lparr>contexts := (contexts m)[nat cid := None],
                       num_contexts := num_contexts m - 1\<rparr>)
          else mp)"

definition security_manager_validate_client ::
  "libc \<Rightarrow> security_manager ptr \<Rightarrow> int \<Rightarrow> int \<times> security_manager ptr" where
  "security_manager_validate_client e mp cid =
     (case mp of
        None \<Rightarrow> (-1, None)
      | Some m \<Rightarrow>
          if \<not> valid_client_id cid then (-1, mp)
          else if contexts m ! nat cid = None then (-1, mp)
          else (let result = server_security_context_validate (contexts m ! nat cid)
                in if result < 0
                   then (let m1 = m\<lparr>failed_auth_attempts := failed_auth_attempts m + 1,
                                    last_attack_time := word_of_int (libc_time e)\<rparr>
                         in (result, Some (if failed_auth_attempts m1 \<ge> 5
                                           then m1\<lparr>emergency_mode := True\<rparr> else m1)))
                   else (result, mp)))"

text \<open>\<^verbatim>\<open>security_foundation_init\<close> of the server only logs and returns 0.\<close>

definition server_basic_foundation_init :: int where
  "server_basic_foundation_init = 0"

definition server_security_foundation_init ::
  "libc \<Rightarrow> security_manager ptr \<Rightarrow> int \<times> security_manager ptr" where
  "server_security_foundation_init e g =
     (if server_basic_foundation_init < 0 then (-1, g)
      else case security_manager_create e of
             None \<Rightarrow> (-1, None)
           | Some m \<Rightarrow> (0, Some m))"

text \<open>The first component is the manager as it is when it is freed, the second the global pointer.\<close>

definition server_security_foundation_cleanup ::
  "security_manager ptr \<Rightarrow> security_manager ptr \<times> security_manager ptr" where
  "server_security_foundation_cleanup g = (security_manager_destroy g, None)"

section \<open>Messages\<close>

definition set_enc_ctx :: "security_manager \<Rightarrow> nat \<Rightarrow> encryption_context ptr \<Rightarrow> security_manager" where
  "set_enc_ctx m i ec =
     m\<lparr>contexts := (contexts m)[i := map_option (\<lambda>c. c\<lparr>enc_ctx := ec\<rparr>) (contexts m ! i)]\<rparr>"

definition server_encrypt_message ::
  "security_manager ptr \<Rightarrow> int \<Rightarrow> byte list ptr \<Rightarrow> nat \<Rightarrow> byte list option \<times> security_manager ptr" where
  "server_encrypt_message g cid pp cap =
     (case g of
        None \<Rightarrow> (None, None)
      | Some m \<Rightarrow>
          if \<not> valid_client_id cid then (None, g)
          else (case contexts m ! nat cid of
                  None \<Rightarrow> (None, g)
                | Some c \<Rightarrow>
                    if enc_ctx c = None then (None, g)
                    else (let (result, ec) = server_encrypt_data (enc_ctx c) pp cap
                          in (result, Some (set_enc_ctx m (nat cid) ec)))))"

definition server_decrypt_message ::
  "security_manager ptr \<Rightarrow> int \<Rightarrow> byte list ptr \<Rightarrow> nat \<Rightarrow> byte list option \<times> security_manager ptr" where
  "server_decrypt_message g cid dp cap =
     (case g of
        None \<Rightarrow> (None, None)
      | Some m \<Rightarrow>
          if \<not> valid_client_id cid then (None, g)
          else (case contexts m ! nat cid of
                  None \<Rightarrow> (None, g)
                | Some c \<Rightarrow>
                    if enc_ctx c = None then (None, g)
                    else (let (result, ec) = server_decrypt_data (enc_ctx c) dp cap
                          in (result, Some (set_enc_ctx m (nat cid) ec)))))"

section \<open>Invariant\<close>

abbreviation has_context :: "security_context ptr \<Rightarrow> bool" where
  "has_context cp \<equiv> cp \<noteq> None"

definition ctx_ok :: "security_level \<Rightarrow> security_context ptr \<Rightarrow> bool" where
  "ctx_ok lvl cp \<longleftrightarrow>
     (\<forall>c. cp = Some c \<longrightarrow> lvl \<le> current_level c \<and>
        (\<exists>ec. enc_ctx c = Some ec \<and> length (session_key ec) = 32))"

definition sm_inv :: "security_manager \<Rightarrow> bool" where
  "sm_inv m \<longleftrightarrow> length (contexts m) = MAX_CLIENTS \<and>
     (\<forall>cp \<in> set (contexts m). ctx_ok (min_security_level m) cp) \<and>
     failed_auth_attempts m = 0 \<and> \<not> emergency_mode m"

lemma sm_invD:
  assumes "sm_inv m"
  shows "length (contexts m) = MAX_CLIENTS"
    and "i < MAX_CLIENTS \<Longrightarrow> ctx_ok (min_security_level m) (contexts m ! i)"
  using assms by (auto simp: sm_inv_def)

lemma ctx_ok_None [simp]: "ctx_ok lvl None"
  by (simp add: ctx_ok_def)

lemma sm_inv_update:
  assumes "sm_inv m" and "ctx_ok (min_security_level m) cp"
  shows "sm_inv (m\<lparr>contexts := (contexts m)[i := cp], num_contexts := n\<rparr>)"
  using assms all_set_update [of "contexts m" "ctx_ok (min_security_level m)" cp i]
  by (simp add: sm_inv_def)

lemma context_create_Some:
  "server_security_context_create e level = Some c \<Longrightarrow>
     current_level c = level \<and> enc_ctx c = Some zero_encryption_context"
  by (auto simp: server_security_context_create_def split: if_splits)

lemma context_create_ok: "lvl \<le> level \<Longrightarrow> ctx_ok lvl (server_security_context_create e level)"
  by (auto simp: ctx_ok_def zero_encryption_context_def dest!: context_create_Some)

lemma valid_client_id_nat: "valid_client_id cid \<Longrightarrow> nat cid < MAX_CLIENTS \<and> 0 \<le> cid"
  by (auto simp: valid_client_id_def)

lemma add_client_Some:
  fixes level :: security_level
  assumes inv: "sm_inv m" and cid: "valid_client_id cid"
  defines lvl: "lvl \<equiv> max level (min_security_level m)"
  shows "security_manager_add_client e (Some m) cid level =
    (case server_security_context_create e lvl of
       None \<Rightarrow> (-1, Some (m\<lparr>contexts := (contexts m)[nat cid := None]\<rparr>))
     | Some c \<Rightarrow> (0, Some (m\<lparr>contexts := (contexts m)[nat cid := Some c],
                             num_contexts := num_contexts m + 1\<rparr>)))"
proof -
  have "(if level < min_security_level m then min_security_level m else level) = lvl"
    by (auto simp: lvl max_def)
  with valid_client_id_nat [OF cid] sm_invD(1) [OF inv] cid show ?thesis
    by (auto simp: security_manager_add_client_def Let_def split: option.splits)
qed

lemma sm_add_client_inv:
  assumes inv: "sm_inv m" and res: "security_manager_add_client e (Some m) cid level = (x, Some m')"
  shows "sm_inv m'"
proof (cases "valid_client_id cid")
  case False
  with res inv show ?thesis by (simp add: security_manager_add_client_def)
next
  case True
  let ?cp = "server_security_context_create e (max level (min_security_level m))"
  have "m' = m\<lparr>contexts := (contexts m)[nat cid := ?cp], num_contexts := num_contexts m'\<rparr>"
    using res add_client_Some [OF inv True, of e level] by (auto split: option.splits)
  moreover have "sm_inv (m\<lparr>contexts := (contexts m)[nat cid := ?cp], num_contexts := num_contexts m'\<rparr>)"
    by (intro sm_inv_update [OF inv] context_create_ok) simp
  ultimately show ?thesis by simp
qed

lemma sm_remove_client_inv:
  assumes inv: "sm_inv m" and res: "security_manager_remove_client (Some m) cid = Some m'"
  shows "sm_inv m'"
  using res inv sm_inv_update [OF inv, of None _ "nat cid"]
  by (auto simp: security_manager_remove_client_def split: if_splits)

lemma server_crypt_key:
  "server_decrypt_data (Some c) dp cap = (x, ec) \<Longrightarrow> \<exists>c'. ec = Some c' \<and> session_key c' = session_key c"
  "server_encrypt_data (Some c) dp cap = (x, ec) \<Longrightarrow> \<exists>c'. ec = Some c' \<and> session_key c' = session_key c"
  by (auto simp: server_decrypt_data_def server_encrypt_data_def Let_def
      split: option.splits if_splits)

lemma set_enc_ctx_inv:
  assumes inv: "sm_inv m" and i: "i < MAX_CLIENTS" and c: "contexts m ! i = Some c"
    and ec: "length (session_key ec) = 32"
  shows "sm_inv (set_enc_ctx m i (Some ec))"
proof -
  have "ctx_ok (min_security_level m) (Some (c\<lparr>enc_ctx := Some ec\<rparr>))"
    using sm_invD(2) [OF inv i] c ec by (auto simp: ctx_ok_def)
  with sm_inv_update [OF inv, of "Some (c\<lparr>enc_ctx := Some ec\<rparr>)" "num_contexts m" i] c
  show ?thesis by (simp add: set_enc_ctx_def)
qed

lemma decrypt_message_inv:
  assumes inv: "sm_inv m" and res: "server_decrypt_message (Some m) cid dp cap = (x, Some m')"
  shows "sm_inv m'"
proof (cases "valid_client_id cid")
  case False
  with res inv show ?thesis by (simp add: server_decrypt_message_def)
next
  case True
  note i = conjunct1 [OF valid_client_id_nat [OF True]]
  show ?thesis
  proof (cases "contexts m ! nat cid")
    case None
    with res inv True show ?thesis by (simp add: server_decrypt_message_def)
  next
    case (Some c)
    then obtain ec where ec: "enc_ctx c = Some ec" "length (session_key ec) = 32"
      using sm_invD(2) [OF inv i] by (auto simp: ctx_ok_def)
    obtain y ec' where d: "server_decrypt_data (Some ec) dp cap = (y, ec')" by fastforce
    then obtain ec'' where "ec' = Some ec''" "length (session_key ec'') = 32"
      using server_crypt_key(1) [OF d] ec by auto
    with res Some ec(1) d True have "m' = set_enc_ctx m (nat cid) (Some ec'')"
      by (simp add: server_decrypt_message_def)
    with set_enc_ctx_inv [OF inv i Some] \<open>length (session_key ec'') = 32\<close> show ?thesis by simp
  qed
qed

end
