(* ===== verification/ClientManager.thy ===== *)
theory ClientManager
  imports ClientSession SecurityManager
begin

text \<open>
  The table of connected clients, \<^verbatim>\<open>client_manager_t\<close> and \<^verbatim>\<open>server/src/client_manager.c\<close>. Every
  function holds \<^verbatim>\<open>manager->mutex\<close> over its accesses to the table. A session pointer is the index
  of the session in \<^verbatim>\<open>manager->clients\<close>. The security manager the functions fetch with
  \<^verbatim>\<open>get_security_manager()\<close> is an argument and a result.
\<close>

record client_manager =
  clients :: "client_session list"
  cm_client_count :: int

section \<open>The code\<close>

definition client_manager_initialize :: "client_manager ptr \<Rightarrow> client_manager ptr" where
  "client_manager_initialize mp =
     (case mp of
        None \<Rightarrow> None
      | Some m \<Rightarrow> Some (m\<lparr>cm_client_count := 0,
          clients := map (\<lambda>s. s\<lparr>active := False, socket_fd := -1,
                                nickname := replicate MAX_NICKNAME_LEN NUL,
                                handshake_state := HANDSHAKE_IDLE, session_seq := 0\<rparr>)
                       (clients m)\<rparr>))"

fun cleanup_clients :: "world \<Rightarrow> client_session list \<Rightarrow> world \<times> client_session list" where
  "cleanup_clients w [] = (w, [])"
| "cleanup_clients w (s # ss) =
     (if active s
      then (let (w1, s') = client_session_cleanup w s;
                w2 = sys_cancel w1 (thread s');
                (w3, ss') = cleanup_clients w2 ss
            in (w3, s' # ss'))
      else (let (w1, ss') = cleanup_clients w ss in (w1, s # ss')))"

definition client_manager_cleanup :: "world \<Rightarrow> client_manager ptr \<Rightarrow> world \<times> client_manager ptr" where
  "client_manager_cleanup w mp =
     (case mp of
        None \<Rightarrow> (w, None)
      | Some m \<Rightarrow> (let (w', ss) = cleanup_clients w (clients m) in (w', Some (m\<lparr>clients := ss\<rparr>))))"

definition default_session_key :: "byte list" where
  "default_session_key = map (\<lambda>j. (0x42 + word_of_nat j) XOR 0xAB) [0 ..< 32]"

definition client_manager_add_new_client ::
  "libc \<Rightarrow> world \<Rightarrow> security_manager ptr \<Rightarrow> client_manager ptr \<Rightarrow> int \<Rightarrow> sockaddr_in \<Rightarrow>
     int \<times> world \<times> security_manager ptr \<times> client_manager ptr" where
  "client_manager_add_new_client e w sm mp fd a =
     (case mp of
        None \<Rightarrow> (-1, w, sm, None)
      | Some m \<Rightarrow>
          (case find_index (\<lambda>s. \<not> active s) (clients m) of
             None \<Rightarrow> (-1, w, sm, mp)
           | Some i \<Rightarrow>
               (let s = (client_session_initialize (clients m ! i) fd a)
                          \<lparr>session_client_id := int i, security_validated := False\<rparr>;
                    added = Some (m\<lparr>clients := (clients m)[i := s],
                                    cm_client_count := cm_client_count m + 1\<rparr>);
                    (w', s') = client_session_cleanup w s;
                    dropped = Some (m\<lparr>clients := (clients m)[i := s']\<rparr>)
                in case sm of
                     None \<Rightarrow> (int i, w, sm, added)
                   | Some _ \<Rightarrow>
                       (let (result, sm1) =
                              security_manager_add_client e sm (int i) SECURITY_LEVEL_HIGH
                        in if result < 0 then (-1, w', sm1, dropped)
                           else
                             (case sm1 of
                                None \<Rightarrow> (int i, w, sm1, added)
                              | Some sec \<Rightarrow>
                                  (case contexts sec ! i of
                                     None \<Rightarrow> (int i, w, sm1, added)
                                   | Some c \<Rightarrow>
                                       if enc_ctx c = None then (int i, w, sm1, added)
                                       else (let (r, ec) = server_init_encryption_context (enc_ctx c)
                                                             (Some default_session_key);
                                                 sm2 = Some (set_enc_ctx sec i ec)
                                             in if r < 0 then (-1, w', sm2, dropped)
                                                else (int i, w, sm2, added))))))))"

text \<open>The loop of \<^verbatim>\<open>client_manager_broadcast_message\<close> over the slots from \<open>i\<close> on: the slots after it
  and by how much \<^verbatim>\<open>client_count\<close> falls.\<close>

fun broadcast_loop ::
  "world \<Rightarrow> string \<Rightarrow> int \<Rightarrow> nat \<Rightarrow> client_session list \<Rightarrow> world \<times> client_session list \<times> int" where
  "broadcast_loop w msg sender i [] = (w, [], 0)"
| "broadcast_loop w msg sender i (s # ss) =
     (if active s \<and> int i \<noteq> sender
      then (let (r, w1) = sys_send w (socket_fd s) (bytes_of (cstr msg))
            in if r < 0
               then (let (w2, s') = client_session_cleanup w1 (s\<lparr>active := False\<rparr>);
                         (w3, ss', k) = broadcast_loop w2 msg sender (Suc i) ss
                     in (w3, s' # ss', k + 1))
               else (let (w3, ss', k) = broadcast_loop w1 msg sender (Suc i) ss
                     in (w3, s # ss', k)))
      else (let (w3, ss', k) = broadcast_loop w msg sender (Suc i) ss in (w3, s # ss', k)))"

definition client_manager_broadcast_message ::
  "world \<Rightarrow> client_manager ptr \<Rightarrow> string ptr \<Rightarrow> int \<Rightarrow> world \<times> client_manager ptr" where
  "client_manager_broadcast_message w mp msgp sender =
     (case (mp, msgp) of
        (Some m, Some msg) \<Rightarrow>
          (let (w', ss, k) = broadcast_loop w msg sender 0 (clients m)
           in (w', Some (m\<lparr>clients := ss, cm_client_count := cm_client_count m - k\<rparr>)))
      | _ \<Rightarrow> (w, mp))"

definition client_manager_remove_client ::
  "world \<Rightarrow> security_manager ptr \<Rightarrow> client_manager ptr \<Rightarrow> int \<Rightarrow>
     world \<times> security_manager ptr \<times> client_manager ptr" where
  "client_manager_remove_client w sm mp cid =
     (case mp of
        None \<Rightarrow> (w, sm, None)
      | Some m \<Rightarrow>
          if cid < 0 \<or> cid \<ge> int MAX_CLIENTS then (w, sm, mp)
          else if active (clients m ! nat cid)
          then (let s = clients m ! nat cid;
                    sm' = security_manager_remove_client sm cid;
                    message = snprintf_str BUFFER_SIZE
                      (''*** '' @ cstr (nickname s) @ '' left the chat ***'' @ [LF]);
                    (w1, s') = client_session_cleanup w s;
                    m1 = m\<lparr>clients := (clients m)[nat cid := s'],
                           cm_client_count := cm_client_count m - 1\<rparr>;
                    (w2, mp') = client_manager_broadcast_message w1 (Some m1) (Some message) cid
                in (w2, sm', mp'))
          else (w, sm, mp))"

text \<open>\<^verbatim>\<open>strcat\<close> into an array of \<open>n\<close> characters; a write behind its end is undefined behaviour and is
  the value \<open>None\<close>.\<close>

definition strcat_into :: "nat \<Rightarrow> string \<Rightarrow> string \<Rightarrow> string option" where
  "strcat_into n dst src = (if length dst + length src < n then Some (dst @ src) else None)"

fun user_list_loop :: "client_session list \<Rightarrow> string \<Rightarrow> nat \<Rightarrow> (string \<times> nat) option" where
  "user_list_loop [] buf k = Some (buf, k)"
| "user_list_loop (s # ss) buf k =
     (if active s
      then (case (if k > 0 then strcat_into BUFFER_SIZE buf '', '' else Some buf) of
              None \<Rightarrow> None
            | Some buf1 \<Rightarrow>
                (case strcat_into BUFFER_SIZE buf1 (cstr (nickname s)) of
                   None \<Rightarrow> None
                 | Some buf2 \<Rightarrow> user_list_loop ss buf2 (k + 1)))
      else user_list_loop ss buf k)"

definition user_list_text :: "client_session list \<Rightarrow> string option" where
  "user_list_text ss =
     (case user_list_loop ss ''*** Online users: '' 0 of
        None \<Rightarrow> None
      | Some (buf, k) \<Rightarrow>
          (case (if k = 0 then strcat_into BUFFER_SIZE buf ''None'' else Some buf) of
             None \<Rightarrow> None
           | Some buf1 \<Rightarrow> strcat_into BUFFER_SIZE buf1 ('' ***'' @ [LF])))"

definition client_manager_broadcast_user_list ::
  "world \<Rightarrow> client_manager ptr \<Rightarrow> (world \<times> client_manager ptr) option" where
  "client_manager_broadcast_user_list w mp =
     (case mp of
        None \<Rightarrow> Some (w, None)
      | Some m \<Rightarrow>
          (case user_list_text (clients m) of
             None \<Rightarrow> None
           | Some text \<Rightarrow> Some (client_manager_broadcast_message w mp (Some text) (-1))))"

definition client_manager_get_session :: "client_manager ptr \<Rightarrow> int \<Rightarrow> nat ptr" where
  "client_manager_get_session mp cid =
     (if mp = None \<or> cid < 0 \<or> cid \<ge> int MAX_CLIENTS then None else Some (nat cid))"

section \<open>The invariant of the client table\<close>

definition cm_inv :: "client_manager \<Rightarrow> bool" where
  "cm_inv m \<longleftrightarrow> length (clients m) = MAX_CLIENTS \<and> (\<forall>s \<in> set (clients m). session_ok s) \<and>
     cm_client_count m = used_count active (clients m) \<and>
     (\<forall>i < MAX_CLIENTS. active (clients m ! i) \<longrightarrow> session_client_id (clients m ! i) = int i)"

lemma cm_invD:
  assumes "cm_inv m"
  shows "length (clients m) = MAX_CLIENTS" and "i < MAX_CLIENTS \<Longrightarrow> session_ok (clients m ! i)"
    and "cm_client_count m = used_count active (clients m)"
    and "i < MAX_CLIENTS \<Longrightarrow> active (clients m ! i) \<Longrightarrow> session_client_id (clients m ! i) = int i"
  using assms by (auto simp: cm_inv_def)

text \<open>Changing one slot.\<close>

lemma cm_inv_update:
  assumes m: "cm_inv m" and i: "i < MAX_CLIENTS" and s: "session_ok s"
    and cid: "active s \<longrightarrow> session_client_id s = int i"
    and k: "k = cm_client_count m - of_bool (active (clients m ! i)) + of_bool (active s)"
  shows "cm_inv (m\<lparr>clients := (clients m)[i := s], cm_client_count := k\<rparr>)"
proof -
  note len = cm_invD(1) [OF m]
  have "\<forall>x \<in> set ((clients m)[i := s]). session_ok x"
    by (rule all_set_update) (use m s in \<open>simp_all add: cm_inv_def\<close>)
  moreover have "k = used_count active ((clients m)[i := s])"
    using used_count_update [of i "clients m" active s] i len k cm_invD(3) [OF m] by simp
  ultimately show ?thesis using m i cid by (auto simp: cm_inv_def nth_list_update)
qed

corollary cm_inv_update_same:
  assumes m: "cm_inv m" and i: "i < MAX_CLIENTS" and s: "session_ok s"
    and "active s = active (clients m ! i)"
    and "session_client_id s = session_client_id (clients m ! i)"
  shows "cm_inv (m\<lparr>clients := (clients m)[i := s]\<rparr>)"
  using cm_inv_update [OF m i s, of "cm_client_count m"] assms cm_invD(4) [OF m i] by simp

text \<open>A session whose client is gone.\<close>

definition closed_session :: "client_session \<Rightarrow> client_session" where
  "closed_session s = s\<lparr>socket_fd := -1, active := False, handshake_state := HANDSHAKE_FAILED,
     session_seq := 0, session_state := CLIENT_STATE_CONNECTED,
     nickname := replicate MAX_NICKNAME_LEN NUL,
     current_room_id := replicate (ROOM_ID_LENGTH + 1) NUL\<rparr>"

lemma session_cleanup_closed [simp]: "snd (client_session_cleanup w s) = closed_session s"
  by (simp add: client_session_cleanup_def closed_session_def)

lemma session_cleanup_pair:
  "client_session_cleanup w s =
     (if 0 \<le> socket_fd s then sys_close w (socket_fd s) else w, closed_session s)"
  by (simp add: client_session_cleanup_def closed_session_def)

lemma closed_session_props [simp]:
  "session_ok (closed_session s)" "\<not> active (closed_session s)" "socket_fd (closed_session s) = -1"
  "closed_session (s\<lparr>active := b\<rparr>) = closed_session s"
  "session_client_id (closed_session s) = session_client_id s"
  using session_cleanup_ok [of undefined s]
  by (simp_all add: closed_session_def client_session_cleanup_def)

section \<open>Initialisation\<close>

lemma cm_initialize_inv:
  assumes "length (clients m) = MAX_CLIENTS" and "client_manager_initialize (Some m) = Some m'"
  shows "cm_inv m'" and "\<forall>s \<in> set (clients m'). \<not> active s"
  using assms by (auto simp: client_manager_initialize_def cm_inv_def session_ok_def
      used_count_zero_iff limits)

section \<open>Broadcasting\<close>

fun deliveries :: "sysev list \<Rightarrow> (int \<times> byte list) list" where
  "deliveries [] = []"
| "deliveries (Sent fd d r # es) = (fd, d) # deliveries es"
| "deliveries (Closed fd # es) = deliveries es"
| "deliveries (Cancelled t # es) = deliveries es"

lemma deliveries_append [simp]: "deliveries (es @ fs) = deliveries es @ deliveries fs"
  by (induction es rule: deliveries.induct) auto

text \<open>The clients a broadcast addresses: the slots in use except the sender's.\<close>

fun recipients :: "int \<Rightarrow> nat \<Rightarrow> client_session list \<Rightarrow> client_session list" where
  "recipients sender i [] = []"
| "recipients sender i (s # ss) =
     (if active s \<and> int i \<noteq> sender then s # recipients sender (Suc i) ss
      else recipients sender (Suc i) ss)"

lemma recipients_iff:
  "s \<in> set (recipients sender i ss) \<longleftrightarrow>
     (\<exists>j < length ss. s = ss ! j \<and> active s \<and> int (i + j) \<noteq> sender)"
  by (induction ss arbitrary: i) (auto simp: less_Suc_eq_0_disj)

text \<open>A broadcast sends the message once to each of them and does nothing else but close the
  sockets where \<^verbatim>\<open>send()\<close> failed.\<close>

definition slot_kept_or_dropped :: "int \<Rightarrow> nat \<Rightarrow> client_session \<Rightarrow> client_session \<Rightarrow> bool" where
  "slot_kept_or_dropped sender j s s' \<longleftrightarrow>
     s' = s \<or> (active s \<and> int j \<noteq> sender \<and> s' = closed_session s)"

lemma slot_kept [simp]: "slot_kept_or_dropped sender j s s"
  by (simp add: slot_kept_or_dropped_def)

lemma broadcast_loop_spec:
  "broadcast_loop w msg sender i ss = (w', ss', k) \<Longrightarrow>
     extends w w' \<and>
     deliveries (emitted w w') =
       map (\<lambda>s. (socket_fd s, bytes_of (cstr msg))) (recipients sender i ss) \<and>
     length ss' = length ss \<and>
     k = used_count active ss - used_count active ss' \<and>
     (\<forall>j < length ss. slot_kept_or_dropped sender (i + j) (ss ! j) (ss' ! j))"
proof (induction ss arbitrary: w i w' ss' k)
  case Nil
  then show ?case by simp
next
  case (Cons s ss)
  let ?d = "bytes_of (cstr msg)"
  show ?case
  proof (cases "active s \<and> int i \<noteq> sender")
    case False
    from Cons.prems False obtain ss1 where
      l: "broadcast_loop w msg sender (Suc i) ss = (w', ss1, k)" and ss': "ss' = s # ss1"
      by (auto split: prod.splits)
    from Cons.IH [OF l] False ss' show ?thesis by (auto simp: less_Suc_eq_0_disj)
  next
    case True
    obtain r w1 where snd: "sys_send w (socket_fd s) ?d = (r, w1)" by fastforce
    have w1: "extends w w1" "emitted w w1 = [Sent (socket_fd s) ?d r]"
      using extends_send [of w "socket_fd s" ?d] emitted_send [of w "socket_fd s" ?d] snd by simp_all
    define w2 where "w2 = (if r < 0 \<and> 0 \<le> socket_fd s then sys_close w1 (socket_fd s) else w1)"
    define s2 where "s2 = (if r < 0 then closed_session s else s)"
    have w2: "extends w1 w2" "deliveries (emitted w1 w2) = []" by (simp_all add: w2_def)
    from Cons.prems True snd obtain ss1 k1 where
      l: "broadcast_loop w2 msg sender (Suc i) ss = (w', ss1, k1)" and
      ss': "ss' = s2 # ss1" and k: "k = k1 + of_bool (r < 0)"
      by (auto simp: Let_def w2_def s2_def session_cleanup_pair split: prod.splits if_splits)
    note IH = Cons.IH [OF l]
    have ww2: "extends w w2" using w1(1) w2(1) by (rule extends_trans)
    have "deliveries (emitted w w2) = [(socket_fd s, ?d)]"
      using emitted_trans [OF w1(1) w2(1)] w1(2) w2(2) by simp
    moreover have "emitted w w' = emitted w w2 @ emitted w2 w'"
      using emitted_trans [OF ww2] IH by blast
    moreover have "extends w w'" using extends_trans [OF ww2] IH by blast
    ultimately show ?thesis using IH True ss' k
      by (auto simp: less_Suc_eq_0_disj s2_def slot_kept_or_dropped_def)
  qed
qed

lemma broadcast_message_spec:
  assumes "client_manager_broadcast_message w (Some m) (Some msg) sender = (w', mp')"
  obtains m' where "mp' = Some m'" and "extends w w'"
    and "deliveries (emitted w w') =
      map (\<lambda>s. (socket_fd s, bytes_of (cstr msg))) (recipients sender 0 (clients m))"
    and "length (clients m') = length (clients m)"
    and "cm_client_count m' =
      cm_client_count m - (used_count active (clients m) - used_count active (clients m'))"
    and "\<And>j. j < length (clients m) \<Longrightarrow>
      slot_kept_or_dropped sender j (clients m ! j) (clients m' ! j)"
proof -
  obtain w1 ss k where l: "broadcast_loop w msg sender 0 (clients m) = (w1, ss, k)"
    using prod_cases3 by blast
  with assms have "w' = w1" and
    mp': "mp' = Some (m\<lparr>clients := ss, cm_client_count := cm_client_count m - k\<rparr>)"
    by (simp_all add: client_manager_broadcast_message_def)
  with broadcast_loop_spec [OF l] show ?thesis by (intro that [OF mp']) auto
qed

lemma slot_kept_or_dropped_ok:
  assumes "slot_kept_or_dropped sender j s s'" and "session_ok s"
    and "active s \<longrightarrow> session_client_id s = cid"
  shows "session_ok s'" and "active s' \<longrightarrow> session_client_id s' = cid"
  using assms by (auto simp: slot_kept_or_dropped_def)

lemma broadcast_inv [preserves]:
  assumes inv: "cm_inv m"
    and b: "client_manager_broadcast_message w (Some m) (Some msg) sender = (w', Some m')"
  shows "cm_inv m'"
proof -
  obtain len: "length (clients m') = length (clients m)"
    and cnt: "cm_client_count m' =
      cm_client_count m - (used_count active (clients m) - used_count active (clients m'))"
    and slot: "\<And>j. j < length (clients m) \<Longrightarrow>
      slot_kept_or_dropped sender j (clients m ! j) (clients m' ! j)"
    by (rule broadcast_message_spec [OF b]) auto
  note L = cm_invD(1) [OF inv]
  have ok: "session_ok (clients m' ! j)"
    "active (clients m' ! j) \<longrightarrow> session_client_id (clients m' ! j) = int j" if "j < MAX_CLIENTS" for j
    using slot_kept_or_dropped_ok [OF slot, of j "int j"] that L cm_invD(2,4) [OF inv that] by auto
  then have "\<forall>s \<in> set (clients m'). session_ok s" using len L by (auto simp: in_set_conv_nth)
  with ok len L cnt cm_invD(3) [OF inv] show ?thesis by (simp add: cm_inv_def)
qed

lemma broadcast_Some:
  "\<exists>m'. snd (client_manager_broadcast_message w (Some m) msgp sender) = Some m'"
  by (auto simp: client_manager_broadcast_message_def split: option.splits prod.splits)

section \<open>Adding a client\<close>

definition new_session :: "client_session \<Rightarrow> nat \<Rightarrow> int \<Rightarrow> sockaddr_in \<Rightarrow> client_session" where
  "new_session s i fd a =
     (client_session_initialize s fd a)\<lparr>session_client_id := int i, security_validated := False\<rparr>"

lemma new_session_ok:
  assumes "session_ok s" and "0 \<le> fd"
  shows "session_ok (new_session s i fd a)"
proof -
  have "length (nickname s) = MAX_NICKNAME_LEN" using assms(1) by (simp add: session_ok_def buf_ok_def)
  from session_initialize_ok [OF this assms(2), of a] show ?thesis
    by (simp add: new_session_def session_ok_def)
qed

lemma new_session_fields [simp]:
  "active (new_session s i fd a)" "session_client_id (new_session s i fd a) = int i"
  "socket_fd (new_session s i fd a) = fd" "session_state (new_session s i fd a) = CLIENT_STATE_CONNECTED"
  by (simp_all add: new_session_def client_session_initialize_def)

lemma default_session_key_length [simp]: "length default_session_key = 32"
  by (simp add: default_session_key_def)

text \<open>The context of a client that was added: its key is set, its counters are 0, its level is not
  below the configured minimum.\<close>

definition fresh_context :: "security_manager \<Rightarrow> nat \<Rightarrow> bool" where
  "fresh_context sec i \<longleftrightarrow>
     (\<exists>c ec. contexts sec ! i = Some c \<and> enc_ctx c = Some ec \<and>
        session_key ec = default_session_key \<and> key_rotation_counter ec = 0 \<and>
        sequence_number ec = 0 \<and> current_level c = max SECURITY_LEVEL_HIGH (min_security_level sec))"

lemma set_enc_ctx_min [simp]:
  "min_security_level (set_enc_ctx m i ec) = min_security_level m"
  "length (contexts (set_enc_ctx m i ec)) = length (contexts m)"
  by (simp_all add: set_enc_ctx_def)

lemma init_key_ctx:
  assumes inv: "sm_inv sec" and i: "i < MAX_CLIENTS" and c: "contexts sec ! i = Some c"
    and ec: "enc_ctx c = Some ec" and lvl: "current_level c = max SECURITY_LEVEL_HIGH (min_security_level sec)"
    and r: "server_init_encryption_context (Some ec) (Some default_session_key) = (r, ec')"
  shows "r = 0" and "sm_inv (set_enc_ctx sec i ec')" and "fresh_context (set_enc_ctx sec i ec') i"
proof -
  from r have r0: "r = 0" and ec': "ec' = Some (ec\<lparr>session_key := default_session_key,
      message_key := default_session_key, key_rotation_counter := 0, sequence_number := 0\<rparr>)"
    by (auto simp: server_init_encryption_context_def)
  show "r = 0" by (rule r0)
  show "sm_inv (set_enc_ctx sec i ec')" unfolding ec' by (rule set_enc_ctx_inv [OF inv i c]) simp
  show "fresh_context (set_enc_ctx sec i ec') i"
    using sm_invD(1) [OF inv] i c lvl by (simp add: fresh_context_def set_enc_ctx_def ec')
qed

lemma add_new_client_cases [consumes 3]:
  assumes sec: "sm_inv sec"
    and add: "client_manager_add_new_client e w (Some sec) (Some m) fd a = (r, w', sm', mp')"
    and len: "length (clients m) = MAX_CLIENTS"
  obtains (full) "find_index (\<lambda>s. \<not> active s) (clients m) = None"
      "r = -1" "w' = w" "sm' = Some sec" "mp' = Some m"
  | (added) i sec' where "find_index (\<lambda>s. \<not> active s) (clients m) = Some i" "i < MAX_CLIENTS"
      "r = int i" "w' = w" "sm' = Some sec'" "sm_inv sec'" "fresh_context sec' i"
      "mp' = Some (m\<lparr>clients := (clients m)[i := new_session (clients m ! i) i fd a],
                     cm_client_count := cm_client_count m + 1\<rparr>)"
  | (refused) i sec' where "find_index (\<lambda>s. \<not> active s) (clients m) = Some i" "i < MAX_CLIENTS"
      "r = -1" "w' = (if 0 \<le> fd then sys_close w fd else w)"
      "sm' = Some sec'" "sm_inv sec'" "contexts sec' ! i = None"
      "mp' = Some (m\<lparr>clients := (clients m)[i := closed_session (new_session (clients m ! i) i fd a)]\<rparr>)"
proof (cases "find_index (\<lambda>s. \<not> active s) (clients m)")
  case None
  with add show ?thesis by (intro full) (simp_all add: client_manager_add_new_client_def)
next
  case (Some i)
  then have i: "i < MAX_CLIENTS" using find_index_less len by metis
  have cid: "valid_client_id (int i)" using i by (simp add: valid_client_id_def)
  let ?s = "new_session (clients m ! i) i fd a"
  let ?lvl = "max SECURITY_LEVEL_HIGH (min_security_level sec)"
  obtain r1 sm1 where add_sec:
    "security_manager_add_client e (Some sec) (int i) SECURITY_LEVEL_HIGH = (r1, sm1)" by fastforce
  note A = add_sec [unfolded add_client_Some [OF sec cid]]
  have slen: "i < length (contexts sec)" using sm_invD(1) [OF sec] i by simp
  note E = add [unfolded client_manager_add_new_client_def, simplified, unfolded Some, simplified,
      folded new_session_def, unfolded add_sec session_cleanup_pair, simplified]
  show ?thesis
  proof (cases "server_security_context_create e ?lvl")
    case None
    let ?sec = "sec\<lparr>contexts := (contexts sec)[i := None]\<rparr>"
    have sm1: "r1 = -1" "sm1 = Some ?sec" using A None by simp_all
    have "sm_inv ?sec" using sm_inv_update [OF sec, of None "num_contexts sec" i] by simp
    then show ?thesis
      using E sm1 slen by (intro refused [OF Some i, of ?sec]) (auto simp: Let_def split: if_splits)
  next
    case c: (Some c)
    let ?sec = "sec\<lparr>contexts := (contexts sec)[i := Some c], num_contexts := num_contexts sec + 1\<rparr>"
    have sm1: "r1 = 0" "sm1 = Some ?sec" using A c by simp_all
    have sinv: "sm_inv ?sec" using sm_add_client_inv [OF sec] add_sec sm1 by blast
    have cs: "contexts ?sec ! i = Some c" using slen by simp
    note cc = context_create_Some [OF c]
    obtain rr ec' where init:
      "server_init_encryption_context (Some zero_encryption_context) (Some default_session_key) = (rr, ec')"
      by fastforce
    note I = init_key_ctx [OF sinv i cs conjunct2 [OF cc] _ init]
    show ?thesis
      by (rule added [OF Some i, of "set_enc_ctx ?sec i ec'"])
        (use E sm1 cs cc init I slen in \<open>auto simp: Let_def\<close>)
  qed
qed

lemma add_new_client_refused_iff:
  assumes sec: "sm_inv sec" and len: "length (clients m) = MAX_CLIENTS"
    and slot: "find_index (\<lambda>s. \<not> active s) (clients m) = Some i"
    and add: "client_manager_add_new_client e w (Some sec) (Some m) fd a = (r, w', sm', mp')"
  shows "r = -1 \<longleftrightarrow> server_security_context_create e (max SECURITY_LEVEL_HIGH (min_security_level sec)) = None"
proof -
  have i: "i < MAX_CLIENTS" using find_index_less [OF slot] len by simp
  then have cid: "valid_client_id (int i)" by (simp add: valid_client_id_def)
  have slen: "i < length (contexts sec)" using i sm_invD(1) [OF sec] by simp
  show ?thesis
  proof (cases "server_security_context_create e (max SECURITY_LEVEL_HIGH (min_security_level sec))")
    case None
    with add add_client_Some [OF sec cid, of e SECURITY_LEVEL_HIGH] show ?thesis
      by (simp add: client_manager_add_new_client_def slot Let_def split: prod.splits)
  next
    case (Some c)
    with add add_client_Some [OF sec cid, of e SECURITY_LEVEL_HIGH] slen context_create_Some [OF Some]
    show ?thesis
      by (auto simp: client_manager_add_new_client_def slot Let_def server_init_encryption_context_def
          split: prod.splits)
  qed
qed

lemma context_create_alloc:
  "\<forall>n. libc_alloc e n \<Longrightarrow> server_security_context_create e lvl \<noteq> None"
  by (simp add: server_security_context_create_def)

lemma add_new_client_inv [preserves]:
  assumes m: "cm_inv m" and sec: "sm_inv sec" and fd: "0 \<le> fd"
    and add: "client_manager_add_new_client e w (Some sec) (Some m) fd a = (r, w', Some sec', Some m')"
  shows "cm_inv m'" and "sm_inv sec'"
proof -
  from sec add cm_invD(1) [OF m] have "cm_inv m' \<and> sm_inv sec'"
  proof (cases rule: add_new_client_cases)
    case full
    with m sec show ?thesis by simp
  next
    case (added i sec1)
    then have "\<not> active (clients m ! i)" using find_index_sat by fast
    with cm_inv_update [OF m added(2) new_session_ok [OF cm_invD(2) [OF m added(2)] fd], of i a
        "cm_client_count m + 1"] added
    show ?thesis by simp
  next
    case (refused i sec1)
    then have "\<not> active (clients m ! i)" using find_index_sat by fast
    with cm_inv_update [OF m refused(2) closed_session_props(1), of
        "new_session (clients m ! i) i fd a" "cm_client_count m"] refused
    show ?thesis by simp
  qed
  then show "cm_inv m'" and "sm_inv sec'" by simp_all
qed

section \<open>Removing a client\<close>

lemma remove_client_spec:
  assumes len: "length (clients m) = MAX_CLIENTS" and cid: "valid_client_id cid"
    and act: "active (clients m ! nat cid)" and fd: "0 \<le> socket_fd (clients m ! nat cid)"
    and rem: "client_manager_remove_client w sm (Some m) cid = (w', sm', mp')"
  obtains m1 msg where
    "m1 = m\<lparr>clients := (clients m)[nat cid := closed_session (clients m ! nat cid)],
             cm_client_count := cm_client_count m - 1\<rparr>"
    and "msg = snprintf_str BUFFER_SIZE
           (''*** '' @ cstr (nickname (clients m ! nat cid)) @ '' left the chat ***'' @ [LF])"
    and "client_manager_broadcast_message (sys_close w (socket_fd (clients m ! nat cid)))
           (Some m1) (Some msg) cid = (w', mp')"
    and "sm' = security_manager_remove_client sm cid"
proof -
  have "\<not> (cid < 0 \<or> int MAX_CLIENTS \<le> cid)" using cid by (simp add: valid_client_id_def)
  with rem act fd show ?thesis
    by (intro that [OF refl refl])
      (auto simp: client_manager_remove_client_def session_cleanup_pair Let_def split: prod.splits)
qed

lemma remove_client_noop:
  "\<not> valid_client_id cid \<or> \<not> active (clients m ! nat cid) \<Longrightarrow>
     client_manager_remove_client w sm (Some m) cid = (w, sm, Some m)"
  by (auto simp: client_manager_remove_client_def valid_client_id_def)

lemma remove_client_inv [preserves]:
  assumes m: "cm_inv m" and rem: "client_manager_remove_client w sm (Some m) cid = (w', sm', mp')"
  shows "\<exists>m'. mp' = Some m' \<and> cm_inv m' \<and> (valid_client_id cid \<longrightarrow> \<not> active (clients m' ! nat cid))"
proof (cases "valid_client_id cid \<and> active (clients m ! nat cid)")
  case False
  with remove_client_noop [of cid m w sm] rem m show ?thesis by auto
next
  case True
  note i = conjunct1 [OF valid_client_id_nat [OF conjunct1 [OF True]]]
  note len = cm_invD(1) [OF m]
  have fd: "0 \<le> socket_fd (clients m ! nat cid)"
    using session_okD(3) [OF cm_invD(2) [OF m i]] True by simp
  obtain m1 msg where m1: "m1 = m\<lparr>clients := (clients m)[nat cid := closed_session (clients m ! nat cid)],
      cm_client_count := cm_client_count m - 1\<rparr>"
    and b: "client_manager_broadcast_message (sys_close w (socket_fd (clients m ! nat cid)))
      (Some m1) (Some msg) cid = (w', mp')"
    by (rule remove_client_spec [OF len conjunct1 [OF True] conjunct2 [OF True] fd rem])
  have inv1: "cm_inv m1"
    unfolding m1 by (rule cm_inv_update [OF m i]) (use True in simp_all)
  obtain m' where mp': "mp' = Some m'"
    and slot: "\<And>j. j < length (clients m1) \<Longrightarrow>
      slot_kept_or_dropped cid j (clients m1 ! j) (clients m' ! j)"
    by (rule broadcast_message_spec [OF b]) blast
  have "\<not> active (clients m' ! nat cid)"
    using slot [of "nat cid"] i len by (auto simp: m1 slot_kept_or_dropped_def)
  with broadcast_inv [OF inv1, of _ msg cid w' m'] b mp' show ?thesis by auto
qed

end
