(* ===== verification/RoomMessaging.thy ===== *)
theory RoomMessaging
  imports RoomDirectory ClientManager
begin

text \<open>
  The two functions of \<^verbatim>\<open>server/src/room_manager.c\<close> that connect the room table with the client
  table: \<^verbatim>\<open>room_manager_broadcast_to_room\<close> and \<^verbatim>\<open>room_manager_get_room_users\<close>. They hold
  \<^verbatim>\<open>global_mutex\<close> and read the client table without its mutex; as steps they are atomic. The client
  manager is the global pointer \<^verbatim>\<open>g_client_manager\<close>. Neither function changes a table.
\<close>

section \<open>The code\<close>

definition slot_session :: "client_manager ptr \<Rightarrow> int \<Rightarrow> client_session ptr" where
  "slot_session cm cid =
     (case cm of
        None \<Rightarrow> None
      | Some m \<Rightarrow>
          (case client_manager_get_session cm cid of
             None \<Rightarrow> None
           | Some i \<Rightarrow> if active (clients m ! i) then Some (clients m ! i) else None))"

fun room_send_loop ::
  "world \<Rightarrow> client_manager ptr \<Rightarrow> string \<Rightarrow> int \<Rightarrow> int list \<Rightarrow> world \<times> int" where
  "room_send_loop w cm msg sender [] = (w, 0)"
| "room_send_loop w cm msg sender (cid # cids) =
     (if cid \<noteq> -1 \<and> cid \<noteq> sender
      then (case slot_session cm cid of
              None \<Rightarrow> room_send_loop w cm msg sender cids
            | Some s \<Rightarrow>
                (let (r, w1) = sys_send w (socket_fd s) (bytes_of (cstr msg));
                     (w2, k) = room_send_loop w1 cm msg sender cids
                 in (w2, if 0 \<le> r then k + 1 else k)))
      else room_send_loop w cm msg sender cids)"

definition room_manager_broadcast_to_room ::
  "world \<Rightarrow> client_manager ptr \<Rightarrow> room_manager ptr \<Rightarrow> string ptr \<Rightarrow> string ptr \<Rightarrow> int \<Rightarrow>
     int \<times> world" where
  "room_manager_broadcast_to_room w cm rm idp msgp sender =
     (case (rm, idp, msgp) of
        (Some m, Some rid, Some msg) \<Rightarrow>
          (case room_manager_find_room rm idp of
             None \<Rightarrow> (-1, w)
           | Some i \<Rightarrow>
               (let (w', sent_count) = room_send_loop w cm msg sender (client_ids (rooms m ! i))
                in (sent_count, w')))
      | _ \<Rightarrow> (-1, w))"

definition user_info_line :: "client_session \<Rightarrow> string" where
  "user_info_line s = snprintf_str 64 (''- '' @ cstr (nickname s) @ [LF])"

fun room_users_loop :: "nat \<Rightarrow> client_manager ptr \<Rightarrow> int list \<Rightarrow> string \<Rightarrow> string" where
  "room_users_loop n cm [] buf = buf"
| "room_users_loop n cm (cid # cids) buf =
     room_users_loop n cm cids
       (if cid \<noteq> -1
        then (case slot_session cm cid of
                None \<Rightarrow> buf
              | Some s \<Rightarrow> strncat buf (user_info_line s) (size_sub (size_sub n (length buf)) 1))
        else buf)"

definition room_manager_get_room_users ::
  "client_manager ptr \<Rightarrow> room_manager ptr \<Rightarrow> string ptr \<Rightarrow> string ptr \<Rightarrow> nat \<Rightarrow> string ptr" where
  "room_manager_get_room_users cm rm idp bufp n =
     (case (rm, idp, bufp) of
        (Some m, Some rid, Some _) \<Rightarrow>
          if n = 0 then bufp
          else (case room_manager_find_room rm idp of
                  None \<Rightarrow> Some (snprintf_str n (''Room not found'' @ [LF]))
                | Some i \<Rightarrow>
                    (let r = rooms m ! i;
                         b0 = snprintf_str n
                           (''=== Users in Room '' @ cstr (room_name r) @ '' ==='' @ [LF]);
                         b1 = room_users_loop n cm (client_ids r) b0
                     in Some (strncat b1 (''======================'' @ [LF])
                                (size_sub (size_sub n (length b1)) 1))))
      | _ \<Rightarrow> bufp)"

section \<open>Who receives a room message\<close>

lemma slot_session_iff:
  assumes "length (clients m) = MAX_CLIENTS"
  shows "slot_session (Some m) cid = Some s \<longleftrightarrow>
    valid_client_id cid \<and> s = clients m ! nat cid \<and> active s"
  by (auto simp: slot_session_def client_manager_get_session_def valid_client_id_def
      split: if_splits)

definition room_audience :: "client_manager ptr \<Rightarrow> int \<Rightarrow> int list \<Rightarrow> client_session list" where
  "room_audience cm sender cids =
     List.map_filter (slot_session cm) (filter (\<lambda>c. c \<noteq> -1 \<and> c \<noteq> sender) cids)"

lemma room_audience_simps [simp]:
  "room_audience cm sender [] = []"
  "room_audience cm sender (c # cs) =
     (if c \<noteq> -1 \<and> c \<noteq> sender
      then (case slot_session cm c of None \<Rightarrow> [] | Some s \<Rightarrow> [s]) @ room_audience cm sender cs
      else room_audience cm sender cs)"
  by (auto simp: room_audience_def List.map_filter_simps split: option.splits)

lemma room_send_loop_spec:
  "room_send_loop w cm msg sender cids = (w', k) \<Longrightarrow>
     extends w w' \<and>
     deliveries (emitted w w') =
       map (\<lambda>s. (socket_fd s, bytes_of (cstr msg))) (room_audience cm sender cids) \<and>
     0 \<le> k \<and> k \<le> int (length (room_audience cm sender cids))"
proof (induction cids arbitrary: w w' k)
  case Nil
  then show ?case by simp
next
  case (Cons c cs)
  let ?d = "bytes_of (cstr msg)"
  show ?case
  proof (cases "c \<noteq> -1 \<and> c \<noteq> sender \<and> slot_session cm c \<noteq> None")
    case False
    with Cons.prems have "room_send_loop w cm msg sender cs = (w', k)"
      by (auto split: if_splits)
    from Cons.IH [OF this] False show ?thesis by auto
  next
    case True
    then obtain s where s: "slot_session cm c = Some s" by auto
    obtain r w1 where snd: "sys_send w (socket_fd s) ?d = (r, w1)" by fastforce
    have w1: "extends w w1" "emitted w w1 = [Sent (socket_fd s) ?d r]"
      using extends_send [of w "socket_fd s" ?d] emitted_send [of w "socket_fd s" ?d] snd by simp_all
    from Cons.prems True s snd obtain k1 where
      l: "room_send_loop w1 cm msg sender cs = (w', k1)" and k: "k = (if 0 \<le> r then k1 + 1 else k1)"
      by (auto split: prod.splits if_splits)
    note IH = Cons.IH [OF l]
    have "emitted w w' = emitted w w1 @ emitted w1 w'" using emitted_trans [OF w1(1)] IH by blast
    moreover have "extends w w'" using extends_trans [OF w1(1)] IH by blast
    ultimately show ?thesis using IH True s k w1(2) by auto
  qed
qed

text \<open>The members of the room in the room table that are connected, without the sender.\<close>

definition room_recipients ::
  "client_manager \<Rightarrow> room_manager \<Rightarrow> string \<Rightarrow> int \<Rightarrow> client_session set" where
  "room_recipients cm rm rid sender =
     (case room_dir rm (cstr rid) of
        None \<Rightarrow> {}
      | Some ms \<Rightarrow> {s. \<exists>c \<in> ms. c \<noteq> sender \<and> slot_session (Some cm) c = Some s})"

lemma room_audience_set:
  "set (room_audience cm sender (client_ids r)) =
     {s. \<exists>c \<in> room_members r. c \<noteq> sender \<and> slot_session cm c = Some s}"
proof -
  have "set (room_audience cm sender cids) =
      {s. \<exists>c \<in> set (filter member_slot cids). c \<noteq> sender \<and> slot_session cm c = Some s}" for cids
    by (induction cids) (auto split: option.splits)
  then show ?thesis by (simp add: room_members_def)
qed

lemma room_dir_lookup:
  "room_dir m (cstr rid) =
     map_option (\<lambda>i. room_members (rooms m ! i)) (room_manager_find_room (Some m) (Some rid))"
  unfolding room_dir_def room_manager_find_room_def
  using map_of_filter_find_index [of "\<lambda>r. cstr (room_id r)" room_members is_active "rooms m" "cstr rid"]
  by simp

lemma broadcast_to_room_spec:
  assumes "room_manager_broadcast_to_room w (Some cm) (Some rm) (Some rid) (Some msg) sender = (k, w')"
  shows "extends w w'"
    and "set (deliveries (emitted w w')) =
      (\<lambda>s. (socket_fd s, bytes_of (cstr msg))) ` room_recipients cm rm rid sender"
    and "k = -1 \<longleftrightarrow> room_dir rm (cstr rid) = None"
proof -
  have "extends w w' \<and> set (deliveries (emitted w w')) =
      (\<lambda>s. (socket_fd s, bytes_of (cstr msg))) ` room_recipients cm rm rid sender \<and>
      (k = -1 \<longleftrightarrow> room_dir rm (cstr rid) = None)"
  proof (cases "room_manager_find_room (Some rm) (Some rid)")
    case None
    with assms show ?thesis
      by (simp add: room_manager_broadcast_to_room_def room_recipients_def room_dir_lookup)
  next
    case (Some i)
    let ?cids = "client_ids (rooms rm ! i)"
    obtain w1 k1 where l: "room_send_loop w (Some cm) msg sender ?cids = (w1, k1)" by fastforce
    with assms Some have "w' = w1" "k = k1" by (simp_all add: room_manager_broadcast_to_room_def)
    with room_send_loop_spec [OF l] Some show ?thesis
      by (auto simp: room_recipients_def room_dir_lookup room_audience_set)
  qed
  then show "extends w w'"
    and "set (deliveries (emitted w w')) =
      (\<lambda>s. (socket_fd s, bytes_of (cstr msg))) ` room_recipients cm rm rid sender"
    and "k = -1 \<longleftrightarrow> room_dir rm (cstr rid) = None" by simp_all
qed

text \<open>A failed \<^verbatim>\<open>send()\<close> to a room member has no effect on the client table, and a member slot is
  sent to at most once.\<close>

lemma room_audience_length:
  assumes "room_wf r"
  shows "length (room_audience cm sender (client_ids r)) \<le> card (room_members r - {sender})"
proof -
  have "length (room_audience cm sender cids) \<le>
      length (filter (\<lambda>c. c \<noteq> -1 \<and> c \<noteq> sender) cids)" for cids
    by (induction cids) (auto split: option.splits)
  moreover have "distinct (filter (\<lambda>c. c \<noteq> -1 \<and> c \<noteq> sender) (client_ids r))"
    using distinct_filter [OF room_wfD(2) [OF assms], of "\<lambda>c. c \<noteq> sender"]
    by (simp add: conj_commute)
  then have "length (filter (\<lambda>c. c \<noteq> -1 \<and> c \<noteq> sender) (client_ids r)) =
      card (set (filter (\<lambda>c. c \<noteq> -1 \<and> c \<noteq> sender) (client_ids r)))"
    by (rule distinct_card [symmetric])
  moreover have "set (filter (\<lambda>c. c \<noteq> -1 \<and> c \<noteq> sender) (client_ids r)) = room_members r - {sender}"
    by (auto simp: room_members_def)
  ultimately show ?thesis by metis
qed

section \<open>The user list of a room\<close>

lemma user_info_line_exact:
  assumes "session_ok s"
  shows "user_info_line s = ''- '' @ cstr (nickname s) @ [LF]"
    and "length (user_info_line s) \<le> 34"
proof -
  have len: "length (cstr (nickname s)) \<le> 31"
    using strlen_less [OF session_okD(1) [OF assms]] by (simp add: strlen_def limits)
  then show eq: "user_info_line s = ''- '' @ cstr (nickname s) @ [LF]"
    unfolding user_info_line_def by (intro snprintf_str_fits) auto
  show "length (user_info_line s) \<le> 34" unfolding eq using len by simp
qed

definition listed_users :: "client_manager ptr \<Rightarrow> int list \<Rightarrow> client_session list" where
  "listed_users cm cids = room_audience cm (-1) cids"

lemma room_users_loop_exact:
  assumes "\<forall>s \<in> set (listed_users cm cids). session_ok s"
    and "length buf + 34 * length (listed_users cm cids) < n"
  shows "room_users_loop n cm cids buf = buf @ concat (map user_info_line (listed_users cm cids))"
  using assms
proof (induction cids arbitrary: buf)
  case Nil
  then show ?case by (simp add: listed_users_def)
next
  case (Cons c cs)
  show ?case
  proof (cases "c \<noteq> -1 \<and> slot_session cm c \<noteq> None")
    case False
    then have "listed_users cm (c # cs) = listed_users cm cs"
      by (auto simp: listed_users_def)
    with Cons False show ?thesis by auto
  next
    case True
    then obtain s where s: "slot_session cm c = Some s" by auto
    then have eq: "listed_users cm (c # cs) = s # listed_users cm cs"
      using True by (simp add: listed_users_def)
    have line: "length (user_info_line s) \<le> 34" using Cons.prems(1) eq user_info_line_exact(2) by simp
    have "strncat buf (user_info_line s) (size_sub (size_sub n (length buf)) 1) =
        buf @ user_info_line s"
      using line Cons.prems(2) eq by (intro strncat_fits) (auto simp: user_info_line_def)
    moreover have "length (buf @ user_info_line s) + 34 * length (listed_users cm cs) < n"
      using Cons.prems(2) eq line by simp
    ultimately show ?thesis using Cons.IH Cons.prems(1) s True eq by simp
  qed
qed

lemma room_users_exact:
  assumes cm: "cm_inv cm" and rm: "rm_inv rm"
    and find: "room_manager_find_room (Some rm) (Some rid) = Some i"
  shows "room_manager_get_room_users (Some cm) (Some rm) (Some rid) (Some b) BUFFER_SIZE =
    Some (''=== Users in Room '' @ cstr (room_name (rooms rm ! i)) @ '' ==='' @ [LF] @
      concat (map (\<lambda>s. ''- '' @ cstr (nickname s) @ [LF])
        (listed_users (Some cm) (client_ids (rooms rm ! i)))) @
      ''======================'' @ [LF])"
proof -
  let ?r = "rooms rm ! i" and ?u = "listed_users (Some cm) (client_ids (rooms rm ! i))"
  let ?h = "''=== Users in Room '' @ cstr (room_name ?r) @ '' ==='' @ [LF]"
  have i: "i < length (rooms rm)" using find by (auto simp: room_manager_find_room_def)
  then have wf: "room_wf ?r" using rm by (simp add: rm_inv_def room_ok_def)
  have nm: "length (cstr (room_name ?r)) \<le> 63"
    using strlen_less [OF room_wfD(6) [OF wf]] by (auto simp: strlen_def limits)
  have ok: "\<forall>s \<in> set ?u. session_ok s"
    using cm valid_client_id_nat
    by (auto simp: listed_users_def room_audience_set slot_session_iff [OF cm_invD(1) [OF cm]]
        intro: cm_invD(2))
  have "card (room_members ?r - {-1}) \<le> card (room_members ?r)" by (simp add: card_mono)
  moreover have "int (card (room_members ?r)) \<le> int MAX_CLIENTS_PER_ROOM"
    using room_count_card [OF wf] room_count_bounds [OF wf] by simp
  ultimately have u: "length ?u \<le> 20"
    using room_audience_length [OF wf, of "Some cm" "-1"] by (simp add: listed_users_def limits)
  have h: "snprintf_str BUFFER_SIZE ?h = ?h" using nm by (intro snprintf_str_fits) (auto simp: limits)
  have loop: "room_users_loop BUFFER_SIZE (Some cm) (client_ids ?r) ?h = ?h @ concat (map user_info_line ?u)"
    using ok nm u by (intro room_users_loop_exact) (auto simp: limits)
  have lines: "map user_info_line ?u = map (\<lambda>s. ''- '' @ cstr (nickname s) @ [LF]) ?u"
    using ok user_info_line_exact(1) by (intro map_cong) auto
  have "length (concat (map user_info_line ?u)) \<le> 34 * length ?u"
    using length_concat_bound [of "map user_info_line ?u" 34] ok user_info_line_exact(2) by auto
  then have fits: "length (?h @ concat (map user_info_line ?u)) + 23 < BUFFER_SIZE"
    using nm u by (simp add: limits)
  have trailer: "strncat (?h @ concat (map user_info_line ?u)) (''======================'' @ [LF])
      (size_sub (size_sub BUFFER_SIZE (length (?h @ concat (map user_info_line ?u)))) 1) =
      (?h @ concat (map user_info_line ?u)) @ ''======================'' @ [LF]"
    by (rule strncat_fits) (use fits in auto)
  have code: "room_manager_get_room_users (Some cm) (Some rm) (Some rid) (Some b) n =
      Some (strncat (room_users_loop n (Some cm) (client_ids ?r) (snprintf_str n ?h))
        (''======================'' @ [LF])
        (size_sub (size_sub n (length (room_users_loop n (Some cm) (client_ids ?r) (snprintf_str n ?h)))) 1))"
    if "n \<noteq> 0" for n
    using find that by (simp add: room_manager_get_room_users_def Let_def)
  have nz: "BUFFER_SIZE \<noteq> 0" by (simp add: limits)
  have "room_manager_get_room_users (Some cm) (Some rm) (Some rid) (Some b) BUFFER_SIZE =
      Some ((?h @ concat (map user_info_line ?u)) @ ''======================'' @ [LF])"
    unfolding code [OF nz] h loop trailer ..
  then show ?thesis unfolding lines [symmetric] by (simp only: append_assoc)
qed

end
