(* ===== verification/ChatProtocol.thy ===== *)
theory ChatProtocol
  imports RoomMessaging
begin

text \<open>
  The chat protocol of the server, \<^verbatim>\<open>server/src/chat_protocol.c\<close>, on the whole state of the server:
  the three global managers and the system. The \<open>manager\<close> argument of the C functions is always
  the server's one client manager (\<^verbatim>\<open>&server->client_manager\<close>, which \<^verbatim>\<open>g_client_manager\<close> points to), so
  it is read from the state. A session pointer is a slot index. A handler answers with its return
  value and the new state; handlers that can write behind an array (\<^verbatim>\<open>strcat\<close> in
  \<^verbatim>\<open>client_manager_broadcast_user_list\<close>) answer with an option, \<open>None\<close> being undefined behaviour.
\<close>

record server_state =
  g_room_manager :: "room_manager ptr"
  g_client_manager :: "client_manager ptr"
  g_security_manager :: "security_manager ptr"
  net :: world

definition session_at :: "server_state \<Rightarrow> nat \<Rightarrow> client_session" where
  "session_at st i = clients (the (g_client_manager st)) ! i"

definition set_session :: "server_state \<Rightarrow> nat \<Rightarrow> client_session \<Rightarrow> server_state" where
  "set_session st i s =
     st\<lparr>g_client_manager := map_option (\<lambda>m. m\<lparr>clients := (clients m)[i := s]\<rparr>) (g_client_manager st)\<rparr>"

section \<open>Sending and broadcasting\<close>

definition chat_protocol_send_message_to_client ::
  "server_state \<Rightarrow> nat ptr \<Rightarrow> string ptr \<Rightarrow> int \<times> server_state" where
  "chat_protocol_send_message_to_client st ip msgp =
     (case (ip, msgp) of
        (Some i, Some msg) \<Rightarrow>
          (let (r, w) = sys_send (net st) (socket_fd (session_at st i)) (bytes_of (cstr msg))
           in (if r < 0 then -1 else 0, st\<lparr>net := w\<rparr>))
      | _ \<Rightarrow> (-1, st))"

text \<open>The answer to the client, where the handler ignores whether it was sent.\<close>

definition reply :: "server_state \<Rightarrow> nat \<Rightarrow> string \<Rightarrow> server_state" where
  "reply st i msg = snd (chat_protocol_send_message_to_client st (Some i) (Some msg))"

definition to_room :: "server_state \<Rightarrow> char list \<Rightarrow> string \<Rightarrow> int \<Rightarrow> server_state" where
  "to_room st rid msg sender =
     st\<lparr>net := snd (room_manager_broadcast_to_room (net st) (g_client_manager st) (g_room_manager st)
                     (Some rid) (Some msg) sender)\<rparr>"

definition to_all :: "server_state \<Rightarrow> string \<Rightarrow> int \<Rightarrow> server_state" where
  "to_all st msg sender =
     (let (w, cm) = client_manager_broadcast_message (net st) (g_client_manager st) (Some msg) sender
      in st\<lparr>net := w, g_client_manager := cm\<rparr>)"

definition in_room :: "client_session \<Rightarrow> bool" where
  "in_room s \<longleftrightarrow> session_state s = CLIENT_STATE_IN_ROOM \<and> strlen (current_room_id s) > 0"

definition enter_room :: "client_session \<Rightarrow> char list \<Rightarrow> client_session" where
  "enter_room s rid =
     s\<lparr>current_room_id := (strncpy (current_room_id s) rid ROOM_ID_LENGTH)[ROOM_ID_LENGTH := NUL],
       session_state := CLIENT_STATE_IN_ROOM\<rparr>"

definition leave_current :: "server_state \<Rightarrow> nat \<Rightarrow> int \<Rightarrow> server_state" where
  "leave_current st i cid =
     (if in_room (session_at st i)
      then st\<lparr>g_room_manager := snd (room_manager_leave_room (g_room_manager st)
                                  (Some (current_room_id (session_at st i))) cid)\<rparr>
      else st)"

section \<open>The texts\<close>

definition help_msg :: string where
  "help_msg =
     ''Available commands:'' @ [LF] @
     ''  /create <name>        - Create a new room'' @ [LF] @
     ''  /join <room_id>       - Join an existing room'' @ [LF] @
     ''  /leave                - Leave current room'' @ [LF] @
     ''  /rooms                - List all rooms'' @ [LF] @
     ''  /users or /list       - Show users in current room'' @ [LF] @
     ''  /nick <nickname>      - Change your nickname'' @ [LF] @
     ''  /help                 - Show this help message'' @ [LF] @
     ''  /quit                 - Disconnect from chat'' @ [LF]"

definition welcome_msg :: string where
  "welcome_msg =
     ''=== Welcome to TCP Chat Server ==='' @ [LF] @
     ''You are now connected to the chat room.'' @ [LF] @
     ''Type /help for available commands.'' @ [LF] @
     ''Type your messages to chat with other users.'' @ [LF] @
     ''====================================='' @ [LF, LF] @
     ''=== Room Selection Required ==='' @ [LF] @
     ''Please choose an option:'' @ [LF] @
     ''  /create <room_name> - Create a new room'' @ [LF] @
     ''  /join <room_id>     - Join an existing room'' @ [LF] @
     ''  /rooms              - List available rooms'' @ [LF] @
     ''==============================='' @ [LF]"

definition not_in_room_msg :: string where
  "not_in_room_msg =
     ''You must join a room before sending messages. Use /create <name> or /join <room_id>'' @ [LF]"

section \<open>Handlers\<close>

definition chat_protocol_send_welcome_message :: "server_state \<Rightarrow> nat ptr \<Rightarrow> server_state" where
  "chat_protocol_send_welcome_message st ip =
     (case ip of None \<Rightarrow> st | Some i \<Rightarrow> reply st i welcome_msg)"

definition chat_protocol_announce_user_joined :: "server_state \<Rightarrow> nat ptr \<Rightarrow> server_state" where
  "chat_protocol_announce_user_joined st ip =
     (case ip of
        None \<Rightarrow> st
      | Some i \<Rightarrow>
          if g_client_manager st = None then st
          else set_session st i ((session_at st i)\<lparr>session_state := CLIENT_STATE_IN_LOBBY\<rparr>))"

definition chat_protocol_handle_create_room ::
  "libc \<Rightarrow> server_state \<Rightarrow> nat ptr \<Rightarrow> string ptr \<Rightarrow> int \<Rightarrow> int \<times> server_state" where
  "chat_protocol_handle_create_room e st ip namep cid =
     (case (ip, namep) of
        (Some i, Some name) \<Rightarrow>
          if g_client_manager st = None \<or> g_room_manager st = None then (-1, st)
          else if strlen name = 0 \<or> strlen name \<ge> MAX_ROOM_NAME
          then (0, reply st i (''Invalid room name. Must be 1-63 characters.'' @ [LF]))
          else
            (let st1 = leave_current st i cid;
                 (ridp, rm) = room_manager_create_room e (g_room_manager st1) (Some name) cid;
                 st2 = st1\<lparr>g_room_manager := rm\<rparr>
             in case ridp of
                  None \<Rightarrow> (0, reply st2 i (''Failed to create room. Server may be full.'' @ [LF]))
                | Some rid \<Rightarrow>
                    (let st3 = set_session st2 i (enter_room (session_at st2 i) rid)
                     in (0, reply st3 i (snprintf_str BUFFER_SIZE
                          (''Room created successfully!'' @ [LF] @
                           ''Room ID: '' @ cstr rid @ [LF] @
                           ''Room Name: '' @ cstr name @ [LF] @
                           ''You can now start chatting!'' @ [LF])))))
      | _ \<Rightarrow> (-1, st))"

definition join_success_msg :: "room_manager ptr \<Rightarrow> string \<Rightarrow> string" where
  "join_success_msg rm rid = snprintf_str BUFFER_SIZE
     (case room_manager_find_room rm (Some rid) of
        Some k \<Rightarrow> ''Joined room successfully!'' @ [LF] @
          ''Room: '' @ cstr (room_name (rooms (the rm) ! k)) @ '' (ID: '' @ cstr rid @ '')'' @ [LF] @
          ''You can now start chatting!'' @ [LF]
      | None \<Rightarrow> ''Joined room '' @ cstr rid @ '' successfully!'' @ [LF] @
          ''You can now start chatting!'' @ [LF])"

definition chat_protocol_handle_join_room ::
  "server_state \<Rightarrow> nat ptr \<Rightarrow> string ptr \<Rightarrow> int \<Rightarrow> int \<times> server_state" where
  "chat_protocol_handle_join_room st ip idp cid =
     (case (ip, idp) of
        (Some i, Some rid) \<Rightarrow>
          if g_client_manager st = None \<or> g_room_manager st = None then (-1, st)
          else if strlen rid \<noteq> ROOM_ID_LENGTH
          then (0, reply st i (''Invalid room ID format.'' @ [LF]))
          else
            (let st1 = leave_current st i cid;
                 (result, rm) = room_manager_join_room (g_room_manager st1) (Some rid) cid;
                 st2 = st1\<lparr>g_room_manager := rm\<rparr>
             in if result < 0
                then (0, reply st2 i (''Room not found or room is full.'' @ [LF]))
                else
                  (let st3 = set_session st2 i (enter_room (session_at st2 i) rid);
                       st4 = reply st3 i (join_success_msg (g_room_manager st3) rid)
                   in (0, to_room st4 rid (snprintf_str BUFFER_SIZE
                        (''*** '' @ cstr (nickname (session_at st4 i)) @
                         '' joined the room ***'' @ [LF])) cid)))
      | _ \<Rightarrow> (-1, st))"

definition chat_protocol_handle_leave_room ::
  "server_state \<Rightarrow> nat ptr \<Rightarrow> int \<Rightarrow> int \<times> server_state" where
  "chat_protocol_handle_leave_room st ip cid =
     (case ip of
        None \<Rightarrow> (-1, st)
      | Some i \<Rightarrow>
          if g_client_manager st = None \<or> g_room_manager st = None then (-1, st)
          else if \<not> in_room (session_at st i)
          then (0, reply st i (''You are not currently in a room.'' @ [LF]))
          else
            (let s = session_at st i;
                 st1 = to_room st (current_room_id s) (snprintf_str BUFFER_SIZE
                         (''*** '' @ cstr (nickname s) @ '' left the room ***'' @ [LF])) cid;
                 st2 = st1\<lparr>g_room_manager := snd (room_manager_leave_room (g_room_manager st1)
                                               (Some (current_room_id s)) cid)\<rparr>;
                 st3 = set_session st2 i
                         (s\<lparr>current_room_id := replicate (ROOM_ID_LENGTH + 1) NUL,
                            session_state := CLIENT_STATE_IN_LOBBY\<rparr>)
             in (0, reply st3 i (''Left room successfully.'' @ [LF] @
                  ''Use /create <name> or /join <room_id> to enter a new room.'' @ [LF]))))"

definition chat_protocol_handle_list_rooms :: "server_state \<Rightarrow> nat ptr \<Rightarrow> int \<times> server_state" where
  "chat_protocol_handle_list_rooms st ip =
     (case ip of
        None \<Rightarrow> (-1, st)
      | Some i \<Rightarrow>
          if g_room_manager st = None then (-1, st)
          else (0, reply st i
            (the (room_manager_list_rooms (g_room_manager st) (Some []) (BUFFER_SIZE * 2)))))"

definition chat_protocol_handle_list_users ::
  "server_state \<Rightarrow> nat ptr \<Rightarrow> int \<Rightarrow> int \<times> server_state" where
  "chat_protocol_handle_list_users st ip cid =
     (case ip of
        None \<Rightarrow> (-1, st)
      | Some i \<Rightarrow>
          if g_room_manager st = None then (-1, st)
          else if \<not> in_room (session_at st i)
          then (0, reply st i (''You must be in a room to see user list.'' @ [LF]))
          else (0, reply st i
            (the (room_manager_get_room_users (g_client_manager st) (g_room_manager st)
                    (Some (current_room_id (session_at st i))) (Some []) BUFFER_SIZE))))"

text \<open>\<^verbatim>\<open>old_nickname\<close> is not terminated when the old nickname has 31 characters: \<open>%s\<close> then reads the
  indeterminate bytes \<open>libc_stack\<close>.\<close>

definition old_nickname_str :: "libc \<Rightarrow> char list \<Rightarrow> string" where
  "old_nickname_str e nick = cstr (take (MAX_NICKNAME_LEN - 1)
     (cstr nick @ replicate (MAX_NICKNAME_LEN - 1) NUL) @ libc_stack e)"

definition chat_protocol_handle_nickname_change ::
  "libc \<Rightarrow> server_state \<Rightarrow> nat ptr \<Rightarrow> string ptr \<Rightarrow> (int \<times> server_state) option" where
  "chat_protocol_handle_nickname_change e st ip nickp =
     (case (ip, nickp) of
        (Some i, Some new) \<Rightarrow>
          if g_client_manager st = None then Some (-1, st)
          else
            (let clean_nickname = clean_line MAX_NICKNAME_LEN [LF, CR, CHR '' '', TAB] new
             in if length clean_nickname = 0
                then Some (0, reply st i (''Error: Nickname cannot be empty.'' @ [LF]))
                else if length clean_nickname \<ge> MAX_NICKNAME_LEN
                then Some (0, reply st i (''Error: Nickname too long.'' @ [LF]))
                else
                  (let old = old_nickname_str e (nickname (session_at st i));
                       s = client_session_set_nickname (session_at st i) (Some clean_nickname);
                       st1 = set_session st i s;
                       st2 = to_all st1 (snprintf_str BUFFER_SIZE
                         (''*** '' @ old @ '' is now known as '' @ cstr (nickname s) @ '' ***'' @ [LF])) (-1)
                   in case client_manager_broadcast_user_list (net st2) (g_client_manager st2) of
                        None \<Rightarrow> None
                      | Some (w, cm) \<Rightarrow> Some (0, st2\<lparr>net := w, g_client_manager := cm\<rparr>)))
      | _ \<Rightarrow> Some (-1, st))"

definition chat_protocol_handle_command ::
  "libc \<Rightarrow> server_state \<Rightarrow> nat ptr \<Rightarrow> string ptr \<Rightarrow> int \<Rightarrow> (int \<times> server_state) option" where
  "chat_protocol_handle_command e st ip cmdp cid =
     (case (ip, cmdp) of
        (Some i, Some cmd) \<Rightarrow>
          if g_client_manager st = None then Some (-1, st)
          else if strncmp_eq cmd ''/create '' 8
          then Some (chat_protocol_handle_create_room e st ip (Some (drop 8 cmd)) cid)
          else if strncmp_eq cmd ''/join '' 6
          then Some (chat_protocol_handle_join_room st ip (Some (drop 6 cmd)) cid)
          else if strncmp_eq cmd ''/leave'' 6
          then Some (chat_protocol_handle_leave_room st ip cid)
          else if strncmp_eq cmd ''/rooms'' 6
          then Some (chat_protocol_handle_list_rooms st ip)
          else if strncmp_eq cmd ''/nick '' 6
          then chat_protocol_handle_nickname_change e st ip (Some (drop 6 cmd))
          else if strncmp_eq cmd ''/users'' 6 \<or> strncmp_eq cmd ''/list'' 5
          then Some (chat_protocol_handle_list_users st ip cid)
          else if strncmp_eq cmd ''/help'' 5
          then Some (0, reply st i help_msg)
          else if strncmp_eq cmd ''/quit'' 5
          then Some (-1, st)
          else if strncmp_eq cmd ''/keyexchange:'' 13
          then (let relay_msg = snprintf_str BUFFER_SIZE cmd
                in Some (0, if in_room (session_at st i)
                            then to_room st (current_room_id (session_at st i)) relay_msg cid
                            else to_all st relay_msg cid))
          else if strncmp_eq cmd ''/e2emsg:'' 8
          then (let relay_msg = snprintf_str BUFFER_SIZE cmd
                in Some (0, if in_room (session_at st i)
                            then to_room st (current_room_id (session_at st i)) relay_msg cid
                            else reply st i
                              (''You must be in a room to send E2E messages.'' @ [LF])))
          else Some (0, reply st i (''Unknown command. Type /help for available commands.'' @ [LF]))
      | _ \<Rightarrow> Some (-1, st))"

definition chat_protocol_handle_message ::
  "libc \<Rightarrow> server_state \<Rightarrow> nat ptr \<Rightarrow> string ptr \<Rightarrow> int \<Rightarrow> (int \<times> server_state) option" where
  "chat_protocol_handle_message e st ip msgp cid =
     (case (ip, msgp) of
        (Some i, Some msg) \<Rightarrow>
          if g_client_manager st = None then Some (-1, st)
          else
            (let clean_message = clean_line BUFFER_SIZE [LF, CR] msg;
                 s = session_at st i
             in if length clean_message = 0 then Some (0, st)
                else if clean_message ! 0 = CHR ''/''
                then chat_protocol_handle_command e st ip (Some clean_message) cid
                else if \<not> in_room s
                then Some (0, reply st i not_in_room_msg)
                else Some (0, to_room st (current_room_id s)
                  (snprintf_str (BUFFER_SIZE + MAX_NICKNAME_LEN + 10)
                     (cstr (nickname s) @ '': '' @ clean_message @ [LF])) cid))
      | _ \<Rightarrow> Some (-1, st))"

end
