(* ===== verification/ServerInvariant.thy ===== *)
theory ServerInvariant
  imports ChatProtocol
begin

text \<open>
  The invariant of the server's global state and its preservation by every handler of the chat
  protocol: the three managers exist and each keeps its own invariant. First what each building
  block of the handlers changes.
\<close>

definition server_inv :: "server_state \<Rightarrow> bool" where
  "server_inv st \<longleftrightarrow>
     (\<exists>rm cm sm. g_room_manager st = Some rm \<and> rm_inv rm \<and> g_client_manager st = Some cm \<and>
        cm_inv cm \<and> g_security_manager st = Some sm \<and> sm_inv sm)"

lemma server_invE:
  assumes "server_inv st"
  obtains rm cm sm where "g_room_manager st = Some rm" "rm_inv rm" "g_client_manager st = Some cm"
    "cm_inv cm" "g_security_manager st = Some sm" "sm_inv sm"
  using assms by (auto simp: server_inv_def)

lemma server_inv_net [simp]: "server_inv (st\<lparr>net := w\<rparr>) \<longleftrightarrow> server_inv st"
  by (simp add: server_inv_def)

section \<open>What the building blocks change\<close>

lemma reply_eq:
  "reply st i msg =
     st\<lparr>net := snd (sys_send (net st) (socket_fd (session_at st i)) (bytes_of (cstr msg)))\<rparr>"
  by (simp add: reply_def chat_protocol_send_message_to_client_def split_def Let_def)

lemma reply_frame [simp]:
  "g_room_manager (reply st i msg) = g_room_manager st"
  "g_client_manager (reply st i msg) = g_client_manager st"
  "g_security_manager (reply st i msg) = g_security_manager st"
  "session_at (reply st i msg) j = session_at st j"
  "server_inv (reply st i msg) \<longleftrightarrow> server_inv st"
  by (simp_all add: reply_eq session_at_def)

lemma reply_world [simp]:
  "extends (net st) (net (reply st i msg))"
  "deliveries (emitted (net st) (net (reply st i msg))) =
     [(socket_fd (session_at st i), bytes_of (cstr msg))]"
  by (simp_all add: reply_eq)

lemma to_room_frame [simp]:
  "g_room_manager (to_room st rid msg c) = g_room_manager st"
  "g_client_manager (to_room st rid msg c) = g_client_manager st"
  "g_security_manager (to_room st rid msg c) = g_security_manager st"
  "session_at (to_room st rid msg c) j = session_at st j"
  "server_inv (to_room st rid msg c) \<longleftrightarrow> server_inv st"
  by (simp_all add: to_room_def session_at_def)

lemma set_session_frame [simp]:
  "g_room_manager (set_session st i s) = g_room_manager st"
  "g_security_manager (set_session st i s) = g_security_manager st"
  "net (set_session st i s) = net st"
  "g_client_manager (set_session st i s) = None \<longleftrightarrow> g_client_manager st = None"
  by (simp_all add: set_session_def)

lemma session_at_Some: "g_client_manager st = Some cm \<Longrightarrow> session_at st i = clients cm ! i"
  by (simp add: session_at_def)

lemma session_at_set_session:
  assumes "server_inv st" and "i < MAX_CLIENTS"
  shows "session_at (set_session st i s) j = (if j = i then s else session_at st j)"
  using assms by (auto simp: server_inv_def session_at_def set_session_def dest!: cm_invD(1))

lemma set_session_inv:
  assumes inv: "server_inv st" and i: "i < MAX_CLIENTS" and s: "session_ok s"
    and "active s = active (session_at st i)"
    and "session_client_id s = session_client_id (session_at st i)"
  shows "server_inv (set_session st i s)"
proof -
  obtain cm where cm: "g_client_manager st = Some cm" "cm_inv cm"
    using inv by (auto simp: server_inv_def)
  have "cm_inv (cm\<lparr>clients := (clients cm)[i := s]\<rparr>)"
    using assms(4,5) cm by (intro cm_inv_update_same [OF cm(2) i s]) (simp_all add: session_at_def)
  with inv cm show ?thesis by (simp add: server_inv_def set_session_def)
qed

lemma session_at_ok: "server_inv st \<Longrightarrow> i < MAX_CLIENTS \<Longrightarrow> session_ok (session_at st i)"
  by (auto simp: server_inv_def session_at_def intro: cm_invD(2))

lemma to_all_Some:
  assumes "g_client_manager st = Some cm"
  obtains w cm' where
    "client_manager_broadcast_message (net st) (Some cm) (Some msg) c = (w, Some cm')"
    "to_all st msg c = st\<lparr>net := w, g_client_manager := Some cm'\<rparr>"
proof -
  obtain w cmp where b: "client_manager_broadcast_message (net st) (Some cm) (Some msg) c = (w, cmp)"
    by fastforce
  with broadcast_Some [of "net st" cm "Some msg" c] obtain cm' where "cmp = Some cm'" by auto
  with b show ?thesis using assms by (intro that [of w cm']) (simp_all add: to_all_def)
qed

lemma sm_update_inv:
  "server_inv st \<Longrightarrow> sm_inv sm \<Longrightarrow> server_inv (st\<lparr>g_security_manager := Some sm\<rparr>)"
  by (auto simp: server_inv_def)

lemma cm_update_inv:
  "server_inv st \<Longrightarrow> cm_inv cm \<Longrightarrow> server_inv (st\<lparr>net := w, g_client_manager := Some cm\<rparr>)"
  by (auto simp: server_inv_def)

lemma to_all_inv: "server_inv st \<Longrightarrow> server_inv (to_all st msg c)"
proof -
  assume inv: "server_inv st"
  then obtain cm where cm: "g_client_manager st = Some cm" "cm_inv cm"
    by (auto simp: server_inv_def)
  obtain w cm' where b: "client_manager_broadcast_message (net st) (Some cm) (Some msg) c = (w, Some cm')"
    and eq: "to_all st msg c = st\<lparr>net := w, g_client_manager := Some cm'\<rparr>"
    by (rule to_all_Some [OF cm(1)])
  show ?thesis unfolding eq by (rule cm_update_inv [OF inv broadcast_inv [OF cm(2) b]])
qed

lemma to_all_rooms [simp]: "g_room_manager (to_all st msg c) = g_room_manager st"
  by (simp add: to_all_def split_def Let_def)

lemma rm_update_inv:
  "server_inv st \<Longrightarrow> rm_inv rm \<Longrightarrow> server_inv (st\<lparr>g_room_manager := Some rm\<rparr>)"
  by (auto simp: server_inv_def)

lemma leave_current_inv:
  assumes inv: "server_inv st"
  shows "server_inv (leave_current st i c)"
proof -
  from inv obtain rm where rm: "g_room_manager st = Some rm" "rm_inv rm" by (auto simp: server_inv_def)
  obtain x rmp where l: "room_manager_leave_room (Some rm) (Some (current_room_id (session_at st i))) c
    = (x, rmp)" by fastforce
  then obtain rm' where "rmp = Some rm'"
    by (auto simp: room_manager_leave_room_def Let_def split: option.splits prod.splits if_splits)
  with leave_room_inv [OF rm(2)] l inv rm show ?thesis
    by (simp add: leave_current_def rm_update_inv)
qed

lemma leave_current_frame [simp]:
  "g_client_manager (leave_current st i c) = g_client_manager st"
  "g_security_manager (leave_current st i c) = g_security_manager st"
  "session_at (leave_current st i c) j = session_at st j"
  "net (leave_current st i c) = net st"
  by (simp_all add: leave_current_def session_at_def)

lemma enter_room_fields [simp]:
  "active (enter_room s rid) = active s" "socket_fd (enter_room s rid) = socket_fd s"
  "session_client_id (enter_room s rid) = session_client_id s"
  "nickname (enter_room s rid) = nickname s"
  "session_state (enter_room s rid) = CLIENT_STATE_IN_ROOM"
  by (simp_all add: enter_room_def)

lemma enter_room_id:
  assumes "length (current_room_id s) = Suc ROOM_ID_LENGTH"
  shows "buf_ok (Suc ROOM_ID_LENGTH) (current_room_id (enter_room s rid))"
    and "cstr (current_room_id (enter_room s rid)) = take ROOM_ID_LENGTH (cstr rid)"
  using strncpy_terminated [OF assms, of rid] by (simp_all add: enter_room_def)

lemma enter_room_ok:
  assumes s: "session_ok s" and rid: "strlen rid = ROOM_ID_LENGTH"
  shows "session_ok (enter_room s rid)"
proof (cases "active s")
  case False
  with s show ?thesis by (simp add: session_ok_def)
next
  case True
  with s have "length (current_room_id s) = Suc ROOM_ID_LENGTH"
    by (simp add: session_ok_def buf_ok_def)
  from enter_room_id [OF this, of rid] rid s True show ?thesis
    by (simp add: session_ok_def strlen_def)
qed

section \<open>Every handler keeps the invariant\<close>

lemma create_room_Some:
  "\<exists>rm'. snd (room_manager_create_room e (Some rm) namep c) = Some rm'"
  by (auto simp: room_manager_create_room_def Let_def split: option.splits prod.splits if_splits)

lemma create_room_id_length:
  "room_manager_create_room e (Some rm) (Some nm) c = (Some rid, rm') \<Longrightarrow>
     strlen rid = ROOM_ID_LENGTH \<and> cstr rid = rid"
  by (auto simp: room_manager_create_room_def Let_def strlen_def room_generate_id_cstr
      room_generate_id_length split: option.splits prod.splits if_splits)

lemma handle_create_room_inv [preserves]:
  assumes inv: "server_inv st" and i: "i < MAX_CLIENTS" and c: "0 \<le> c"
    and h: "chat_protocol_handle_create_room e st (Some i) (Some name) c = (r, st')"
  shows "server_inv st'"
proof (cases "strlen name = 0 \<or> strlen name \<ge> MAX_ROOM_NAME")
  case True
  with h inv show ?thesis
    by (auto simp: chat_protocol_handle_create_room_def split: if_splits)
next
  case False
  let ?st1 = "leave_current st i c"
  have inv1: "server_inv ?st1" by (rule leave_current_inv [OF inv])
  then obtain rm where rm: "g_room_manager ?st1 = Some rm" "rm_inv rm" by (auto simp: server_inv_def)
  obtain ridp rm' where cr: "room_manager_create_room e (Some rm) (Some name) c = (ridp, Some rm')"
    using create_room_Some [of e rm "Some name" c] by (metis prod.collapse)
  have inv2: "server_inv (?st1\<lparr>g_room_manager := Some rm'\<rparr>)"
    by (rule rm_update_inv [OF inv1 create_room_inv [OF rm(2) c cr]])
  have some: "g_client_manager st \<noteq> None" "g_room_manager st \<noteq> None"
    using inv by (auto simp: server_inv_def)
  show ?thesis
  proof (cases ridp)
    case None
    with h False some rm cr inv2 show ?thesis
      by (auto simp: chat_protocol_handle_create_room_def Let_def)
  next
    case (Some rid)
    let ?st2 = "?st1\<lparr>g_room_manager := Some rm'\<rparr>"
    let ?st3 = "set_session ?st2 i (enter_room (session_at ?st2 i) rid)"
    have "strlen rid = ROOM_ID_LENGTH" using create_room_id_length cr Some by blast
    then have "server_inv ?st3"
      by (intro set_session_inv [OF inv2 i] enter_room_ok session_at_ok [OF inv2 i]) simp_all
    with h False some rm cr Some show ?thesis
      by (auto simp: chat_protocol_handle_create_room_def Let_def)
  qed
qed

lemma join_room_Some:
  "\<exists>rm'. snd (room_manager_join_room (Some rm) idp c) = Some rm'"
  by (auto simp: room_manager_join_room_def Let_def split: option.splits prod.splits if_splits)

lemma handle_join_room_inv [preserves]:
  assumes inv: "server_inv st" and i: "i < MAX_CLIENTS"
    and h: "chat_protocol_handle_join_room st (Some i) (Some rid) c = (r, st')"
  shows "server_inv st'"
proof (cases "strlen rid = ROOM_ID_LENGTH")
  case False
  with h inv show ?thesis
    by (auto simp: chat_protocol_handle_join_room_def split: if_splits)
next
  case True
  let ?st1 = "leave_current st i c"
  have inv1: "server_inv ?st1" by (rule leave_current_inv [OF inv])
  then obtain rm where rm: "g_room_manager ?st1 = Some rm" "rm_inv rm" by (auto simp: server_inv_def)
  obtain x rm' where j: "room_manager_join_room (Some rm) (Some rid) c = (x, Some rm')"
    using join_room_Some [of rm "Some rid" c] by (metis prod.collapse)
  let ?st2 = "?st1\<lparr>g_room_manager := Some rm'\<rparr>"
  have inv2: "server_inv ?st2"
    by (rule rm_update_inv [OF inv1 join_room_inv [OF rm(2) j]])
  have inv3: "server_inv (set_session ?st2 i (enter_room (session_at ?st2 i) rid))"
    by (intro set_session_inv [OF inv2 i] enter_room_ok session_at_ok [OF inv2 i] True) simp_all
  have some: "g_client_manager st \<noteq> None" "g_room_manager st \<noteq> None"
    using inv by (auto simp: server_inv_def)
  show ?thesis
    using h True some rm j inv2 inv3
    by (cases "x < 0") (auto simp: chat_protocol_handle_join_room_def Let_def)
qed

lemma handle_leave_room_inv [preserves]:
  assumes inv: "server_inv st" and i: "i < MAX_CLIENTS"
    and h: "chat_protocol_handle_leave_room st (Some i) c = (r, st')"
  shows "server_inv st'"
proof (cases "in_room (session_at st i)")
  case False
  with h inv show ?thesis
    by (auto simp: chat_protocol_handle_leave_room_def split: if_splits)
next
  case True
  let ?s = "session_at st i"
  let ?msg = "snprintf_str BUFFER_SIZE (''*** '' @ cstr (nickname ?s) @ '' left the room ***'' @ [LF])"
  let ?st1 = "to_room st (current_room_id ?s) ?msg c"
  let ?st2 = "leave_current ?st1 i c"
  let ?s' = "?s\<lparr>current_room_id := replicate (ROOM_ID_LENGTH + 1) NUL,
    session_state := CLIENT_STATE_IN_LOBBY\<rparr>"
  have st2: "?st2 = ?st1\<lparr>g_room_manager := snd (room_manager_leave_room (g_room_manager ?st1)
      (Some (current_room_id ?s)) c)\<rparr>"
    using True by (simp add: leave_current_def)
  have inv2: "server_inv ?st2" using inv by (intro leave_current_inv) simp
  have "session_ok ?s'" using session_at_ok [OF inv i] by (auto simp: session_ok_def)
  then have inv3: "server_inv (set_session ?st2 i ?s')"
    by (intro set_session_inv [OF inv2 i]) simp_all
  have some: "g_client_manager st \<noteq> None" "g_room_manager st \<noteq> None"
    using inv by (auto simp: server_inv_def)
  show ?thesis
    using h True some inv3 unfolding st2 by (auto simp: chat_protocol_handle_leave_room_def Let_def)
qed

lemma handle_lists_inv [preserves]:
  assumes inv: "server_inv st"
  shows "chat_protocol_handle_list_rooms st ip = (r, st') \<Longrightarrow> server_inv st'"
    and "chat_protocol_handle_list_users st ip c = (r, st') \<Longrightarrow> server_inv st'"
  using inv by (auto simp: chat_protocol_handle_list_rooms_def chat_protocol_handle_list_users_def
      split: option.splits if_splits)

lemma broadcast_user_list_cases:
  assumes "client_manager_broadcast_user_list w (Some cm) = Some (w', cmp)"
  obtains t where "user_list_text (clients cm) = Some t"
    "client_manager_broadcast_message w (Some cm) (Some t) (-1) = (w', cmp)"
  using assms by (auto simp: client_manager_broadcast_user_list_def split: option.splits)

lemma handle_nickname_change_inv [preserves]:
  assumes inv: "server_inv st" and i: "i < MAX_CLIENTS"
    and h: "chat_protocol_handle_nickname_change e st (Some i) (Some new) = Some (r, st')"
  shows "server_inv st'"
proof -
  let ?n = "clean_line MAX_NICKNAME_LEN [LF, CR, CHR '' '', TAB] new"
  have some: "g_client_manager st \<noteq> None" using inv by (auto simp: server_inv_def)
  consider (refused) "length ?n = 0 \<or> MAX_NICKNAME_LEN \<le> length ?n"
    | (changed) "\<not> (length ?n = 0 \<or> MAX_NICKNAME_LEN \<le> length ?n)" by blast
  then show ?thesis
  proof cases
    case refused
    with h inv some show ?thesis
      by (auto simp: chat_protocol_handle_nickname_change_def Let_def split: if_splits)
  next
    case changed
    let ?s = "client_session_set_nickname (session_at st i) (Some ?n)"
    let ?st1 = "set_session st i ?s"
    let ?msg = "snprintf_str BUFFER_SIZE (''*** '' @ old_nickname_str e (nickname (session_at st i)) @
      '' is now known as '' @ cstr (nickname ?s) @ '' ***'' @ [LF])"
    let ?st2 = "to_all ?st1 ?msg (-1)"
    have inv1: "server_inv ?st1"
      by (intro set_session_inv [OF inv i] set_nickname_session_ok session_at_ok [OF inv i]) simp_all
    have inv2: "server_inv ?st2" by (rule to_all_inv [OF inv1])
    then obtain cm where cm: "g_client_manager ?st2 = Some cm" "cm_inv cm" by (auto simp: server_inv_def)
    from h changed some obtain w cmp where
      b: "client_manager_broadcast_user_list (net ?st2) (g_client_manager ?st2) = Some (w, cmp)" and
      st': "st' = ?st2\<lparr>net := w, g_client_manager := cmp\<rparr>"
      by (auto simp: chat_protocol_handle_nickname_change_def Let_def split: option.splits prod.splits)
    from b [unfolded cm(1)] obtain t where
      b2: "client_manager_broadcast_message (net ?st2) (Some cm) (Some t) (-1) = (w, cmp)"
      by (rule broadcast_user_list_cases)
    then obtain cm' where cm': "cmp = Some cm'"
      using broadcast_Some [of "net ?st2" cm "Some t" "-1"] by auto
    show ?thesis unfolding st' cm'
      by (rule cm_update_inv [OF inv2 broadcast_inv [OF cm(2) b2 [unfolded cm']]])
  qed
qed

lemma handle_command_inv [preserves]:
  assumes inv: "server_inv st" and i: "i < MAX_CLIENTS" and c: "0 \<le> c"
    and h: "chat_protocol_handle_command e st (Some i) (Some cmd) c = Some (r, st')"
  shows "server_inv st'"
  using h inv handle_create_room_inv [OF inv i c] handle_join_room_inv [OF inv i]
    handle_leave_room_inv [OF inv i] handle_lists_inv [OF inv] handle_nickname_change_inv [OF inv i]
  by (auto simp: chat_protocol_handle_command_def Let_def to_all_inv split: if_splits)

lemma handle_message_inv [preserves]:
  assumes inv: "server_inv st" and i: "i < MAX_CLIENTS" and c: "0 \<le> c"
    and h: "chat_protocol_handle_message e st (Some i) (Some msg) c = Some (r, st')"
  shows "server_inv st'"
  using h inv handle_command_inv [OF inv i c]
  by (auto simp: chat_protocol_handle_message_def Let_def split: if_splits)

end
