(* ===== verification/Handshake.thy ===== *)
theory Handshake
  imports ClientSession
begin

text \<open>
  The three-way handshake: \<^verbatim>\<open>handshake_packet_t\<close> and its layout in memory, the server side
  (\<^verbatim>\<open>server/src/handshake_protocol.c\<close>) and the client side (\<^verbatim>\<open>client/src/handshake_protocol.c\<close>). A packet
  goes over the wire as its memory image: on the x86-64 target (the code uses \<^verbatim>\<open>cpuid\<close>) integers are
  little endian, three bytes of alignment follow \<^verbatim>\<open>type\<close> and one the end, 52 bytes in all; the
  packets are initialised with \<^verbatim>\<open>{0}\<close>, so the alignment bytes are 0. Received data is an explicit
  list of the results of \<^verbatim>\<open>recv()\<close>.
\<close>

section \<open>Little-endian integers\<close>

fun le_bytes :: "nat \<Rightarrow> nat \<Rightarrow> byte list" where
  "le_bytes 0 n = []"
| "le_bytes (Suc k) n = word_of_nat n # le_bytes k (n div 256)"

fun le_val :: "byte list \<Rightarrow> nat" where
  "le_val [] = 0"
| "le_val (b # bs) = unat b + 256 * le_val bs"

lemma length_le_bytes [simp]: "length (le_bytes k n) = k"
  by (induction k arbitrary: n) auto

lemma le_val_le_bytes: "le_val (le_bytes k n) = n mod 256 ^ k"
proof (induction k arbitrary: n)
  case 0
  then show ?case by simp
next
  case (Suc k)
  have "unat (word_of_nat n :: byte) = n mod 256" by (simp add: unat_of_nat)
  with Suc show ?case by (simp add: mod_mult2_eq)
qed

definition u32_bytes :: "u32 \<Rightarrow> byte list" where
  "u32_bytes w = le_bytes 4 (unat w)"

definition bytes_u32 :: "byte list \<Rightarrow> u32" where
  "bytes_u32 bs = word_of_nat (le_val bs)"

lemma length_u32_bytes [simp]: "length (u32_bytes w) = 4"
  by (simp add: u32_bytes_def)

lemma bytes_u32_roundtrip [simp]: "bytes_u32 (u32_bytes w) = w"
proof -
  have "unat w < 2 ^ 32" using unsigned_less [of w] by simp
  then have "le_val (u32_bytes w) = unat w" by (simp add: u32_bytes_def le_val_le_bytes)
  then show ?thesis by (simp add: bytes_u32_def)
qed

section \<open>Packets\<close>

record handshake_packet =
  pkt_type :: byte
  seq_num :: u32
  ack_num :: u32
  pkt_nickname :: "char list"
  padding :: "byte list"

definition HANDSHAKE_TYPE_SYN :: byte where "HANDSHAKE_TYPE_SYN = 0"
definition HANDSHAKE_TYPE_SYN_ACK :: byte where "HANDSHAKE_TYPE_SYN_ACK = 1"
definition HANDSHAKE_TYPE_ACK :: byte where "HANDSHAKE_TYPE_ACK = 2"

lemmas packet_types = HANDSHAKE_TYPE_SYN_def HANDSHAKE_TYPE_SYN_ACK_def HANDSHAKE_TYPE_ACK_def

definition packet_size :: nat where "packet_size = 52"
  \<comment> \<open>\<^verbatim>\<open>sizeof(handshake_packet_t)\<close>\<close>

definition zero_packet :: handshake_packet where
  "zero_packet = \<lparr>pkt_type = 0, seq_num = 0, ack_num = 0,
     pkt_nickname = replicate MAX_NICKNAME_LEN NUL, padding = replicate 7 0\<rparr>"

definition packet_bytes :: "handshake_packet \<Rightarrow> byte list" where
  "packet_bytes p = [pkt_type p, 0, 0, 0] @ u32_bytes (seq_num p) @ u32_bytes (ack_num p) @
     bytes_of (pkt_nickname p) @ padding p @ [0]"

definition bytes_packet :: "byte list \<Rightarrow> handshake_packet" where
  "bytes_packet bs =
     \<lparr>pkt_type = bs ! 0, seq_num = bytes_u32 (take 4 (drop 4 bs)),
      ack_num = bytes_u32 (take 4 (drop 8 bs)),
      pkt_nickname = chars_of (take 32 (drop 12 bs)), padding = take 7 (drop 44 bs)\<rparr>"

definition packet_ok :: "handshake_packet \<Rightarrow> bool" where
  "packet_ok p \<longleftrightarrow> length (pkt_nickname p) = MAX_NICKNAME_LEN \<and> length (padding p) = 7"

lemma packet_bytes_length: "packet_ok p \<Longrightarrow> length (packet_bytes p) = packet_size"
  by (simp add: packet_ok_def packet_bytes_def packet_size_def limits)

lemma bytes_packet_roundtrip: "packet_ok p \<Longrightarrow> bytes_packet (packet_bytes p) = p"
  by (simp add: packet_ok_def packet_bytes_def bytes_packet_def limits)

section \<open>Sending and receiving a packet\<close>

definition handshake_generate_sequence_number :: "libc \<Rightarrow> u32" where
  "handshake_generate_sequence_number e =
     word_of_int (libc_time e XOR libc_usec e) XOR word_of_int (libc_pid e)"

definition handshake_send_packet :: "world \<Rightarrow> int \<Rightarrow> handshake_packet \<Rightarrow> int \<times> world" where
  "handshake_send_packet w fd p =
     (let (bytes_sent, w') = sys_send w fd (packet_bytes p)
      in (if bytes_sent \<noteq> int packet_size then -1 else 0, w'))"

definition server_handshake_receive_packet :: "recv_result \<Rightarrow> handshake_packet option" where
  "server_handshake_receive_packet r =
     (case r of
        RecvData bs \<Rightarrow> if length bs \<noteq> packet_size then None else Some (bytes_packet bs)
      | RecvClosed \<Rightarrow> None
      | RecvError \<Rightarrow> None)"

text \<open>The client also fails when the receive timeout cannot be set.\<close>

definition client_handshake_receive_packet :: "bool \<Rightarrow> recv_result \<Rightarrow> handshake_packet option" where
  "client_handshake_receive_packet timeout_set r =
     (if \<not> timeout_set then None
      else case r of
             RecvData bs \<Rightarrow> if length bs \<noteq> packet_size then None else Some (bytes_packet bs)
           | RecvClosed \<Rightarrow> None
           | RecvError \<Rightarrow> None)"

section \<open>The server side\<close>

text \<open>The SYN-ACK packet the server builds for a client sequence number.\<close>

definition server_syn_ack :: "u32 \<Rightarrow> u32 \<Rightarrow> handshake_packet" where
  "server_syn_ack seq client_seq =
     zero_packet\<lparr>pkt_type := HANDSHAKE_TYPE_SYN_ACK, seq_num := seq, ack_num := client_seq + 1,
       pkt_nickname := strncpy (pkt_nickname zero_packet) ''SERVER'' (MAX_NICKNAME_LEN - 1)\<rparr>"

text \<open>\<^verbatim>\<open>strlen\<close> on the nickname of a received packet that has no terminator runs into the bytes behind
  the array; its result is then at least 32, as is the length \<open>cstr\<close> gives.\<close>

definition handshake_perform_server_side ::
  "libc \<Rightarrow> world \<Rightarrow> client_session \<Rightarrow> recv_result list \<Rightarrow>
     int \<times> world \<times> client_session \<times> recv_result list" where
  "handshake_perform_server_side e w s ins =
     (let s0 = s\<lparr>handshake_state := HANDSHAKE_IDLE\<rparr>;
          failed = (\<lambda>s. s\<lparr>handshake_state := HANDSHAKE_FAILED\<rparr>);
          (r1, ins1) = next_recv ins
      in case server_handshake_receive_packet r1 of
           None \<Rightarrow> (-1, w, failed s0, ins1)
         | Some syn \<Rightarrow>
             if pkt_type syn \<noteq> HANDSHAKE_TYPE_SYN then (-1, w, failed s0, ins1)
             else
               (let client_seq = seq_num syn;
                    s1 = s0\<lparr>handshake_state := HANDSHAKE_SYN_RECEIVED\<rparr>;
                    s2 = (if strlen (pkt_nickname syn) > 0 \<and>
                             strlen (pkt_nickname syn) < MAX_NICKNAME_LEN
                          then client_session_set_nickname s1 (Some (pkt_nickname syn)) else s1);
                    seq = handshake_generate_sequence_number e;
                    (sent, w1) = handshake_send_packet w (socket_fd s2) (server_syn_ack seq client_seq)
                in if sent < 0 then (-1, w1, failed s2, ins1)
                   else
                     (let (r2, ins2) = next_recv ins1
                      in case server_handshake_receive_packet r2 of
                           None \<Rightarrow> (-1, w1, failed s2, ins2)
                         | Some ack \<Rightarrow>
                             if pkt_type ack \<noteq> HANDSHAKE_TYPE_ACK then (-1, w1, failed s2, ins2)
                             else if ack_num ack \<noteq> seq + 1 then (-1, w1, failed s2, ins2)
                             else (0, w1, s2\<lparr>session_seq := seq,
                                             handshake_state := HANDSHAKE_ESTABLISHED\<rparr>, ins2))))"

section \<open>The client side\<close>

definition client_nickname_field :: "string \<Rightarrow> char list" where
  "client_nickname_field nick =
     (strncpy (pkt_nickname zero_packet) nick (MAX_NICKNAME_LEN - 1))[MAX_NICKNAME_LEN - 1 := NUL]"

definition client_syn :: "u32 \<Rightarrow> string \<Rightarrow> handshake_packet" where
  "client_syn seq nick =
     zero_packet\<lparr>pkt_type := HANDSHAKE_TYPE_SYN, seq_num := seq, ack_num := 0,
       pkt_nickname := client_nickname_field nick\<rparr>"

definition client_ack :: "u32 \<Rightarrow> u32 \<Rightarrow> string \<Rightarrow> handshake_packet" where
  "client_ack seq server_seq nick =
     zero_packet\<lparr>pkt_type := HANDSHAKE_TYPE_ACK, seq_num := seq + 1, ack_num := server_seq + 1,
       pkt_nickname := client_nickname_field nick\<rparr>"

definition handshake_perform_client_side ::
  "libc \<Rightarrow> bool \<Rightarrow> world \<Rightarrow> int \<Rightarrow> string ptr \<Rightarrow> recv_result list \<Rightarrow>
     int \<times> world \<times> recv_result list" where
  "handshake_perform_client_side e timeout_set w fd nickp ins =
     (case nickp of
        None \<Rightarrow> (-1, w, ins)
      | Some nick \<Rightarrow>
          (let seq = handshake_generate_sequence_number e;
               (sent, w1) = handshake_send_packet w fd (client_syn seq nick)
           in if sent < 0 then (-1, w1, ins)
              else
                (let (r, ins1) = next_recv ins
                 in case client_handshake_receive_packet timeout_set r of
                      None \<Rightarrow> (-1, w1, ins1)
                    | Some syn_ack \<Rightarrow>
                        if pkt_type syn_ack \<noteq> HANDSHAKE_TYPE_SYN_ACK then (-1, w1, ins1)
                        else if ack_num syn_ack \<noteq> seq + 1 then (-1, w1, ins1)
                        else
                          (let (sent2, w2) =
                                 handshake_send_packet w1 fd (client_ack seq (seq_num syn_ack) nick)
                           in if sent2 < 0 then (-1, w2, ins1) else (0, w2, ins1)))))"

section \<open>Packets built by the two sides\<close>

lemma zero_nickname_len [simp]: "length (pkt_nickname zero_packet) = MAX_NICKNAME_LEN"
  by (simp add: zero_packet_def)

lemma client_nickname_field_props:
  "length (client_nickname_field nick) = MAX_NICKNAME_LEN"
  "cstr (client_nickname_field nick) = take (MAX_NICKNAME_LEN - 1) (cstr nick)"
  using strncpy_terminated [of "pkt_nickname zero_packet" "MAX_NICKNAME_LEN - 1" nick]
  by (auto simp: client_nickname_field_def buf_ok_def MAX_NICKNAME_LEN_def)

lemma packets_ok [simp]:
  "packet_ok (server_syn_ack seq cs)" "packet_ok (client_syn seq nick)"
  "packet_ok (client_ack seq ss nick)"
  by (simp_all add: packet_ok_def server_syn_ack_def client_syn_def client_ack_def
      client_nickname_field_props(1)) (simp_all add: zero_packet_def MAX_NICKNAME_LEN_def)

lemma receive_sent_packet:
  assumes "packet_ok p"
  shows "server_handshake_receive_packet (RecvData (packet_bytes p)) = Some p"
    and "client_handshake_receive_packet True (RecvData (packet_bytes p)) = Some p"
  using assms by (simp_all add: server_handshake_receive_packet_def
      client_handshake_receive_packet_def packet_bytes_length bytes_packet_roundtrip)

lemma send_packet_result:
  "fst (handshake_send_packet w fd p) = 0 \<or> fst (handshake_send_packet w fd p) = -1"
  by (simp add: handshake_send_packet_def split_def Let_def)

lemma send_packet_world:
  "snd (handshake_send_packet w fd p) = snd (sys_send w fd (packet_bytes p))"
  by (simp add: handshake_send_packet_def split_def Let_def)

section \<open>Results\<close>

definition send_all_ok :: "world \<Rightarrow> bool" where
  "send_all_ok w \<longleftrightarrow> (\<forall>n fd len. send_res w n fd len = int len)"
  \<comment> \<open>every \<^verbatim>\<open>send()\<close> takes the whole buffer\<close>

lemma send_packet_ok:
  assumes "send_all_ok w" and "packet_ok p"
  shows "handshake_send_packet w fd p =
    (0, w\<lparr>trace := trace w @ [Sent fd (packet_bytes p) (int packet_size)]\<rparr>)"
  using assms by (simp add: handshake_send_packet_def send_all_ok_def sys_send_def
      packet_bytes_length Let_def)

lemma send_all_ok_trace [simp]: "send_all_ok (w\<lparr>trace := t\<rparr>) \<longleftrightarrow> send_all_ok w"
  by (simp add: send_all_ok_def)

text \<open>The session after the SYN packet.\<close>

definition syn_session :: "client_session \<Rightarrow> handshake_packet \<Rightarrow> client_session" where
  "syn_session s syn =
     (let s1 = s\<lparr>handshake_state := HANDSHAKE_SYN_RECEIVED\<rparr>
      in if strlen (pkt_nickname syn) > 0 \<and> strlen (pkt_nickname syn) < MAX_NICKNAME_LEN
         then client_session_set_nickname s1 (Some (pkt_nickname syn)) else s1)"

definition syn_received :: "recv_result \<Rightarrow> handshake_packet option" where
  "syn_received r =
     (case server_handshake_receive_packet r of
        None \<Rightarrow> None
      | Some p \<Rightarrow> if pkt_type p = HANDSHAKE_TYPE_SYN then Some p else None)"

definition ack_received :: "u32 \<Rightarrow> recv_result \<Rightarrow> bool" where
  "ack_received seq r \<longleftrightarrow>
     (case server_handshake_receive_packet r of
        None \<Rightarrow> False
      | Some p \<Rightarrow> pkt_type p = HANDSHAKE_TYPE_ACK \<and> ack_num p = seq + 1)"

lemma syn_session_frame [simp]:
  "socket_fd (syn_session s syn) = socket_fd s"
  "active (syn_session s syn) = active s"
  "session_state (syn_session s syn) = session_state s"
  "current_room_id (syn_session s syn) = current_room_id s"
  "session_client_id (syn_session s syn) = session_client_id s"
  by (simp_all add: syn_session_def Let_def)

lemma session_ok_handshake_state [simp]:
  "session_ok (s\<lparr>handshake_state := h\<rparr>) \<longleftrightarrow> session_ok s"
  "session_ok (s\<lparr>session_seq := q\<rparr>) \<longleftrightarrow> session_ok s"
  "session_ok (s\<lparr>session_seq := q, handshake_state := h\<rparr>) \<longleftrightarrow> session_ok s"
  by (simp_all add: session_ok_def)

lemma syn_session_ok: "session_ok s \<Longrightarrow> session_ok (syn_session s syn)"
  by (simp add: syn_session_def Let_def set_nickname_session_ok)

text \<open>The whole server side in one equation: which of the four outcomes happens.\<close>

lemma server_side_eq:
  assumes "next_recv ins = (r1, ins1)" and "next_recv ins1 = (r2, ins2)"
    and seq: "seq = handshake_generate_sequence_number e"
  shows "handshake_perform_server_side e w s ins =
    (case syn_received r1 of
       None \<Rightarrow> (-1, w, s\<lparr>handshake_state := HANDSHAKE_FAILED\<rparr>, ins1)
     | Some syn \<Rightarrow>
         (let (sent, w1) = handshake_send_packet w (socket_fd s) (server_syn_ack seq (seq_num syn))
          in if sent < 0
             then (-1, w1, (syn_session s syn)\<lparr>handshake_state := HANDSHAKE_FAILED\<rparr>, ins1)
             else if ack_received seq r2
             then (0, w1, (syn_session s syn)\<lparr>session_seq := seq,
                             handshake_state := HANDSHAKE_ESTABLISHED\<rparr>, ins2)
             else (-1, w1, (syn_session s syn)\<lparr>handshake_state := HANDSHAKE_FAILED\<rparr>, ins2)))"
  using assms
  by (auto simp: handshake_perform_server_side_def syn_received_def ack_received_def Let_def
      syn_session_def client_session_set_nickname_def split: option.splits prod.splits if_splits)

lemma server_side_cases:
  assumes "handshake_perform_server_side e w s ins = (res, w', s', ins')"
  obtains (no_syn) "res = -1" "w' = w" "s' = s\<lparr>handshake_state := HANDSHAKE_FAILED\<rparr>"
  | (failed) syn where "res = -1" "s' = (syn_session s syn)\<lparr>handshake_state := HANDSHAKE_FAILED\<rparr>"
      "w' = snd (handshake_send_packet w (socket_fd s)
               (server_syn_ack (handshake_generate_sequence_number e) (seq_num syn)))"
  | (established) syn where "res = 0"
      "s' = (syn_session s syn)\<lparr>session_seq := handshake_generate_sequence_number e,
              handshake_state := HANDSHAKE_ESTABLISHED\<rparr>"
      "w' = snd (handshake_send_packet w (socket_fd s)
               (server_syn_ack (handshake_generate_sequence_number e) (seq_num syn)))"
proof -
  obtain r1 ins1 where n1: "next_recv ins = (r1, ins1)" by fastforce
  obtain r2 ins2 where n2: "next_recv ins1 = (r2, ins2)" by fastforce
  show ?thesis
  proof (cases "syn_received r1")
    case None
    with assms server_side_eq [OF n1 n2 refl, of e w s] show ?thesis
      by (intro no_syn) simp_all
  next
    case (Some syn)
    let ?p = "handshake_send_packet w (socket_fd s)
      (server_syn_ack (handshake_generate_sequence_number e) (seq_num syn))"
    obtain sent w1 where p: "?p = (sent, w1)" by fastforce
    with Some assms server_side_eq [OF n1 n2 refl, of e w s] show ?thesis
      by (cases "sent < 0"; cases "ack_received (handshake_generate_sequence_number e) r2")
        (auto intro: failed established)
  qed
qed

lemma send_packet_extends [simp]: "extends w (snd (handshake_send_packet w fd p))"
  by (simp add: send_packet_world)

lemma server_side_preserves:
  assumes h: "handshake_perform_server_side e w s ins = (res, w', s', ins')"
  shows "extends w w'" and "session_ok s \<Longrightarrow> session_ok s'" and "socket_fd s' = socket_fd s"
    and "active s' = active s" and "session_state s' = session_state s"
    and "current_room_id s' = current_room_id s" and "session_client_id s' = session_client_id s"
  by (rule server_side_cases [OF h]; simp add: syn_session_ok)+

lemma receive_syn:
  "syn_received (RecvData (packet_bytes (client_syn seq nick))) = Some (client_syn seq nick)"
  using receive_sent_packet(1) [of "client_syn seq nick"]
  by (simp add: syn_received_def) (simp add: client_syn_def)

lemma receive_ack:
  "ack_received seq (RecvData (packet_bytes (client_ack cs ss nick))) \<longleftrightarrow> ss = seq"
  using receive_sent_packet(1) [of "client_ack cs ss nick"]
  by (simp add: ack_received_def) (simp add: client_ack_def)

lemma syn_session_nickname:
  assumes "length (nickname s) = MAX_NICKNAME_LEN" and "0 < strlen nick"
  shows "cstr (nickname (syn_session s (client_syn seq nick))) =
    take (MAX_NICKNAME_LEN - 1) (cstr nick)"
proof -
  let ?f = "pkt_nickname (client_syn seq nick)"
  have f: "cstr ?f = take (MAX_NICKNAME_LEN - 1) (cstr nick)"
    by (simp add: client_syn_def client_nickname_field_props(2))
  then have "0 < strlen ?f" "strlen ?f < MAX_NICKNAME_LEN"
    using assms(2) by (auto simp: strlen_def limits)
  then have "syn_session s (client_syn seq nick) =
      client_session_set_nickname (s\<lparr>handshake_state := HANDSHAKE_SYN_RECEIVED\<rparr>) (Some ?f)"
    by (simp add: syn_session_def Let_def)
  with set_nickname_ok(2) [of "s\<lparr>handshake_state := HANDSHAKE_SYN_RECEIVED\<rparr>" ?f] assms(1) f
  show ?thesis by simp
qed

text \<open>What an honest client sends, and its answer to the SYN-ACK of the server.\<close>

lemma client_side_ok:
  assumes "send_all_ok w" and cs: "cs = handshake_generate_sequence_number e"
  shows "handshake_perform_client_side e True w fd (Some nick)
      (RecvData (packet_bytes (server_syn_ack ss cs)) # ins) =
    (0, w\<lparr>trace := trace w @
          [Sent fd (packet_bytes (client_syn cs nick)) (int packet_size),
           Sent fd (packet_bytes (client_ack cs ss nick)) (int packet_size)]\<rparr>, ins)"
proof -
  have "seq_num (server_syn_ack ss cs) = ss" "ack_num (server_syn_ack ss cs) = cs + 1"
    "pkt_type (server_syn_ack ss cs) = HANDSHAKE_TYPE_SYN_ACK"
    by (simp_all add: server_syn_ack_def)
  with assms show ?thesis
    by (simp add: handshake_perform_client_side_def send_packet_ok receive_sent_packet(2) Let_def)
qed

lemma server_side_ok:
  assumes "send_all_ok w" and ss: "ss = handshake_generate_sequence_number e"
  shows "handshake_perform_server_side e w s
      (RecvData (packet_bytes (client_syn cs nick)) #
       RecvData (packet_bytes (client_ack cs ss nick)) # ins) =
    (0, w\<lparr>trace := trace w @
          [Sent (socket_fd s) (packet_bytes (server_syn_ack ss cs)) (int packet_size)]\<rparr>,
     (syn_session s (client_syn cs nick))\<lparr>session_seq := ss,
        handshake_state := HANDSHAKE_ESTABLISHED\<rparr>, ins)"
proof -
  have q: "seq_num (client_syn cs nick) = cs" by (simp add: client_syn_def)
  show ?thesis
    by (subst server_side_eq [OF next_recv.simps(2) next_recv.simps(2) ss])
      (simp add: receive_syn receive_ack q send_packet_ok assms(1))
qed

end
