(* ===== verification/ServerLoop.thy ===== *)
theory ServerLoop
  imports ServerInvariant Handshake
begin

text \<open>
  The running server: the handler thread of a client (\<^verbatim>\<open>server/src/client_session.c\<close>), the accept loop,
  creation and destruction of the server (\<^verbatim>\<open>server/src/server.c\<close>) and the signal handler
  (\<^verbatim>\<open>server/src/signal_handler.c\<close>). What the network delivers is an input: a list of results of
  \<^verbatim>\<open>recv()\<close> for a thread, a list of results of \<^verbatim>\<open>accept()\<close> for the accept loop. The threads run
  concurrently: \<open>srv_step\<close> interleaves their steps in any order, one step being one accepted
  connection, one handshake, one received message with its handler or the end of a thread.
\<close>

section \<open>The handler thread of a client\<close>

text \<open>\<open>None\<close> is the return value -1; otherwise the text written to the caller's buffer, whose length
  is the return value.\<close>

definition client_session_receive_message ::
  "server_state \<Rightarrow> nat \<Rightarrow> recv_result \<Rightarrow> string option \<times> server_state" where
  "client_session_receive_message st i r =
     (case r of
        RecvClosed \<Rightarrow> (None, st)
      | RecvError \<Rightarrow> (None, st)
      | RecvData bs \<Rightarrow>
          if bs = [] then (None, st)
          else if g_security_manager st = None then (None, st)
          else (let (d, sm) = server_decrypt_message (g_security_manager st)
                                (session_client_id (session_at st i)) (Some bs) (BUFFER_SIZE - 1)
                in (map_option chars_of d, st\<lparr>g_security_manager := sm\<rparr>)))"

text \<open>One turn of the loop of the thread; the flag tells whether the loop goes on.\<close>

definition session_iteration ::
  "libc \<Rightarrow> server_state \<Rightarrow> nat \<Rightarrow> int \<Rightarrow> recv_result \<Rightarrow> (bool \<times> server_state) option" where
  "session_iteration e st i cid r =
     (if \<not> client_session_is_active (session_at st i) then Some (False, st)
      else (case client_session_receive_message st i r of
              (None, st1) \<Rightarrow> Some (False, st1)
            | (Some buffer, st1) \<Rightarrow>
                if length buffer = 0 then Some (False, st1)
                else (case chat_protocol_handle_message e st1 (Some i) (Some buffer) cid of
                        None \<Rightarrow> None
                      | Some (result, st2) \<Rightarrow> Some (\<not> result < 0, st2))))"

definition remove_client :: "server_state \<Rightarrow> int \<Rightarrow> server_state" where
  "remove_client st cid =
     (let (w, sm, cm) = client_manager_remove_client (net st) (g_security_manager st)
                          (g_client_manager st) cid
      in st\<lparr>net := w, g_security_manager := sm, g_client_manager := cm\<rparr>)"

text \<open>The thread up to its loop; the flag tells whether the loop is reached.\<close>

definition session_start ::
  "libc \<Rightarrow> server_state \<Rightarrow> int \<Rightarrow> recv_result list \<Rightarrow> bool \<times> server_state" where
  "session_start e st cid ins =
     (case client_manager_get_session (g_client_manager st) cid of
        None \<Rightarrow> (False, st)
      | Some i \<Rightarrow>
          (let (result, w, s, _) = handshake_perform_server_side e (net st) (session_at st i) ins;
               st1 = set_session (st\<lparr>net := w\<rparr>) i s
           in if result < 0 then (False, remove_client st1 cid)
              else (True, chat_protocol_announce_user_joined
                            (chat_protocol_send_welcome_message st1 (Some i)) (Some i))))"

text \<open>The loop on the messages that arrive. With no input left a live session waits in \<^verbatim>\<open>recv()\<close>
  (the flag is \<open>True\<close>).\<close>

fun session_loop ::
  "server_state \<Rightarrow> nat \<Rightarrow> int \<Rightarrow> (libc \<times> recv_result) list \<Rightarrow> (bool \<times> server_state) option" where
  "session_loop st i cid [] = Some (client_session_is_active (session_at st i), st)"
| "session_loop st i cid ((e, r) # ins) =
     (case session_iteration e st i cid r of
        None \<Rightarrow> None
      | Some (go_on, st') \<Rightarrow> if go_on then session_loop st' i cid ins else Some (False, st'))"

definition client_session_handler_thread ::
  "libc \<Rightarrow> server_state \<Rightarrow> int \<Rightarrow> recv_result list \<Rightarrow> (libc \<times> recv_result) list \<Rightarrow>
     (bool \<times> server_state) option" where
  "client_session_handler_thread e st cid handshake_ins ins =
     (case session_start e st cid handshake_ins of
        (False, st1) \<Rightarrow> Some (False, st1)
      | (True, st1) \<Rightarrow>
          (case session_loop st1 (nat cid) cid ins of
             None \<Rightarrow> None
           | Some (True, st2) \<Rightarrow> Some (True, st2)
           | Some (False, st2) \<Rightarrow> Some (False, remove_client st2 cid)))"

section \<open>The server\<close>

record server =
  server_fd :: int
  server_ip :: "char list"
  server_port :: int
  is_running :: bool

definition signal_handler :: "server ptr \<Rightarrow> server ptr" where
  "signal_handler = map_option (\<lambda>s. s\<lparr>is_running := False\<rparr>)"

text \<open>A result of \<^verbatim>\<open>accept()\<close>; for an accepted connection also the thread that \<^verbatim>\<open>pthread_create()\<close>
  started, if it did.\<close>

datatype accept_result =
  Accepted int sockaddr_in "nat option"
| AcceptInterrupted \<comment> \<open>\<^verbatim>\<open>EINTR\<close>\<close>
| AcceptWouldBlock \<comment> \<open>\<^verbatim>\<open>EAGAIN\<close>, \<^verbatim>\<open>EWOULDBLOCK\<close>\<close>
| AcceptFailed

definition accept_client ::
  "libc \<Rightarrow> server_state \<Rightarrow> int \<Rightarrow> sockaddr_in \<Rightarrow> nat option \<Rightarrow> server_state" where
  "accept_client e st fd a th =
     (let (cid, w, sm, cm) = client_manager_add_new_client e (net st) (g_security_manager st)
                               (g_client_manager st) fd a;
          st1 = st\<lparr>net := w, g_security_manager := sm, g_client_manager := cm\<rparr>
      in if cid < 0 then st1\<lparr>net := sys_close (net st1) fd\<rparr>
         else (case th of
                 None \<Rightarrow> remove_client st1 cid
               | Some t \<Rightarrow> set_session st1 (nat cid) ((session_at st1 (nat cid))\<lparr>thread := t\<rparr>)))"

text \<open>The accept loop on the results of \<^verbatim>\<open>accept()\<close>; each comes with whether a termination signal
  arrived during the call. With no result left a running server waits (the flag is \<open>True\<close>).\<close>

fun accept_loop ::
  "server \<Rightarrow> server_state \<Rightarrow> (bool \<times> libc \<times> accept_result) list \<Rightarrow> bool \<times> server \<times> server_state" where
  "accept_loop srv st [] = (is_running srv, srv, st)"
| "accept_loop srv st ((sig, e, a) # ins) =
     (if \<not> is_running srv then (False, srv, st)
      else (let srv' = (if sig then srv\<lparr>is_running := False\<rparr> else srv)
            in case a of
                 AcceptInterrupted \<Rightarrow>
                   if \<not> is_running srv' then (False, srv', st) else accept_loop srv' st ins
               | AcceptWouldBlock \<Rightarrow> accept_loop srv' st ins
               | AcceptFailed \<Rightarrow> accept_loop srv' st ins
               | Accepted fd sa th \<Rightarrow> accept_loop srv' (accept_client e st fd sa th) ins))"

definition server_accept_clients ::
  "server ptr \<Rightarrow> server_state \<Rightarrow> (bool \<times> libc \<times> accept_result) list \<Rightarrow>
     int \<times> bool \<times> server ptr \<times> server_state" where
  "server_accept_clients srvp st ins =
     (case srvp of
        None \<Rightarrow> (-1, False, None, st)
      | Some srv \<Rightarrow>
          (let (waiting, srv', st') = accept_loop (srv\<lparr>is_running := True\<rparr>) st ins
           in (0, waiting, Some srv', st')))"

text \<open>What the calls of \<^verbatim>\<open>server_create\<close> answer: the socket (-1 on failure), whether
  \<^verbatim>\<open>setsockopt\<close>, \<^verbatim>\<open>fcntl(F_GETFL)\<close>, \<^verbatim>\<open>fcntl(F_SETFL)\<close> and \<^verbatim>\<open>inet_pton\<close> succeed and whether the
  socket is non-blocking.\<close>

record server_setup =
  setup_malloc :: bool
  setup_socket :: int
  setup_sockopt :: bool
  setup_getfl :: bool
  setup_nonblock :: bool
  setup_setfl :: bool
  setup_inet :: bool

definition INET_ADDRSTRLEN :: nat where "INET_ADDRSTRLEN = 16"

text \<open>\<open>srv0\<close>, \<open>cm0\<close> and \<open>rm0\<close> are the indeterminate contents of the allocated structure.\<close>

definition server_create ::
  "libc \<Rightarrow> server_setup \<Rightarrow> server \<Rightarrow> client_manager \<Rightarrow> room_manager \<Rightarrow> server_state \<Rightarrow>
     string \<Rightarrow> int \<Rightarrow> server ptr \<times> server_state" where
  "server_create e u srv0 cm0 rm0 st ip port =
     (let (r, sm) = server_security_foundation_init e (g_security_manager st);
          st1 = st\<lparr>g_security_manager := sm\<rparr>
      in if r < 0 then (None, st1)
         else if \<not> setup_malloc u
         then (None, st1\<lparr>g_security_manager := snd (server_security_foundation_cleanup sm)\<rparr>)
         else
           (let srv = srv0\<lparr>server_port := port, is_running := False,
                  server_ip := (strncpy (server_ip srv0) ip (INET_ADDRSTRLEN - 1))
                                 [INET_ADDRSTRLEN - 1 := NUL],
                  server_fd := setup_socket u\<rparr>;
                st2 = st1\<lparr>g_client_manager := client_manager_initialize (Some cm0),
                          g_room_manager := room_manager_initialize (Some rm0)\<rparr>;
                closed = st2\<lparr>net := sys_close (net st2) (setup_socket u)\<rparr>
            in if setup_socket u = -1 then (None, st2)
               else if \<not> setup_sockopt u then (None, closed)
               else if \<not> setup_getfl u then (None, closed)
               else if setup_nonblock u \<and> \<not> setup_setfl u then (None, closed)
               else if \<not> setup_inet u then (None, closed)
               else (Some srv, st2)))"

definition server_destroy :: "server ptr \<Rightarrow> server_state \<Rightarrow> server_state" where
  "server_destroy srvp st =
     (case srvp of
        None \<Rightarrow> st
      | Some srv \<Rightarrow>
          (let (w, _) = client_manager_cleanup (net st) (g_client_manager st);
               w' = (if 0 \<le> server_fd srv then sys_close w (server_fd srv) else w)
           in st\<lparr>g_client_manager := None, g_room_manager := None,
                 g_security_manager := snd (server_security_foundation_cleanup (g_security_manager st)),
                 net := w'\<rparr>))"

section \<open>Every step of the server keeps its invariant\<close>

lemma receive_message_inv [preserves]:
  assumes inv: "server_inv st" and r: "client_session_receive_message st i r = (x, st')"
  shows "server_inv st'" and "g_client_manager st' = g_client_manager st"
    and "g_room_manager st' = g_room_manager st" and "net st' = net st"
proof -
  obtain sm where sm: "g_security_manager st = Some sm" "sm_inv sm"
    using inv by (auto simp: server_inv_def)
  have "server_inv st' \<and> g_client_manager st' = g_client_manager st \<and>
    g_room_manager st' = g_room_manager st \<and> net st' = net st"
  proof (cases "st' = st")
    case False
    with r sm(1) obtain bs d smp where
      d: "server_decrypt_message (Some sm) (session_client_id (session_at st i)) (Some bs)
            (BUFFER_SIZE - 1) = (d, smp)" and st': "st' = st\<lparr>g_security_manager := smp\<rparr>"
      by (auto simp: client_session_receive_message_def split: recv_result.splits if_splits prod.splits)
    then obtain sm' where "smp = Some sm'"
      by (auto simp: server_decrypt_message_def split: option.splits if_splits prod.splits)
    with decrypt_message_inv [OF sm(2)] d st' sm_update_inv [OF inv, of sm'] show ?thesis by simp
  qed (use inv in simp)
  then show "server_inv st'" and "g_client_manager st' = g_client_manager st"
    and "g_room_manager st' = g_room_manager st" and "net st' = net st" by simp_all
qed

lemma session_iteration_inv [preserves]:
  assumes inv: "server_inv st" and i: "i < MAX_CLIENTS" and c: "0 \<le> cid"
    and s: "session_iteration e st i cid r = Some (b, st')"
  shows "server_inv st'"
proof (cases "client_session_is_active (session_at st i)")
  case False
  with s inv show ?thesis by (simp add: session_iteration_def)
next
  case True
  obtain x st1 where r: "client_session_receive_message st i r = (x, st1)" by fastforce
  note inv1 = receive_message_inv(1) [OF inv r]
  from s True r inv1 show ?thesis
    by (auto simp: session_iteration_def split: option.splits if_splits
        intro: handle_message_inv [OF inv1 i c])
qed

lemma remove_client_server_inv [preserves]:
  assumes inv: "server_inv st"
  shows "server_inv (remove_client st cid)"
    and "valid_client_id cid \<Longrightarrow> \<not> active (session_at (remove_client st cid) (nat cid))"
proof -
  from inv obtain cm sm where cm: "g_client_manager st = Some cm" "cm_inv cm"
    and sm: "g_security_manager st = Some sm" "sm_inv sm" by (auto simp: server_inv_def)
  obtain w smp cmp where r: "client_manager_remove_client (net st) (Some sm) (Some cm) cid = (w, smp, cmp)"
    using prod_cases3 by blast
  from remove_client_inv [OF cm(2) r] obtain cm' where cm': "cmp = Some cm'" "cm_inv cm'"
    and gone: "valid_client_id cid \<longrightarrow> \<not> active (clients cm' ! nat cid)" by blast
  have "smp = Some sm \<or> smp = security_manager_remove_client (Some sm) cid"
    using r by (auto simp: client_manager_remove_client_def Let_def split: if_splits prod.splits)
  moreover have "\<exists>sm'. security_manager_remove_client (Some sm) cid = Some sm'"
    by (auto simp: security_manager_remove_client_def)
  ultimately obtain sm' where sm': "smp = Some sm'" "sm_inv sm'"
    using sm_remove_client_inv [OF sm(2)] sm(2) by metis
  have eq: "remove_client st cid = st\<lparr>net := w, g_security_manager := Some sm', g_client_manager := Some cm'\<rparr>"
    using r cm(1) sm(1) cm' sm' by (simp add: remove_client_def)
  show "server_inv (remove_client st cid)" using inv cm' sm' unfolding eq by (auto simp: server_inv_def)
  show "\<not> active (session_at (remove_client st cid) (nat cid))" if "valid_client_id cid"
    using gone that unfolding eq by (simp add: session_at_def)
qed

lemma get_session_valid:
  "client_manager_get_session (Some cm) cid =
     (if valid_client_id cid then Some (nat cid) else None)"
  by (auto simp: client_manager_get_session_def valid_client_id_def)

lemma session_start_inv [preserves]:
  assumes inv: "server_inv st" and s: "session_start e st cid ins = (b, st')"
  shows "server_inv st'"
    and "\<not> b \<Longrightarrow> valid_client_id cid \<Longrightarrow> \<not> active (session_at st' (nat cid))"
    and "b \<Longrightarrow> valid_client_id cid"
proof -
  from inv obtain cm where cm: "g_client_manager st = Some cm" "cm_inv cm" by (auto simp: server_inv_def)
  have "server_inv st' \<and> (\<not> b \<longrightarrow> valid_client_id cid \<longrightarrow> \<not> active (session_at st' (nat cid))) \<and>
    (b \<longrightarrow> valid_client_id cid)"
  proof (cases "valid_client_id cid")
    case False
    with s inv cm show ?thesis by (auto simp: session_start_def get_session_valid)
  next
    case True
    note i = conjunct1 [OF valid_client_id_nat [OF True]]
    obtain res w s1 ins' where h: "handshake_perform_server_side e (net st) (session_at st (nat cid)) ins
      = (res, w, s1, ins')" by (metis prod_cases4)
    note H = server_side_preserves [OF h]
    have inv0: "server_inv (st\<lparr>net := w\<rparr>)" using inv by simp
    have inv1: "server_inv (set_session (st\<lparr>net := w\<rparr>) (nat cid) s1)"
      using H session_at_ok [OF inv i]
      by (intro set_session_inv [OF inv0 i]) (simp_all add: session_at_def)
    let ?st1 = "set_session (st\<lparr>net := w\<rparr>) (nat cid) s1"
    let ?st2 = "reply ?st1 (nat cid) welcome_msg"
    have inv2: "server_inv ?st2" using inv1 by simp
    have "session_ok ((session_at ?st2 (nat cid))\<lparr>session_state := CLIENT_STATE_IN_LOBBY\<rparr>)"
      using session_at_ok [OF inv2 i] by (auto simp: session_ok_def)
    then have inv3: "server_inv (chat_protocol_announce_user_joined ?st2 (Some (nat cid)))"
      using inv2 by (auto simp: chat_protocol_announce_user_joined_def intro!: set_session_inv [OF inv2 i])
    from s cm True h inv3 remove_client_server_inv [OF inv1] show ?thesis
      by (auto simp: session_start_def get_session_valid chat_protocol_send_welcome_message_def Let_def
          split: if_splits)
  qed
  then show "server_inv st'"
    and "\<not> b \<Longrightarrow> valid_client_id cid \<Longrightarrow> \<not> active (session_at st' (nat cid))"
    and "b \<Longrightarrow> valid_client_id cid" by simp_all
qed

lemma session_loop_inv [preserves]:
  "server_inv st \<Longrightarrow> i < MAX_CLIENTS \<Longrightarrow> 0 \<le> cid \<Longrightarrow> session_loop st i cid ins = Some (b, st') \<Longrightarrow>
     server_inv st'"
proof (induction st i cid ins rule: session_loop.induct)
  case (1 st i cid)
  then show ?case by simp
next
  case (2 st i cid e r ins)
  from "2.prems" obtain go st1 where it: "session_iteration e st i cid r = Some (go, st1)"
    by (auto split: option.splits)
  note inv1 = session_iteration_inv [OF "2.prems"(1-3) it]
  show ?case
  proof (cases go)
    case True
    with it "2.prems" have "session_loop st1 i cid ins = Some (b, st')" by simp
    with "2.IH" [OF it refl True inv1] "2.prems"(2,3) show ?thesis by simp
  next
    case False
    with it "2.prems" inv1 show ?thesis by simp
  qed
qed

text \<open>A handler thread keeps the invariant and, when it ends, its slot is free.\<close>

lemma handler_thread_inv [preserves]:
  assumes inv: "server_inv st"
    and t: "client_session_handler_thread e st cid hs ins = Some (waiting, st')"
  shows "server_inv st'"
    and "\<not> waiting \<Longrightarrow> valid_client_id cid \<Longrightarrow> \<not> active (session_at st' (nat cid))"
proof -
  obtain b st1 where s: "session_start e st cid hs = (b, st1)" by fastforce
  note S = session_start_inv [OF inv s]
  have "server_inv st' \<and>
    (\<not> waiting \<longrightarrow> valid_client_id cid \<longrightarrow> \<not> active (session_at st' (nat cid)))"
  proof (cases b)
    case False
    with t s S show ?thesis by (simp add: client_session_handler_thread_def)
  next
    case True
    note valid = S(3) [OF True]
    note i = valid_client_id_nat [OF valid]
    from t s True obtain w st2 where l: "session_loop st1 (nat cid) cid ins = Some (w, st2)"
      and st': "waiting = w" "st' = (if w then st2 else remove_client st2 cid)"
      by (auto simp: client_session_handler_thread_def split: option.splits bool.splits)
    have inv2: "server_inv st2" using session_loop_inv [OF S(1) _ _ l] i by simp
    with remove_client_server_inv [OF inv2] valid st' show ?thesis by simp
  qed
  then show "server_inv st'"
    and "\<not> waiting \<Longrightarrow> valid_client_id cid \<Longrightarrow> \<not> active (session_at st' (nat cid))" by simp_all
qed

lemma thread_session_ok [simp]: "session_ok (s\<lparr>thread := t\<rparr>) \<longleftrightarrow> session_ok s"
  by (simp add: session_ok_def)

lemma accept_client_inv [preserves]:
  assumes inv: "server_inv st" and fd: "0 \<le> fd"
  shows "server_inv (accept_client e st fd a th)"
proof -
  from inv obtain cm sm where cm: "g_client_manager st = Some cm" "cm_inv cm"
    and sm: "g_security_manager st = Some sm" "sm_inv sm" by (auto simp: server_inv_def)
  obtain cid w smp cmp where
    add: "client_manager_add_new_client e (net st) (Some sm) (Some cm) fd a = (cid, w, smp, cmp)"
    by (metis prod_cases4)
  from sm(2) add cm_invD(1) [OF cm(2)]
  obtain sm' cm' where some: "smp = Some sm'" "cmp = Some cm'" and cid: "cid = -1 \<or> valid_client_id cid"
    by (cases rule: add_new_client_cases) (auto simp: valid_client_id_def)
  note A = add_new_client_inv [OF cm(2) sm(2) fd add [unfolded some]]
  let ?st1 = "st\<lparr>net := w, g_security_manager := Some sm', g_client_manager := Some cm'\<rparr>"
  have inv1: "server_inv ?st1" "server_inv (st\<lparr>g_security_manager := Some sm',
      g_client_manager := Some cm'\<rparr>)"
    using inv A by (auto simp: server_inv_def)
  have "server_inv (set_session ?st1 (nat cid) ((session_at ?st1 (nat cid))\<lparr>thread := t\<rparr>))"
    if "\<not> cid < 0" for t
  proof -
    have i: "nat cid < MAX_CLIENTS" using that cid valid_client_id_nat by auto
    show ?thesis by (intro set_session_inv [OF inv1(1) i]) (simp_all add: session_at_ok [OF inv1(1) i])
  qed
  with add cm(1) sm(1) some inv1 remove_client_server_inv(1) [OF inv1(1)] show ?thesis
    by (auto simp: accept_client_def Let_def split: option.splits)
qed

lemma accept_loop_inv [preserves]:
  "server_inv st \<Longrightarrow> \<forall>(sig, e, a) \<in> set ins. \<forall>fd sa th. a = Accepted fd sa th \<longrightarrow> 0 \<le> fd \<Longrightarrow>
     accept_loop srv st ins = (waiting, srv', st') \<Longrightarrow> server_inv st'"
proof (induction srv st ins rule: accept_loop.induct)
  case (1 srv st)
  then show ?case by simp
next
  case (2 srv st sig e a ins)
  have ins: "\<forall>(sig, e, a) \<in> set ins. \<forall>fd sa th. a = Accepted fd sa th \<longrightarrow> 0 \<le> fd"
    using "2.prems"(2) by auto
  show ?case
  proof (cases "is_running srv")
    case False
    with "2.prems" show ?thesis by simp
  next
    case True
    show ?thesis
    proof (cases a)
      case (Accepted fd sa th)
      then have "0 \<le> fd" using "2.prems"(2) by auto
      from accept_client_inv [OF "2.prems"(1) this] "2.IH"(1) [OF _ refl Accepted] True ins
        "2.prems"(3) Accepted
      show ?thesis by simp
    next
      case AcceptInterrupted
      with "2.IH"(2) [OF _ refl AcceptInterrupted] True ins "2.prems" show ?thesis
        by (auto split: if_splits)
    next
      case AcceptWouldBlock
      with "2.IH"(3) [OF _ refl AcceptWouldBlock] True ins "2.prems" show ?thesis by simp
    next
      case AcceptFailed
      with "2.IH"(4) [OF _ refl AcceptFailed] True ins "2.prems" show ?thesis by simp
    qed
  qed
qed

section \<open>Creating the server\<close>

lemma server_create_inv:
  assumes "length (clients cm0) = MAX_CLIENTS" and "length (rooms rm0) = MAX_ROOMS"
    and create: "server_create e u srv0 cm0 rm0 st ip port = (Some srv, st')"
  shows "server_inv st'" and "server_fd srv = setup_socket u" and "net st' = net st"
    and "\<forall>i < MAX_CLIENTS. \<not> active (session_at st' i)"
    and "room_dir (the (g_room_manager st')) = Map.empty"
proof -
  obtain cm where cm: "client_manager_initialize (Some cm0) = Some cm"
    by (simp add: client_manager_initialize_def)
  obtain rm where rm: "room_manager_initialize (Some rm0) = Some rm"
    by (simp add: room_manager_initialize_def)
  note C = cm_initialize_inv [OF assms(1) cm] and R = rm_initialize_inv [OF assms(2) rm]
  obtain r smp where f: "server_security_foundation_init e (g_security_manager st) = (r, smp)" by fastforce
  from create f obtain sm where sm: "security_manager_create e = Some sm"
    "st' = st\<lparr>g_security_manager := Some sm, g_client_manager := Some cm, g_room_manager := Some rm\<rparr>"
    and srv: "server_fd srv = setup_socket u"
    unfolding server_create_def
    by (auto simp: cm rm server_security_foundation_init_def server_basic_foundation_init_def Let_def
        split: option.splits if_splits)
  have "sm_inv sm" using sm(1)
    by (auto simp: security_manager_create_def sm_inv_def split: if_splits)
  with C R sm(2) show "server_inv st'" by (auto simp: server_inv_def)
  show "server_fd srv = setup_socket u" by (rule srv)
  show "net st' = net st" using sm(2) by simp
  show "\<forall>i < MAX_CLIENTS. \<not> active (session_at st' i)"
    using C cm_invD(1) [OF C(1)] sm(2) by (auto simp: session_at_def)
  show "room_dir (the (g_room_manager st')) = Map.empty" using R sm(2) by simp
qed

section \<open>The concurrent server\<close>

definition srv_start :: "server_state \<Rightarrow> bool" where
  "srv_start st \<longleftrightarrow>
     (\<exists>e u srv0 cm0 rm0 st0 ip port srv.
        length (clients cm0) = MAX_CLIENTS \<and> length (rooms rm0) = MAX_ROOMS \<and>
        server_create e u srv0 cm0 rm0 st0 ip port = (Some srv, st))"

inductive srv_step :: "server_state \<Rightarrow> server_state \<Rightarrow> bool" where
  srv_accept: "0 \<le> fd \<Longrightarrow> srv_step st (accept_client e st fd a th)"
| srv_thread_start: "session_start e st cid ins = (b, st') \<Longrightarrow> srv_step st st'"
| srv_message: "valid_client_id cid \<Longrightarrow> session_iteration e st (nat cid) cid r = Some (b, st') \<Longrightarrow>
    srv_step st st'"
| srv_thread_end: "srv_step st (remove_client st cid)"

inductive_cases srv_stepE: "srv_step st st'"

lemma srv_step_inv: "server_inv st \<Longrightarrow> srv_step st st' \<Longrightarrow> server_inv st'"
  by (auto elim!: srv_stepE dest: valid_client_id_nat
      intro: accept_client_inv session_start_inv(1) session_iteration_inv remove_client_server_inv(1))

interpretation srv_system: invariant_system srv_start srv_step server_inv
  by unfold_locales (auto simp: srv_start_def intro: server_create_inv(1) srv_step_inv)

end
