(* ===== verification/CliArgs.thy ===== *)
theory CliArgs
  imports CLib
begin

text \<open>
  The command lines: \<^verbatim>\<open>parse_args\<close> of \<^verbatim>\<open>server/src/cli_args.c\<close> and of \<^verbatim>\<open>client/src/cli_args.c\<close>.
  \<^verbatim>\<open>atoi\<close> is undefined when the number is no \<^verbatim>\<open>int\<close>: then the result is \<open>None\<close>. The argument list
  starts with the program name.
\<close>

definition is_blank :: "char \<Rightarrow> bool" where
  "is_blank c \<longleftrightarrow> c = CHR '' '' \<or> (9 \<le> (of_char c :: nat) \<and> (of_char c :: nat) \<le> 13)"

definition is_digit :: "char \<Rightarrow> bool" where
  "is_digit c \<longleftrightarrow> 48 \<le> (of_char c :: nat) \<and> (of_char c :: nat) \<le> 57"

fun decimal_value :: "nat \<Rightarrow> string \<Rightarrow> nat" where
  "decimal_value acc [] = acc"
| "decimal_value acc (c # cs) =
     (if is_digit c then decimal_value (acc * 10 + (of_char c - 48)) cs else acc)"

definition atoi :: "string \<Rightarrow> int option" where
  "atoi s =
     (let t = dropWhile is_blank (cstr s);
          neg = (t \<noteq> [] \<and> hd t = CHR ''-'');
          digits = (if t \<noteq> [] \<and> (hd t = CHR ''-'' \<or> hd t = CHR ''+'') then tl t else t);
          v = (if neg then - int (decimal_value 0 digits) else int (decimal_value 0 digits))
      in if - (2 ^ 31) \<le> v \<and> v < 2 ^ 31 then Some v else None)"

section \<open>The server\<close>

record server_args =
  sa_ip :: string
  sa_port :: int
  sa_valid :: bool

definition server_parse_args :: "string list \<Rightarrow> server_args option" where
  "server_parse_args argv =
     (let args = \<lparr>sa_ip = ''127.0.0.1'', sa_port = 8080, sa_valid = True\<rparr>;
          rest = (\<lambda>args.
            let args1 = (if length argv > 2 then args\<lparr>sa_ip := argv ! 2\<rparr> else args)
            in if length argv > 3 then args1\<lparr>sa_valid := False\<rparr> else args1)
      in if length argv > 1
         then (case atoi (argv ! 1) of
                 None \<Rightarrow> None
               | Some port \<Rightarrow>
                   if port \<le> 0 \<or> port > 65535
                   then Some (args\<lparr>sa_port := port, sa_valid := False\<rparr>)
                   else Some (rest (args\<lparr>sa_port := port\<rparr>)))
         else Some (rest args))"

section \<open>The client\<close>

record client_args =
  ca_ip :: string
  ca_port :: int
  ca_nickname :: "string option"
  ca_valid :: bool

fun client_parse_options :: "client_args \<Rightarrow> string list \<Rightarrow> client_args option" where
  "client_parse_options args [] = Some (args\<lparr>ca_valid := True\<rparr>)"
| "client_parse_options args (opt # rest) =
     (if opt = ''-h'' \<or> opt = ''--host''
      then (case rest of
              [] \<Rightarrow> Some args
            | ip # rest' \<Rightarrow> client_parse_options (args\<lparr>ca_ip := ip\<rparr>) rest')
      else if opt = ''-p'' \<or> opt = ''--port''
      then (case rest of
              [] \<Rightarrow> Some args
            | p # rest' \<Rightarrow>
                (case atoi p of
                   None \<Rightarrow> None
                 | Some port \<Rightarrow>
                     if port \<le> 0 \<or> port > 65535 then Some (args\<lparr>ca_port := port\<rparr>)
                     else client_parse_options (args\<lparr>ca_port := port\<rparr>) rest'))
      else Some args)"

definition client_parse_args :: "string list \<Rightarrow> client_args option" where
  "client_parse_args argv =
     (let args = \<lparr>ca_ip = ''127.0.0.1'', ca_port = 8080, ca_nickname = None, ca_valid = False\<rparr>
      in if length argv < 2 then Some args
         else client_parse_options (args\<lparr>ca_nickname := Some (argv ! 1)\<rparr>) (drop 2 argv))"

section \<open>Accepted arguments\<close>

lemma client_options_port:
  "client_parse_options args opts = Some r \<Longrightarrow> \<not> ca_valid args \<Longrightarrow> 0 < ca_port args \<Longrightarrow>
     ca_port args \<le> 65535 \<Longrightarrow> ca_valid r \<Longrightarrow> 0 < ca_port r \<and> ca_port r \<le> 65535"
  by (induction args opts rule: client_parse_options.induct)
    (auto split: if_splits list.splits option.splits)

lemma client_options_nickname:
  "client_parse_options args opts = Some r \<Longrightarrow> ca_nickname r = ca_nickname args"
  by (induction args opts rule: client_parse_options.induct)
    (auto split: if_splits list.splits option.splits)

end
