(* ===== verification/ServerMain.thy ===== *)
theory ServerMain
  imports ServerLoop CliArgs
begin

text \<open>
  The server program: \<^verbatim>\<open>main()\<close> of \<^verbatim>\<open>server/src/main.c\<close> with \<^verbatim>\<open>server_bind\<close> of \<^verbatim>\<open>server/src/server.c\<close> and
  the installation of the signal handler (\<^verbatim>\<open>server/src/signal_handler.c\<close>). The inputs are the command
  line, what the system calls answer, the results of \<^verbatim>\<open>accept()\<close>, and when a termination signal
  arrives: before the accept loop (\<open>early\<close>), during a call of \<^verbatim>\<open>accept()\<close>, or during the sleep of
  \<^verbatim>\<open>main\<close>. The threads of the clients run beside \<^verbatim>\<open>main\<close>; their steps are in \<open>srv_step\<close>, not here.
\<close>

definition server_bind :: "bool \<Rightarrow> server ptr \<Rightarrow> int" where
  "server_bind bind_ok srvp =
     (case srvp of
        None \<Rightarrow> -1
      | Some _ \<Rightarrow> if \<not> bind_ok then -1 else 0)"

text \<open>The handler's pointer \<^verbatim>\<open>g_server\<close> and the server it points to; \<open>None\<close> is NULL, otherwise the
  pointer is the server of \<^verbatim>\<open>main\<close>. A signal reaches the server through the pointer.\<close>

definition signal_handler_init :: "server ptr \<Rightarrow> server ptr" where
  "signal_handler_init srvp = srvp"

definition signal_handler_cleanup :: "server ptr" where
  "signal_handler_cleanup = None"

definition deliver_signal :: "bool \<Rightarrow> server ptr \<Rightarrow> server ptr" where
  "deliver_signal arrived g_server = (if arrived then signal_handler g_server else g_server)"

text \<open>The outer loop: each round is a call of \<^verbatim>\<open>server_accept_clients\<close> on its inputs and a sleep, during
  which a signal may arrive. The flag tells whether the program waits for more input.\<close>

fun main_loop ::
  "server \<Rightarrow> server_state \<Rightarrow> ((bool \<times> libc \<times> accept_result) list \<times> bool) list \<Rightarrow>
     bool \<times> server \<times> server_state" where
  "main_loop srv st [] = (is_running srv, srv, st)"
| "main_loop srv st ((ins, sig) # rounds) =
     (if \<not> is_running srv then (False, srv, st)
      else (case server_accept_clients (Some srv) st ins of
              (r, waiting, srvp, st1) \<Rightarrow>
                if waiting then (True, the srvp, st1)
                else main_loop (the (deliver_signal sig srvp)) st1 rounds))"

datatype main_end = Exited int | Waiting server

definition server_main ::
  "libc \<Rightarrow> string list \<Rightarrow> server_setup \<Rightarrow> server \<Rightarrow> client_manager \<Rightarrow> room_manager \<Rightarrow> bool \<Rightarrow> bool \<Rightarrow> bool \<Rightarrow>
     ((bool \<times> libc \<times> accept_result) list \<times> bool) list \<Rightarrow> server_state \<Rightarrow> (main_end \<times> server_state) option" where
  "server_main e argv u srv0 cm0 rm0 bind_ok listen_ok early rounds st =
     (case server_parse_args argv of
        None \<Rightarrow> None
      | Some args \<Rightarrow>
          if \<not> sa_valid args then Some (Exited 1, st)
          else (case server_create e u srv0 cm0 rm0 st (sa_ip args) (sa_port args) of
                  (None, st1) \<Rightarrow> Some (Exited 1, st1)
                | (Some srv, st1) \<Rightarrow>
                    (let srv1 = the (deliver_signal early (signal_handler_init (Some srv)))
                     in if server_bind bind_ok (Some srv1) < 0
                        then Some (Exited 1, server_destroy (Some srv1) st1)
                        else if \<not> listen_ok then Some (Exited 1, server_destroy (Some srv1) st1)
                        else (case main_loop (srv1\<lparr>is_running := True\<rparr>) st1 rounds of
                                (True, srv2, st2) \<Rightarrow> Some (Waiting srv2, st2)
                              | (False, srv2, st2) \<Rightarrow> Some (Exited 0, server_destroy (Some srv2) st2)))))"

section \<open>The accept loop and signals\<close>

definition signalled :: "(bool \<times> libc \<times> accept_result) list \<Rightarrow> bool" where
  "signalled ins \<longleftrightarrow> (\<exists>(sig, e, a) \<in> set ins. sig)"

lemma signalled_simps [simp]:
  "\<not> signalled []" "signalled ((sig, e, a) # ins) \<longleftrightarrow> sig \<or> signalled ins"
  by (auto simp: signalled_def)

lemma accept_loop_stopped: "\<not> is_running srv \<Longrightarrow> accept_loop srv st ins = (False, srv, st)"
  by (cases ins) auto

lemma accept_loop_signal:
  "is_running srv \<Longrightarrow>
     \<exists>srv' st'. accept_loop srv st ins = (\<not> signalled ins, srv', st') \<and>
       srv' = srv\<lparr>is_running := \<not> signalled ins\<rparr>"
proof (induction srv st ins rule: accept_loop.induct)
  case (1 srv st)
  then show ?case by simp
next
  case (2 srv st sig e a ins)
  show ?case
  proof (cases sig)
    case True
    with "2.prems" show ?thesis by (cases a) (simp_all add: accept_loop_stopped)
  next
    case False
    with "2.prems" "2.IH" show ?thesis by (cases a) simp_all
  qed
qed

lemma main_loop_signal:
  assumes "is_running srv" and "rounds \<noteq> []"
  shows "\<exists>srv' st'. main_loop srv st rounds = (\<not> signalled (fst (hd rounds)), srv', st') \<and>
    server_fd srv' = server_fd srv \<and> (\<not> signalled (fst (hd rounds)) \<longrightarrow> srv' = srv)"
proof -
  obtain ins sig rest where r: "rounds = (ins, sig) # rest" using assms(2) by (cases rounds) auto
  obtain srv' st' where a: "accept_loop (srv\<lparr>is_running := True\<rparr>) st ins = (\<not> signalled ins, srv', st')"
    "srv' = srv\<lparr>is_running := \<not> signalled ins\<rparr>"
    using accept_loop_signal [of "srv\<lparr>is_running := True\<rparr>" st ins] by auto
  have stop: "main_loop s st' rest = (False, s, st')" if "\<not> is_running s" for s
    using that by (cases rest) auto
  show ?thesis using r a assms(1) stop
    by (auto simp: server_accept_clients_def deliver_signal_def signal_handler_def)
qed

section \<open>Destroying the server\<close>

lemma cleanup_clients_world: "\<exists>es. trace (fst (cleanup_clients w ss)) = trace w @ es \<and>
    (\<forall>s \<in> set ss. active s \<longrightarrow> 0 \<le> socket_fd s \<longrightarrow> Closed (socket_fd s) \<in> set es)"
proof (induction ss arbitrary: w)
  case Nil
  then show ?case by simp
next
  case (Cons s ss)
  show ?case
  proof (cases "active s")
    case True
    let ?w1 = "fst (client_session_cleanup w s)"
    let ?w2 = "sys_cancel ?w1 (thread s)"
    obtain es where es: "trace (fst (cleanup_clients ?w2 ss)) = trace ?w2 @ es"
      "\<forall>s \<in> set ss. active s \<longrightarrow> 0 \<le> socket_fd s \<longrightarrow> Closed (socket_fd s) \<in> set es"
      using Cons.IH by blast
    have "trace ?w2 = trace w @ (if 0 \<le> socket_fd s then [Closed (socket_fd s)] else []) @ [Cancelled (thread s)]"
      by (simp add: client_session_cleanup_def sys_close_def sys_cancel_def)
    moreover have "fst (cleanup_clients w (s # ss)) = fst (cleanup_clients ?w2 ss)"
      using True by (simp add: client_session_cleanup_def Let_def split: prod.splits)
    ultimately show ?thesis using es by (intro exI conjI) auto
  next
    case False
    then show ?thesis using Cons.IH [of w] by (auto simp: Let_def split: prod.splits)
  qed
qed

lemma server_destroy_releases:
  fixes srv :: server
  assumes "g_client_manager st = Some cm"
  defines st': "st' \<equiv> server_destroy (Some srv) st"
  shows "g_client_manager st' = None" and "g_room_manager st' = None" and "g_security_manager st' = None"
    and "s \<in> set (clients cm) \<Longrightarrow> active s \<Longrightarrow> 0 \<le> socket_fd s \<Longrightarrow>
      Closed (socket_fd s) \<in> set (emitted (net st) (net st'))"
    and "0 \<le> server_fd srv \<Longrightarrow> Closed (server_fd srv) \<in> set (emitted (net st) (net st'))"
  using cleanup_clients_world [of "net st" "clients cm"] assms
  by (auto simp: st' server_destroy_def server_security_foundation_cleanup_def
      client_manager_cleanup_def sys_close_def emitted_def Let_def split: prod.splits)

end
