(* ===== verification/ChatBehaviour.thy ===== *)
theory ChatBehaviour
  imports ServerLoop
begin

text \<open>
  What the commands of the chat protocol do, against an abstract specification: a chat is a
  directory of rooms (room id to member set) and the room each client believes it is in. The
  handlers of \<^verbatim>\<open>server/src/chat_protocol.c\<close> refine the three operations below on it, and every client
  that is not addressed receives nothing.
\<close>

section \<open>The abstract chat\<close>

type_synonym directory = "string \<Rightarrow> int set option"
type_synonym chat = "directory \<times> (int \<Rightarrow> string option)"

definition dir_leave :: "directory \<Rightarrow> string \<Rightarrow> int \<Rightarrow> directory" where
  "dir_leave d rid c =
     (case d rid of
        None \<Rightarrow> d
      | Some S \<Rightarrow> if c \<in> S then d(rid := if S - {c} = {} then None else Some (S - {c})) else d)"

definition dir_join :: "directory \<Rightarrow> string \<Rightarrow> int \<Rightarrow> directory option" where
  "dir_join d rid c =
     (case d rid of
        None \<Rightarrow> None
      | Some S \<Rightarrow> if c \<notin> S \<and> card S < MAX_CLIENTS_PER_ROOM then Some (d(rid \<mapsto> insert c S)) else None)"

definition chat_vacate :: "chat \<Rightarrow> int \<Rightarrow> directory" where
  "chat_vacate ch c = (case snd ch c of None \<Rightarrow> fst ch | Some r \<Rightarrow> dir_leave (fst ch) r c)"

definition chat_join :: "string \<Rightarrow> int \<Rightarrow> chat \<Rightarrow> chat" where
  "chat_join rid c ch =
     (case dir_join (chat_vacate ch c) rid c of
        None \<Rightarrow> (chat_vacate ch c, snd ch)
      | Some d \<Rightarrow> (d, (snd ch)(c \<mapsto> rid)))"

definition chat_create :: "string \<Rightarrow> int \<Rightarrow> chat \<Rightarrow> chat" where
  "chat_create rid c ch = ((chat_vacate ch c)(rid \<mapsto> {c}), (snd ch)(c \<mapsto> rid))"

definition chat_leave :: "int \<Rightarrow> chat \<Rightarrow> chat" where
  "chat_leave c ch = (chat_vacate ch c, (snd ch)(c := None))"

section \<open>The chat of a server state\<close>

definition current_room :: "client_session \<Rightarrow> string option" where
  "current_room s = (if in_room s then Some (cstr (current_room_id s)) else None)"

definition abs_chat :: "server_state \<Rightarrow> chat" where
  "abs_chat st =
     (room_dir (the (g_room_manager st)),
      \<lambda>c. if valid_client_id c then current_room (session_at st (nat c)) else None)"

text \<open>The server invariant with room ids that are unique.\<close>

definition server_ok :: "server_state \<Rightarrow> bool" where
  "server_ok st \<longleftrightarrow> server_inv st \<and> distinct_room_ids (the (g_room_manager st))"

lemma server_okE:
  assumes "server_ok st"
  obtains rm cm where "server_inv st" "g_room_manager st = Some rm" "rm_unique rm"
    "g_client_manager st = Some cm" "cm_inv cm"
  using assms by (auto simp: server_ok_def server_inv_def rm_unique_def)

lemma valid_of_nat: "i < MAX_CLIENTS \<Longrightarrow> valid_client_id (int i)"
  by (simp add: valid_client_id_def)

lemma abs_chat_reply [simp]: "abs_chat (reply st i msg) = abs_chat st"
  by (simp add: abs_chat_def fun_eq_iff)

lemma server_ok_reply [simp]: "server_ok (reply st i msg) \<longleftrightarrow> server_ok st"
  by (simp add: server_ok_def)

lemma abs_chat_to_room [simp]: "abs_chat (to_room st rid msg c) = abs_chat st"
  by (simp add: abs_chat_def fun_eq_iff)

lemma server_ok_to_room [simp]: "server_ok (to_room st rid msg c) \<longleftrightarrow> server_ok st"
  by (simp add: server_ok_def)

lemma abs_chat_set_session:
  assumes "server_inv st" and "i < MAX_CLIENTS"
  shows "abs_chat (set_session st i s) =
    (fst (abs_chat st), (snd (abs_chat st))(int i := current_room s))"
  using assms valid_of_nat [OF assms(2)]
  by (auto simp: abs_chat_def fun_eq_iff session_at_set_session valid_client_id_def)

text \<open>Leaving a room refines \<open>dir_leave\<close>.\<close>

lemma leave_room_refines:
  assumes u: "rm_unique rm" and c: "0 \<le> c"
  shows "\<exists>x rm'. room_manager_leave_room (Some rm) (Some rid) c = (x, Some rm') \<and> rm_unique rm' \<and>
    room_dir rm' = dir_leave (room_dir rm) (cstr rid) c"
proof (cases "\<exists>S. room_dir rm (cstr rid) = Some S \<and> c \<in> S")
  case True
  then obtain S where S: "room_dir rm (cstr rid) = Some S" "c \<in> S" by blast
  from room_table.leave_ok [OF u S(1) c S(2)] show ?thesis
    using S by (simp add: dir_leave_def del: fun_upd_apply) metis
next
  case False
  then have "room_manager_leave_room (Some rm) (Some rid) c = (-1, Some rm)"
    using room_table.leave_refused [OF u, of rid c] by (cases "room_dir rm (cstr rid)") auto
  with u False show ?thesis by (auto simp: dir_leave_def split: option.splits)
qed

lemma leave_current_refines:
  assumes ok: "server_ok st" and i: "i < MAX_CLIENTS"
  shows "server_ok (leave_current st i (int i)) \<and>
    abs_chat (leave_current st i (int i)) = (chat_vacate (abs_chat st) (int i), snd (abs_chat st))"
proof -
  obtain rm where inv: "server_inv st" and rm: "g_room_manager st = Some rm" and u: "rm_unique rm"
    by (rule server_okE [OF ok]) blast
  let ?rid = "current_room_id (session_at st i)"
  obtain x rm' where l: "room_manager_leave_room (Some rm) (Some ?rid) (int i) = (x, Some rm')"
    and u': "rm_unique rm'" and d: "room_dir rm' = dir_leave (room_dir rm) (cstr ?rid) (int i)"
    using leave_room_refines [OF u, of "int i" ?rid] by auto
  have loc: "snd (abs_chat st) (int i) = current_room (session_at st i)"
    using valid_of_nat [OF i] by (simp add: abs_chat_def)
  have inv': "server_inv (leave_current st i (int i))" by (rule leave_current_inv [OF inv])
  show ?thesis
  proof (cases "in_room (session_at st i)")
    case True
    then have "g_room_manager (leave_current st i (int i)) = Some rm'"
      using rm l by (simp add: leave_current_def)
    with inv' u' d loc rm True show ?thesis
      by (auto simp: server_ok_def rm_unique_def abs_chat_def chat_vacate_def current_room_def)
  next
    case False
    with ok loc show ?thesis by (auto simp: leave_current_def chat_vacate_def current_room_def)
  qed
qed

section \<open>The join command\<close>

lemma current_room_enter:
  assumes s: "session_ok s" and act: "active s" and rid: "strlen rid = ROOM_ID_LENGTH"
  shows "current_room (enter_room s rid) = Some (cstr rid)"
proof -
  have "length (current_room_id s) = Suc ROOM_ID_LENGTH"
    using s act by (simp add: session_ok_def buf_ok_def)
  from enter_room_id(2) [OF this, of rid] rid
  have "cstr (current_room_id (enter_room s rid)) = cstr rid" by (simp add: strlen_def)
  then show ?thesis using rid by (simp add: current_room_def in_room_def strlen_def limits)
qed

lemma handle_join_refines:
  assumes ok: "server_ok st" and i: "i < MAX_CLIENTS" and act: "active (session_at st i)"
    and rid: "strlen rid = ROOM_ID_LENGTH"
    and h: "chat_protocol_handle_join_room st (Some i) (Some rid) (int i) = (r, st')"
  shows "r = 0 \<and> server_ok st' \<and> abs_chat st' = chat_join (cstr rid) (int i) (abs_chat st)"
proof -
  let ?st1 = "leave_current st i (int i)"
  note L = leave_current_refines [OF ok i]
  then obtain rm where inv1: "server_inv ?st1" and rm: "g_room_manager ?st1 = Some rm"
    and u: "rm_unique rm" using server_okE by metis
  have dir1: "room_dir rm = chat_vacate (abs_chat st) (int i)"
    using L rm by (simp add: abs_chat_def prod_eq_iff)
  have some: "g_client_manager st \<noteq> None" "g_room_manager st \<noteq> None"
    using ok by (auto simp: server_ok_def server_inv_def)
  show ?thesis
  proof (cases "dir_join (room_dir rm) (cstr rid) (int i)")
    case None
    then have j: "room_manager_join_room (Some rm) (Some rid) (int i) = (-1, Some rm)"
      using room_table.join_refused [OF u, of rid "int i"]
      by (auto simp: dir_join_def split: option.splits if_splits)
    have st1: "?st1\<lparr>g_room_manager := Some rm\<rparr> = ?st1" using rm by simp
    from h rid some rm j have "r = 0" "st' = reply ?st1 i (''Room not found or room is full.'' @ [LF])"
      by (auto simp: chat_protocol_handle_join_room_def Let_def st1)
    with L None dir1 show ?thesis by (auto simp: chat_join_def)
  next
    case (Some d)
    then obtain S where S: "room_dir rm (cstr rid) = Some S" "int i \<notin> S" "card S < MAX_CLIENTS_PER_ROOM"
      and d: "d = (room_dir rm)(cstr rid \<mapsto> insert (int i) S)"
      by (auto simp: dir_join_def split: option.splits if_splits)
    from room_table.join_ok [OF u S(1) _ S(2,3)] d obtain rm' where
      j: "room_manager_join_room (Some rm) (Some rid) (int i) = (0, Some rm')" and u': "rm_unique rm'"
      and d': "room_dir rm' = d" by auto
    let ?st2 = "?st1\<lparr>g_room_manager := Some rm'\<rparr>"
    let ?st3 = "set_session ?st2 i (enter_room (session_at ?st2 i) rid)"
    have inv2: "server_inv ?st2"
      using u' by (intro rm_update_inv [OF inv1]) (simp add: rm_unique_def)
    have s2: "session_at ?st2 i = session_at st i" by (simp add: session_at_def)
    have sok: "session_ok (session_at st i)" using session_at_ok [OF inv2 i] s2 by simp
    have inv3: "server_inv ?st3"
      by (intro set_session_inv [OF inv2 i] enter_room_ok session_at_ok [OF inv2 i] rid) simp_all
    have "abs_chat ?st3 = (d, (snd (abs_chat st))(int i \<mapsto> cstr rid))"
      using L d' abs_chat_set_session [OF inv2 i] current_room_enter [OF sok act rid] s2
      by (auto simp: abs_chat_def fun_eq_iff prod_eq_iff session_at_def)
    moreover have "server_ok ?st3" using inv3 u' by (simp add: server_ok_def rm_unique_def)
    moreover from h rid some rm j have "r = 0" and "\<exists>m1 m2. st' = to_room (reply ?st3 i m1) rid m2 (int i)"
      by (auto simp: chat_protocol_handle_join_room_def Let_def)
    ultimately show ?thesis using Some dir1 by (auto simp: chat_join_def)
  qed
qed

section \<open>The leave command\<close>

lemma handle_leave_refines:
  assumes ok: "server_ok st" and i: "i < MAX_CLIENTS"
    and h: "chat_protocol_handle_leave_room st (Some i) (int i) = (r, st')"
  shows "r = 0 \<and> server_ok st' \<and> abs_chat st' = chat_leave (int i) (abs_chat st)"
proof -
  have some: "g_client_manager st \<noteq> None" "g_room_manager st \<noteq> None" and inv: "server_inv st"
    using ok by (auto simp: server_ok_def server_inv_def)
  have loc: "snd (abs_chat st) (int i) = current_room (session_at st i)"
    using valid_of_nat [OF i] by (simp add: abs_chat_def)
  show ?thesis
  proof (cases "in_room (session_at st i)")
    case False
    with h some have "r = 0" "st' = reply st i (''You are not currently in a room.'' @ [LF])"
      by (auto simp: chat_protocol_handle_leave_room_def)
    with ok loc False show ?thesis
      by (auto simp: chat_leave_def chat_vacate_def current_room_def prod_eq_iff fun_eq_iff)
  next
    case True
    let ?s = "session_at st i"
    let ?msg = "snprintf_str BUFFER_SIZE (''*** '' @ cstr (nickname ?s) @ '' left the room ***'' @ [LF])"
    let ?st1 = "to_room st (current_room_id ?s) ?msg (int i)"
    let ?st2 = "leave_current ?st1 i (int i)"
    let ?s' = "?s\<lparr>current_room_id := replicate (ROOM_ID_LENGTH + 1) NUL,
      session_state := CLIENT_STATE_IN_LOBBY\<rparr>"
    have st2: "?st2 = ?st1\<lparr>g_room_manager := snd (room_manager_leave_room (g_room_manager ?st1)
        (Some (current_room_id ?s)) (int i))\<rparr>"
      using True by (simp add: leave_current_def)
    have L: "server_ok ?st2" "abs_chat ?st2 = (chat_vacate (abs_chat st) (int i), snd (abs_chat st))"
      using leave_current_refines [of ?st1 i] ok i by simp_all
    then have inv2: "server_inv ?st2" by (simp add: server_ok_def)
    have "session_ok ?s'" using session_at_ok [OF inv i] by (auto simp: session_ok_def)
    then have inv3: "server_inv (set_session ?st2 i ?s')"
      by (intro set_session_inv [OF inv2 i]) simp_all
    then have "server_ok (set_session ?st2 i ?s')" using L(1) by (simp add: server_ok_def)
    moreover have "abs_chat (set_session ?st2 i ?s') = chat_leave (int i) (abs_chat st)"
      unfolding abs_chat_set_session [OF inv2 i] L(2)
      by (simp add: chat_leave_def current_room_def in_room_def)
    moreover from h True some have "r = 0" and "\<exists>m. st' = reply (set_session ?st2 i ?s') i m"
      unfolding st2 by (auto simp: chat_protocol_handle_leave_room_def Let_def)
    ultimately show ?thesis by auto
  qed
qed

section \<open>The create command\<close>

lemma room_slot_after_leave:
  assumes "server_ok st" and "i < MAX_CLIENTS"
  shows "g_room_manager (leave_current st i c) \<noteq> None"
  using leave_current_inv [of st i c] assms by (auto simp: server_ok_def server_inv_def)

lemma handle_create_refines:
  assumes ok: "server_ok st" and i: "i < MAX_CLIENTS" and act: "active (session_at st i)"
    and name: "0 < strlen name" "strlen name < MAX_ROOM_NAME"
    and slot: "rm_has_slot (the (g_room_manager (leave_current st i (int i))))"
    and alloc: "libc_alloc e 0"
    and gen: "room_generate_id e = Some rid"
    and fresh: "chat_vacate (abs_chat st) (int i) rid = None"
    and h: "chat_protocol_handle_create_room e st (Some i) (Some name) (int i) = (r, st')"
  shows "r = 0 \<and> server_ok st' \<and> abs_chat st' = chat_create rid (int i) (abs_chat st)"
proof -
  let ?st1 = "leave_current st i (int i)"
  note L = leave_current_refines [OF ok i]
  then obtain rm where inv1: "server_inv ?st1" and rm: "g_room_manager ?st1 = Some rm"
    and u: "rm_unique rm" using server_okE by metis
  have dir1: "room_dir rm = chat_vacate (abs_chat st) (int i)"
    using L rm by (simp add: abs_chat_def prod_eq_iff)
  have some: "g_client_manager st \<noteq> None" "g_room_manager st \<noteq> None"
    using ok by (auto simp: server_ok_def server_inv_def)
  have slot': "rm_has_slot rm" using slot rm by simp
  have fresh': "room_dir rm rid = None" using fresh dir1 by simp
  obtain p rm' where cr: "room_manager_create_room e (Some rm) (Some name) (int i) = (p, Some rm')"
    and u': "rm_unique rm'" and d': "room_dir rm' = (room_dir rm)(rid \<mapsto> {int i})"
    using room_table.create_ok [OF u _ slot' gen fresh', of "int i" name] by auto
  have p: "p = Some rid"
  proof -
    have "rm_inv rm" "room_count rm < int MAX_ROOMS"
      using u slot' by (simp_all add: rm_unique_def rm_has_slot_def)
    from create_room_success [OF this cr] gen alloc show ?thesis by auto
  qed
  have len: "strlen rid = ROOM_ID_LENGTH" "cstr rid = rid"
    using create_room_id_length [of e rm name "int i" rid] cr p by auto
  let ?st2 = "?st1\<lparr>g_room_manager := Some rm'\<rparr>"
  let ?st3 = "set_session ?st2 i (enter_room (session_at ?st2 i) rid)"
  have inv2: "server_inv ?st2"
    using u' by (intro rm_update_inv [OF inv1]) (simp add: rm_unique_def)
  have s2: "session_at ?st2 i = session_at st i" by (simp add: session_at_def)
  have sok: "session_ok (session_at st i)" using session_at_ok [OF inv2 i] s2 by simp
  have inv3: "server_inv ?st3"
    by (intro set_session_inv [OF inv2 i] enter_room_ok session_at_ok [OF inv2 i] len(1)) simp_all
  have "abs_chat ?st3 = (room_dir rm', (snd (abs_chat st))(int i \<mapsto> rid))"
    using L abs_chat_set_session [OF inv2 i] current_room_enter [OF sok act len(1)] s2 len(2)
    by (auto simp: abs_chat_def fun_eq_iff prod_eq_iff session_at_def)
  moreover have "server_ok ?st3" using inv3 u' by (simp add: server_ok_def rm_unique_def)
  moreover from h name some rm cr p have "r = 0" and "\<exists>m. st' = reply ?st3 i m"
    by (auto simp: chat_protocol_handle_create_room_def Let_def)
  ultimately show ?thesis using dir1 d' by (auto simp: chat_create_def)
qed

section \<open>Messages\<close>

lemma formatted_message_fits:
  assumes "session_ok s"
  shows "snprintf_str (BUFFER_SIZE + MAX_NICKNAME_LEN + 10)
      (cstr (nickname s) @ '': '' @ clean_line BUFFER_SIZE [LF, CR] msg @ [LF]) =
    cstr (nickname s) @ '': '' @ clean_line BUFFER_SIZE [LF, CR] msg @ [LF]"
proof (rule snprintf_str_fits)
  show "NUL \<notin> set (cstr (nickname s) @ '': '' @ clean_line BUFFER_SIZE [LF, CR] msg @ [LF])" by simp
  have "length (cstr (nickname s)) < 32"
    using strlen_less [OF session_okD(1) [OF assms]] by (simp add: strlen_def limits)
  moreover have "length (clean_line BUFFER_SIZE [LF, CR] msg) < 1024"
    using clean_line_length [of BUFFER_SIZE "[LF, CR]" msg] by (simp add: limits)
  ultimately show "length (cstr (nickname s) @ '': '' @ clean_line BUFFER_SIZE [LF, CR] msg @ [LF]) <
      BUFFER_SIZE + MAX_NICKNAME_LEN + 10"
    by (simp add: limits)
qed

lemma handle_plain_message:
  assumes inv: "server_inv st" and i: "i < MAX_CLIENTS"
    and m: "clean_line BUFFER_SIZE [LF, CR] msg = m" "m \<noteq> []" "hd m \<noteq> CHR ''/''"
  shows "chat_protocol_handle_message e st (Some i) (Some msg) c =
    Some (0, if in_room (session_at st i)
             then to_room st (current_room_id (session_at st i))
               (cstr (nickname (session_at st i)) @ '': '' @ m @ [LF]) c
             else reply st i not_in_room_msg)"
proof -
  have "g_client_manager st \<noteq> None" using inv by (auto simp: server_inv_def)
  with m formatted_message_fits [OF session_at_ok [OF inv i], of msg] show ?thesis
    by (auto simp: chat_protocol_handle_message_def Let_def hd_conv_nth)
qed

lemma cstr_formatted: "NUL \<notin> set m \<Longrightarrow> cstr (cstr n @ '': '' @ m @ [LF]) = cstr n @ '': '' @ m @ [LF]"
  by (intro cstr_id) simp

lemma to_room_deliveries:
  assumes "g_client_manager st = Some cm" and "g_room_manager st = Some rm"
  shows "extends (net st) (net (to_room st rid msg c))"
    and "set (deliveries (emitted (net st) (net (to_room st rid msg c)))) =
      (\<lambda>s. (socket_fd s, bytes_of (cstr msg))) ` room_recipients cm rm rid c"
proof -
  obtain k w where b: "room_manager_broadcast_to_room (net st) (Some cm) (Some rm) (Some rid) (Some msg) c
      = (k, w)" by fastforce
  have "net (to_room st rid msg c) = w" using b assms by (simp add: to_room_def)
  with broadcast_to_room_spec(1,2) [OF b] show "extends (net st) (net (to_room st rid msg c))"
    and "set (deliveries (emitted (net st) (net (to_room st rid msg c)))) =
      (\<lambda>s. (socket_fd s, bytes_of (cstr msg))) ` room_recipients cm rm rid c" by simp_all
qed

end
