(* ===== verification/Demo.thy ===== *)
theory Demo
  imports ChatBehaviour
begin

text \<open>
  A concrete server on which the witnesses of the other theories run: three clients, Alice and Bob in
  one room and Carol in none, every send successful. The theory proves that this state satisfies
  the invariants, so that no property about states with the invariant is vacuous.
\<close>

definition demo_libc :: libc where
  "demo_libc = \<lparr>libc_time = 1000, libc_usec = 250, libc_pid = 7, libc_rand = (\<lambda>s n. n),
     libc_cpu = \<lparr>cpuid_max = 0, cpuid_leaf1 = None, cpuid_leaf7 = None\<rparr>,
     libc_alloc = (\<lambda>_. True), libc_stack = []\<rparr>"

definition demo_world :: world where
  "demo_world = \<lparr>send_res = (\<lambda>_ _ len. int len), trace = []\<rparr>"

definition demo_addr :: sockaddr_in where
  "demo_addr = \<lparr>sin_addr = 0x0100007F, sin_port = 8080\<rparr>"

definition demo_room_id :: string where "demo_room_id = ''ROOMAB''"

definition idle_session :: client_session where
  "idle_session = \<lparr>socket_fd = -1, addr = demo_addr, nickname = replicate 32 NUL, thread = 0,
     active = False, handshake_state = HANDSHAKE_IDLE, session_seq = 0,
     session_state = CLIENT_STATE_CONNECTED, current_room_id = replicate 7 NUL,
     session_client_id = -1, security_validated = False\<rparr>"

definition live_session :: "nat \<Rightarrow> int \<Rightarrow> string \<Rightarrow> client_session" where
  "live_session i fd nick = idle_session\<lparr>socket_fd := fd, nickname := nick @ replicate (32 - length nick) NUL,
     active := True, handshake_state := HANDSHAKE_ESTABLISHED,
     session_state := CLIENT_STATE_IN_LOBBY, session_client_id := int i\<rparr>"

definition in_demo_room :: "client_session \<Rightarrow> client_session" where
  "in_demo_room s = s\<lparr>session_state := CLIENT_STATE_IN_ROOM, current_room_id := demo_room_id @ [NUL]\<rparr>"

definition demo_cm :: client_manager where
  "demo_cm = \<lparr>clients = in_demo_room (live_session 0 5 ''Alice'') #
       in_demo_room (live_session 1 6 ''Bob'') # live_session 2 7 ''Carol'' # replicate 97 idle_session,
     cm_client_count = 3\<rparr>"

definition empty_room :: room where
  "empty_room = \<lparr>room_id = replicate 7 NUL, room_name = replicate 64 NUL,
     client_ids = replicate 20 (-1), client_count = 0, created_at = 0, is_active = False\<rparr>"

definition demo_room :: room where
  "demo_room = empty_room\<lparr>room_id := demo_room_id @ [NUL], room_name := ''Den'' @ replicate 61 NUL,
     client_ids := [0, 1] @ replicate 18 (-1), client_count := 2, is_active := True\<rparr>"

definition demo_rm :: room_manager where
  "demo_rm = \<lparr>rooms = demo_room # replicate 49 empty_room, room_count = 1\<rparr>"

definition demo_enc :: encryption_context where
  "demo_enc = zero_encryption_context\<lparr>session_key := default_session_key\<rparr>"

definition demo_ctx :: security_context where
  "demo_ctx = (zero_security_context SECURITY_LEVEL_HIGH)\<lparr>enc_ctx := Some demo_enc\<rparr>"

definition demo_sm :: security_manager where
  "demo_sm = \<lparr>contexts = Some demo_ctx # Some demo_ctx # Some demo_ctx # replicate 97 None,
     num_contexts = 3, min_security_level = SECURITY_LEVEL_HIGH, enforce_hardware_security = True,
     key_rotation_interval = 1000, failed_auth_attempts = 0, last_attack_time = 0,
     emergency_mode = False\<rparr>"

definition demo_state :: server_state where
  "demo_state = \<lparr>g_room_manager = Some demo_rm, g_client_manager = Some demo_cm,
     g_security_manager = Some demo_sm, net = demo_world\<rparr>"

section \<open>The demo state satisfies the invariants\<close>

lemma idle_session_ok: "session_ok idle_session"
  by (simp add: session_ok_def idle_session_def limits)

lemma buf_ok_nick:
  "length nick < 32 \<Longrightarrow> buf_ok MAX_NICKNAME_LEN (nick @ replicate (32 - length nick) NUL)"
  by (auto simp: buf_ok_def limits)

lemma live_session_ok:
  assumes "length nick < 32" and "0 \<le> fd"
  shows "session_ok (live_session i fd nick)"
  using buf_ok_nick [OF assms(1)] assms(2)
  by (simp add: session_ok_def live_session_def idle_session_def limits)

lemma demo_room_id_cstr: "cstr (demo_room_id @ [NUL]) = demo_room_id"
  by (simp add: demo_room_id_def cstr_def)

lemma in_demo_room_ok:
  assumes "session_ok s" and "active s"
  shows "session_ok (in_demo_room s)"
  using assms demo_room_id_cstr
  by (simp add: session_ok_def in_demo_room_def strlen_def demo_room_id_def buf_ok_def limits)

lemma demo_sessions_ok:
  "session_ok (in_demo_room (live_session 0 5 ''Alice''))"
  "session_ok (in_demo_room (live_session 1 6 ''Bob''))"
  "session_ok (live_session 2 7 ''Carol'')"
  by (intro in_demo_room_ok live_session_ok; simp add: live_session_def)+

lemma demo_sessions_active [simp]:
  "active (live_session i fd nick)" "active (in_demo_room s) = active s"
  "session_client_id (live_session i fd nick) = int i" "session_client_id (in_demo_room s) = session_client_id s"
  "\<not> active idle_session"
  "socket_fd (live_session i fd nick) = fd" "socket_fd (in_demo_room s) = socket_fd s"
  by (simp_all add: live_session_def in_demo_room_def idle_session_def)

lemma demo_cm_inv: "cm_inv demo_cm"
proof -
  have "active (clients demo_cm ! i) \<longrightarrow> session_client_id (clients demo_cm ! i) = int i"
    if "i < MAX_CLIENTS" for i
    using that by (auto simp: demo_cm_def nth_Cons' limits)
  then show ?thesis using demo_sessions_ok idle_session_ok
    by (simp add: cm_inv_def demo_cm_def used_count_replicate limits)
qed

lemma empty_room_ok: "room_ok empty_room" "\<not> is_active empty_room"
  by (simp_all add: room_ok_def room_wf_def empty_room_def buf_ok_def used_count_replicate
      room_members_def limits)

lemma demo_room_members: "room_members demo_room = {0, 1}"
  by (auto simp: room_members_def demo_room_def)

lemma demo_room_ok: "room_ok demo_room" "is_active demo_room"
proof -
  have "room_wf demo_room"
    by (simp add: room_wf_def demo_room_def empty_room_def buf_ok_def used_count_replicate
        demo_room_id_def limits)
  then show "room_ok demo_room" using demo_room_id_cstr
    by (simp add: room_ok_def demo_room_def strlen_def demo_room_id_def limits)
  show "is_active demo_room" by (simp add: demo_room_def)
qed

lemma demo_rm_inv: "rm_inv demo_rm"
  using demo_room_ok empty_room_ok
  by (simp add: rm_inv_def demo_rm_def used_count_replicate limits)

lemma demo_rm_distinct: "distinct_room_ids demo_rm"
  using empty_room_ok(2) by (auto simp: distinct_room_ids_def demo_rm_def nth_Cons')

lemma demo_rm_unique: "rm_unique demo_rm"
  using demo_rm_inv demo_rm_distinct by (simp add: rm_unique_def)

lemma demo_room_dir: "room_dir demo_rm = [demo_room_id \<mapsto> {0, 1}]"
proof -
  have "filter is_active (rooms demo_rm) = [demo_room]"
    using demo_room_ok(2) empty_room_ok(2) by (simp add: demo_rm_def)
  then show ?thesis using demo_room_id_cstr
    by (auto simp: room_dir_def demo_room_members) (simp add: demo_room_def)
qed

lemma demo_sm_inv: "sm_inv demo_sm"
  by (simp add: sm_inv_def demo_sm_def ctx_ok_def demo_ctx_def demo_enc_def zero_security_context_def limits)

lemma demo_state_fields [simp]:
  "g_room_manager demo_state = Some demo_rm" "g_client_manager demo_state = Some demo_cm"
  "g_security_manager demo_state = Some demo_sm" "net demo_state = demo_world"
  by (simp_all add: demo_state_def)

lemma demo_server_inv: "server_inv demo_state"
  using demo_rm_inv demo_cm_inv demo_sm_inv by (simp add: server_inv_def)

lemma demo_server_ok: "server_ok demo_state"
  using demo_server_inv demo_rm_distinct by (simp add: server_ok_def)

lemma demo_session_at:
  "session_at demo_state 0 = in_demo_room (live_session 0 5 ''Alice'')"
  "session_at demo_state (Suc 0) = in_demo_room (live_session 1 6 ''Bob'')"
  "session_at demo_state 2 = live_session 2 7 ''Carol''"
  by (simp_all add: session_at_def demo_cm_def)

lemma demo_in_room:
  "in_room (in_demo_room s)" "\<not> in_room (live_session i fd nick)"
  "current_room_id (in_demo_room s) = demo_room_id @ [NUL]"
  by (simp_all add: in_room_def in_demo_room_def live_session_def strlen_def demo_room_id_cstr)
    (simp add: demo_room_id_def)

lemma demo_nickname:
  "NUL \<notin> set nick \<Longrightarrow> cstr (nickname (live_session i fd nick)) = nick"
  "nickname (in_demo_room s) = nickname s"
  by (simp_all add: live_session_def in_demo_room_def cstr_append_replicate)

lemma demo_max: "0 < MAX_CLIENTS" "Suc 0 < MAX_CLIENTS" "2 < MAX_CLIENTS"
  by (simp_all add: limits)

end
