(* ===== verification/ChatProperties.thy ===== *)
theory ChatProperties
  imports Demo
begin

text \<open>
  The properties of the chat protocol and of the server's concurrent steps, each with a concrete
  instance on the demo server.
\<close>

section \<open>The running server\<close>

text \<open>C1: In every state the concurrent server can reach from a successful server_create, by any
  interleaving of accepted connections, handshakes, handled messages and thread ends, the three
  managers exist and are consistent: 100 client slots whose used ones are counted by client_count and
  carry their own index as client id, 50 room slots counted by room_count whose member lists hold no
  client twice, no room is active without members, and the strings are terminated in their arrays: those of
  every room slot, the nickname of every client slot and the room id of every connected client.\<close>

theorem server_always_consistent:
  assumes "reach srv_start srv_step st"
  shows "\<exists>rm cm sm. g_room_manager st = Some rm \<and> rm_inv rm \<and>
    g_client_manager st = Some cm \<and> cm_inv cm \<and> g_security_manager st = Some sm \<and> sm_inv sm"
  using srv_system.reach_inv [OF assms] by (simp add: server_inv_def)

definition demo_setup :: server_setup where
  "demo_setup = \<lparr>setup_malloc = True, setup_socket = 3, setup_sockopt = True, setup_getfl = True,
     setup_nonblock = False, setup_setfl = True, setup_inet = True\<rparr>"

definition demo_server :: server where
  "demo_server = \<lparr>server_fd = 0, server_ip = replicate 16 NUL, server_port = 0, is_running = False\<rparr>"

definition demo_start :: server_state where
  "demo_start = snd (server_create demo_libc demo_setup demo_server demo_cm demo_rm demo_state ''127.0.0.1'' 8080)"

lemma demo_start_start: "srv_start demo_start"
proof -
  have "\<exists>srv. server_create demo_libc demo_setup demo_server demo_cm demo_rm demo_state ''127.0.0.1'' 8080 =
      (Some srv, demo_start)"
    by (auto simp: demo_start_def server_create_def server_security_foundation_init_def
        security_manager_create_def server_basic_foundation_init_def demo_libc_def demo_setup_def Let_def)
  moreover have "length (clients demo_cm) = MAX_CLIENTS" "length (rooms demo_rm) = MAX_ROOMS"
    using cm_invD(1) [OF demo_cm_inv] demo_rm_inv by (simp_all add: rm_inv_def)
  ultimately show ?thesis unfolding srv_start_def by blast
qed

lemma demo_start_reach: "reach srv_start srv_step demo_start"
  by (rule reach_start) (rule demo_start_start)

theorem server_always_consistent_witness:
  "\<exists>rm cm sm. g_room_manager demo_start = Some rm \<and> rm_inv rm \<and>
    g_client_manager demo_start = Some cm \<and> cm_inv cm \<and> g_security_manager demo_start = Some sm \<and> sm_inv sm"
  by (rule server_always_consistent [OF demo_start_reach])

text \<open>C12: When the handler thread of a client ends, whatever happened in its handshake and its messages,
  its slot in the client table is free again and the server state is consistent.\<close>

theorem ended_thread_frees_slot:
  assumes "server_inv st" and "valid_client_id cid"
    and "client_session_handler_thread e st cid handshake_ins ins = Some (False, st')"
  shows "\<not> active (session_at st' (nat cid)) \<and> server_inv st'"
  using handler_thread_inv [OF assms(1,3)] assms(2) by simp

lemma demo_thread:
  "\<exists>st'. client_session_handler_thread demo_libc demo_state 2 [] [] = Some (False, st')"
proof -
  have "client_manager_get_session (Some demo_cm) 2 = Some 2"
    by (simp add: get_session_valid valid_client_id_def limits)
  moreover have "handshake_perform_server_side demo_libc w s [] =
      (-1, w, s\<lparr>handshake_state := HANDSHAKE_FAILED\<rparr>, [])" for w s
    by (simp add: handshake_perform_server_side_def server_handshake_receive_packet_def)
  ultimately show ?thesis
    by (simp add: client_session_handler_thread_def session_start_def)
qed

theorem ended_thread_frees_slot_witness:
  "\<exists>st'. client_session_handler_thread demo_libc demo_state 2 [] [] = Some (False, st') \<and>
    \<not> active (session_at st' 2)"
proof -
  obtain st' where t: "client_session_handler_thread demo_libc demo_state 2 [] [] = Some (False, st')"
    using demo_thread by blast
  have "valid_client_id 2" by (simp add: valid_client_id_def limits)
  from ended_thread_frees_slot [OF demo_server_inv this t] t show ?thesis by auto
qed

section \<open>Messages\<close>

text \<open>C4: A chat line of a client in a room (cut at the first line break, not a command) is sent as
  "nickname: line" to exactly the connected members of that room other than the sender, and
  nothing but the trace changes; a client that is in no room gets the request to join one, and
  nobody else gets anything.\<close>

theorem room_message_delivery:
  assumes "server_inv st" and "i < MAX_CLIENTS"
    and rm: "g_room_manager st = Some rm" and cm: "g_client_manager st = Some cm"
    and m: "clean_line BUFFER_SIZE [LF, CR] msg = m" "m \<noteq> []" "hd m \<noteq> CHR ''/''"
  defines "s \<equiv> session_at st i"
  shows "\<exists>w'. chat_protocol_handle_message e st (Some i) (Some msg) (int i) = Some (0, st\<lparr>net := w'\<rparr>) \<and>
    extends (net st) w' \<and>
    (if in_room s
     then set (deliveries (emitted (net st) w')) =
       (\<lambda>t. (socket_fd t, bytes_of (cstr (nickname s) @ '': '' @ m @ [LF])))
         ` room_recipients cm rm (current_room_id s) (int i)
     else deliveries (emitted (net st) w') = [(socket_fd s, bytes_of not_in_room_msg)])"
proof (cases "in_room s")
  case True
  let ?text = "cstr (nickname s) @ '': '' @ m @ [LF]"
  let ?st' = "to_room st (current_room_id s) ?text (int i)"
  have "NUL \<notin> set m" using m(1) clean_line_no_NUL by blast
  then have "cstr ?text = ?text" by (rule cstr_formatted)
  moreover have "?st' = st\<lparr>net := net ?st'\<rparr>" by (simp add: to_room_def)
  ultimately show ?thesis
    using handle_plain_message [OF assms(1,2) m] True to_room_deliveries [OF cm rm, of "current_room_id s" ?text "int i"]
    unfolding s_def by (intro exI [of _ "net ?st'"]) (simp add: s_def)
next
  case False
  have "cstr not_in_room_msg = not_in_room_msg" by (rule cstr_id) (simp add: not_in_room_msg_def)
  moreover have "reply st i not_in_room_msg = st\<lparr>net := net (reply st i not_in_room_msg)\<rparr>"
    by (simp add: reply_eq)
  ultimately show ?thesis
    using handle_plain_message [OF assms(1,2) m] False reply_world [of st i not_in_room_msg]
    unfolding s_def by (intro exI [of _ "net (reply st i not_in_room_msg)"]) (simp add: s_def)
qed

lemma demo_hi: "clean_line BUFFER_SIZE [LF, CR] ''hi'' = ''hi''"
  by (simp add: clean_line_eq limits cstr_def)

theorem room_message_delivery_witness:
  "\<exists>w'. chat_protocol_handle_message demo_libc demo_state (Some 0) (Some ''hi'') (int 0) =
      Some (0, demo_state\<lparr>net := w'\<rparr>) \<and>
    set (deliveries (emitted demo_world w')) = {(6, bytes_of (''Alice: hi'' @ [LF]))}"
proof -
  have bob: "slot_session (Some demo_cm) 1 = Some (in_demo_room (live_session 1 6 ''Bob''))"
    unfolding slot_session_iff [OF cm_invD(1) [OF demo_cm_inv]]
    by (simp add: valid_client_id_def demo_cm_def limits)
  have "room_recipients demo_cm demo_rm (demo_room_id @ [NUL]) (int 0) =
      {s. \<exists>c \<in> {0, 1}. c \<noteq> 0 \<and> slot_session (Some demo_cm) c = Some s}"
    by (simp add: room_recipients_def demo_room_dir demo_room_id_cstr)
  then have rec: "room_recipients demo_cm demo_rm (demo_room_id @ [NUL]) (int 0) =
      {in_demo_room (live_session 1 6 ''Bob'')}"
    using bob by auto
  have nick: "cstr (nickname (session_at demo_state 0)) = ''Alice''"
    using demo_nickname(1) [of "''Alice''" 0 5] by (simp add: demo_session_at demo_nickname(2))
  have room: "in_room (session_at demo_state 0)" "current_room_id (session_at demo_state 0) = demo_room_id @ [NUL]"
    by (simp_all add: demo_session_at demo_in_room)
  have "\<exists>w'. chat_protocol_handle_message demo_libc demo_state (Some 0) (Some ''hi'') (int 0) =
      Some (0, demo_state\<lparr>net := w'\<rparr>) \<and> extends (net demo_state) w' \<and>
      (if in_room (session_at demo_state 0)
       then set (deliveries (emitted (net demo_state) w')) =
         (\<lambda>t. (socket_fd t, bytes_of (cstr (nickname (session_at demo_state 0)) @ '': '' @ ''hi'' @ [LF])))
           ` room_recipients demo_cm demo_rm (current_room_id (session_at demo_state 0)) (int 0)
       else deliveries (emitted (net demo_state) w') =
         [(socket_fd (session_at demo_state 0), bytes_of not_in_room_msg)])"
    by (rule room_message_delivery [OF demo_server_inv demo_max(1) demo_state_fields(1,2) demo_hi]) simp_all
  then show ?thesis unfolding nick room(2) rec using room(1) by auto
qed

section \<open>Commands refine the abstract chat\<close>

lemma demo_abs_dir: "fst (abs_chat demo_state) = [demo_room_id \<mapsto> {0, 1}]"
  by (simp add: abs_chat_def demo_room_dir)

lemma demo_abs_loc:
  "snd (abs_chat demo_state) 0 = Some demo_room_id" "snd (abs_chat demo_state) 2 = None"
  using demo_in_room(1) [of "live_session 0 5 ''Alice''"] demo_in_room(2) [of 2 7 "''Carol''"]
  by (simp_all add: abs_chat_def valid_client_id_def current_room_def demo_session_at limits
      demo_in_room(3) demo_room_id_cstr)

lemma demo_room_id_len: "strlen demo_room_id = ROOM_ID_LENGTH" "cstr demo_room_id = demo_room_id"
  by (simp_all add: strlen_def demo_room_id_def cstr_def limits)

text \<open>C5: The /join command refines the abstract operation: the client gives up its membership in the
  room it is in (a room without members disappears), then joins the other room if that room exists,
  is not full and does not have it as a member; only then its own record of the current room changes.
  The reply is never an error for the connection, and the invariant and the uniqueness of room
  ids are kept.\<close>

theorem join_command_refines:
  assumes "server_ok st" and "i < MAX_CLIENTS" and "active (session_at st i)"
    and "strlen rid = ROOM_ID_LENGTH"
    and "chat_protocol_handle_join_room st (Some i) (Some rid) (int i) = (r, st')"
  shows "r = 0 \<and> server_ok st' \<and> abs_chat st' = chat_join (cstr rid) (int i) (abs_chat st)"
  using assms by (rule handle_join_refines)

theorem join_command_refines_witness:
  "\<exists>st'. chat_protocol_handle_join_room demo_state (Some 2) (Some demo_room_id) (int 2) = (0, st') \<and>
    fst (abs_chat st') = [demo_room_id \<mapsto> {0, 1, 2}]"
proof -
  obtain r st' where h: "chat_protocol_handle_join_room demo_state (Some 2) (Some demo_room_id) (int 2) = (r, st')"
    by fastforce
  have "active (session_at demo_state 2)" by (simp add: demo_session_at)
  from join_command_refines [OF demo_server_ok demo_max(3) this demo_room_id_len(1) h]
  have j: "r = 0" "abs_chat st' = chat_join demo_room_id 2 (abs_chat demo_state)"
    by (simp_all add: demo_room_id_len(2))
  have "chat_vacate (abs_chat demo_state) 2 = [demo_room_id \<mapsto> {0, 1}]"
    by (simp add: chat_vacate_def demo_abs_loc demo_abs_dir)
  then have "fst (chat_join demo_room_id 2 (abs_chat demo_state)) = [demo_room_id \<mapsto> {2, 0, 1}]"
    by (simp add: chat_join_def dir_join_def limits)
  with h j show ?thesis by (simp add: insert_commute)
qed

text \<open>C6: The /leave command refines the abstract operation: the client is no longer a member of its
  room, a room that loses its last member disappears, and the client's own record is cleared; for a
  client in no room nothing changes.\<close>

theorem leave_command_refines:
  assumes "server_ok st" and "i < MAX_CLIENTS"
    and "chat_protocol_handle_leave_room st (Some i) (int i) = (r, st')"
  shows "r = 0 \<and> server_ok st' \<and> abs_chat st' = chat_leave (int i) (abs_chat st)"
  using assms by (rule handle_leave_refines)

theorem leave_command_refines_witness:
  "\<exists>st'. chat_protocol_handle_leave_room demo_state (Some 0) (int 0) = (0, st') \<and>
    fst (abs_chat st') = [demo_room_id \<mapsto> {1}]"
proof -
  obtain r st' where h: "chat_protocol_handle_leave_room demo_state (Some 0) (int 0) = (r, st')"
    by fastforce
  from leave_command_refines [OF demo_server_ok demo_max(1) h]
  have j: "r = 0" "abs_chat st' = chat_leave 0 (abs_chat demo_state)" by simp_all
  have "{0, 1} - {0} = {1 :: int}" by auto
  then have "fst (chat_leave 0 (abs_chat demo_state)) = [demo_room_id \<mapsto> {1}]"
    by (auto simp: chat_leave_def chat_vacate_def demo_abs_loc demo_abs_dir dir_leave_def)
  with h j show ?thesis by simp
qed

text \<open>C7: The /create command refines the abstract operation when the table has a free slot, memory is
  available and the generated id is not in use: after leaving its current room the client is the
  only member of a new room with that id, and its own record says so.\<close>

theorem create_command_refines:
  assumes "server_ok st" and "i < MAX_CLIENTS" and "active (session_at st i)"
    and "0 < strlen name" and "strlen name < MAX_ROOM_NAME"
    and "rm_has_slot (the (g_room_manager (leave_current st i (int i))))" and "libc_alloc e 0"
    and "room_generate_id e = Some rid" and "chat_vacate (abs_chat st) (int i) rid = None"
    and "chat_protocol_handle_create_room e st (Some i) (Some name) (int i) = (r, st')"
  shows "r = 0 \<and> server_ok st' \<and> abs_chat st' = chat_create rid (int i) (abs_chat st)"
  using assms by (rule handle_create_refines)

lemma demo_new_id: "room_generate_id demo_libc = Some ''ABCDEF''"
  by (simp add: room_generate_id_def demo_libc_def charset_def upt_rec limits)

theorem create_command_refines_witness:
  "\<exists>st'. chat_protocol_handle_create_room demo_libc demo_state (Some 2) (Some ''Lab'') (int 2) = (0, st') \<and>
    fst (abs_chat st') = [demo_room_id \<mapsto> {0, 1}, ''ABCDEF'' \<mapsto> {2}]"
proof -
  obtain r st' where
    h: "chat_protocol_handle_create_room demo_libc demo_state (Some 2) (Some ''Lab'') (int 2) = (r, st')"
    by fastforce
  have act: "active (session_at demo_state 2)" by (simp add: demo_session_at)
  have name: "0 < strlen ''Lab''" "strlen ''Lab'' < MAX_ROOM_NAME" by (simp_all add: strlen_def cstr_def limits)
  have "leave_current demo_state 2 (int 2) = demo_state"
    using demo_in_room(2) [of 2 7 "''Carol''"] by (simp add: leave_current_def demo_session_at)
  then have slot: "rm_has_slot (the (g_room_manager (leave_current demo_state 2 (int 2))))"
    by (simp add: rm_has_slot_def demo_rm_def limits)
  have alloc: "libc_alloc demo_libc 0" by (simp add: demo_libc_def)
  have vac: "chat_vacate (abs_chat demo_state) (int 2) = [demo_room_id \<mapsto> {0, 1}]"
    by (simp add: chat_vacate_def demo_abs_loc demo_abs_dir)
  then have "chat_vacate (abs_chat demo_state) (int 2) ''ABCDEF'' = None"
    by (simp add: demo_room_id_def)
  from create_command_refines [OF demo_server_ok demo_max(3) act name slot alloc demo_new_id this h]
  show ?thesis using h vac by (simp add: chat_create_def)
qed

section \<open>Where the server's bookkeeping comes apart\<close>

text \<open>C34: A refused /join loses the room: when the client cannot enter the requested room, it has
  already been taken out of its old one, but its own record still names the old room, of which it is
  no member any more (its later chat lines go to a room it does not receive from).\<close>

theorem refused_join_strands_client:
  assumes "server_ok st" and "i < MAX_CLIENTS" and "active (session_at st i)"
    and "strlen rid = ROOM_ID_LENGTH" and "current_room (session_at st i) = Some old"
    and "dir_join (chat_vacate (abs_chat st) (int i)) (cstr rid) (int i) = None"
    and "chat_protocol_handle_join_room st (Some i) (Some rid) (int i) = (r, st')"
  shows "current_room (session_at st' i) = Some old \<and>
    (\<forall>S. room_dir (the (g_room_manager st')) old = Some S \<longrightarrow> int i \<notin> S)"
proof -
  have loc: "snd (abs_chat st) (int i) = Some old"
    if "current_room (session_at st i) = Some old" for st
    using that valid_of_nat [OF assms(2)] by (simp add: abs_chat_def)
  have "abs_chat st' = (chat_vacate (abs_chat st) (int i), snd (abs_chat st))"
    using handle_join_refines [OF assms(1-4,7)] assms(6) by (simp add: chat_join_def)
  then have "snd (abs_chat st') (int i) = Some old"
    and d: "room_dir (the (g_room_manager st')) = dir_leave (fst (abs_chat st)) old (int i)"
    using loc [OF assms(5)] by (simp_all add: abs_chat_def chat_vacate_def)
  then show ?thesis using valid_of_nat [OF assms(2)]
    by (auto simp: abs_chat_def dir_leave_def split: option.splits if_splits)
qed

theorem refused_join_strands_client_witness:
  "\<exists>st'. chat_protocol_handle_join_room demo_state (Some 0) (Some ''NOROOM'') (int 0) = (0, st') \<and>
    current_room (session_at st' 0) = Some demo_room_id"
proof -
  have vac: "chat_vacate (abs_chat demo_state) (int 0) ''NOROOM'' = None"
    by (simp add: chat_vacate_def demo_abs_loc demo_abs_dir dir_leave_def demo_room_id_def)
  have len: "strlen ''NOROOM'' = ROOM_ID_LENGTH" "cstr ''NOROOM'' = ''NOROOM''"
    by (simp_all add: strlen_def cstr_def limits)
  obtain r st' where h: "chat_protocol_handle_join_room demo_state (Some 0) (Some ''NOROOM'') (int 0) = (r, st')"
    by fastforce
  have act: "active (session_at demo_state 0)" by (simp add: demo_session_at)
  have cur: "current_room (session_at demo_state 0) = Some demo_room_id"
    by (simp add: current_room_def demo_session_at demo_in_room demo_room_id_cstr)
  have "dir_join (chat_vacate (abs_chat demo_state) (int 0)) (cstr ''NOROOM'') (int 0) = None"
    using vac len by (simp add: dir_join_def)
  from refused_join_strands_client [OF demo_server_ok demo_max(1) act len(1) cur this h]
    handle_join_refines [OF demo_server_ok demo_max(1) act len(1) h] h
  show ?thesis by auto
qed

lemma remove_accept_rooms [simp]:
  "g_room_manager (remove_client st c) = g_room_manager st"
  "g_room_manager (accept_client e st fd a th) = g_room_manager st"
  "g_room_manager (set_session st i s) = g_room_manager st"
proof -
  show r: "g_room_manager (remove_client st c) = g_room_manager st" for st :: server_state and c
    by (simp add: remove_client_def split_def Let_def)
  show "g_room_manager (accept_client e st fd a th) = g_room_manager st"
    by (simp add: accept_client_def split_def Let_def r split: option.splits)
  show "g_room_manager (set_session st i s) = g_room_manager st" by simp
qed

lemma accept_takes_slot:
  assumes inv: "server_inv st" and i: "i < MAX_CLIENTS" and fd: "0 \<le> fd"
    and free: "\<not> active (session_at st i)" and first: "\<forall>j < i. active (session_at st j)"
    and alloc: "\<forall>n. libc_alloc e n"
  shows "active (session_at (accept_client e st fd a (Some t)) i)"
    and "socket_fd (session_at (accept_client e st fd a (Some t)) i) = fd"
proof -
  from inv obtain cm sm where cm: "g_client_manager st = Some cm" "cm_inv cm"
    and sm: "g_security_manager st = Some sm" "sm_inv sm" by (auto simp: server_inv_def)
  have slot: "find_index (\<lambda>s. \<not> active s) (clients cm) = Some i"
    using i free first cm(1) cm_invD(1) [OF cm(2)]
    by (intro find_index_cong_first) (auto simp: session_at_def)
  obtain r w smp cmp where
    add: "client_manager_add_new_client e (net st) (Some sm) (Some cm) fd a = (r, w, smp, cmp)"
    by (metis prod_cases4)
  from sm(2) add cm_invD(1) [OF cm(2)] obtain sm' where
    new: "r = int i" "smp = Some sm'" "cmp = Some (cm\<lparr>clients := (clients cm)[i := new_session (clients cm ! i) i fd a],
       cm_client_count := cm_client_count cm + 1\<rparr>)"
  proof (cases rule: add_new_client_cases)
    case (refused k sec')
    then have False
      using add_new_client_refused_iff [OF sm(2) cm_invD(1) [OF cm(2)] slot add]
        context_create_alloc [OF alloc] by simp
    then show ?thesis ..
  qed (use slot that in auto)
  have len: "i < length (clients cm)" using i cm_invD(1) [OF cm(2)] by simp
  from add cm(1) sm(1) new len show "active (session_at (accept_client e st fd a (Some t)) i)"
    and "socket_fd (session_at (accept_client e st fd a (Some t)) i) = fd"
    by (simp_all add: accept_client_def set_session_def session_at_def)
qed

text \<open>C35: A disconnect does not end the membership: neither the removal of a client nor the acceptance
  of a new one touches the room table, so a new client that gets the slot of a departed member
  receives the messages of a room it never joined.\<close>

theorem slot_reuse_inherits_membership:
  fixes e :: libc and a :: sockaddr_in and t :: nat
  assumes inv: "server_inv st" and i: "i < MAX_CLIENTS" and fd: "0 \<le> fd" and sender: "sender \<noteq> int i"
    and rm: "g_room_manager st = Some rm" and S: "room_dir rm (cstr rid) = Some S" "int i \<in> S"
    and first: "\<forall>j < i. active (session_at (remove_client st (int i)) j)" and alloc: "\<forall>n. libc_alloc e n"
  defines "st' \<equiv> accept_client e (remove_client st (int i)) fd a (Some t)"
  shows "(fd, bytes_of (cstr msg)) \<in> set (deliveries (emitted (net st') (net (to_room st' rid msg sender))))"
proof -
  let ?st1 = "remove_client st (int i)"
  have inv1: "server_inv ?st1" by (rule remove_client_server_inv(1) [OF inv])
  have free: "\<not> active (session_at ?st1 i)"
    using remove_client_server_inv(2) [OF inv valid_of_nat [OF i]] by simp
  have inv': "server_inv st'" unfolding st'_def by (rule accept_client_inv [OF inv1 fd])
  then obtain cm where cm: "g_client_manager st' = Some cm" "cm_inv cm" by (auto simp: server_inv_def)
  have rm': "g_room_manager st' = Some rm" using rm by (simp add: st'_def)
  have new: "active (session_at st' i)" "socket_fd (session_at st' i) = fd"
    using accept_takes_slot [OF inv1 i fd free first alloc] by (simp_all add: st'_def)
  have "slot_session (Some cm) (int i) = Some (session_at st' i)"
    using slot_session_iff [OF cm_invD(1) [OF cm(2)]] new(1) valid_of_nat [OF i] cm(1)
    by (simp add: session_at_def)
  then have "session_at st' i \<in> room_recipients cm rm rid sender"
    using S sender by (auto simp: room_recipients_def)
  then show ?thesis
    using to_room_deliveries(2) [OF cm(1) rm', of rid msg sender] new(2) by auto
qed

theorem slot_reuse_inherits_membership_witness:
  "\<exists>st'. st' = accept_client demo_libc (remove_client demo_state (int 0)) 9 demo_addr (Some 4) \<and>
    (9, bytes_of ''secret'') \<in> set (deliveries (emitted (net st') (net (to_room st' demo_room_id ''secret'' 1))))"
proof -
  have dir: "room_dir demo_rm (cstr demo_room_id) = Some {0, 1}" "int 0 \<in> {0, 1}"
    by (simp_all add: demo_room_dir demo_room_id_len(2))
  have "cstr ''secret'' = ''secret''" by (simp add: cstr_def)
  moreover have "\<forall>n. libc_alloc demo_libc n" by (simp add: demo_libc_def)
  ultimately show ?thesis
    using slot_reuse_inherits_membership [OF demo_server_inv demo_max(1) _ _ demo_state_fields(1) dir,
        where fd = 9 and sender = 1 and e = demo_libc and a = demo_addr and t = 4 and msg = "''secret''"]
    by simp
qed

end
