(* ===== verification/E2E.thy ===== *)
theory E2E
  imports Handshake
begin

text \<open>
  The end-to-end layer of the client, \<^verbatim>\<open>client/src/e2e_encryption.c\<close>: key pairs, the table of peer
  keys, key exchange packets and encrypted packets. Random bytes come from \<^verbatim>\<open>rand()\<close>, whose state
  (the seed and the number of calls since) is passed along. A read or write outside an array is
  undefined behaviour and is the value \<open>None\<close> of an outer option.
\<close>

definition E2E_KEY_SIZE :: nat where [limits]: "E2E_KEY_SIZE = 32"
definition E2E_MAX_MESSAGE_SIZE :: nat where [limits]: "E2E_MAX_MESSAGE_SIZE = 1024"
definition MAX_CLIENTS_E2E :: nat where [limits]: "MAX_CLIENTS_E2E = 64"
definition E2E_NICKNAME_LEN :: nat where [limits]: "E2E_NICKNAME_LEN = 64"

record e2e_keypair =
  public_key :: "byte list"
  private_key :: "byte list"
  user_id :: "byte list"
  kp_nickname :: "char list"

record e2e_peer_key =
  peer_public_key :: "byte list"
  peer_user_id :: "byte list"
  peer_nickname :: "char list"
  peer_active :: bool

record e2e_context =
  my_keys :: e2e_keypair
  peer_keys :: "e2e_peer_key list"
  num_peers :: nat
  session_entropy :: "byte list"

record e2e_encrypted_packet =
  sender_id :: "byte list"
  recipient_id :: "byte list"
  encrypted_data :: "byte list"
  encrypted_length :: nat
  enc_signature :: "byte list"

record e2e_key_exchange_packet =
  kx_user_id :: "byte list"
  kx_public_key :: "byte list"
  kx_nickname :: "char list"
  kx_signature :: "byte list"

section \<open>Random bytes\<close>

text \<open>The state of the C library's generator and the static flag of \<^verbatim>\<open>generate_random_bytes\<close>.\<close>

record rng =
  seeded :: bool
  rng_seed :: u32
  rng_pos :: nat

definition rand_bytes :: "libc \<Rightarrow> rng \<Rightarrow> nat \<Rightarrow> byte list \<times> rng" where
  "rand_bytes e g n =
     (map (\<lambda>i. word_of_nat (libc_rand e (rng_seed g) (rng_pos g + i) mod 256)) [0 ..< n],
      g\<lparr>rng_pos := rng_pos g + n\<rparr>)"

definition generate_random_bytes :: "libc \<Rightarrow> rng \<Rightarrow> nat \<Rightarrow> byte list \<times> rng" where
  "generate_random_bytes e g n =
     rand_bytes e (if seeded g then g
       else \<lparr>seeded = True, rng_seed = word_of_int (libc_time e) XOR word_of_int (libc_pid e),
             rng_pos = 0\<rparr>) n"

section \<open>Keys\<close>

definition e2e_generate_user_id :: "libc \<Rightarrow> string ptr \<Rightarrow> byte list ptr" where
  "e2e_generate_user_id e nickp =
     (case nickp of
        None \<Rightarrow> None
      | Some nick \<Rightarrow>
          (let timestamp = word_of_int (libc_time e) :: u32;
               pid = word_of_int (libc_pid e) :: u32
           in Some (map (\<lambda>i. (if i < strlen nick then word_of_nat (of_char (nick ! i)) else 0)
                 XOR ucast (drop_bit (i mod 4) timestamp AND 0xFF)
                 XOR ucast (drop_bit (i mod 4) pid AND 0xFF)
                 XOR word_of_nat (i * 23)) [0 ..< 16])))"

definition public_key_of :: "byte list \<Rightarrow> byte list \<Rightarrow> byte list" where
  "public_key_of priv uid =
     (let temp = priv @ uid
      in map (\<lambda>i. temp ! i XOR temp ! (i + 16) XOR word_of_nat (i * 17 + 42)) [0 ..< E2E_KEY_SIZE])"

definition e2e_generate_keypair ::
  "libc \<Rightarrow> rng \<Rightarrow> e2e_keypair ptr \<Rightarrow> string ptr \<Rightarrow> int \<times> rng \<times> e2e_keypair ptr" where
  "e2e_generate_keypair e g kp nickp =
     (case (kp, nickp) of
        (Some k, Some nick) \<Rightarrow>
          (case e2e_generate_user_id e (Some nick) of
             None \<Rightarrow> (-1, g, kp)
           | Some uid \<Rightarrow>
               (let (priv, g') = generate_random_bytes e g E2E_KEY_SIZE
                in (0, g', Some (k\<lparr>user_id := uid, private_key := priv,
                     public_key := public_key_of priv uid,
                     kp_nickname := (strncpy (kp_nickname k) nick (E2E_NICKNAME_LEN - 1))
                                      [E2E_NICKNAME_LEN - 1 := NUL]\<rparr>))))
      | _ \<Rightarrow> (-1, g, kp))"

definition zero_keypair :: e2e_keypair where
  "zero_keypair = \<lparr>public_key = replicate E2E_KEY_SIZE 0, private_key = replicate E2E_KEY_SIZE 0,
     user_id = replicate 16 0, kp_nickname = replicate E2E_NICKNAME_LEN NUL\<rparr>"

definition zero_peer :: e2e_peer_key where
  "zero_peer = \<lparr>peer_public_key = replicate E2E_KEY_SIZE 0, peer_user_id = replicate 16 0,
     peer_nickname = replicate E2E_NICKNAME_LEN NUL, peer_active = False\<rparr>"

definition zero_e2e_context :: e2e_context where
  "zero_e2e_context = \<lparr>my_keys = zero_keypair, peer_keys = replicate MAX_CLIENTS_E2E zero_peer,
     num_peers = 0, session_entropy = replicate 64 0\<rparr>"

definition e2e_context_init ::
  "libc \<Rightarrow> rng \<Rightarrow> e2e_context ptr \<Rightarrow> string ptr \<Rightarrow> int \<times> rng \<times> e2e_context ptr" where
  "e2e_context_init e g cp nickp =
     (case (cp, nickp) of
        (Some _, Some nick) \<Rightarrow>
          (let (r, g1, kp) = e2e_generate_keypair e g (Some (my_keys zero_e2e_context)) (Some nick)
           in case kp of
                None \<Rightarrow> (-1, g1, Some zero_e2e_context)
              | Some k \<Rightarrow>
                  if r < 0 then (-1, g1, Some (zero_e2e_context\<lparr>my_keys := k\<rparr>))
                  else (let (entropy, g2) = generate_random_bytes e g1 64
                        in (0, g2, Some (zero_e2e_context\<lparr>my_keys := k, session_entropy := entropy,
                              num_peers := 0\<rparr>))))
      | _ \<Rightarrow> (-1, g, cp))"

definition e2e_context_cleanup :: "e2e_context ptr \<Rightarrow> e2e_context ptr" where
  "e2e_context_cleanup cp = map_option (\<lambda>_. zero_e2e_context) cp"

section \<open>Key exchange packets\<close>

definition kx_expected_signature :: "byte list \<Rightarrow> byte list \<Rightarrow> char list \<Rightarrow> byte list" where
  "kx_expected_signature uid pub nick =
     (let sig_input = uid @ pub @ bytes_of nick
      in map (\<lambda>i. sig_input ! i XOR sig_input ! (i + 32) XOR sig_input ! (i + 64)
                   XOR word_of_nat (i * 19)) [0 ..< 32])"

definition e2e_create_key_exchange_packet ::
  "e2e_context ptr \<Rightarrow> e2e_key_exchange_packet ptr \<Rightarrow> int \<times> e2e_key_exchange_packet ptr" where
  "e2e_create_key_exchange_packet cp pp =
     (case (cp, pp) of
        (Some c, Some p) \<Rightarrow>
          (let nick = (strncpy (kx_nickname p) (kp_nickname (my_keys c)) (E2E_NICKNAME_LEN - 1))
                        [E2E_NICKNAME_LEN - 1 := NUL];
               uid = user_id (my_keys c);
               pub = public_key (my_keys c)
           in (0, Some \<lparr>kx_user_id = uid, kx_public_key = pub, kx_nickname = nick,
                        kx_signature = kx_expected_signature uid pub nick\<rparr>))
      | _ \<Rightarrow> (-1, pp))"

definition e2e_verify_key_exchange_packet :: "e2e_key_exchange_packet ptr \<Rightarrow> int" where
  "e2e_verify_key_exchange_packet pp =
     (case pp of
        None \<Rightarrow> -1
      | Some p \<Rightarrow>
          if kx_signature p \<noteq> kx_expected_signature (kx_user_id p) (kx_public_key p) (kx_nickname p)
          then -1 else 0)"

section \<open>The table of peers\<close>

definition peer_from_packet :: "e2e_peer_key \<Rightarrow> e2e_key_exchange_packet \<Rightarrow> e2e_peer_key" where
  "peer_from_packet peer p =
     peer\<lparr>peer_public_key := kx_public_key p,
          peer_nickname := (strncpy (peer_nickname peer) (kx_nickname p) (E2E_NICKNAME_LEN - 1))
                             [E2E_NICKNAME_LEN - 1 := NUL],
          peer_active := True\<rparr>"

definition e2e_add_peer_key ::
  "e2e_context ptr \<Rightarrow> e2e_key_exchange_packet ptr \<Rightarrow> int \<times> e2e_context ptr" where
  "e2e_add_peer_key cp pp =
     (case (cp, pp) of
        (Some c, Some p) \<Rightarrow>
          if num_peers c \<ge> MAX_CLIENTS_E2E then (-1, cp)
          else if e2e_verify_key_exchange_packet pp < 0 then (-1, cp)
          else (case find_index (\<lambda>q. peer_user_id q = kx_user_id p) (take (num_peers c) (peer_keys c)) of
                  Some i \<Rightarrow>
                    (0, Some (c\<lparr>peer_keys := (peer_keys c)
                       [i := peer_from_packet (peer_keys c ! i) p]\<rparr>))
                | None \<Rightarrow>
                    (0, Some (c\<lparr>peer_keys := (peer_keys c)
                       [num_peers c := (peer_from_packet (peer_keys c ! num_peers c) p)
                          \<lparr>peer_user_id := kx_user_id p\<rparr>],
                       num_peers := num_peers c + 1\<rparr>)))
      | _ \<Rightarrow> (-1, cp))"

definition e2e_remove_peer_key ::
  "e2e_context ptr \<Rightarrow> byte list ptr \<Rightarrow> int \<times> e2e_context ptr" where
  "e2e_remove_peer_key cp uidp =
     (case (cp, uidp) of
        (Some c, Some uid) \<Rightarrow>
          (case find_index (\<lambda>q. peer_user_id q = uid) (take (num_peers c) (peer_keys c)) of
             None \<Rightarrow> (-1, cp)
           | Some i \<Rightarrow>
               (0, Some (c\<lparr>peer_keys := (peer_keys c)[i := (peer_keys c ! i)
                    \<lparr>peer_active := False, peer_public_key := replicate E2E_KEY_SIZE 0\<rparr>]\<rparr>)))
      | _ \<Rightarrow> (-1, cp))"

definition e2e_find_peer_key :: "e2e_context ptr \<Rightarrow> byte list ptr \<Rightarrow> e2e_peer_key ptr" where
  "e2e_find_peer_key cp uidp =
     (case (cp, uidp) of
        (Some c, Some uid) \<Rightarrow>
          map_option (\<lambda>i. peer_keys c ! i)
            (find_index (\<lambda>q. peer_active q \<and> peer_user_id q = uid) (take (num_peers c) (peer_keys c)))
      | _ \<Rightarrow> None)"

section \<open>Encrypted packets\<close>

text \<open>\<^verbatim>\<open>simple_encrypt\<close> and \<^verbatim>\<open>simple_decrypt\<close> have the same body.\<close>

definition simple_encrypt :: "byte list \<Rightarrow> byte list \<Rightarrow> byte list" where
  "simple_encrypt key d = map (\<lambda>i. d ! i XOR key ! (i mod 32) XOR word_of_nat (i mod 256)) [0 ..< length d]"

definition derive_shared_secret :: "byte list \<Rightarrow> byte list \<Rightarrow> byte list" where
  "derive_shared_secret priv pub =
     map (\<lambda>i. priv ! i XOR pub ! i XOR word_of_nat (i * 31 + 73)) [0 ..< 32]"

definition e2e_mac :: "byte list \<Rightarrow> byte list \<Rightarrow> byte list \<Rightarrow> byte list" where
  "e2e_mac sender recipient secret =
     (let mac_input = sender @ recipient @ secret
      in map (\<lambda>i. mac_input ! i XOR mac_input ! (i + 32) XOR word_of_nat (i * 13)) [0 ..< 32])"

definition e2e_encrypt_message ::
  "libc \<Rightarrow> rng \<Rightarrow> e2e_context ptr \<Rightarrow> string ptr \<Rightarrow> byte list ptr \<Rightarrow> e2e_encrypted_packet ptr \<Rightarrow>
     int \<times> rng \<times> e2e_encrypted_packet ptr" where
  "e2e_encrypt_message e g cp textp ridp pp =
     (case (cp, textp, ridp, pp) of
        (Some c, Some txt, Some rid, Some p) \<Rightarrow>
          (case e2e_find_peer_key cp ridp of
             None \<Rightarrow> (-1, g, pp)
           | Some peer \<Rightarrow>
               (let plaintext_len = strlen txt
                in if plaintext_len \<ge> E2E_MAX_MESSAGE_SIZE - 32 then (-1, g, pp)
                   else
                     (let secret = derive_shared_secret (private_key (my_keys c)) (peer_public_key peer);
                          padded_len = ((plaintext_len + 15) div 16) * 16;
                          (pad, g') = rand_bytes e g (padded_len - plaintext_len);
                          data = simple_encrypt secret (bytes_of (cstr txt) @ pad);
                          sid = user_id (my_keys c)
                      in (0, g', Some \<lparr>sender_id = sid, recipient_id = rid,
                            encrypted_data = data @ drop padded_len (encrypted_data p),
                            encrypted_length = padded_len,
                            enc_signature = e2e_mac sid rid secret\<rparr>))))
      | _ \<Rightarrow> (-1, g, pp))"

text \<open>The loop that looks for the end of the message, from index \<open>i\<close> down to 1; the comparison
  \<^verbatim>\<open>i < encrypted_length - 16\<close> is on unsigned values.\<close>

fun padding_loop :: "byte list \<Rightarrow> nat \<Rightarrow> nat \<Rightarrow> nat" where
  "padding_loop d len 0 = len"
| "padding_loop d len (Suc i) =
     (if d ! Suc i = 0 \<or> Suc i < size_sub len 16 then Suc i + 1 else padding_loop d len i)"

definition e2e_decrypt_message ::
  "e2e_context ptr \<Rightarrow> e2e_encrypted_packet ptr \<Rightarrow> nat ptr \<Rightarrow> byte list option option" where
  "e2e_decrypt_message cp pp capp =
     (case (cp, pp, capp) of
        (Some c, Some p, Some cap) \<Rightarrow>
          if recipient_id p \<noteq> user_id (my_keys c) then Some None
          else (case e2e_find_peer_key cp (Some (sender_id p)) of
                  None \<Rightarrow> Some None
                | Some peer \<Rightarrow>
                    (let secret = derive_shared_secret (private_key (my_keys c)) (peer_public_key peer)
                     in if enc_signature p \<noteq> e2e_mac (sender_id p) (recipient_id p) secret then Some None
                        else if encrypted_length p = 0 \<or> encrypted_length p > E2E_MAX_MESSAGE_SIZE
                        then None
                        else
                          (let len = encrypted_length p;
                               decrypted = simple_encrypt secret (take len (encrypted_data p));
                               actual_len = padding_loop decrypted len (len - 1);
                               actual_len' = (if actual_len \<ge> cap then size_sub cap 1 else actual_len)
                           in if len < actual_len' then None
                              else Some (Some (take actual_len' decrypted)))))
      | _ \<Rightarrow> Some None)"

end
