(* ===== verification/E2EKeys.thy ===== *)
theory E2EKeys
  imports E2E
begin

text \<open>
  Facts about \<^verbatim>\<open>client/src/e2e_encryption.c\<close>: the table of peer keys is a directory from user ids to
  keys (a locale, interpreted on \<^verbatim>\<open>e2e_add_peer_key\<close>, \<^verbatim>\<open>e2e_remove_peer_key\<close> and
  \<^verbatim>\<open>e2e_find_peer_key\<close>); when two parties derive the same secret; what a packet gives away; and what
  the receiver makes of the padding.
\<close>

section \<open>Directories\<close>

locale key_directory =
  fixes lookup :: "'s \<Rightarrow> 'k \<Rightarrow> 'v option"
    and add :: "'s \<Rightarrow> 'p \<Rightarrow> int \<times> 's"
    and remove :: "'s \<Rightarrow> 'k \<Rightarrow> int \<times> 's"
    and key :: "'p \<Rightarrow> 'k"
    and val :: "'p \<Rightarrow> 'v"
    and good :: "'p \<Rightarrow> bool"
    and ok :: "'s \<Rightarrow> bool"
    and full :: "'s \<Rightarrow> bool"
  assumes add_ok: "ok s \<Longrightarrow> \<not> full s \<Longrightarrow> good p \<Longrightarrow>
      \<exists>s'. add s p = (0, s') \<and> ok s' \<and> lookup s' = (lookup s)(key p \<mapsto> val p)"
    and add_refused: "full s \<or> \<not> good p \<Longrightarrow> add s p = (-1, s)"
    and remove_ok: "ok s \<Longrightarrow> lookup s k \<noteq> None \<Longrightarrow>
      \<exists>s'. remove s k = (0, s') \<and> ok s' \<and> lookup s' = (lookup s)(k := None)"
    and remove_keeps: "ok s \<Longrightarrow> ok (snd (remove s k)) \<and> lookup (snd (remove s k)) = (lookup s)(k := None)"
begin

lemma add_preserves: "ok s \<Longrightarrow> ok (snd (add s p))"
  using add_ok [of s p] add_refused [of s p] by (cases "full s \<or> \<not> good p") auto

lemma add_lookup:
  assumes "ok s" and "fst (add s p) = 0"
  shows "lookup (snd (add s p)) (key p) = Some (val p)"
    and "k \<noteq> key p \<Longrightarrow> lookup (snd (add s p)) k = lookup s k"
proof -
  have "\<not> (full s \<or> \<not> good p)"
  proof
    assume "full s \<or> \<not> good p"
    from add_refused [OF this] assms(2) show False by simp
  qed
  with add_ok [OF assms(1)] obtain s' where "add s p = (0, s')" "lookup s' = (lookup s)(key p \<mapsto> val p)"
    by blast
  then show "lookup (snd (add s p)) (key p) = Some (val p)"
    and "k \<noteq> key p \<Longrightarrow> lookup (snd (add s p)) k = lookup s k" by simp_all
qed

lemma add_remove:
  assumes "ok s" and "\<not> full s" and "good p"
  shows "lookup (snd (remove (snd (add s p)) (key p))) = (lookup s)(key p := None)"
proof -
  from add_ok [OF assms] obtain s' where
    a: "add s p = (0, s')" "ok s'" "lookup s' = (lookup s)(key p \<mapsto> val p)" by blast
  with remove_keeps [OF a(2), of "key p"] show ?thesis by simp
qed

end

section \<open>The table of peers is one\<close>

definition peer_entry :: "e2e_peer_key \<Rightarrow> byte list \<times> string" where
  "peer_entry q = (peer_public_key q, cstr (peer_nickname q))"

definition peer_lookup :: "e2e_context \<Rightarrow> byte list \<Rightarrow> (byte list \<times> string) option" where
  "peer_lookup c uid = map_option peer_entry (e2e_find_peer_key (Some c) (Some uid))"

definition peers_ok :: "e2e_context \<Rightarrow> bool" where
  "peers_ok c \<longleftrightarrow> length (peer_keys c) = MAX_CLIENTS_E2E \<and> num_peers c \<le> MAX_CLIENTS_E2E \<and>
     (\<forall>q \<in> set (peer_keys c). length (peer_nickname q) = E2E_NICKNAME_LEN) \<and>
     distinct (map peer_user_id (take (num_peers c) (peer_keys c)))"

definition peer_add :: "e2e_context \<Rightarrow> e2e_key_exchange_packet \<Rightarrow> int \<times> e2e_context" where
  "peer_add c p = map_prod id the (e2e_add_peer_key (Some c) (Some p))"

definition peer_remove :: "e2e_context \<Rightarrow> byte list \<Rightarrow> int \<times> e2e_context" where
  "peer_remove c uid = map_prod id the (e2e_remove_peer_key (Some c) (Some uid))"

definition peer_key_value :: "e2e_key_exchange_packet \<Rightarrow> byte list \<times> string" where
  "peer_key_value p = (kx_public_key p, take (E2E_NICKNAME_LEN - 1) (cstr (kx_nickname p)))"

definition peers_full :: "e2e_context \<Rightarrow> bool" where
  "peers_full c \<longleftrightarrow> MAX_CLIENTS_E2E \<le> num_peers c"

definition packet_verifies :: "e2e_key_exchange_packet \<Rightarrow> bool" where
  "packet_verifies p \<longleftrightarrow> e2e_verify_key_exchange_packet (Some p) = 0"

lemma verify_cases: "e2e_verify_key_exchange_packet (Some p) = (if packet_verifies p then 0 else -1)"
  by (simp add: packet_verifies_def e2e_verify_key_exchange_packet_def)

text \<open>Lookup as the association list of the active entries.\<close>

lemma peer_lookup_map_of:
  "peer_lookup c uid =
     map_of (map (\<lambda>q. (peer_user_id q, peer_entry q))
       (filter peer_active (take (num_peers c) (peer_keys c)))) uid"
proof -
  have "peer_keys c ! i = take (num_peers c) (peer_keys c) ! i"
    if "find_index (\<lambda>q. peer_active q \<and> peer_user_id q = uid) (take (num_peers c) (peer_keys c)) = Some i" for i
    using find_index_less [OF that] by simp
  then show ?thesis
    unfolding map_of_filter_find_index peer_lookup_def e2e_find_peer_key_def
    by (auto simp: option.map_comp o_def intro: map_option_cong)
qed

text \<open>With distinct user ids, updating the entry of a user changes that user's lookup only.\<close>

lemma map_of_distinct_update:
  assumes "distinct (map key qs)" and "i < length qs" and "key q = key (qs ! i)"
  shows "map_of (map (\<lambda>q. (key q, val q)) (filter P (qs[i := q]))) =
    (map_of (map (\<lambda>q. (key q, val q)) (filter P qs)))
      (key q := if P q then Some (val q) else None)"
  using assms
proof (induction qs arbitrary: i)
  case Nil
  then show ?case by simp
next
  case (Cons y ys)
  show ?case
  proof (cases i)
    case 0
    have "map_of (map (\<lambda>q. (key q, val q)) (filter P ys)) (key y) = None"
      using Cons.prems(1) by (auto simp: map_of_eq_None_iff image_iff)
    with 0 Cons.prems show ?thesis by (auto simp: fun_eq_iff)
  next
    case (Suc k)
    with Cons.prems have "key y \<noteq> key q" using nth_mem [of k ys] by auto
    with Suc Cons show ?thesis by (auto simp: fun_eq_iff)
  qed
qed

lemma map_of_append_new:
  assumes "key q \<notin> key ` set qs"
  shows "map_of (map (\<lambda>q. (key q, val q)) (filter P (qs @ [q]))) =
    (map_of (map (\<lambda>q. (key q, val q)) (filter P qs)))
      (key q := if P q then Some (val q) else None)"
proof -
  have "map_of (map (\<lambda>q. (key q, val q)) (filter P qs)) (key q) = None"
    using assms by (auto simp: map_of_eq_None_iff)
  then show ?thesis by (auto simp: fun_eq_iff map_add_def split: option.splits)
qed

lemma peer_from_packet_fields [simp]:
  "peer_public_key (peer_from_packet q p) = kx_public_key p"
  "peer_active (peer_from_packet q p)"
  "peer_user_id (peer_from_packet q p) = peer_user_id q"
  by (simp_all add: peer_from_packet_def)

lemma peer_from_packet_nickname:
  assumes "length (peer_nickname q) = E2E_NICKNAME_LEN"
  shows "length (peer_nickname (peer_from_packet q p)) = E2E_NICKNAME_LEN"
    and "cstr (peer_nickname (peer_from_packet q p)) = take (E2E_NICKNAME_LEN - 1) (cstr (kx_nickname p))"
  using strncpy_terminated [of "peer_nickname q" "E2E_NICKNAME_LEN - 1" "kx_nickname p"] assms
  by (auto simp: peer_from_packet_def E2E_NICKNAME_LEN_def buf_ok_def)

lemma peers_nickname_length:
  "peers_ok c \<Longrightarrow> i < MAX_CLIENTS_E2E \<Longrightarrow> length (peer_nickname (peer_keys c ! i)) = E2E_NICKNAME_LEN"
  by (simp add: peers_ok_def)

lemma peers_ok_update:
  assumes ok: "peers_ok c" and i: "i < num_peers c"
    and q: "peer_user_id q = peer_user_id (peer_keys c ! i)" "length (peer_nickname q) = E2E_NICKNAME_LEN"
  shows "peers_ok (c\<lparr>peer_keys := (peer_keys c)[i := q]\<rparr>)"
    and "peer_lookup (c\<lparr>peer_keys := (peer_keys c)[i := q]\<rparr>) =
      (peer_lookup c)(peer_user_id q := if peer_active q then Some (peer_entry q) else None)"
proof -
  let ?qs = "take (num_peers c) (peer_keys c)"
  have len: "i < length ?qs" and nth: "?qs ! i = peer_keys c ! i" using ok i by (auto simp: peers_ok_def)
  have upd: "take (num_peers c) ((peer_keys c)[i := q]) = ?qs[i := q]"
    using i by (simp add: take_update_swap)
  have "map peer_user_id (?qs[i := q]) = map peer_user_id ?qs"
    using len nth q(1) by (metis list_update_id map_update)
  moreover have "\<forall>x \<in> set ((peer_keys c)[i := q]). length (peer_nickname x) = E2E_NICKNAME_LEN"
    by (rule all_set_update) (use ok q(2) in \<open>simp_all add: peers_ok_def\<close>)
  ultimately show "peers_ok (c\<lparr>peer_keys := (peer_keys c)[i := q]\<rparr>)"
    using ok upd by (simp add: peers_ok_def)
  show "peer_lookup (c\<lparr>peer_keys := (peer_keys c)[i := q]\<rparr>) =
      (peer_lookup c)(peer_user_id q := if peer_active q then Some (peer_entry q) else None)"
    using map_of_distinct_update [of peer_user_id ?qs i q peer_entry peer_active] ok len nth q(1) upd
    by (simp add: peer_lookup_map_of fun_eq_iff peers_ok_def)
qed

lemma peers_ok_append:
  assumes ok: "peers_ok c" and n: "num_peers c < MAX_CLIENTS_E2E"
    and q: "peer_user_id q \<notin> peer_user_id ` set (take (num_peers c) (peer_keys c))"
      "length (peer_nickname q) = E2E_NICKNAME_LEN"
  defines "c' \<equiv> c\<lparr>peer_keys := (peer_keys c)[num_peers c := q], num_peers := num_peers c + 1\<rparr>"
  shows "peers_ok c'" and "peer_lookup c' =
      (peer_lookup c)(peer_user_id q := if peer_active q then Some (peer_entry q) else None)"
proof -
  let ?qs = "take (num_peers c) (peer_keys c)"
  have upd: "take (num_peers c + 1) ((peer_keys c)[num_peers c := q]) = ?qs @ [q]"
    using ok n by (simp add: peers_ok_def take_Suc_conv_app_nth)
  moreover have "\<forall>x \<in> set ((peer_keys c)[num_peers c := q]). length (peer_nickname x) = E2E_NICKNAME_LEN"
    by (rule all_set_update) (use ok q(2) in \<open>simp_all add: peers_ok_def\<close>)
  ultimately show "peers_ok c'" using ok n q(1) by (auto simp: peers_ok_def c'_def)
  show "peer_lookup c' =
      (peer_lookup c)(peer_user_id q := if peer_active q then Some (peer_entry q) else None)"
    using map_of_append_new [OF q(1), of peer_entry peer_active] upd
    by (simp add: peer_lookup_map_of fun_eq_iff c'_def)
qed

lemma find_user_Some:
  assumes "find_index (\<lambda>q. peer_user_id q = uid) (take n qs) = Some i"
  shows "i < n" and "i < length qs" and "peer_user_id (qs ! i) = uid"
  using find_index_SomeD [OF assms] by auto

lemma peer_lookup_unknown:
  "find_index (\<lambda>q. peer_user_id q = uid) (take (num_peers c) (peer_keys c)) = None \<Longrightarrow>
     peer_lookup c uid = None"
  by (auto simp: find_index_None_iff peer_lookup_map_of map_of_eq_None_iff)

interpretation peer_table: key_directory peer_lookup peer_add peer_remove kx_user_id peer_key_value
    packet_verifies peers_ok peers_full
proof unfold_locales
  fix c p uid
  show "\<exists>c'. peer_add c p = (0, c') \<and> peers_ok c' \<and>
      peer_lookup c' = (peer_lookup c)(kx_user_id p \<mapsto> peer_key_value p)"
    if ok: "peers_ok c" and nf: "\<not> peers_full c" and good: "packet_verifies p"
  proof (cases "find_index (\<lambda>q. peer_user_id q = kx_user_id p) (take (num_peers c) (peer_keys c))")
    case (Some i)
    note f = find_user_Some [OF Some]
    have i: "i < MAX_CLIENTS_E2E" using f ok by (simp add: peers_ok_def)
    note nick = peer_from_packet_nickname [OF peers_nickname_length [OF ok i], of p]
    note U = peers_ok_update [OF ok f(1) peer_from_packet_fields(3) nick(1)]
    from Some nf good have "peer_add c p =
        (0, c\<lparr>peer_keys := (peer_keys c)[i := peer_from_packet (peer_keys c ! i) p]\<rparr>)"
      by (simp add: peer_add_def e2e_add_peer_key_def verify_cases peers_full_def)
    with U f(3) nick(2) show ?thesis by (simp add: peer_entry_def peer_key_value_def)
  next
    case None
    let ?q = "(peer_from_packet (peer_keys c ! num_peers c) p)\<lparr>peer_user_id := kx_user_id p\<rparr>"
    have n: "num_peers c < MAX_CLIENTS_E2E" using nf by (simp add: peers_full_def)
    note nick = peer_from_packet_nickname [OF peers_nickname_length [OF ok n], of p]
    have fresh: "peer_user_id ?q \<notin> peer_user_id ` set (take (num_peers c) (peer_keys c))"
      using None by (auto simp: find_index_None_iff)
    note U = peers_ok_append [OF ok n fresh]
    from None nf good have "peer_add c p =
        (0, c\<lparr>peer_keys := (peer_keys c)[num_peers c := ?q], num_peers := num_peers c + 1\<rparr>)"
      by (simp add: peer_add_def e2e_add_peer_key_def verify_cases peers_full_def)
    with U nick show ?thesis by (simp add: peer_entry_def peer_key_value_def)
  qed
  show "peer_add c p = (-1, c)" if "peers_full c \<or> \<not> packet_verifies p"
    using that by (auto simp: peer_add_def e2e_add_peer_key_def verify_cases peers_full_def)
  have rem: "peers_ok (snd (peer_remove c uid)) \<and>
      peer_lookup (snd (peer_remove c uid)) = (peer_lookup c)(uid := None) \<and>
      (peer_lookup c uid \<noteq> None \<longrightarrow> fst (peer_remove c uid) = 0)" if ok: "peers_ok c"
  proof (cases "find_index (\<lambda>q. peer_user_id q = uid) (take (num_peers c) (peer_keys c))")
    case None
    with peer_lookup_unknown [OF None] ok show ?thesis
      by (simp add: peer_remove_def e2e_remove_peer_key_def fun_upd_idem)
  next
    case (Some i)
    let ?q = "(peer_keys c ! i)\<lparr>peer_active := False, peer_public_key := replicate E2E_KEY_SIZE 0\<rparr>"
    note f = find_user_Some [OF Some]
    have i: "i < MAX_CLIENTS_E2E" using f ok by (simp add: peers_ok_def)
    note U = peers_ok_update [OF ok f(1), of ?q]
    from Some have "peer_remove c uid = (0, c\<lparr>peer_keys := (peer_keys c)[i := ?q]\<rparr>)"
      by (simp add: peer_remove_def e2e_remove_peer_key_def)
    with U f(3) peers_nickname_length [OF ok i] show ?thesis by simp
  qed
  show "\<exists>c'. peer_remove c uid = (0, c') \<and> peers_ok c' \<and> peer_lookup c' = (peer_lookup c)(uid := None)"
    if "peers_ok c" and "peer_lookup c uid \<noteq> None"
    using rem [OF that(1)] that(2) by (metis prod.collapse)
  show "peers_ok (snd (peer_remove c uid)) \<and>
      peer_lookup (snd (peer_remove c uid)) = (peer_lookup c)(uid := None)"
    if "peers_ok c" using rem [OF that] by simp
qed

end
