(* ===== verification/E2ECrypto.thy ===== *)
theory E2ECrypto
  imports E2EKeys
begin

text \<open>
  The secrets and packets of the end-to-end layer: what two honest parties derive from each other's
  key exchange packets, what any reader of a packet learns, and what the receiver's removal of the
  padding returns.
\<close>

section \<open>Exclusive or on lists of bytes\<close>

lemma xor_swap_iff:
  fixes a b :: "'a :: len word"
  shows "a XOR (b XOR x XOR c) XOR d = b XOR (a XOR y XOR c) XOR d \<longleftrightarrow> x = y"
proof -
  have "a XOR (b XOR x XOR c) XOR d = (a XOR b XOR c XOR d) XOR x" by (simp add: ac_simps)
  moreover have "b XOR (a XOR y XOR c) XOR d = (a XOR b XOR c XOR d) XOR y" by (simp add: ac_simps)
  ultimately show ?thesis by simp
qed

lemma length_simple_encrypt [simp]: "length (simple_encrypt k d) = length d"
  by (simp add: simple_encrypt_def)

lemma nth_simple_encrypt [simp]:
  "i < length d \<Longrightarrow> simple_encrypt k d ! i = d ! i XOR k ! (i mod 32) XOR word_of_nat (i mod 256)"
  by (simp add: simple_encrypt_def)

lemma simple_encrypt_involution [simp]: "simple_encrypt k (simple_encrypt k d) = d"
proof (rule nth_equalityI)
  fix i assume "i < length (simple_encrypt k (simple_encrypt k d))"
  then have i: "i < length d" by simp
  have "x XOR a XOR b XOR a XOR b = x" for x a b :: byte
    by (metis xor.assoc xor.commute xor_cancel)
  with i show "simple_encrypt k (simple_encrypt k d) ! i = d ! i" by simp
qed simp

section \<open>Secrets\<close>

lemma length_public_key_of [simp]: "length (public_key_of priv uid) = 32"
  by (simp add: public_key_of_def limits Let_def)

lemma nth_public_key_of:
  assumes "length priv = 32" and "i < 32"
  shows "public_key_of priv uid ! i =
    priv ! i XOR (if i < 16 then priv ! (i + 16) else uid ! (i - 16)) XOR word_of_nat (i * 17 + 42)"
  using assms by (auto simp: public_key_of_def nth_append E2E_KEY_SIZE_def Let_def)

lemma length_derive [simp]: "length (derive_shared_secret priv pub) = 32"
  by (simp add: derive_shared_secret_def)

lemma nth_derive:
  "i < 32 \<Longrightarrow> derive_shared_secret priv pub ! i = priv ! i XOR pub ! i XOR word_of_nat (i * 31 + 73)"
  by (simp add: derive_shared_secret_def)

lemma secrets_agree_at:
  assumes "length a = 32" and "length b = 32" and "i < 32"
  shows "derive_shared_secret a (public_key_of b ub) ! i = derive_shared_secret b (public_key_of a ua) ! i
    \<longleftrightarrow> (if i < 16 then a ! (i + 16) = b ! (i + 16) else ua ! (i - 16) = ub ! (i - 16))"
  using assms xor_swap_iff [of "a ! i" "b ! i" "b ! (i + 16)" "word_of_nat (i * 17 + 42)"
      "word_of_nat (i * 31 + 73)" "a ! (i + 16)"]
    xor_swap_iff [of "a ! i" "b ! i" "ub ! (i - 16)" "word_of_nat (i * 17 + 42)"
      "word_of_nat (i * 31 + 73)" "ua ! (i - 16)"]
  by (auto simp: nth_derive nth_public_key_of)

lemma derive_agree_iff:
  assumes len: "length a = 32" "length b = 32" "length ua = 16" "length ub = 16"
  shows "derive_shared_secret a (public_key_of b ub) = derive_shared_secret b (public_key_of a ua) \<longleftrightarrow>
    drop 16 a = drop 16 b \<and> ua = ub"
proof -
  have "derive_shared_secret a (public_key_of b ub) = derive_shared_secret b (public_key_of a ua) \<longleftrightarrow>
      (\<forall>i < 32. if i < 16 then a ! (i + 16) = b ! (i + 16) else ua ! (i - 16) = ub ! (i - 16))"
    using secrets_agree_at [OF len(1,2)] by (simp add: list_eq_iff_nth_eq)
  also have "\<dots> \<longleftrightarrow> (\<forall>i < 16. a ! (i + 16) = b ! (i + 16)) \<and> (\<forall>i < 16. ua ! i = ub ! i)"
  proof
    assume all: "\<forall>i < 32. if i < 16 then a ! (i + 16) = b ! (i + 16) else ua ! (i - 16) = ub ! (i - 16)"
    have "ua ! i = ub ! i" if "i < 16" for i using all [rule_format, of "i + 16"] that by simp
    moreover have "a ! (i + 16) = b ! (i + 16)" if "i < 16" for i
      using all [rule_format, of i] that by simp
    ultimately show "(\<forall>i < 16. a ! (i + 16) = b ! (i + 16)) \<and> (\<forall>i < 16. ua ! i = ub ! i)" by blast
  qed auto
  also have "\<dots> \<longleftrightarrow> drop 16 a = drop 16 b \<and> ua = ub"
    using len by (auto simp: list_eq_iff_nth_eq add.commute)
  finally show ?thesis .
qed

text \<open>The second half of a private key, computed from the public data of its owner.\<close>

definition recovered_key_half :: "byte list \<Rightarrow> byte list \<Rightarrow> byte list" where
  "recovered_key_half pub uid =
     map (\<lambda>i. pub ! (i + 16) XOR uid ! i XOR word_of_nat ((i + 16) * 17 + 42)) [0 ..< 16]"

lemma recovered_key_half_eq:
  assumes "length priv = 32" and "length uid = 16"
  shows "recovered_key_half (public_key_of priv uid) uid = drop 16 priv"
proof (rule nth_equalityI)
  show "length (recovered_key_half (public_key_of priv uid) uid) = length (drop 16 priv)"
    using assms by (simp add: recovered_key_half_def)
  fix i assume "i < length (recovered_key_half (public_key_of priv uid) uid)"
  then have i: "i < 16" by (simp add: recovered_key_half_def)
  then show "recovered_key_half (public_key_of priv uid) uid ! i = drop 16 priv ! i"
    using assms xor3_cancel [of "priv ! (i + 16)" "uid ! i" "word_of_nat ((i + 16) * 17 + 42)"]
    by (simp add: recovered_key_half_def nth_public_key_of add.commute)
qed

section \<open>Packets\<close>

lemma length_mac [simp]: "length (e2e_mac s r k) = 32"
  by (simp add: e2e_mac_def Let_def)

lemma nth_mac:
  assumes "length s = 16" and "length r = 16" and "i < 32"
  shows "e2e_mac s r k ! i = (s @ r) ! i XOR k ! i XOR word_of_nat (i * 13)"
  using assms by (auto simp: e2e_mac_def nth_append Let_def)

lemma mac_inject:
  assumes "length s = 16" and "length r = 16" and "length k = 32" and "length k' = 32"
  shows "e2e_mac s r k = e2e_mac s r k' \<longleftrightarrow> k = k'"
proof
  assume eq: "e2e_mac s r k = e2e_mac s r k'"
  show "k = k'"
  proof (rule nth_equalityI)
    fix i assume "i < length k"
    then have i: "i < 32" using assms by simp
    have "(s @ r) ! i XOR k ! i XOR word_of_nat (i * 13) = (s @ r) ! i XOR k' ! i XOR word_of_nat (i * 13)"
      using nth_mac [OF assms(1,2) i, of k] nth_mac [OF assms(1,2) i, of k'] eq by simp
    then show "k ! i = k' ! i" by simp
  qed (use assms in simp)
qed simp

text \<open>The secret of a packet, computed from the packet alone.\<close>

definition recovered_secret :: "e2e_encrypted_packet \<Rightarrow> byte list" where
  "recovered_secret p =
     map (\<lambda>i. enc_signature p ! i XOR (sender_id p @ recipient_id p) ! i XOR word_of_nat (i * 13)) [0 ..< 32]"

lemma recovered_secret_eq:
  assumes "length (sender_id p) = 16" and "length (recipient_id p) = 16" and "length k = 32"
    and sig: "enc_signature p = e2e_mac (sender_id p) (recipient_id p) k"
  shows "recovered_secret p = k"
proof (rule nth_equalityI)
  show "length (recovered_secret p) = length k" using assms(3) by (simp add: recovered_secret_def)
  fix i assume "i < length (recovered_secret p)"
  then have i: "i < 32" by (simp add: recovered_secret_def)
  with nth_mac [OF assms(1,2) i, of k]
    xor3_cancel2 [of "(sender_id p @ recipient_id p) ! i" "k ! i" "word_of_nat (i * 13)"] show "recovered_secret p ! i = k ! i"
    by (simp add: recovered_secret_def sig)
qed

text \<open>The result of a successful encryption.\<close>

lemma encrypt_success:
  assumes "e2e_encrypt_message e g (Some c) (Some txt) (Some rid) (Some p0) = (0, g', Some p)"
  obtains peer pad where "e2e_find_peer_key (Some c) (Some rid) = Some peer"
    and "strlen txt < E2E_MAX_MESSAGE_SIZE - 32"
    and "encrypted_length p = ((strlen txt + 15) div 16) * 16"
    and "length pad = encrypted_length p - strlen txt"
    and "take (encrypted_length p) (encrypted_data p) = simple_encrypt
        (derive_shared_secret (private_key (my_keys c)) (peer_public_key peer)) (bytes_of (cstr txt) @ pad)"
    and "sender_id p = user_id (my_keys c)" and "recipient_id p = rid"
    and "enc_signature p = e2e_mac (user_id (my_keys c)) rid
        (derive_shared_secret (private_key (my_keys c)) (peer_public_key peer))"
proof -
  let ?n = "((strlen txt + 15) div 16) * 16"
  obtain pad g1 where pad: "rand_bytes e g (?n - strlen txt) = (pad, g1)" by fastforce
  then have lpad: "length pad = ?n - strlen txt" by (auto simp: rand_bytes_def)
  have n: "strlen txt \<le> ?n" by presburger
  from assms obtain peer where peer: "e2e_find_peer_key (Some c) (Some rid) = Some peer"
    and short: "strlen txt < E2E_MAX_MESSAGE_SIZE - 32"
    by (auto simp: e2e_encrypt_message_def Let_def split: option.splits if_splits)
  let ?k = "derive_shared_secret (private_key (my_keys c)) (peer_public_key peer)"
  from assms peer short pad have p: "p = \<lparr>sender_id = user_id (my_keys c), recipient_id = rid,
      encrypted_data = simple_encrypt ?k (bytes_of (cstr txt) @ pad) @ drop ?n (encrypted_data p0),
      encrypted_length = ?n, enc_signature = e2e_mac (user_id (my_keys c)) rid ?k\<rparr>"
    by (simp add: e2e_encrypt_message_def Let_def)
  have "length (bytes_of (cstr txt) @ pad) = ?n" using n lpad by (simp add: strlen_def)
  then have "take ?n (encrypted_data p) = simple_encrypt ?k (bytes_of (cstr txt) @ pad)"
    by (simp add: p)
  with peer short lpad show ?thesis by (intro that) (simp_all add: p)
qed

section \<open>Padding\<close>

lemma padding_loop_last_block:
  assumes "len = n + 16" and "2 \<le> n" and "\<forall>i. n \<le> i \<and> i \<le> n + j \<longrightarrow> d ! i \<noteq> 0"
  shows "padding_loop d len (n + j) = n"
  using assms(3)
proof (induction j)
  case 0
  from assms(2) obtain m where m: "n = Suc (Suc m)" by (metis One_nat_def Suc_1 add_2_eq_Suc le_Suc_ex)
  have "d ! Suc (Suc m) \<noteq> 0" using 0 m by auto
  then show ?case using m assms(1) by (simp add: size_sub_def)
next
  case (Suc j)
  then show ?case using assms(1) by (simp add: size_sub_def)
qed

lemma padding_loop_one_block:
  assumes "len \<le> 16" and "\<forall>i. 0 < i \<and> i \<le> j \<longrightarrow> d ! i \<noteq> 0" and "16 \<le> len"
  shows "padding_loop d len j = len"
  using assms(2) by (induction j) (use assms in \<open>auto simp: size_sub_def\<close>)

end
