(* ===== verification/ClientSecurity.thy ===== *)
theory ClientSecurity
  imports SecurityTypes
begin

text \<open>
  The security layer of the client: guarded memory (\<^verbatim>\<open>client/src/secure_memory.c\<close>), the global
  security state (\<^verbatim>\<open>client/src/global_security.c\<close>), security contexts
  (\<^verbatim>\<open>client/src/security_context.c\<close>), the compatibility layer (\<^verbatim>\<open>client/src/security_foundation.c\<close>) and
  the checks of \<^verbatim>\<open>client/src/anti_debugging.c\<close>. A block of guarded memory is its header and its
  content; a size is a 64-bit \<^verbatim>\<open>size_t\<close>, so the size computations wrap.
\<close>

section \<open>Guarded memory\<close>

lemma and_not_mask: "(w :: u64) AND NOT (mask 12) = push_bit 12 (drop_bit 12 w)"
  by (rule bit_word_eqI) (auto simp: bit_simps)

lemma unat_and_not_mask: "unat ((w :: u64) AND NOT (mask 12)) = unat w div 4096 * 4096"
proof -
  have "unat w < 2 ^ 64" using unsigned_less [of w] by simp
  then have "unat w div 4096 * 4096 < 2 ^ 64"
    by (rule le_less_trans [OF div_times_less_eq_dividend])
  then show ?thesis
    by (simp only: and_not_mask unsigned_push_bit_eq unsigned_drop_bit_eq)
      (simp add: push_bit_eq_mult drop_bit_eq_div take_bit_eq_mod)
qed

definition ALLOCATION_MAGIC :: u32 where "ALLOCATION_MAGIC = 0xDEADBEEF"
definition CANARY_VALUE :: u32 where "CANARY_VALUE = 0xCAFEBABE"
definition PAGE_SIZE :: u64 where "PAGE_SIZE = 4096"
definition header_size :: u64 where "header_size = 40"
  \<comment> \<open>\<^verbatim>\<open>sizeof(allocation_header_t)\<close>\<close>

record secure_block =
  blk_magic :: u32
  blk_size :: nat
  blk_level :: security_level
  blk_time :: u64
  blk_canary :: u32
  blk_content :: "byte list"

definition total_alloc_size :: "u64 \<Rightarrow> u64" where
  "total_alloc_size sz =
     (let total = header_size + sz + PAGE_SIZE * 2
      in (total + PAGE_SIZE - 1) AND NOT (PAGE_SIZE - 1))"

definition initial_content :: "bool \<Rightarrow> security_level \<Rightarrow> nat \<Rightarrow> byte list" where
  "initial_content global_ctx level sz =
     (case level of
        SECURITY_LEVEL_MAXIMUM \<Rightarrow>
          if global_ctx then map (\<lambda>i. word_of_nat i XOR 0x42) [0 ..< sz] else replicate sz 0xAA
      | SECURITY_LEVEL_HIGH \<Rightarrow> replicate sz 0xAA
      | SECURITY_LEVEL_MEDIUM \<Rightarrow> replicate sz 0
      | SECURITY_LEVEL_LOW \<Rightarrow> replicate sz 0)"

definition secure_memory_allocate ::
  "libc \<Rightarrow> bool \<Rightarrow> bool \<Rightarrow> nat \<Rightarrow> security_level \<Rightarrow> secure_block ptr" where
  "secure_memory_allocate e mmap_ok global_ctx sz level =
     (if sz = 0 then None
      else if \<not> mmap_ok then None
      else Some \<lparr>blk_magic = ALLOCATION_MAGIC, blk_size = sz, blk_level = level,
             blk_time = word_of_int (libc_time e), blk_canary = CANARY_VALUE,
             blk_content = initial_content global_ctx level sz\<rparr>)"

text \<open>The four passes over the first \<open>sz\<close> bytes.\<close>

definition wipe_pass :: "(nat \<Rightarrow> byte) \<Rightarrow> nat \<Rightarrow> byte list \<Rightarrow> byte list" where
  "wipe_pass f sz m = map f [0 ..< sz] @ drop sz m"

definition secure_memory_wipe :: "byte list ptr \<Rightarrow> nat \<Rightarrow> int \<times> byte list ptr" where
  "secure_memory_wipe mp sz =
     (case mp of
        None \<Rightarrow> (-1, None)
      | Some m \<Rightarrow>
          if sz = 0 then (-1, mp)
          else (0, Some (wipe_pass (\<lambda>_. 0) sz (wipe_pass (\<lambda>i. word_of_nat i XOR 0xAA) sz
                 (wipe_pass (\<lambda>_. 0xFF) sz (wipe_pass (\<lambda>_. 0) sz m))))))"

text \<open>The block when it goes back to the system (\<open>Inl\<close>), or kept because it is corrupt (\<open>Inr\<close>).\<close>

definition secure_memory_free :: "secure_block \<Rightarrow> secure_block + secure_block" where
  "secure_memory_free b =
     (if blk_magic b \<noteq> ALLOCATION_MAGIC \<or> blk_canary b \<noteq> CANARY_VALUE then Inr b
      else Inl (b\<lparr>blk_content := the (snd (secure_memory_wipe (Some (blk_content b)) (blk_size b)))\<rparr>))"

lemma wipe_zero:
  "0 < sz \<Longrightarrow> sz \<le> length m \<Longrightarrow>
     secure_memory_wipe (Some m) sz = (0, Some (replicate sz 0 @ drop sz m))"
  by (simp add: secure_memory_wipe_def wipe_pass_def map_replicate_const)

text \<open>The user area lies between the two guard pages.\<close>

lemma total_alloc_size_bounds:
  assumes "unat sz \<le> 2 ^ 63"
  shows "unat (total_alloc_size sz) mod 4096 = 0"
    and "unat header_size + unat sz + 2 * unat PAGE_SIZE \<le> unat (total_alloc_size sz)"
    and "unat (total_alloc_size sz) < unat header_size + unat sz + 3 * unat PAGE_SIZE"
proof -
  define n where "n = unat sz + 12327"
  have n: "n < 2 ^ 64" using assms by (simp add: n_def)
  have "header_size + sz + PAGE_SIZE * 2 + PAGE_SIZE - 1 = sz + 12327"
    by (simp add: header_size_def PAGE_SIZE_def)
  moreover have "unat (sz + 12327) = n" using n by (simp add: unat_word_ariths n_def)
  ultimately have "total_alloc_size sz = (sz + 12327) AND NOT (mask 12)"
    by (simp add: total_alloc_size_def header_size_def PAGE_SIZE_def mask_eq_exp_minus_1 ac_simps)
  then have t: "unat (total_alloc_size sz) = n div 4096 * 4096"
    using \<open>unat (sz + 12327) = n\<close> by (simp add: unat_and_not_mask)
  show "unat (total_alloc_size sz) mod 4096 = 0" by (simp add: t)
  have "n div 4096 * 4096 \<le> n" "n < n div 4096 * 4096 + 4096" by (simp_all add: n_def)
  then show "unat header_size + unat sz + 2 * unat PAGE_SIZE \<le> unat (total_alloc_size sz)"
    and "unat (total_alloc_size sz) < unat header_size + unat sz + 3 * unat PAGE_SIZE"
    by (simp_all add: t n_def header_size_def PAGE_SIZE_def)
qed

section \<open>Global state\<close>

record global_security =
  g_integrity_checksum :: u64
  g_global_context :: "security_context ptr"

definition initial_global :: global_security where
  "initial_global = \<lparr>g_integrity_checksum = 0, g_global_context = None\<rparr>"

definition get_global_integrity_checksum :: "global_security \<Rightarrow> u64" where
  "get_global_integrity_checksum g = g_integrity_checksum g"

definition set_global_integrity_checksum :: "global_security \<Rightarrow> u64 \<Rightarrow> global_security" where
  "set_global_integrity_checksum g c = g\<lparr>g_integrity_checksum := c\<rparr>"

definition set_global_security_context ::
  "global_security \<Rightarrow> security_context ptr \<Rightarrow> global_security" where
  "set_global_security_context g cp = g\<lparr>g_global_context := cp\<rparr>"

definition update_performance_counters ::
  "security_context ptr \<Rightarrow> string ptr \<Rightarrow> security_context ptr" where
  "update_performance_counters cp opn =
     (case (cp, opn) of
        (Some c, Some s) \<Rightarrow>
          Some (if s = ''encrypt'' \<or> s = ''decrypt''
                then c\<lparr>crypto_operations := crypto_operations c + 1\<rparr>
                else if s = ''entropy'' then c\<lparr>entropy_collected := entropy_collected c + 1\<rparr>
                else if s = ''memory'' then c\<lparr>memory_allocations := memory_allocations c + 1\<rparr>
                else c)
      | _ \<Rightarrow> cp)"

definition update_global_performance_counters ::
  "global_security \<Rightarrow> string ptr \<Rightarrow> global_security" where
  "update_global_performance_counters g opn =
     (if opn = None then g
      else if g_global_context g \<noteq> None
      then g\<lparr>g_global_context := update_performance_counters (g_global_context g) opn\<rparr>
      else g)"

definition init_global_security :: "global_security \<Rightarrow> int \<times> global_security" where
  "init_global_security g = (0, g\<lparr>g_integrity_checksum := 0, g_global_context := None\<rparr>)"

definition cleanup_global_security :: "global_security \<Rightarrow> global_security" where
  "cleanup_global_security g = g\<lparr>g_integrity_checksum := 0, g_global_context := None\<rparr>"

definition init_entropy_pool :: "bool \<Rightarrow> entropy_pool ptr \<Rightarrow> int \<times> entropy_pool ptr" where
  "init_entropy_pool mutex_ok pp =
     (case pp of
        None \<Rightarrow> (-1, None)
      | Some p \<Rightarrow>
          (if mutex_ok then 0 else -1,
           Some (p\<lparr>hw_entropy := replicate 1024 0, timing_entropy := replicate 512 0,
                   thermal_entropy := replicate 256 0, mixed_pool := replicate 2048 0,
                   entropy_estimate := 0\<rparr>)))"

section \<open>Process checks\<close>

text \<open>The addresses of the local variable and of \<^verbatim>\<open>detect_debugger\<close>, which the loader chooses, are
  arguments.\<close>

definition calculate_integrity_checksum :: "libc \<Rightarrow> u64 \<Rightarrow> u64 \<Rightarrow> u64" where
  "calculate_integrity_checksum e local_addr fun_addr =
     word_of_int (libc_pid e) XOR 0x1337DEADBEEF1337 XOR (local_addr AND 0xFFFFFF)
       XOR (fun_addr AND 0xFFFFFF)"

definition verify_process_integrity :: "libc \<Rightarrow> u64 \<Rightarrow> u64 \<Rightarrow> global_security \<Rightarrow> int" where
  "verify_process_integrity e local_addr fun_addr g =
     (let current = calculate_integrity_checksum e local_addr fun_addr;
          stored = get_global_integrity_checksum g
      in if stored \<noteq> 0 \<and> current \<noteq> stored then 0 else 0)"

section \<open>Security contexts\<close>

text \<open>\<open>raw\<close> and \<open>raw_enc\<close> are the two allocated structures with the fill pattern of the level;
  \<open>libc_alloc\<close> answers the memory requests and mutex initialisations in their order.\<close>

definition initialize_canaries :: "global_security \<Rightarrow> security_context \<Rightarrow> security_context" where
  "initialize_canaries g c =
     (if g_global_context g \<noteq> None
      then c\<lparr>canary_start := map (\<lambda>i. 0x42 + word_of_nat i) [0 ..< 16],
             canary_end := map (\<lambda>i. 0xAB + word_of_nat i) [0 ..< 16]\<rparr>
      else c\<lparr>canary_start := replicate 16 0xDE, canary_end := replicate 16 0xAD\<rparr>)"

definition security_context_create ::
  "libc \<Rightarrow> u64 \<Rightarrow> u64 \<Rightarrow> global_security \<Rightarrow> security_context \<Rightarrow> encryption_context \<Rightarrow> security_level \<Rightarrow>
     security_context ptr" where
  "security_context_create e la fa g raw raw_enc level =
     (if \<not> libc_alloc e 0 then None
      else if \<not> libc_alloc e 1 \<or> \<not> libc_alloc e 2 \<or> \<not> libc_alloc e 3 then None
      else if \<not> libc_alloc e 4 then None
      else Some ((initialize_canaries g (raw\<lparr>enc_ctx := Some raw_enc\<rparr>))
        \<lparr>mem_protection := (mem_protection raw)\<lparr>num_guard_pages := 0\<rparr>, current_level := level,
         crypto_operations := 0, entropy_collected := 0, memory_allocations := 1,
         debugger_detected := False,
         integrity_checksum := calculate_integrity_checksum e la fa\<rparr>))"

definition SECURITY_LEVEL_HIGH_INT :: int where "SECURITY_LEVEL_HIGH_INT = 3"

definition security_context_create_compat ::
  "libc \<Rightarrow> u64 \<Rightarrow> u64 \<Rightarrow> global_security \<Rightarrow> security_context \<Rightarrow> encryption_context \<Rightarrow> int \<Rightarrow>
     security_context ptr" where
  "security_context_create_compat e la fa g raw raw_enc level =
     security_context_create e la fa g raw raw_enc
       (if level = 1 then SECURITY_LEVEL_LOW
        else if level = 2 then SECURITY_LEVEL_MEDIUM
        else if level = 3 then SECURITY_LEVEL_HIGH
        else SECURITY_LEVEL_MEDIUM)"

text \<open>\<open>is_global\<close> tells whether the context is the global one (a comparison of pointers).\<close>

definition validate_canaries :: "global_security \<Rightarrow> bool \<Rightarrow> security_context \<Rightarrow> int" where
  "validate_canaries g is_global c =
     (if g_global_context g \<noteq> None \<and> \<not> is_global \<and>
         (\<exists>i \<in> {0 ..< 16}. canary_start c ! i = 0 \<or> canary_end c ! i = 0)
      then -1 else 0)"

definition security_context_validate :: "global_security \<Rightarrow> bool \<Rightarrow> security_context ptr \<Rightarrow> int" where
  "security_context_validate g is_global cp =
     (case cp of
        None \<Rightarrow> -1
      | Some c \<Rightarrow> if validate_canaries g is_global c \<noteq> 0 then -1 else 0)"

text \<open>As long as nobody calls \<^verbatim>\<open>set_global_security_context\<close>, every context validates.\<close>

lemma validate_without_global:
  "g_global_context g = None \<Longrightarrow> security_context_validate g b (Some c) = 0"
  by (simp add: security_context_validate_def validate_canaries_def)

lemma global_counters_without_context [simp]:
  "g_global_context g = None \<Longrightarrow> update_global_performance_counters g opn = g"
  by (simp add: update_global_performance_counters_def)

definition security_encrypt_message ::
  "security_context ptr \<Rightarrow> string ptr \<Rightarrow> bool \<Rightarrow> string option" where
  "security_encrypt_message cp tp malloc_ok =
     (case (cp, tp) of
        (Some _, Some t) \<Rightarrow> if malloc_ok then Some (cstr t) else None
      | _ \<Rightarrow> None)"

definition security_authenticate_user ::
  "security_context ptr \<Rightarrow> string ptr \<Rightarrow> string ptr \<Rightarrow> int" where
  "security_authenticate_user cp up pp = (if cp = None \<or> up = None \<or> pp = None then -1 else 0)"

definition security_decrypt_message ::
  "security_context ptr \<Rightarrow> string ptr \<Rightarrow> bool \<Rightarrow> string option" where
  "security_decrypt_message cp sp malloc_ok =
     (case (cp, sp) of
        (Some _, Some s) \<Rightarrow> if malloc_ok then Some (cstr s) else None
      | _ \<Rightarrow> None)"

definition security_generate_session_id :: "security_context ptr \<Rightarrow> int" where
  "security_generate_session_id cp = (if cp = None then -1 else 0)"

definition security_context_init :: "security_context ptr \<Rightarrow> int" where
  "security_context_init cp = (if cp = None then -1 else 0)"

end
