(* ===== verification/Client.thy ===== *)
theory Client
  imports E2ECrypto ClientSecurity CipherChannel
begin

text \<open>
  The client object and its operations, \<^verbatim>\<open>client/src/client.c\<close>, with the hexadecimal transport of
  packets. A client pointer is never NULL where a caller has checked it (\<^verbatim>\<open>main\<close>); the two pointers
  it holds, to its security context and its end-to-end context, are nullable. The global security
  state is an argument; no code of the client ever sets a global context, so it stays
  \<open>initial_global\<close>.
\<close>

section \<open>Hexadecimal transport\<close>

definition hex_digit :: "nat \<Rightarrow> char" where
  "hex_digit d = ''0123456789abcdef'' ! d"

definition hex_byte :: "byte \<Rightarrow> string" where
  "hex_byte b = [hex_digit (unat b div 16), hex_digit (unat b mod 16)]"

definition hex_bytes :: "byte list \<Rightarrow> string" where
  "hex_bytes bs = concat (map hex_byte bs)"

definition digit_value :: "char \<Rightarrow> nat option" where
  "digit_value c =
     (let n = of_char c
      in if 48 \<le> n \<and> n \<le> 57 then Some (n - 48)
         else if 97 \<le> n \<and> n \<le> 102 then Some (n - 87)
         else if 65 \<le> n \<and> n \<le> 70 then Some (n - 55)
         else None)"

definition is_space :: "char \<Rightarrow> bool" where
  "is_space c \<longleftrightarrow> c = CHR '' '' \<or> (9 \<le> (of_char c :: nat) \<and> (of_char c :: nat) \<le> 13)"

fun digits_value :: "nat \<Rightarrow> string \<Rightarrow> nat" where
  "digits_value acc [] = acc"
| "digits_value acc (c # cs) =
     (case digit_value c of None \<Rightarrow> acc | Some d \<Rightarrow> digits_value (acc * 16 + d) cs)"

text \<open>\<^verbatim>\<open>sscanf(s, "%02x", &v)\<close> and the low byte of \<open>v\<close>: white space is skipped, then a field of at
  most two characters is read, which may start with a sign; \<^verbatim>\<open>0x\<close> alone is no number.\<close>

definition scan_hex2 :: "string \<Rightarrow> byte option" where
  "scan_hex2 s =
     (case dropWhile is_space s of
        [] \<Rightarrow> None
      | c # t \<Rightarrow>
          if c = CHR ''+'' \<or> c = CHR ''-''
          then (case t of
                  [] \<Rightarrow> None
                | d # _ \<Rightarrow>
                    (case digit_value d of
                       None \<Rightarrow> None
                     | Some v \<Rightarrow> Some (if c = CHR ''-'' then - word_of_nat v else word_of_nat v)))
          else if digit_value c = None then None
          else if c = CHR ''0'' \<and> t \<noteq> [] \<and> (hd t = CHR ''x'' \<or> hd t = CHR ''X'') then None
          else Some (word_of_nat (digits_value 0 (take 2 (c # t)))))"

text \<open>The loop over the bytes of a packet.\<close>

fun parse_hex :: "nat \<Rightarrow> string \<Rightarrow> byte list option" where
  "parse_hex 0 s = Some []"
| "parse_hex (Suc n) s =
     (case scan_hex2 s of
        None \<Rightarrow> None
      | Some b \<Rightarrow> (case parse_hex n (drop 2 s) of None \<Rightarrow> None | Some bs \<Rightarrow> Some (b # bs)))"

lemma less_16_cases:
  "d < 16 \<Longrightarrow> d = 0 \<or> d = 1 \<or> d = 2 \<or> d = 3 \<or> d = 4 \<or> d = 5 \<or> d = 6 \<or> d = 7 \<or> d = 8 \<or> d = 9 \<or>
     d = 10 \<or> d = 11 \<or> d = 12 \<or> d = 13 \<or> d = 14 \<or> d = (15::nat)"
  by presburger

lemma digit_value_hex [simp]: "d < 16 \<Longrightarrow> digit_value (hex_digit d) = Some d"
  by (drule less_16_cases, elim disjE) (simp_all add: digit_value_def hex_digit_def)

lemma hex_digit_props:
  assumes "d < 16"
  shows "\<not> is_space (hex_digit d)" and "hex_digit d \<noteq> CHR ''+''" and "hex_digit d \<noteq> CHR ''-''"
    and "hex_digit d \<noteq> CHR ''x''" and "hex_digit d \<noteq> CHR ''X''" and "hex_digit d \<noteq> NUL"
  using less_16_cases [OF assms] by (elim disjE; simp add: hex_digit_def is_space_def)+

lemma scan_hex_byte [simp]: "scan_hex2 (hex_byte b @ s) = Some b"
proof -
  have d: "unat b div 16 < 16" "unat b mod 16 < 16"
    using unat_byte_less_256 [of b] by auto
  have "unat b div 16 * 16 + unat b mod 16 = unat b" by simp
  with d hex_digit_props [OF d(1)] hex_digit_props [OF d(2)] show ?thesis
    by (simp add: scan_hex2_def hex_byte_def)
qed

lemma length_hex_byte [simp]: "length (hex_byte b) = 2"
  by (simp add: hex_byte_def)

lemma length_hex_bytes [simp]: "length (hex_bytes bs) = 2 * length bs"
  by (induction bs) (simp_all add: hex_bytes_def)

lemma hex_bytes_no_NUL [simp]: "NUL \<notin> set (hex_bytes bs)"
proof -
  have "unat b div 16 < 16" "unat b mod 16 < 16" for b :: byte
    using unat_byte_less_256 [of b] by auto
  then have "NUL \<notin> set (hex_byte b)" for b
    using hex_digit_props(6) [of "unat b div 16"] hex_digit_props(6) [of "unat b mod 16"]
    by (auto simp: hex_byte_def)
  then show ?thesis by (induction bs) (auto simp: hex_bytes_def)
qed

lemma parse_hex_roundtrip: "parse_hex (length bs) (hex_bytes bs @ s) = Some bs"
  by (induction bs) (simp_all add: hex_bytes_def)

section \<open>Packets as bytes\<close>

definition kx_packet_size :: nat where "kx_packet_size = 144"
definition enc_packet_size :: nat where "enc_packet_size = 1096"

definition kx_bytes :: "e2e_key_exchange_packet \<Rightarrow> byte list" where
  "kx_bytes p = kx_user_id p @ kx_public_key p @ bytes_of (kx_nickname p) @ kx_signature p"

definition bytes_kx :: "byte list \<Rightarrow> e2e_key_exchange_packet" where
  "bytes_kx bs = \<lparr>kx_user_id = take 16 bs, kx_public_key = take 32 (drop 16 bs),
     kx_nickname = chars_of (take 64 (drop 48 bs)), kx_signature = take 32 (drop 112 bs)\<rparr>"

definition kx_packet_ok :: "e2e_key_exchange_packet \<Rightarrow> bool" where
  "kx_packet_ok p \<longleftrightarrow> length (kx_user_id p) = 16 \<and> length (kx_public_key p) = 32 \<and>
     length (kx_nickname p) = 64 \<and> length (kx_signature p) = 32"

definition enc_bytes :: "e2e_encrypted_packet \<Rightarrow> byte list" where
  "enc_bytes p = sender_id p @ recipient_id p @ encrypted_data p @
     le_bytes 8 (encrypted_length p) @ enc_signature p"

definition bytes_enc :: "byte list \<Rightarrow> e2e_encrypted_packet" where
  "bytes_enc bs = \<lparr>sender_id = take 16 bs, recipient_id = take 16 (drop 16 bs),
     encrypted_data = take 1024 (drop 32 bs), encrypted_length = le_val (take 8 (drop 1056 bs)),
     enc_signature = take 32 (drop 1064 bs)\<rparr>"

definition enc_packet_ok :: "e2e_encrypted_packet \<Rightarrow> bool" where
  "enc_packet_ok p \<longleftrightarrow> length (sender_id p) = 16 \<and> length (recipient_id p) = 16 \<and>
     length (encrypted_data p) = 1024 \<and> encrypted_length p < 2 ^ 64 \<and> length (enc_signature p) = 32"

lemma kx_bytes_roundtrip: "kx_packet_ok p \<Longrightarrow> bytes_kx (kx_bytes p) = p"
  by (simp add: kx_packet_ok_def kx_bytes_def bytes_kx_def)

lemma kx_bytes_length: "kx_packet_ok p \<Longrightarrow> length (kx_bytes p) = kx_packet_size"
  by (simp add: kx_packet_ok_def kx_bytes_def kx_packet_size_def)

lemma enc_bytes_roundtrip: "enc_packet_ok p \<Longrightarrow> bytes_enc (enc_bytes p) = p"
  by (simp add: enc_packet_ok_def enc_bytes_def bytes_enc_def le_val_le_bytes)

lemma enc_bytes_length: "enc_packet_ok p \<Longrightarrow> length (enc_bytes p) = enc_packet_size"
  by (simp add: enc_packet_ok_def enc_bytes_def enc_packet_size_def)

section \<open>The client\<close>

record chat_client =
  client_fd :: int
  client_server_ip :: "char list"
  client_server_port :: int
  client_nickname :: "char list"
  connected :: bool
  security_ctx :: "security_context ptr"
  e2e_ctx :: "e2e_context ptr"

text \<open>A message on its way: the result, the world, and the client.\<close>

definition set_client_enc :: "chat_client \<Rightarrow> encryption_context ptr \<Rightarrow> chat_client" where
  "set_client_enc c ec =
     c\<lparr>security_ctx := map_option (\<lambda>s. s\<lparr>enc_ctx := ec\<rparr>) (security_ctx c)\<rparr>"

definition client_enc_ctx :: "chat_client \<Rightarrow> encryption_context ptr" where
  "client_enc_ctx c = (case security_ctx c of None \<Rightarrow> None | Some s \<Rightarrow> enc_ctx s)"

definition client_send_message ::
  "global_security \<Rightarrow> world \<Rightarrow> chat_client \<Rightarrow> string ptr \<Rightarrow> int \<times> world \<times> chat_client" where
  "client_send_message gs w c msgp =
     (case msgp of
        None \<Rightarrow> (-1, w, c)
      | Some msg \<Rightarrow>
          if \<not> connected c then (-1, w, c)
          else if security_context_validate gs False (security_ctx c) < 0 then (-1, w, c)
          else (case client_encrypt_data (client_enc_ctx c) (Some (bytes_of (cstr msg)))
                       (BUFFER_SIZE * 2) of
                  (None, ec) \<Rightarrow> (-1, w, set_client_enc c ec)
                | (Some data, ec) \<Rightarrow>
                    (let c' = set_client_enc c ec;
                         (bytes_sent, w') = sys_send w (client_fd c) data
                     in if bytes_sent < 0 then (-1, w', c')
                        else if bytes_sent < int (length data) then (-1, w', c')
                        else (0, w', c'))))"

text \<open>The value is \<open>None\<close> for -1, otherwise the text written to the buffer; a receive that times out
  gives the empty text, and a closed connection clears \<^verbatim>\<open>connected\<close>.\<close>

definition client_receive_message ::
  "global_security \<Rightarrow> bool \<Rightarrow> chat_client \<Rightarrow> nat \<Rightarrow> recv_result \<Rightarrow> string option \<times> chat_client" where
  "client_receive_message gs timed_out c buffer_size r =
     (if buffer_size = 0 \<or> \<not> connected c then (None, c)
      else if security_context_validate gs False (security_ctx c) < 0 then (None, c)
      else (case r of
              RecvClosed \<Rightarrow> (None, c\<lparr>connected := False\<rparr>)
            | RecvError \<Rightarrow> (if timed_out then Some [] else None, c)
            | RecvData bs \<Rightarrow>
                if bs = [] then (None, c\<lparr>connected := False\<rparr>)
                else (let (d, ec) = client_decrypt_data (client_enc_ctx c) (Some bs) (buffer_size - 1)
                      in (map_option chars_of d, set_client_enc c ec))))"

definition kx_message :: "e2e_key_exchange_packet \<Rightarrow> string" where
  "kx_message p = ''/keyexchange:'' @ hex_bytes (kx_bytes p)"

text \<open>\<open>p0\<close> is the indeterminate packet on the stack.\<close>

definition client_broadcast_public_key ::
  "global_security \<Rightarrow> e2e_key_exchange_packet \<Rightarrow> world \<Rightarrow> chat_client \<Rightarrow> int \<times> world \<times> chat_client" where
  "client_broadcast_public_key gs p0 w c =
     (if \<not> connected c \<or> e2e_ctx c = None then (-1, w, c)
      else (case e2e_create_key_exchange_packet (e2e_ctx c) (Some p0) of
              (_, None) \<Rightarrow> (-1, w, c)
            | (r, Some p) \<Rightarrow>
                if r < 0 then (-1, w, c)
                else (let (r', w', c') = client_send_message gs w c (Some (kx_message p))
                      in (if r' < 0 then -1 else 0, w', c'))))"

definition client_handle_key_exchange ::
  "chat_client \<Rightarrow> e2e_key_exchange_packet ptr \<Rightarrow> int \<times> chat_client" where
  "client_handle_key_exchange c pp =
     (case (e2e_ctx c, pp) of
        (Some x, Some p) \<Rightarrow>
          if kx_user_id p = user_id (my_keys x) then (0, c)
          else (let (r, x') = e2e_add_peer_key (Some x) pp
                in (if r < 0 then -1 else 0, c\<lparr>e2e_ctx := x'\<rparr>))
      | _ \<Rightarrow> (-1, c))"

definition enc_message :: "e2e_encrypted_packet \<Rightarrow> string" where
  "enc_message p = ''/e2emsg:'' @ hex_bytes (enc_bytes p)"

definition client_send_e2e_message ::
  "libc \<Rightarrow> rng \<Rightarrow> global_security \<Rightarrow> e2e_encrypted_packet \<Rightarrow> world \<Rightarrow> chat_client \<Rightarrow> string ptr \<Rightarrow>
     string ptr \<Rightarrow> int \<times> rng \<times> world \<times> chat_client" where
  "client_send_e2e_message e g gs p0 w c msgp nickp =
     (case (msgp, nickp, e2e_ctx c) of
        (Some msg, Some nick, Some x) \<Rightarrow>
          if \<not> connected c then (-1, g, w, c)
          else (case find_index (\<lambda>q. peer_active q \<and> cstr (peer_nickname q) = cstr nick)
                       (take (num_peers x) (peer_keys x)) of
                  None \<Rightarrow> (-1, g, w, c)
                | Some i \<Rightarrow>
                    (case e2e_encrypt_message e g (Some x) (Some msg)
                            (Some (peer_user_id (peer_keys x ! i))) (Some p0) of
                       (_, g', None) \<Rightarrow> (-1, g', w, c)
                     | (r, g', Some p) \<Rightarrow>
                         if r < 0 then (-1, g', w, c)
                         else (let (r', w', c') = client_send_message gs w c (Some (enc_message p))
                               in (if r' < 0 then -1 else 0, g', w', c'))))
      | _ \<Rightarrow> (-1, g, w, c))"

text \<open>What the client shows of an end-to-end message: the sender's name and the text. The outer
  \<open>None\<close> is undefined behaviour, \<open>Some None\<close> the return value -1.\<close>

definition client_handle_e2e_message ::
  "chat_client \<Rightarrow> string ptr \<Rightarrow> (string \<times> string) option option" where
  "client_handle_e2e_message c hexp =
     (case (hexp, e2e_ctx c) of
        (Some hex, Some x) \<Rightarrow>
          if strlen hex \<noteq> enc_packet_size * 2 then Some None
          else (case parse_hex enc_packet_size (cstr hex) of
                  None \<Rightarrow> Some None
                | Some bs \<Rightarrow>
                    (let p = bytes_enc bs
                     in case e2e_decrypt_message (Some x) (Some p) (Some 1024) of
                          None \<Rightarrow> None
                        | Some None \<Rightarrow> Some None
                        | Some (Some d) \<Rightarrow>
                            Some (Some (case e2e_find_peer_key (Some x) (Some (sender_id p)) of
                                          None \<Rightarrow> ''Unknown''
                                        | Some q \<Rightarrow> cstr (peer_nickname q), cstr (chars_of d)))))
      | _ \<Rightarrow> Some None)"

definition client_parse_key_exchange :: "string ptr \<Rightarrow> e2e_key_exchange_packet option" where
  "client_parse_key_exchange hexp =
     (case hexp of
        None \<Rightarrow> None
      | Some hex \<Rightarrow>
          if strlen hex \<noteq> kx_packet_size * 2 then None
          else map_option bytes_kx (parse_hex kx_packet_size (cstr hex)))"

section \<open>Connecting and disconnecting\<close>

definition client_session_key :: "byte list" where
  "client_session_key = map (\<lambda>i. (0x42 + word_of_nat i) XOR 0xAB) [0 ..< 32]"

text \<open>\<open>sock\<close> is the result of \<^verbatim>\<open>socket()\<close>, \<open>conn\<close> whether \<^verbatim>\<open>connect()\<close> succeeds; the checks before only
  log. \<open>mutex_ok\<close> and \<open>timeout_set\<close> are the answers of \<^verbatim>\<open>pthread_mutex_init\<close> and \<^verbatim>\<open>setsockopt\<close>.\<close>

definition client_connect_to_server ::
  "libc \<Rightarrow> global_security \<Rightarrow> e2e_key_exchange_packet \<Rightarrow> int \<Rightarrow> bool \<Rightarrow> bool \<Rightarrow> bool \<Rightarrow> world \<Rightarrow>
     chat_client \<Rightarrow> recv_result list \<Rightarrow> int \<times> world \<times> chat_client" where
  "client_connect_to_server e gs p0 sock conn timeout_set mutex_ok w c ins =
     (if connected c then (0, w, c)
      else (let c1 = c\<lparr>client_fd := sock\<rparr>;
                closed = (\<lambda>w c. (-1, sys_close w sock, c\<lparr>client_fd := -1\<rparr>))
            in if sock < 0 then (-1, w, c1)
               else if \<not> conn then closed w c1
               else (let (h, w1, _) = handshake_perform_client_side e timeout_set w sock
                                        (Some (client_nickname c)) ins
                     in if h < 0 then closed w1 c1
                        else (let (r, ec) = client_init_encryption_context mutex_ok (client_enc_ctx c1)
                                              (Some client_session_key);
                                  c2 = set_client_enc c1 ec
                              in if r < 0 then closed w1 c2
                                 else (let (_, w2, c3) = client_broadcast_public_key gs p0 w1 c2
                                       in (0, w2, c3\<lparr>connected := True\<rparr>))))))"

definition client_disconnect :: "world \<Rightarrow> chat_client \<Rightarrow> world \<times> chat_client" where
  "client_disconnect w c =
     (if 0 \<le> client_fd c \<and> connected c
      then (sys_close (snd (sys_send w (client_fd c) (bytes_of ''/quit''))) (client_fd c),
            c\<lparr>client_fd := -1, connected := False\<rparr>)
      else (w, c\<lparr>connected := False\<rparr>))"

end
