(* ===== verification/ClientMain.thy ===== *)
theory ClientMain
  imports Client
begin

text \<open>
  The client program around the client object: creation and destruction (\<^verbatim>\<open>client/src/client.c\<close>), the
  receiver thread, the room selection and the input loop (\<^verbatim>\<open>client/src/main.c\<close>). Input lines and
  received data are lists; the program's output is modelled where it carries a message of the chat.
\<close>

section \<open>Creating and destroying a client\<close>

text \<open>\<^verbatim>\<open>security_foundation_init\<close> seeds the generator once; the flag is \<^verbatim>\<open>foundation_initialized\<close>.\<close>

definition security_foundation_init :: "libc \<Rightarrow> bool \<Rightarrow> rng \<Rightarrow> int \<times> bool \<times> rng" where
  "security_foundation_init e initialized g =
     (if initialized then (0, True, g)
      else (0, True, g\<lparr>rng_seed := word_of_int (libc_time e), rng_pos := 0\<rparr>))"

definition security_foundation_cleanup :: "bool \<Rightarrow> bool" where
  "security_foundation_cleanup initialized = False"

record client_setup =
  cs_malloc_client :: bool
  cs_malloc_e2e :: bool
  cs_inet :: bool

definition CLIENT_ADDRSTRLEN :: nat where "CLIENT_ADDRSTRLEN = 16"

text \<open>\<open>c0\<close>, \<open>raw\<close> and \<open>raw_enc\<close> are the contents of the allocated memory.\<close>

definition client_create ::
  "libc \<Rightarrow> u64 \<Rightarrow> u64 \<Rightarrow> global_security \<Rightarrow> client_setup \<Rightarrow> chat_client \<Rightarrow> security_context \<Rightarrow>
     encryption_context \<Rightarrow> bool \<Rightarrow> rng \<Rightarrow> string ptr \<Rightarrow> int \<Rightarrow> string ptr \<Rightarrow> chat_client ptr \<times> rng" where
  "client_create e la fa gs u c0 raw raw_enc initialized g ipp port nickp =
     (case (ipp, nickp) of
        (Some ip, Some nick) \<Rightarrow>
          (let (r, _, g1) = security_foundation_init e initialized g
           in if r < 0 then (None, g1)
              else if \<not> cs_malloc_client u then (None, g1)
              else
                (let c1 = c0\<lparr>client_fd := -1,
                       client_server_ip := (strncpy (client_server_ip c0) ip (CLIENT_ADDRSTRLEN - 1))
                                             [CLIENT_ADDRSTRLEN - 1 := NUL],
                       client_server_port := port,
                       client_nickname := (strncpy (client_nickname c0) nick (MAX_NICKNAME_LEN - 1))
                                            [MAX_NICKNAME_LEN - 1 := NUL],
                       connected := False,
                       security_ctx := security_context_create_compat e la fa gs raw raw_enc
                                         SECURITY_LEVEL_HIGH_INT\<rparr>
                 in if security_ctx c1 = None then (None, g1)
                    else if \<not> cs_malloc_e2e u then (None, g1)
                    else (let (r2, g2, x) = e2e_context_init e g1 (Some zero_e2e_context) (Some nick)
                          in if r2 < 0 then (None, g2)
                             else if \<not> cs_inet u then (None, g2)
                             else (Some (c1\<lparr>e2e_ctx := x\<rparr>), g2))))
      | _ \<Rightarrow> (None, g))"

text \<open>The client as it is when its memory is freed.\<close>

definition client_destroy :: "world \<Rightarrow> chat_client \<Rightarrow> world \<times> chat_client" where
  "client_destroy w c =
     (let (w', c') = client_disconnect w c
      in (w', c'\<lparr>security_ctx := None, e2e_ctx := None\<rparr>))"

section \<open>The receiver thread\<close>

datatype shown = ShownText string | ShownE2E string string

definition text_shown :: "string \<Rightarrow> string" where
  "text_shown t = (if t \<noteq> [] \<and> last t \<noteq> LF then t @ [LF] else t)"

text \<open>One turn of the loop: whether it goes on, the client and what is shown. \<open>None\<close> is undefined
  behaviour. \<^verbatim>\<open>recv()\<close> is asked for \<open>BUFFER_SIZE - 1\<close> bytes; more would not fit the array with its
  terminator.\<close>

definition receiver_iteration ::
  "bool \<Rightarrow> chat_client \<Rightarrow> recv_result \<Rightarrow> (bool \<times> chat_client \<times> shown list) option" where
  "receiver_iteration timed_out c r =
     (case r of
        RecvClosed \<Rightarrow> Some (False, c\<lparr>connected := False\<rparr>, [])
      | RecvError \<Rightarrow> if timed_out then Some (True, c, [])
                     else Some (False, c\<lparr>connected := False\<rparr>, [])
      | RecvData bs \<Rightarrow>
          if bs = [] then Some (False, c\<lparr>connected := False\<rparr>, [])
          else if BUFFER_SIZE - 1 < length bs then None
          else (let buffer = cstr (chars_of bs)
                in if strncmp_eq buffer ''/keyexchange:'' 13
                   then (case client_parse_key_exchange (Some (drop 13 buffer)) of
                           None \<Rightarrow> Some (True, c, [])
                         | Some p \<Rightarrow> Some (True, snd (client_handle_key_exchange c (Some p)), []))
                   else if strncmp_eq buffer ''/e2emsg:'' 8
                   then (case client_handle_e2e_message c (Some (drop 8 buffer)) of
                           None \<Rightarrow> None
                         | Some None \<Rightarrow> Some (True, c, [])
                         | Some (Some (name, t)) \<Rightarrow> Some (True, c, [ShownE2E name t]))
                   else Some (True, c, [ShownText (text_shown buffer)])))"

fun message_receiver_thread ::
  "chat_client \<Rightarrow> (bool \<times> recv_result) list \<Rightarrow> (chat_client \<times> shown list) option" where
  "message_receiver_thread c [] = Some (c, [])"
| "message_receiver_thread c ((timed_out, r) # ins) =
     (if \<not> connected c then Some (c, [])
      else (case receiver_iteration timed_out c r of
              None \<Rightarrow> None
            | Some (go_on, c', out) \<Rightarrow>
                if go_on
                then map_option (\<lambda>(c'', out'). (c'', out @ out')) (message_receiver_thread c' ins)
                else Some (c', out)))"

section \<open>The input loops\<close>

definition strip_newline :: "string \<Rightarrow> string" where
  "strip_newline s = (if s \<noteq> [] \<and> last s = LF then butlast s else s)"

text \<open>\<^verbatim>\<open>main_handle_room_selection\<close> on the lines that \<^verbatim>\<open>fgets\<close> returns.\<close>

fun main_handle_room_selection ::
  "global_security \<Rightarrow> world \<Rightarrow> chat_client \<Rightarrow> string list \<Rightarrow> int \<times> world \<times> chat_client \<times> string list" where
  "main_handle_room_selection gs w c [] = (-1, w, c, [])"
| "main_handle_room_selection gs w c (line # rest) =
     (if \<not> connected c then (-1, w, c, line # rest)
      else (let input = strip_newline (cstr line)
            in if input = [] then main_handle_room_selection gs w c rest
               else if input = ''/quit'' then (-1, w, c, rest)
               else (let (r, w', c') = client_send_message gs w c (Some input)
                     in if r < 0 then (-1, w', c', rest)
                        else if strncmp_eq input ''/create '' 8 \<or> strncmp_eq input ''/join '' 6
                        then (0, w', c', rest)
                        else main_handle_room_selection gs w' c' rest)))"

text \<open>What one input line makes the client do in the chat loop.\<close>

datatype line_action =
  LineQuit
| LineE2E string string \<comment> \<open>recipient, message\<close>
| LineLocal \<comment> \<open>help, peers and usage texts, empty lines\<close>
| LineKeyRefresh
| LineSend string

definition main_parse_line :: "string \<Rightarrow> line_action" where
  "main_parse_line line =
     (let input = strip_newline (cstr line)
      in if input = ''/quit'' then LineQuit
         else if strncmp_eq input ''/e2e '' 5
         then (let rest = drop 5 input;
                   k = strcspn rest '' ''
               in if k < length rest
                  then (if length (drop (k + 1) rest) > 0 then LineE2E (take k rest) (drop (k + 1) rest)
                        else LineLocal)
                  else LineLocal)
         else if input = ''/help'' \<or> input = ''/e2ehelp'' then LineLocal
         else if input = ''/peers'' then LineLocal
         else if input = ''/keyrefresh'' then LineKeyRefresh
         else if input = [] then LineLocal
         else LineSend input)"

fun main_chat_loop ::
  "libc \<Rightarrow> global_security \<Rightarrow> e2e_key_exchange_packet \<Rightarrow> e2e_encrypted_packet \<Rightarrow> rng \<Rightarrow> world \<Rightarrow>
     chat_client \<Rightarrow> string list \<Rightarrow> world \<times> chat_client" where
  "main_chat_loop e gs kx0 enc0 g w c [] = (w, c)"
| "main_chat_loop e gs kx0 enc0 g w c (line # rest) =
     (case main_parse_line line of
        LineQuit \<Rightarrow> (w, c)
      | LineE2E recipient message \<Rightarrow>
          (let (_, g', w', c') = client_send_e2e_message e g gs enc0 w c (Some message) (Some recipient)
           in main_chat_loop e gs kx0 enc0 g' w' c' rest)
      | LineLocal \<Rightarrow> main_chat_loop e gs kx0 enc0 g w c rest
      | LineKeyRefresh \<Rightarrow>
          (let (_, w', c') = client_broadcast_public_key gs kx0 w c
           in main_chat_loop e gs kx0 enc0 g w' c' rest)
      | LineSend input \<Rightarrow>
          if \<not> connected c then (w, c)
          else (let (r, w', c') = client_send_message gs w c (Some input)
                in if r < 0 then (w', c') else main_chat_loop e gs kx0 enc0 g w' c' rest))"

text \<open>After the loop: \<^verbatim>\<open>connected\<close> is cleared before \<^verbatim>\<open>client_destroy\<close> runs.\<close>

definition main_exit :: "world \<Rightarrow> chat_client \<Rightarrow> world \<times> chat_client" where
  "main_exit w c = client_destroy w (c\<lparr>connected := False\<rparr>)"

end
