(* ===== verification/EndToEnd.thy ===== *)
theory EndToEnd
  imports ClientMain ChatBehaviour
begin

text \<open>
  Client and server put together: what one message of a client becomes on the network, what the
  thread of the server that receives it does with it, and what the client at the other end makes of
  the bytes it gets.
\<close>

section \<open>The sending client\<close>

text \<open>Client \<open>c\<close> and the server's context for slot \<open>i\<close> use the same key.\<close>

definition keys_match :: "server_state \<Rightarrow> nat \<Rightarrow> chat_client \<Rightarrow> bool" where
  "keys_match st i c \<longleftrightarrow>
     (\<exists>sm sc eb ec. g_security_manager st = Some sm \<and> contexts sm ! i = Some sc \<and>
        enc_ctx sc = Some eb \<and> client_enc_ctx c = Some ec \<and> session_key ec = session_key eb)"

lemma client_sends:
  assumes "connected c" and "client_enc_ctx c = Some ec" and "g_global_context gs = None"
    and "send_all_ok w" and "strlen msg + 16 \<le> BUFFER_SIZE * 2"
  defines "d \<equiv> perform_xor (session_key ec) (bytes_of (cstr msg)) @ tag_loop (bytes_of (cstr msg))"
  shows "\<exists>c'. client_send_message gs w c (Some msg) =
    (0, w\<lparr>trace := trace w @ [Sent (client_fd c) d (int (length d))]\<rparr>, c')"
proof -
  obtain s where s: "security_ctx c = Some s"
    using assms(2) by (auto simp: client_enc_ctx_def split: option.splits)
  have "security_context_validate gs False (security_ctx c) = 0"
    unfolding s by (rule validate_without_global [OF assms(3)])
  moreover obtain ec' where "client_encrypt_data (Some ec) (Some (bytes_of (cstr msg))) (BUFFER_SIZE * 2) = (Some d, Some ec')"
    using assms(5) by (simp add: client_encrypt_Some d_def strlen_def)
  ultimately show ?thesis using assms(1,2,4)
    by (simp add: client_send_message_def sys_send_def send_all_ok_def Let_def)
qed

section \<open>The receiving thread of the server\<close>

lemma server_reads:
  assumes inv: "server_inv st" and i: "i < MAX_CLIENTS" and act: "active (session_at st i)"
    and sm: "g_security_manager st = Some sm" "contexts sm ! i = Some sc" "enc_ctx sc = Some eb"
    and p: "p \<noteq> []" "length p < BUFFER_SIZE"
  defines "st1 \<equiv> st\<lparr>g_security_manager :=
      Some (set_enc_ctx sm i (Some (eb\<lparr>sequence_number := sequence_number eb + 1\<rparr>)))\<rparr>"
  shows "session_iteration e st i (int i) (RecvData (perform_xor (session_key eb) p @ tag_loop p)) =
    (case chat_protocol_handle_message e st1 (Some i) (Some (chars_of p)) (int i) of
       None \<Rightarrow> None | Some (result, st2) \<Rightarrow> Some (\<not> result < 0, st2))"
    and "server_inv st1"
proof -
  let ?d = "perform_xor (session_key eb) p @ tag_loop p"
  from inv obtain cm where cm: "g_client_manager st = Some cm" "cm_inv cm" by (auto simp: server_inv_def)
  have cid: "session_client_id (session_at st i) = int i"
    using cm_invD(4) [OF cm(2) i] act cm(1) by (simp add: session_at_def)
  have dec: "server_decrypt_data (Some eb) (Some ?d) (BUFFER_SIZE - 1) =
      (Some p, Some (eb\<lparr>sequence_number := sequence_number eb + 1\<rparr>))"
    using p(2) by (simp add: server_decrypt_data_def Let_def)
  have ne: "?d \<noteq> []" using p(1) length_perform_xor [of "session_key eb" p] by (metis append_is_Nil_conv length_0_conv)
  have "valid_client_id (int i)" using i by (rule valid_of_nat)
  then have rcv: "client_session_receive_message st i (RecvData ?d) = (Some (chars_of p), st1)"
    using ne dec unfolding client_session_receive_message_def recv_result.case if_not_P [OF ne]
    by (simp add: server_decrypt_message_def sm cid st1_def)
  then show "session_iteration e st i (int i) (RecvData ?d) =
    (case chat_protocol_handle_message e st1 (Some i) (Some (chars_of p)) (int i) of
       None \<Rightarrow> None | Some (result, st2) \<Rightarrow> Some (\<not> result < 0, st2))"
    using act p(1) session_okD(3) [OF session_at_ok [OF inv i]]
    by (simp add: session_iteration_def client_session_is_active_def chars_of_def)
  from receive_message_inv(1) [OF inv rcv] show "server_inv st1" .
qed

section \<open>The receiving client\<close>

lemma strncmp_eq_append: "strncmp_eq (s @ t) s (length s)"
  by (simp add: strncmp_eq_def)

lemma strncmp_eq_hd: "s = [] \<or> hd s \<noteq> c \<Longrightarrow> c \<noteq> NUL \<Longrightarrow> 0 < n \<Longrightarrow> \<not> strncmp_eq s (c # t) n"
  by (cases s; cases n) (auto simp: strncmp_eq_def)

lemma receiver_shows_text:
  assumes "NUL \<notin> set t" and "t \<noteq> []" and "hd t \<noteq> CHR ''/''" and "length t < BUFFER_SIZE"
  shows "receiver_iteration to c (RecvData (bytes_of t)) = Some (True, c, [ShownText (text_shown t)])"
proof -
  have "cstr (chars_of (bytes_of t)) = t" using assms(1) by (simp add: cstr_id)
  moreover have "bytes_of t \<noteq> []" using assms(2) by (simp add: bytes_of_def)
  ultimately show ?thesis
    using assms strncmp_eq_hd [of t "CHR ''/''"] by (simp add: receiver_iteration_def bytes_of_def)
qed

text \<open>A text of up to twice the receive buffer, as the receiver thread shows it: in one piece, or in two
  when it is longer than the buffer, the first then with a line break of its own.\<close>

definition shown_as :: "string \<Rightarrow> shown list" where
  "shown_as t = (if length t < BUFFER_SIZE then [ShownText (text_shown t)]
     else [ShownText (text_shown (take (BUFFER_SIZE - 1) t)), ShownText (text_shown (drop (BUFFER_SIZE - 1) t))])"

abbreviation arrives :: "byte list \<Rightarrow> (bool \<times> recv_result) list" where
  "arrives bs \<equiv> map (Pair False) (recv_chunks (BUFFER_SIZE - 1) bs)"

lemma receiver_thread_shows:
  assumes "NUL \<notin> set t" and "t \<noteq> []" and "hd t \<noteq> CHR ''/''" and "length t \<le> 2 * (BUFFER_SIZE - 1)"
    and "BUFFER_SIZE \<le> length t \<longrightarrow> t ! (BUFFER_SIZE - 1) \<noteq> CHR ''/''" and "connected c"
  shows "message_receiver_thread c (arrives (bytes_of t)) = Some (c, shown_as t)"
proof (cases "length t < BUFFER_SIZE")
  case True
  then have "recv_chunks (BUFFER_SIZE - 1) (bytes_of t) = [RecvData (bytes_of t)]"
    using assms(2) by (intro recv_chunks_one) (auto simp: bytes_of_def)
  with True assms receiver_shows_text [of t False c] show ?thesis by (simp add: shown_as_def)
next
  case False
  let ?n = "BUFFER_SIZE - 1"
  have n: "0 < ?n" "?n < length t" using False by (auto simp: limits)
  have "bytes_of (drop ?n t) \<noteq> []" "length (bytes_of (drop ?n t)) \<le> ?n"
    using n assms(4) by (auto simp: bytes_of_def)
  from recv_chunks_one [OF this] recv_chunks_more [of ?n "bytes_of t"] n
  have "recv_chunks ?n (bytes_of t) = [RecvData (bytes_of (take ?n t)), RecvData (bytes_of (drop ?n t))]"
    by (simp add: bytes_of_def take_map drop_map)
  moreover have "receiver_iteration False c (RecvData (bytes_of (take ?n t))) =
      Some (True, c, [ShownText (text_shown (take ?n t))])"
    using assms(1-3) n by (intro receiver_shows_text) (auto dest: in_set_takeD simp: limits)
  moreover have "hd (drop ?n t) \<noteq> CHR ''/''" using assms(5) n False by (simp add: hd_drop_conv_nth)
  then have "receiver_iteration False c (RecvData (bytes_of (drop ?n t))) =
      Some (True, c, [ShownText (text_shown (drop ?n t))])"
    using assms(1,4) n by (intro receiver_shows_text) (auto dest: in_set_dropD simp: limits)
  ultimately show ?thesis using False assms(6) by (simp add: shown_as_def)
qed

text \<open>A chat text is at most 1057 characters long, ends with the line break, and has the line itself
  around the place where a receive buffer is full.\<close>

lemma chat_line_shape:
  assumes ok: "session_ok s" and m: "clean_line BUFFER_SIZE [LF, CR] line = m"
  defines "t \<equiv> cstr (nickname s) @ '': '' @ m @ [LF]"
  shows "length t \<le> 1057" and "text_shown t = t"
    and "1023 < length t \<Longrightarrow> text_shown (take 1023 t) = take 1023 t @ [LF]"
    and "1023 < length t \<Longrightarrow> text_shown (drop 1023 t) = drop 1023 t"
proof -
  have nick: "length (cstr (nickname s)) \<le> 31"
    using strlen_less [OF session_okD(1) [OF ok]] by (simp add: strlen_def limits)
  have m': "length m \<le> 1023" "LF \<notin> set m"
    using m by (auto simp: clean_line_eq limits dest: set_takeWhileD intro: order_trans [OF length_takeWhile_le])
  show "length t \<le> 1057" using nick m'(1) by (simp add: t_def)
  show "text_shown t = t" by (simp add: t_def text_shown_def)
  assume long: "1023 < length t"
  define k where "k = 1020 - length (cstr (nickname s))"
  have k: "k < length m" "1022 = length (cstr (nickname s)) + 2 + k"
    using nick long by (auto simp: t_def k_def)
  have "1022 = length (cstr (nickname s) @ '': '') + k" using k(2) by simp
  moreover have "t = (cstr (nickname s) @ '': '') @ m @ [LF]" by (simp add: t_def)
  ultimately have "t ! 1022 = (m @ [LF]) ! k" by (simp only: nth_append_length_plus)
  with k(1) have "t ! 1022 = m ! k" by (simp add: nth_append)
  then have "t ! 1022 \<noteq> LF" using m'(2) k(1) by (metis nth_mem)
  moreover have "last (take 1023 t) = t ! 1022"
    using take_Suc_conv_app_nth [of 1022 t] long by simp
  moreover have "take 1023 t \<noteq> []" using long by auto
  ultimately show "text_shown (take 1023 t) = take 1023 t @ [LF]" by (simp add: text_shown_def)
  have "last (drop 1023 t) = LF" using long by (simp add: last_drop t_def)
  then show "text_shown (drop 1023 t) = drop 1023 t" by (simp add: text_shown_def)
qed

section \<open>Key exchange messages\<close>

lemma hex_bytes_plain: "set (hex_bytes bs) \<inter> {LF, CR, NUL} = {}"
proof -
  have d: "hex_digit d \<noteq> LF" "hex_digit d \<noteq> CR" "hex_digit d \<noteq> NUL" if "d < 16" for d
    using less_16_cases [OF that] by (elim disjE; simp add: hex_digit_def)+
  have "unat b div 16 < 16" "unat b mod 16 < 16" for b :: byte
    using unat_byte_less_256 [of b] by auto
  then have "set (hex_byte b) \<inter> {LF, CR, NUL} = {}" for b
    using d [of "unat b div 16"] d [of "unat b mod 16"] by (auto simp: hex_byte_def)
  then show ?thesis by (induction bs) (auto simp: hex_bytes_def)
qed

lemma kx_message_props:
  assumes "kx_packet_ok p"
  shows "length (kx_message p) = 301" and "cstr (kx_message p) = kx_message p"
    and "clean_line BUFFER_SIZE [LF, CR] (kx_message p) = kx_message p"
    and "snprintf_str BUFFER_SIZE (kx_message p) = kx_message p"
proof -
  show len: "length (kx_message p) = 301"
    using kx_bytes_length [OF assms] by (simp add: kx_message_def kx_packet_size_def)
  have plain: "LF \<notin> set (kx_message p)" "CR \<notin> set (kx_message p)" "NUL \<notin> set (kx_message p)"
    using hex_bytes_plain [of "kx_bytes p"] by (auto simp: kx_message_def)
  show c: "cstr (kx_message p) = kx_message p" by (rule cstr_id [OF plain(3)])
  have "takeWhile (\<lambda>c. c \<notin> set [LF, CR]) (kx_message p) = kx_message p"
    using plain by (subst takeWhile_eq_all_conv) auto
  then show "clean_line BUFFER_SIZE [LF, CR] (kx_message p) = kx_message p"
    using len c by (simp add: clean_line_eq limits)
  show "snprintf_str BUFFER_SIZE (kx_message p) = kx_message p"
    using len c by (simp add: snprintf_str_def limits)
qed

lemma kx_message_prefix:
  "kx_message p ! 0 = CHR ''/''" "strncmp_eq (kx_message p) ''/keyexchange:'' 13"
  "\<not> strncmp_eq (kx_message p) ''/create '' 8" "\<not> strncmp_eq (kx_message p) ''/join '' 6"
  "\<not> strncmp_eq (kx_message p) ''/leave'' 6" "\<not> strncmp_eq (kx_message p) ''/rooms'' 6"
  "\<not> strncmp_eq (kx_message p) ''/nick '' 6" "\<not> strncmp_eq (kx_message p) ''/users'' 6"
  "\<not> strncmp_eq (kx_message p) ''/list'' 5" "\<not> strncmp_eq (kx_message p) ''/help'' 5"
  "\<not> strncmp_eq (kx_message p) ''/quit'' 5"
  by (simp_all add: kx_message_def strncmp_eq_def)

lemma server_relays_kx:
  assumes "kx_packet_ok p" and "g_client_manager st = Some cm" and "in_room (session_at st i)"
  shows "chat_protocol_handle_message e st (Some i) (Some (kx_message p)) c =
    Some (0, to_room st (current_room_id (session_at st i)) (kx_message p) c)"
proof -
  note K = kx_message_props [OF assms(1)]
  have "chat_protocol_handle_message e st (Some i) (Some (kx_message p)) c =
      chat_protocol_handle_command e st (Some i) (Some (kx_message p)) c"
    using assms(2) K(1,3) kx_message_prefix(1) [of p]
    by (simp add: chat_protocol_handle_message_def Let_def del: length_0_conv)
  also have "\<dots> = Some (0, to_room st (current_room_id (session_at st i)) (kx_message p) c)"
    using assms(2,3) K(4) kx_message_prefix [of p]
    by (simp add: chat_protocol_handle_command_def Let_def)
  finally show ?thesis .
qed

lemma parse_kx_message:
  assumes "kx_packet_ok p"
  shows "client_parse_key_exchange (Some (drop 13 (kx_message p))) = Some p"
proof -
  have hex: "drop 13 (kx_message p) = hex_bytes (kx_bytes p)" by (simp add: kx_message_def)
  have c: "cstr (hex_bytes (kx_bytes p)) = hex_bytes (kx_bytes p)" by (intro cstr_id) simp
  have "parse_hex kx_packet_size (hex_bytes (kx_bytes p)) = Some (kx_bytes p)"
    using parse_hex_roundtrip [of "kx_bytes p" "[]"] kx_bytes_length [OF assms] by simp
  then show ?thesis
    using kx_bytes_length [OF assms] kx_bytes_roundtrip [OF assms] c
    by (simp add: client_parse_key_exchange_def strlen_def hex)
qed

lemma receiver_takes_kx:
  assumes "kx_packet_ok p"
  shows "receiver_iteration to c (RecvData (bytes_of (kx_message p))) =
    Some (True, snd (client_handle_key_exchange c (Some p)), [])"
proof -
  have "bytes_of (kx_message p) \<noteq> []" by (simp add: bytes_of_def kx_message_def)
  moreover have "length (bytes_of (kx_message p)) \<le> BUFFER_SIZE - 1"
    using kx_message_props(1) [OF assms] by (simp add: bytes_of_def limits)
  ultimately show ?thesis using kx_message_prefix(2) [of p] parse_kx_message [OF assms]
    by (simp add: receiver_iteration_def kx_message_props(2) [OF assms])
qed

end
