(* ===== verification/FineSteps.thy ===== *)
theory FineSteps
  imports ServerLoop
begin

text \<open>
  The server at the grain of its locks. In \<open>srv_step\<close> a whole handler is one step; here a step is what
  the code does between two points where another thread can come in: one critical section of the
  room manager, the client manager or the security manager, from taking the outermost mutex to
  giving it back; one \<^verbatim>\<open>send()\<close>; one update of a session's own fields by the thread of that session. The
  broadcast to a room reads the client table without its mutex; as a step it reads it at one moment. The
  theory shows that the invariant of the server holds under any interleaving of these steps and that
  every handler and every thread is a sequence of them.
\<close>

section \<open>Steps\<close>

text \<open>What the thread of a session writes into it.\<close>

inductive session_write :: "client_session \<Rightarrow> client_session \<Rightarrow> bool" where
  write_enter: "strlen rid = ROOM_ID_LENGTH \<Longrightarrow> session_write s (enter_room s rid)"
| write_leave: "session_write s (s\<lparr>current_room_id := replicate (ROOM_ID_LENGTH + 1) NUL,
    session_state := CLIENT_STATE_IN_LOBBY\<rparr>)"
| write_lobby: "session_write s (s\<lparr>session_state := CLIENT_STATE_IN_LOBBY\<rparr>)"
| write_nick: "session_write s (client_session_set_nickname s (Some nm))"
| write_handshake: "session_write s (s\<lparr>handshake_state := h\<rparr>)"
| write_seq: "session_write s (s\<lparr>session_seq := q\<rparr>)"
| write_thread: "session_write s (s\<lparr>thread := t\<rparr>)"

text \<open>The critical section of \<^const>\<open>client_manager_remove_client\<close>, without the broadcast after it.\<close>

definition remove_slot :: "server_state \<Rightarrow> client_manager \<Rightarrow> int \<Rightarrow> server_state" where
  "remove_slot st m cid =
     (let (w, s') = client_session_cleanup (net st) (clients m ! nat cid)
      in st\<lparr>net := w, g_security_manager := security_manager_remove_client (g_security_manager st) cid,
            g_client_manager := Some (m\<lparr>clients := (clients m)[nat cid := s'],
                                        cm_client_count := cm_client_count m - 1\<rparr>)\<rparr>)"

inductive fine_step :: "server_state \<Rightarrow> server_state \<Rightarrow> bool" where
  fine_create: "0 \<le> c \<Longrightarrow> fine_step st
    (st\<lparr>g_room_manager := snd (room_manager_create_room e (g_room_manager st) (Some nm) c)\<rparr>)"
| fine_join: "fine_step st
    (st\<lparr>g_room_manager := snd (room_manager_join_room (g_room_manager st) (Some rid) c)\<rparr>)"
| fine_leave: "fine_step st
    (st\<lparr>g_room_manager := snd (room_manager_leave_room (g_room_manager st) (Some rid) c)\<rparr>)"
| fine_send: "fine_step st (st\<lparr>net := snd (sys_send (net st) fd d)\<rparr>)"
| fine_to_room: "fine_step st (to_room st rid msg c)"
| fine_to_all: "fine_step st (to_all st msg c)"
| fine_session: "i < MAX_CLIENTS \<Longrightarrow> session_write (session_at st i) s \<Longrightarrow> fine_step st (set_session st i s)"
| fine_receive: "client_session_receive_message st i r = (x, st') \<Longrightarrow> fine_step st st'"
| fine_add: "0 \<le> fd \<Longrightarrow> client_manager_add_new_client e (net st) (g_security_manager st)
      (g_client_manager st) fd a = (cid, w, sm, cm) \<Longrightarrow>
    fine_step st (st\<lparr>net := w, g_security_manager := sm, g_client_manager := cm\<rparr>)"
| fine_remove: "g_client_manager st = Some m \<Longrightarrow> valid_client_id cid \<Longrightarrow> active (clients m ! nat cid) \<Longrightarrow>
    fine_step st (remove_slot st m cid)"
| fine_close: "fine_step st (st\<lparr>net := sys_close (net st) fd\<rparr>)"

inductive_cases fine_stepE: "fine_step st st'"

abbreviation fine_steps :: "server_state \<Rightarrow> server_state \<Rightarrow> bool" where
  "fine_steps \<equiv> rtranclp fine_step"

section \<open>Every step keeps the invariant\<close>

lemma session_write_ok:
  assumes "session_ok s" and "session_write s s'"
  shows "session_ok s'" and "active s' = active s" and "session_client_id s' = session_client_id s"
  using assms(2,1)
  by (cases; auto simp: enter_room_ok set_nickname_session_ok thread_session_ok; auto simp: session_ok_def)+

lemma fine_session_inv:
  assumes "server_inv st" and "i < MAX_CLIENTS" and "session_write (session_at st i) s"
  shows "server_inv (set_session st i s)"
  using session_write_ok [OF session_at_ok [OF assms(1,2)] assms(3)]
  by (intro set_session_inv [OF assms(1,2)]) simp_all

lemma remove_slot_inv:
  assumes inv: "server_inv st" and m: "g_client_manager st = Some m" and cid: "valid_client_id cid"
    and act: "active (clients m ! nat cid)"
  shows "server_inv (remove_slot st m cid)"
proof -
  from inv m obtain sm where sm: "g_security_manager st = Some sm" "sm_inv sm" and cm: "cm_inv m"
    by (auto simp: server_inv_def)
  have "\<exists>sm'. security_manager_remove_client (Some sm) cid = Some sm'"
    by (simp add: security_manager_remove_client_def)
  then obtain sm' where sm': "security_manager_remove_client (Some sm) cid = Some sm'" by blast
  have "cm_inv (m\<lparr>clients := (clients m)[nat cid := closed_session (clients m ! nat cid)],
      cm_client_count := cm_client_count m - 1\<rparr>)"
    using act by (intro cm_inv_update [OF cm conjunct1 [OF valid_client_id_nat [OF cid]]]) simp_all
  with inv sm sm' sm_remove_client_inv [OF sm(2) sm'] show ?thesis
    by (auto simp: remove_slot_def session_cleanup_pair server_inv_def)
qed

lemma fine_room_inv:
  assumes "server_inv st" and "\<And>rm. rm_inv rm \<Longrightarrow> \<exists>rm'. f (Some rm) = Some rm' \<and> rm_inv rm'"
  shows "server_inv (st\<lparr>g_room_manager := f (g_room_manager st)\<rparr>)"
  using assms(1) assms(2) by (fastforce simp: server_inv_def)

lemma leave_room_Some: "\<exists>rm'. snd (room_manager_leave_room (Some rm) idp c) = Some rm'"
  by (auto simp: room_manager_leave_room_def Let_def split: option.splits prod.splits if_splits)

lemma fine_add_inv:
  assumes inv: "server_inv st" and fd: "0 \<le> fd"
    and add: "client_manager_add_new_client e (net st) (g_security_manager st) (g_client_manager st) fd a =
      (cid, w, smp, cmp)"
  shows "server_inv (st\<lparr>net := w, g_security_manager := smp, g_client_manager := cmp\<rparr>)"
proof -
  from inv obtain cm sm where cm: "g_client_manager st = Some cm" "cm_inv cm"
    and sm: "g_security_manager st = Some sm" "sm_inv sm" by (auto simp: server_inv_def)
  note add' = add [unfolded cm(1) sm(1)]
  from sm(2) add' cm_invD(1) [OF cm(2)]
  obtain sm' cm' where some: "smp = Some sm'" "cmp = Some cm'"
    by (cases rule: add_new_client_cases) auto
  from add_new_client_inv [OF cm(2) sm(2) fd add' [unfolded some]] inv some show ?thesis
    by (auto simp: server_inv_def)
qed

lemma fine_step_inv:
  assumes inv: "server_inv st" and step: "fine_step st st'"
  shows "server_inv st'"
  using step
proof cases
  case (fine_create c e nm)
  show ?thesis unfolding fine_create(1)
    by (rule fine_room_inv [OF inv]) (metis create_room_Some create_room_inv fine_create(2) prod.collapse)
next
  case (fine_join rid c)
  show ?thesis unfolding fine_join
    by (rule fine_room_inv [OF inv]) (metis join_room_Some join_room_inv prod.collapse)
next
  case (fine_leave rid c)
  show ?thesis unfolding fine_leave
    by (rule fine_room_inv [OF inv]) (metis leave_room_Some leave_room_inv prod.collapse)
next
  case (fine_receive i r x)
  with receive_message_inv(1) [OF inv] show ?thesis by blast
qed (use inv in \<open>simp_all add: to_all_inv fine_session_inv remove_slot_inv fine_add_inv\<close>)

interpretation fine_system: invariant_system srv_start fine_step server_inv
  by unfold_locales (auto simp: srv_start_def intro: server_create_inv(1) fine_step_inv)

section \<open>The handlers are sequences of steps\<close>

lemma one_step: "fine_step a b \<Longrightarrow> fine_steps a b"
  by (rule r_into_rtranclp)

lemma then_step: "fine_steps a b \<Longrightarrow> fine_step b c \<Longrightarrow> fine_steps a c"
  by (rule rtranclp.rtrancl_into_rtrancl)

lemma reply_step: "fine_step st (reply st i msg)"
  unfolding reply_eq by (rule fine_send)

lemma reply_steps: "fine_steps st (reply st i msg)"
  by (rule one_step [OF reply_step])

lemma leave_current_steps: "fine_steps st (leave_current st i c)"
  by (simp add: leave_current_def one_step [OF fine_leave])

lemma write_steps:
  assumes inv: "server_inv st" and i: "i < MAX_CLIENTS" and w: "rtranclp session_write (session_at st i) s"
  shows "fine_steps st (set_session st i s)"
  using w
proof (induction rule: rtranclp_induct)
  case base
  obtain cm where "g_client_manager st = Some cm" using inv by (auto simp: server_inv_def)
  then have "set_session st i (session_at st i) = st" by (simp add: set_session_def session_at_def)
  then show ?case by simp
next
  case (step s t)
  let ?st = "set_session st i s"
  obtain cm where cm: "g_client_manager st = Some cm" "length (clients cm) = MAX_CLIENTS"
    using inv by (auto simp: server_inv_def dest: cm_invD(1))
  have "session_at ?st i = s" using session_at_set_session [OF inv i] by simp
  then have "fine_step ?st (set_session ?st i t)" using step.hyps(2) i by (intro fine_session) simp_all
  moreover have "set_session ?st i t = set_session st i t" using cm by (simp add: set_session_def)
  ultimately show ?case using step.IH by (metis then_step)
qed

lemma handle_create_steps:
  assumes inv: "server_inv st" and i: "i < MAX_CLIENTS" and c: "0 \<le> c"
    and h: "chat_protocol_handle_create_room e st (Some i) (Some name) c = (r, st')"
  shows "fine_steps st st'"
proof -
  let ?st1 = "leave_current st i c"
  obtain ridp rm where cr: "room_manager_create_room e (g_room_manager ?st1) (Some name) c = (ridp, rm)" by fastforce
  let ?st2 = "?st1\<lparr>g_room_manager := rm\<rparr>"
  have "fine_step ?st1 ?st2" using fine_create [OF c, of ?st1 e name] cr by simp
  then have st2: "fine_steps st ?st2" by (rule then_step [OF leave_current_steps])
  have st3: "fine_steps st (set_session ?st2 i (enter_room (session_at ?st2 i) rid))" if "ridp = Some rid" for rid
  proof -
    obtain rm1 where rm1: "g_room_manager ?st1 = Some rm1"
      using leave_current_inv [OF inv, of i c] by (auto simp: server_inv_def)
    have "strlen rid = ROOM_ID_LENGTH" using create_room_id_length cr [unfolded rm1] that by blast
    then show ?thesis by (intro then_step [OF st2] fine_session [OF i] write_enter)
  qed
  show ?thesis
    using h cr reply_steps [of st i] then_step [OF st2 reply_step] then_step [OF st3 reply_step]
    by (auto simp: chat_protocol_handle_create_room_def Let_def split: if_splits option.splits)
qed

lemma handle_join_steps:
  assumes i: "i < MAX_CLIENTS"
    and h: "chat_protocol_handle_join_room st (Some i) (Some rid) c = (r, st')"
  shows "fine_steps st st'"
proof (cases "strlen rid = ROOM_ID_LENGTH")
  case False
  with h reply_steps [of st i] show ?thesis
    by (auto simp: chat_protocol_handle_join_room_def split: if_splits)
next
  case True
  let ?st1 = "leave_current st i c"
  obtain x rm where j: "room_manager_join_room (g_room_manager ?st1) (Some rid) c = (x, rm)" by fastforce
  let ?st2 = "?st1\<lparr>g_room_manager := rm\<rparr>"
  have "fine_step ?st1 ?st2" using fine_join [of ?st1 rid c] j by simp
  then have st2: "fine_steps st ?st2" by (rule then_step [OF leave_current_steps])
  have st3: "fine_steps st (set_session ?st2 i (enter_room (session_at ?st2 i) rid))"
    by (intro then_step [OF st2] fine_session [OF i] write_enter True)
  show ?thesis
    using h True j then_step [OF st2 reply_step]
      then_step [OF then_step [OF st3 reply_step] fine_to_room]
    by (auto simp: chat_protocol_handle_join_room_def Let_def split: if_splits)
qed

lemma handle_leave_steps:
  assumes i: "i < MAX_CLIENTS"
    and h: "chat_protocol_handle_leave_room st (Some i) c = (r, st')"
  shows "fine_steps st st'"
proof (cases "in_room (session_at st i)")
  case False
  with h reply_steps [of st i] show ?thesis
    by (auto simp: chat_protocol_handle_leave_room_def split: if_splits)
next
  case True
  let ?s = "session_at st i"
  let ?st1 = "to_room st (current_room_id ?s) (snprintf_str BUFFER_SIZE
    (''*** '' @ cstr (nickname ?s) @ '' left the room ***'' @ [LF])) c"
  let ?st2 = "?st1\<lparr>g_room_manager := snd (room_manager_leave_room (g_room_manager ?st1)
    (Some (current_room_id ?s)) c)\<rparr>"
  have st2: "fine_steps st ?st2"
    by (rule then_step [OF one_step [OF fine_to_room] fine_leave])
  have "session_at ?st2 i = ?s" by (simp add: session_at_def)
  then have "fine_step ?st2 (set_session ?st2 i (?s\<lparr>current_room_id := replicate (ROOM_ID_LENGTH + 1) NUL,
      session_state := CLIENT_STATE_IN_LOBBY\<rparr>))"
    by (intro fine_session [OF i]) (metis write_leave)
  note st3 = then_step [OF st2 this]
  show ?thesis using h True then_step [OF st3 reply_step]
    by (auto simp: chat_protocol_handle_leave_room_def Let_def split: if_splits)
qed

lemma handle_nickname_steps:
  assumes inv: "server_inv st" and i: "i < MAX_CLIENTS"
    and h: "chat_protocol_handle_nickname_change e st (Some i) (Some new) = Some (r, st')"
  shows "fine_steps st st'"
proof -
  let ?n = "clean_line MAX_NICKNAME_LEN [LF, CR, CHR '' '', TAB] new"
  let ?s = "client_session_set_nickname (session_at st i) (Some ?n)"
  let ?st1 = "set_session st i ?s"
  let ?st2 = "to_all ?st1 (snprintf_str BUFFER_SIZE (''*** '' @ old_nickname_str e (nickname (session_at st i)) @
    '' is now known as '' @ cstr (nickname ?s) @ '' ***'' @ [LF])) (-1)"
  have "fine_steps st ?st1" by (intro one_step fine_session [OF i] write_nick)
  then have st2: "fine_steps st ?st2" by (rule then_step [OF _ fine_to_all])
  have list: "fine_steps st (?st2\<lparr>net := w, g_client_manager := cm\<rparr>)"
    if bl: "client_manager_broadcast_user_list (net ?st2) (g_client_manager ?st2) = Some (w, cm)" for w cm
  proof -
    obtain m where Some: "g_client_manager ?st2 = Some m"
      using fine_system.steps_inv [OF st2 inv] by (auto simp: server_inv_def)
    obtain t where "client_manager_broadcast_message (net ?st2) (Some m) (Some t) (-1) = (w, cm)"
      using broadcast_user_list_cases [OF bl [unfolded Some]] by blast
    then have "?st2\<lparr>net := w, g_client_manager := cm\<rparr> = to_all ?st2 t (-1)"
      using Some by (simp add: to_all_def)
    with then_step [OF st2 fine_to_all] show ?thesis by simp
  qed
  show ?thesis using h reply_steps [of st i] list
    by (auto simp: chat_protocol_handle_nickname_change_def Let_def split: if_splits option.splits)
qed

lemma handle_lists_steps:
  "chat_protocol_handle_list_rooms st (Some i) = (r, st') \<Longrightarrow> fine_steps st st'"
  "chat_protocol_handle_list_users st (Some i) c = (r, st') \<Longrightarrow> fine_steps st st'"
  using reply_steps [of st i]
  by (auto simp: chat_protocol_handle_list_rooms_def chat_protocol_handle_list_users_def split: if_splits)

lemma handle_message_steps:
  assumes inv: "server_inv st" and i: "i < MAX_CLIENTS" and c: "0 \<le> c"
    and h: "chat_protocol_handle_message e st (Some i) (Some msg) c = Some (r, st')"
  shows "fine_steps st st'"
proof -
  have cmd: "fine_steps st st'"
    if "chat_protocol_handle_command e st (Some i) (Some cmd) c = Some (r, st')" for cmd
    using that handle_create_steps [OF inv i c] handle_join_steps [OF i] handle_leave_steps [OF i]
      handle_nickname_steps [OF inv i] handle_lists_steps [of st i] reply_steps [of st i]
      one_step [OF fine_to_room, of st] one_step [OF fine_to_all, of st]
    by (auto simp: chat_protocol_handle_command_def Let_def split: if_splits)
  show ?thesis
    using h cmd reply_steps [of st i] one_step [OF fine_to_room, of st]
    by (auto simp: chat_protocol_handle_message_def Let_def split: if_splits)
qed

section \<open>The threads are sequences of steps\<close>

lemma session_iteration_steps:
  assumes inv: "server_inv st" and i: "i < MAX_CLIENTS" and c: "0 \<le> cid"
    and s: "session_iteration e st i cid r = Some (b, st')"
  shows "fine_steps st st'"
proof (cases "client_session_is_active (session_at st i)")
  case False
  with s show ?thesis by (simp add: session_iteration_def)
next
  case True
  obtain x st1 where r: "client_session_receive_message st i r = (x, st1)" by fastforce
  note first = one_step [OF fine_receive [OF r]]
  note inv1 = receive_message_inv(1) [OF inv r]
  show ?thesis
    using s True r first rtranclp_trans [OF first handle_message_steps [OF inv1 i c]]
    by (auto simp: session_iteration_def split: option.splits if_splits)
qed

lemma remove_client_steps:
  assumes inv: "server_inv st"
  shows "fine_steps st (remove_client st cid)"
proof -
  obtain m where m: "g_client_manager st = Some m" "cm_inv m" using inv by (auto simp: server_inv_def)
  obtain w sm cm where r: "client_manager_remove_client (net st) (g_security_manager st) (Some m) cid = (w, sm, cm)"
    using prod_cases3 by blast
  show ?thesis
  proof (cases "valid_client_id cid \<and> active (clients m ! nat cid)")
    case False
    with remove_client_noop [of cid m "net st" "g_security_manager st"] m(1)
    have "remove_client st cid = st" by (cases st) (simp add: remove_client_def)
    then show ?thesis by simp
  next
    case True
    then have fd: "0 \<le> socket_fd (clients m ! nat cid)"
      using session_okD(3) [OF cm_invD(2) [OF m(2)]] valid_client_id_nat by blast
    obtain msg where "client_manager_broadcast_message (sys_close (net st) (socket_fd (clients m ! nat cid)))
        (Some (m\<lparr>clients := (clients m)[nat cid := closed_session (clients m ! nat cid)],
                  cm_client_count := cm_client_count m - 1\<rparr>)) (Some msg) cid = (w, cm)"
      and "sm = security_manager_remove_client (g_security_manager st) cid"
      using remove_client_spec [OF cm_invD(1) [OF m(2)] _ _ fd r] True by metis
    then have "remove_client st cid = to_all (remove_slot st m cid) msg cid"
      using m(1) r fd by (simp add: remove_client_def remove_slot_def session_cleanup_pair to_all_def)
    moreover have "fine_step st (remove_slot st m cid)" using m(1) True by (intro fine_remove) auto
    ultimately show ?thesis using then_step [OF one_step fine_to_all] by simp
  qed
qed

lemma syn_session_writes: "rtranclp session_write s (syn_session s syn)"
proof -
  let ?s = "s\<lparr>handshake_state := HANDSHAKE_SYN_RECEIVED\<rparr>"
  have first: "rtranclp session_write s ?s" by (rule r_into_rtranclp) (rule write_handshake)
  then have "rtranclp session_write s (client_session_set_nickname ?s (Some (pkt_nickname syn)))"
    by (rule rtranclp.rtrancl_into_rtrancl) (rule write_nick)
  with first show ?thesis by (simp add: syn_session_def Let_def)
qed

text \<open>The writes before an answer, the answer, the writes after it.\<close>

lemma write_send_write_steps:
  assumes inv: "server_inv st" and i: "i < MAX_CLIENTS"
    and w1: "rtranclp session_write (session_at st i) s" and w2: "rtranclp session_write s t"
    and w: "w = snd (sys_send (net st) fd d)"
  shows "fine_steps st (set_session (st\<lparr>net := w\<rparr>) i t)"
proof -
  let ?st1 = "set_session st i s"
  let ?st2 = "?st1\<lparr>net := w\<rparr>"
  have st2: "fine_steps st ?st2"
    using then_step [OF write_steps [OF inv i w1] fine_send [of ?st1 fd d]] w by (simp add: set_session_def)
  have at: "session_at ?st2 i = s" using session_at_set_session [OF inv i] by (simp add: session_at_def)
  have "fine_steps ?st2 (set_session ?st2 i t)"
    using w2 at by (intro write_steps [OF fine_system.steps_inv [OF st2 inv] i]) simp
  moreover have "set_session ?st2 i t = set_session (st\<lparr>net := w\<rparr>) i t"
    by (cases "g_client_manager st") (simp_all add: set_session_def)
  ultimately show ?thesis using st2 by (metis rtranclp_trans)
qed

lemma handshake_steps:
  assumes inv: "server_inv st" and i: "i < MAX_CLIENTS"
    and h: "handshake_perform_server_side e (net st) (session_at st i) ins = (res, w, s, ins')"
  shows "fine_steps st (set_session (st\<lparr>net := w\<rparr>) i s)"
  using h
proof (cases rule: server_side_cases)
  case no_syn
  then have "rtranclp session_write (session_at st i) s" by (auto intro: write_handshake)
  from write_steps [OF inv i this] no_syn(2) show ?thesis by simp
next
  case (failed syn)
  then have "rtranclp session_write (syn_session (session_at st i) syn) s" by (auto intro: write_handshake)
  from write_send_write_steps [OF inv i syn_session_writes this] failed(3) show ?thesis
    by (simp add: handshake_send_packet_def split_def Let_def)
next
  case (established syn)
  then have "rtranclp session_write (syn_session (session_at st i) syn) s"
    using write_seq [of "syn_session (session_at st i) syn"] write_handshake
    by (metis rtranclp.rtrancl_into_rtrancl rtranclp.rtrancl_refl)
  from write_send_write_steps [OF inv i syn_session_writes this] established(3) show ?thesis
    by (simp add: handshake_send_packet_def split_def Let_def)
qed

lemma session_start_steps:
  assumes inv: "server_inv st" and s: "session_start e st cid ins = (b, st')"
  shows "fine_steps st st'"
proof -
  obtain cm where cm: "g_client_manager st = Some cm" using inv by (auto simp: server_inv_def)
  show ?thesis
  proof (cases "valid_client_id cid")
    case False
    with s cm show ?thesis by (simp add: session_start_def get_session_valid)
  next
    case True
    note i = conjunct1 [OF valid_client_id_nat [OF True]]
    obtain res w s1 ins' where h: "handshake_perform_server_side e (net st) (session_at st (nat cid)) ins
      = (res, w, s1, ins')" by (metis prod_cases4)
    let ?st1 = "set_session (st\<lparr>net := w\<rparr>) (nat cid) s1"
    let ?st2 = "reply ?st1 (nat cid) welcome_msg"
    note st1 = handshake_steps [OF inv i h]
    have "fine_steps st (chat_protocol_announce_user_joined ?st2 (Some (nat cid)))"
      using then_step [OF st1 reply_step] then_step [OF then_step [OF st1 reply_step] fine_session [OF i write_lobby]]
      by (simp add: chat_protocol_announce_user_joined_def)
    with s cm True h rtranclp_trans [OF st1 remove_client_steps [OF fine_system.steps_inv [OF st1 inv]]]
    show ?thesis
      by (auto simp: session_start_def get_session_valid chat_protocol_send_welcome_message_def Let_def
          split: if_splits)
  qed
qed

lemma accept_client_steps:
  assumes inv: "server_inv st" and fd: "0 \<le> fd"
  shows "fine_steps st (accept_client e st fd a th)"
proof -
  obtain cid w sm cm where add: "client_manager_add_new_client e (net st) (g_security_manager st)
      (g_client_manager st) fd a = (cid, w, sm, cm)" by (metis prod_cases4)
  let ?st1 = "st\<lparr>net := w, g_security_manager := sm, g_client_manager := cm\<rparr>"
  note st1 = one_step [OF fine_add [OF fd add]]
  have th: "fine_steps st (set_session ?st1 (nat cid) ((session_at ?st1 (nat cid))\<lparr>thread := t\<rparr>))"
    if "\<not> cid < 0" for t
  proof -
    obtain cm0 sm0 where some: "g_client_manager st = Some cm0" "cm_inv cm0"
      "g_security_manager st = Some sm0" "sm_inv sm0" using inv by (auto simp: server_inv_def)
    from some(4) add [unfolded some(1,3)] cm_invD(1) [OF some(2)] that have "nat cid < MAX_CLIENTS"
      by (cases rule: add_new_client_cases) auto
    then show ?thesis by (intro then_step [OF st1] fine_session write_thread)
  qed
  show ?thesis
    using add then_step [OF st1 fine_close [of ?st1 fd]] th
      rtranclp_trans [OF st1 remove_client_steps [OF fine_system.steps_inv [OF st1 inv]]]
    by (auto simp: accept_client_def Let_def split: option.splits)
qed

lemma srv_step_fine:
  assumes inv: "server_inv st" and step: "srv_step st st'"
  shows "fine_steps st st'"
  using step
  by cases (use inv in \<open>auto intro: accept_client_steps session_start_steps session_iteration_steps
    remove_client_steps dest: valid_client_id_nat\<close>)

end
