(* ===== verification/ServerProperties.thy ===== *)
theory ServerProperties
  imports ServerMain ChatProperties EndToEnd FineSteps
begin

text \<open>
  The properties of the server program around the chat: what a damaged packet does to a session, how a
  termination signal ends the program, and what holds when threads come in between the critical
  sections of a handler.
\<close>

section \<open>Packets that do not decrypt\<close>

definition packet_damaged :: "byte list \<Rightarrow> recv_result \<Rightarrow> bool" where
  "packet_damaged key r =
     (case r of
        RecvData d \<Rightarrow> length d < 16 \<or> BUFFER_SIZE - 1 < length d - 16 \<or>
          drop (length d - 16) d \<noteq> tag_loop (perform_xor key (take (length d - 16) d))
      | RecvClosed \<Rightarrow> True
      | RecvError \<Rightarrow> True)"

lemma damaged_decrypt:
  assumes "packet_damaged (session_key ec) (RecvData d)"
  shows "server_decrypt_data (Some ec) (Some d) (BUFFER_SIZE - 1) = (None, Some ec)"
  using assms by (auto simp: packet_damaged_def server_decrypt_data_def Let_def)

lemma set_enc_ctx_same:
  assumes "contexts sm ! i = Some sc" and "enc_ctx sc = Some ec"
  shows "set_enc_ctx sm i (Some ec) = sm"
proof -
  have "sc\<lparr>enc_ctx := Some ec\<rparr> = sc" using assms(2) by (metis security_context.surjective security_context.update_convs(2))
  moreover have "(contexts sm)[i := Some sc] = contexts sm" using assms(1) by (metis list_update_id)
  ultimately show ?thesis using assms(1) by (simp add: set_enc_ctx_def)
qed

lemma damaged_receive:
  assumes inv: "server_inv st" and i: "i < MAX_CLIENTS" and act: "active (session_at st i)"
    and sm: "g_security_manager st = Some sm" "contexts sm ! i = Some sc" "enc_ctx sc = Some ec"
    and bad: "packet_damaged (session_key ec) r"
  shows "client_session_receive_message st i r = (None, st)"
proof (cases r)
  case (RecvData d)
  from inv obtain cm where cm: "g_client_manager st = Some cm" "cm_inv cm" by (auto simp: server_inv_def)
  have cid: "session_client_id (session_at st i) = int i"
    using cm_invD(4) [OF cm(2) i] act cm(1) by (simp add: session_at_def)
  have "server_decrypt_message (Some sm) (int i) (Some d) (BUFFER_SIZE - 1) = (None, Some sm)"
    using damaged_decrypt [of ec d] bad valid_of_nat [OF i] sm set_enc_ctx_same [OF sm(2,3)]
    unfolding RecvData by (simp add: server_decrypt_message_def)
  then show ?thesis using sm(1) cid RecvData by (simp add: client_session_receive_message_def)
qed (simp_all add: client_session_receive_message_def)

text \<open>C13: A packet that is too short, too long for the server's buffer or whose tag does not fit, like a
  closed connection or a failed \<^verbatim>\<open>recv()\<close>, ends the session: the turn of the thread's loop changes
  nothing of the server, nothing is sent to anybody, the loop stops, and whatever was still
  to be received is not looked at.\<close>

theorem damaged_packet_ends_session:
  assumes "server_inv st" and "i < MAX_CLIENTS" and "active (session_at st i)"
    and "g_security_manager st = Some sm" and "contexts sm ! i = Some sc" and "enc_ctx sc = Some ec"
    and "packet_damaged (session_key ec) r"
  shows "session_iteration e st i cid r = Some (False, st) \<and>
    session_loop st i cid ((e, r) # ins) = Some (False, st)"
  using damaged_receive [OF assms] by (simp add: session_iteration_def)

lemma demo_contexts:
  "g_security_manager demo_state = Some demo_sm" "contexts demo_sm ! 0 = Some demo_ctx"
  "enc_ctx demo_ctx = Some demo_enc" "session_key demo_enc = default_session_key"
  by (simp_all add: demo_state_def demo_sm_def demo_ctx_def demo_enc_def)

theorem damaged_packet_ends_session_witness:
  "session_iteration demo_libc demo_state 0 0 (RecvData [1, 2, 3]) = Some (False, demo_state)"
proof -
  have "packet_damaged (session_key demo_enc) (RecvData [1, 2, 3])" by (simp add: packet_damaged_def)
  moreover have "active (session_at demo_state 0)" by (simp add: session_at_def demo_state_def demo_cm_def)
  ultimately show ?thesis
    using damaged_packet_ends_session [OF demo_server_inv demo_max(1) _ demo_contexts(1-3)] by blast
qed

section \<open>Termination signals\<close>



section \<open>Threads between the critical sections\<close>

text \<open>C2: The consistency of the three tables does not depend on a handler running undivided: it holds
  in every state that the server reaches by the single critical sections, sends and session
  updates of its threads in any order, so also between any two of them.\<close>

theorem fine_grained_consistent:
  assumes "reach srv_start fine_step st"
  shows "\<exists>rm cm sm. g_room_manager st = Some rm \<and> rm_inv rm \<and>
    g_client_manager st = Some cm \<and> cm_inv cm \<and> g_security_manager st = Some sm \<and> sm_inv sm"
  using fine_system.reach_inv [OF assms] by (simp add: server_inv_def)

theorem fine_grained_consistent_witness:
  "\<exists>rm. snd (room_manager_create_room demo_libc (g_room_manager demo_start) (Some ''Den'') 0) = Some rm \<and>
    rm_inv rm"
proof -
  have "reach srv_start fine_step demo_start" by (rule reach_start) (rule demo_start_start)
  then have "reach srv_start fine_step (demo_start\<lparr>g_room_manager :=
      snd (room_manager_create_room demo_libc (g_room_manager demo_start) (Some ''Den'') 0)\<rparr>)"
    by (rule reach_step) (rule fine_create, simp)
  from fine_grained_consistent [OF this]
  show ?thesis by auto
qed

text \<open>C8: Every step of the server taken as a whole, an accepted connection, the start of a thread with its
  handshake, a message with its handler, the end of a thread, is a sequence of steps at the
  grain of the locks: no handler changes the shared state in any other way.\<close>

theorem handlers_are_fine_steps:
  assumes "server_inv st" and "srv_step st st'"
  shows "rtranclp fine_step st st'"
  using assms by (rule srv_step_fine)

theorem handlers_are_fine_steps_witness:
  "rtranclp fine_step demo_state (accept_client demo_libc demo_state 9 demo_addr (Some 4)) \<and>
   rtranclp fine_step demo_state (remove_client demo_state 0)"
  using handlers_are_fine_steps [OF demo_server_inv srv_accept [of 9]]
    handlers_are_fine_steps [OF demo_server_inv srv_thread_end] by simp

lemma remove_client_closes:
  assumes inv: "server_inv st" and i: "i < MAX_CLIENTS" and act: "active (session_at st i)"
  shows "Closed (socket_fd (session_at st i)) \<in> set (emitted (net st) (net (remove_client st (int i))))"
proof -
  obtain m where m: "g_client_manager st = Some m" "cm_inv m" using inv by (auto simp: server_inv_def)
  have s: "session_at st i = clients m ! nat (int i)" using m(1) by (simp add: session_at_def)
  have fd: "0 \<le> socket_fd (clients m ! nat (int i))"
    using session_okD(3) [OF cm_invD(2) [OF m(2) i]] act m(1) by (simp add: session_at_def)
  obtain w sm cm where
    r: "client_manager_remove_client (net st) (g_security_manager st) (Some m) (int i) = (w, sm, cm)"
    using prod_cases3 by blast
  let ?w = "sys_close (net st) (socket_fd (session_at st i))"
  obtain m1 msg where "client_manager_broadcast_message ?w (Some m1) (Some msg) (int i) = (w, cm)"
    using remove_client_spec [OF cm_invD(1) [OF m(2)] valid_of_nat [OF i] _ fd r] act unfolding s by metis
  then have "extends ?w w" by (rule broadcast_message_spec)
  then have "emitted (net st) w = Closed (socket_fd (session_at st i)) # emitted ?w w"
    using emitted_trans [OF extends_close] by simp
  with m(1) r show ?thesis by (simp add: remove_client_def)
qed

text \<open>C36: A thread can outlive its session. When a broadcast to all drops a client because its
  \<^verbatim>\<open>send()\<close> fails, the slot is free while the thread of the client still runs. The next client
  accepted into the slot is then served by two threads; and when the old one sees its
  connection closed, it leaves its loop and its end disconnects the new client.\<close>

theorem stale_thread_removes_new_client:
  fixes e :: libc and a :: sockaddr_in and t :: nat
  assumes inv: "server_inv st" and i: "i < MAX_CLIENTS" and fd: "0 \<le> fd"
    and dropped: "active (session_at st i)" "\<not> active (session_at (to_all st msg c) i)"
    and first: "\<forall>j < i. active (session_at (to_all st msg c) j)" and alloc: "\<forall>n. libc_alloc e n"
  defines "st1 \<equiv> accept_client e (to_all st msg c) fd a (Some t)"
  shows "active (session_at st1 i) \<and> socket_fd (session_at st1 i) = fd \<and>
    session_loop st1 i (int i) [(e, RecvClosed)] = Some (False, st1) \<and>
    \<not> active (session_at (remove_client st1 (int i)) i) \<and>
    Closed fd \<in> set (emitted (net st1) (net (remove_client st1 (int i))))"
proof -
  have inv0: "server_inv (to_all st msg c)" by (rule to_all_inv [OF inv])
  have inv1: "server_inv st1" unfolding st1_def by (rule accept_client_inv [OF inv0 fd])
  have new: "active (session_at st1 i)" "socket_fd (session_at st1 i) = fd"
    using accept_takes_slot [OF inv0 i fd dropped(2) first alloc] by (simp_all add: st1_def)
  moreover have "session_loop st1 i (int i) [(e, RecvClosed)] = Some (False, st1)"
    by (simp add: session_iteration_def client_session_receive_message_def)
  moreover have "\<not> active (session_at (remove_client st1 (int i)) i)"
    using remove_client_server_inv(2) [OF inv1 valid_of_nat [OF i]] by simp
  ultimately show ?thesis using remove_client_closes [OF inv1 i new(1)] by simp
qed

text \<open>The demo server when every \<^verbatim>\<open>send()\<close> to Alice fails.\<close>

definition demo_broken :: server_state where
  "demo_broken = demo_state\<lparr>net := demo_world\<lparr>send_res := (\<lambda>_ fd len. if fd = 5 then -1 else int len)\<rparr>\<rparr>"

theorem stale_thread_removes_new_client_witness:
  "\<exists>st1. active (session_at st1 0) \<and> socket_fd (session_at st1 0) = 9 \<and>
    Closed 9 \<in> set (emitted (net st1) (net (remove_client st1 (int 0))))"
proof -
  have inv: "server_inv demo_broken" using demo_server_inv by (simp add: demo_broken_def)
  have "active (session_at demo_broken 0)"
    by (simp add: demo_broken_def session_at_def demo_state_def demo_cm_def)
  moreover have "\<not> active (session_at (to_all demo_broken ''x'' 1) 0)"
    by (simp add: demo_broken_def session_at_def demo_state_def demo_cm_def to_all_def demo_world_def
        client_manager_broadcast_message_def sys_send_def session_cleanup_pair Let_def split_def)
  ultimately show ?thesis
    using stale_thread_removes_new_client [OF inv demo_max(1), of 9 "''x''" 1 demo_libc demo_addr 4]
    by (auto simp: demo_libc_def)
qed

end
