(* ===== verification/RoomProperties.thy ===== *)
theory RoomProperties
  imports Demo
begin

text \<open>
  The properties of the room table, of the texts made from it, and of the table of clients, each
  with a concrete instance on the demo server.
\<close>

section \<open>The room table\<close>

text \<open>C21: Joining a room that has members and room for one more, then leaving it, succeeds both times
  and gives the directory of rooms back unchanged.\<close>

theorem join_then_leave:
  assumes "rm_unique m" and "0 \<le> c" and "room_dir m (cstr rid) = Some S"
    and "c \<notin> S" and "card S < MAX_CLIENTS_PER_ROOM" and "S \<noteq> {}"
  shows "\<exists>m1 m2. room_manager_join_room (Some m) (Some rid) c = (0, Some m1) \<and>
    room_manager_leave_room (Some m1) (Some rid) c = (0, Some m2) \<and> room_dir m2 = room_dir m"
  using assms by (rule room_table.join_leave_roundtrip)

lemma demo_dir_entry: "room_dir demo_rm (cstr demo_room_id) = Some {0, 1}"
  by (simp add: demo_room_dir demo_room_id_def cstr_def)

theorem join_then_leave_witness:
  "\<exists>m1 m2. room_manager_join_room (Some demo_rm) (Some demo_room_id) 2 = (0, Some m1) \<and>
    room_manager_leave_room (Some m1) (Some demo_room_id) 2 = (0, Some m2) \<and>
    room_dir m2 = room_dir demo_rm"
  by (rule join_then_leave [OF demo_rm_unique _ demo_dir_entry]) (simp_all add: limits)

text \<open>An operation on one room leaves every other room alone: a join and a leave, successful
  or refused, change the member set of no other room id.\<close>

theorem other_rooms_untouched:
  assumes "rm_unique m" and "0 \<le> c" and "k \<noteq> cstr rid"
    and "room_manager_join_room (Some m) (Some rid) c = (x, Some m1) \<or>
         room_manager_leave_room (Some m) (Some rid) c = (x, Some m1)"
  shows "room_dir m1 k = room_dir m k"
  using assms room_table.join_others [OF assms(1,2) _ assms(3)] room_table.leave_others [OF assms(1,2) _ assms(3)]
  by blast

theorem other_rooms_untouched_witness:
  "\<exists>m1. room_manager_join_room (Some demo_rm) (Some demo_room_id) 2 = (0, Some m1) \<and>
    room_dir m1 ''OTHERS'' = None"
proof -
  obtain m1 where j: "room_manager_join_room (Some demo_rm) (Some demo_room_id) 2 = (0, Some m1)"
    using room_table.join_ok [OF demo_rm_unique demo_dir_entry, of 2] by (auto simp: limits)
  have ne: "''OTHERS'' \<noteq> cstr demo_room_id" by (simp add: demo_room_id_def cstr_def)
  from other_rooms_untouched [OF demo_rm_unique _ ne disjI1 [OF j]] j show ?thesis
    by (simp add: demo_room_dir demo_room_id_def)
qed

lemma find_first_inactive:
  assumes "find_index (\<lambda>r. \<not> is_active r) rs = Some i" and "is_active r"
    and "find_index (\<lambda>r. \<not> is_active r) (rs[i := r]) = Some j"
  shows "i < j"
proof (rule ccontr)
  assume "\<not> i < j"
  then have "j = i \<or> j < i" by linarith
  moreover have "is_active ((rs[i := r]) ! i)" using find_index_less [OF assms(1)] assms(2) by simp
  ultimately show False
    using find_index_SomeD [OF assms(1)] find_index_SomeD [OF assms(3)] by (auto simp: nth_list_update)
qed

text \<open>C33: Two rooms created in the same second get the same id, because every generation seeds the
  generator with time and process id: the second room exists, its creator is told that id, but the
  id still leads to the first room, and the second creator is not among its members.\<close>

theorem same_second_rooms_collide:
  assumes inv: "rm_inv m" and c: "0 \<le> c1" "0 \<le> c2" "c1 \<noteq> c2" and slots: "room_count m + 1 < int MAX_ROOMS"
    and gen: "room_generate_id e = Some rid" and fresh: "room_dir m rid = None" and alloc: "libc_alloc e 0"
    and r1: "room_manager_create_room e (Some m) (Some n1) c1 = (p1, Some m1)"
    and r2: "room_manager_create_room e (Some m1) (Some n2) c2 = (p2, Some m2)"
  shows "p1 = Some rid \<and> p2 = Some rid \<and> room_count m2 = room_count m + 2 \<and> room_dir m2 rid = Some {c1}"
proof -
  have slot1: "room_count m < int MAX_ROOMS" using slots by simp
  from create_room_success [OF inv slot1 r1] gen alloc obtain i where
    i: "find_index (\<lambda>r. \<not> is_active r) (rooms m) = Some i" and p1: "p1 = Some rid"
    and m1: "m1 = m\<lparr>rooms := (rooms m)[i := snd (room_add_client
      (room_initialize e (rooms m ! i) (Some rid) (Some n1)) c1)], room_count := room_count m + 1\<rparr>" by auto
  let ?r1 = "snd (room_add_client (room_initialize e (rooms m ! i) (Some rid) (Some n1)) c1)"
  have act1: "is_active ?r1" by (simp add: frame)
  have inv1: "rm_inv m1" by (rule create_room_inv [OF inv c(1) r1])
  have slot2: "room_count m1 < int MAX_ROOMS" using slots m1 by simp
  from create_room_success [OF inv1 slot2 r2] gen alloc obtain j where
    j: "find_index (\<lambda>r. \<not> is_active r) (rooms m1) = Some j" and p2: "p2 = Some rid"
    and m2: "m2 = m1\<lparr>rooms := (rooms m1)[j := snd (room_add_client
      (room_initialize e (rooms m1 ! j) (Some rid) (Some n2)) c2)], room_count := room_count m1 + 1\<rparr>" by auto
  have ij: "i < j" using find_first_inactive [OF i act1] j m1 by simp
  have d1: "room_dir m1 rid = Some {c1}" using create_room_dir [OF inv c(1) slot1 r1 gen fresh] by simp
  have rid: "cstr rid = rid" by (rule room_generate_id_cstr [OF gen])
  obtain k where k: "room_manager_find_room (Some m1) (Some rid) = Some k"
    "room_members (rooms m1 ! k) = {c1}"
    using d1 room_dir_lookup [of m1 rid] rid
    by (cases "room_manager_find_room (Some m1) (Some rid)") auto
  note kd = find_index_SomeD [OF k(1) [unfolded room_manager_find_room_def, simplified]]
  have jl: "j < length (rooms m1)" "\<not> is_active (rooms m1 ! j)" using find_index_SomeD [OF j] by auto
  have "k = i"
  proof (rule ccontr)
    assume "k \<noteq> i"
    have il: "i < length (rooms m)" using find_index_less [OF i] .
    have "is_active (rooms m ! k)" "cstr (room_id (rooms m ! k)) = cstr rid" "k < length (rooms m)"
      using kd m1 \<open>k \<noteq> i\<close> by (auto simp: nth_list_update)
    then have "find_index (\<lambda>r. is_active r \<and> cstr (room_id r) = cstr rid) (rooms m) \<noteq> None"
      using find_index_None_iff [of "\<lambda>r. is_active r \<and> cstr (room_id r) = cstr rid" "rooms m"]
      by (metis (mono_tags, lifting) nth_mem)
    then have "room_dir m rid \<noteq> None" using room_dir_lookup [of m rid] rid
      by (simp add: room_manager_find_room_def)
    with fresh show False by simp
  qed
  have "find_index (\<lambda>r. is_active r \<and> cstr (room_id r) = cstr rid) (rooms m2) = Some k"
    using kd jl ij \<open>k = i\<close> m2 by (intro find_index_cong_first) (auto simp: nth_list_update)
  then have "room_dir m2 rid = Some {c1}"
    using room_dir_lookup [of m2 rid] rid k(2) ij \<open>k = i\<close> m2
    by (simp add: room_manager_find_room_def)
  with p1 p2 m1 m2 show ?thesis by simp
qed

lemma demo_generated_id: "room_generate_id demo_libc = Some ''ABCDEF''"
  by (simp add: room_generate_id_def demo_libc_def charset_def upt_rec limits)

theorem same_second_rooms_collide_witness:
  "\<exists>m1 m2. room_manager_create_room demo_libc (Some demo_rm) (Some ''Lab'') 2 = (Some ''ABCDEF'', Some m1) \<and>
    room_manager_create_room demo_libc (Some m1) (Some ''Attic'') 3 = (Some ''ABCDEF'', Some m2) \<and>
    room_dir m2 ''ABCDEF'' = Some {2}"
proof -
  obtain p1 m1 where r1: "room_manager_create_room demo_libc (Some demo_rm) (Some ''Lab'') 2 = (p1, Some m1)"
    using create_room_Some [of demo_libc demo_rm "Some ''Lab''" 2] by (metis prod.collapse)
  obtain p2 m2 where r2: "room_manager_create_room demo_libc (Some m1) (Some ''Attic'') 3 = (p2, Some m2)"
    using create_room_Some [of demo_libc m1 "Some ''Attic''" 3] by (metis prod.collapse)
  have "room_dir demo_rm ''ABCDEF'' = None" by (simp add: demo_room_dir demo_room_id_def)
  from same_second_rooms_collide [OF demo_rm_inv _ _ _ _ demo_generated_id this _ r1 r2] r1 r2 show ?thesis
    by (simp add: demo_rm_def demo_libc_def limits)
qed

section \<open>Texts made from the tables\<close>

text \<open>The reply to /rooms never overruns its array, and with 1 to 20 active rooms (of at most 50)
  it is exactly the header, one line with id, name and number of users per active room in the
  order of the table, and the footer.\<close>

theorem room_list_text:
  assumes inv: "rm_inv m"
  shows "(\<exists>s. room_manager_list_rooms (Some m) (Some b) (BUFFER_SIZE * 2) = Some s \<and> length s < BUFFER_SIZE * 2) \<and>
    (0 < room_count m \<and> room_count m \<le> 20 \<longrightarrow>
       room_manager_list_rooms (Some m) (Some b) (BUFFER_SIZE * 2) =
       Some (''=== Active Rooms ==='' @ [LF] @
         concat (map (\<lambda>r. ''ID: '' @ cstr (room_id r) @ '' | Name: '' @ cstr (room_name r) @
                          '' | Users: '' @ show_int (client_count r) @ [LF])
                  (filter is_active (rooms m))) @
         ''=================='' @ [LF]))"
proof -
  let ?n = "BUFFER_SIZE * 2" and ?h = "''=== Active Rooms ==='' @ [LF]"
  have n: "?n = 2048" by (simp add: limits)
  have h: "snprintf_str 2048 ?h = ?h" by (intro snprintf_str_fits) auto
  define body where "body = (if room_count m = 0
    then strncat ?h (''No active rooms'' @ [LF]) (size_sub (size_sub 2048 (length ?h)) 1)
    else list_rooms_loop 2048 (rooms m) ?h)"
  have code: "room_manager_list_rooms (Some m) (Some b) ?n =
      Some (strncat body (''=================='' @ [LF]) (size_sub (size_sub 2048 (length body)) 1))"
    unfolding n room_manager_list_rooms_def body_def Let_def option.case prod.case h by simp
  have "length body < 2048"
  proof (cases "room_count m = 0")
    case True
    show ?thesis unfolding body_def if_P [OF True] by (rule strncat_length) simp
  next
    case False
    show ?thesis unfolding body_def if_not_P [OF False] by (rule list_rooms_loop_bound) simp
  qed
  then have bound: "length (strncat body (''=================='' @ [LF]) (size_sub (size_sub 2048 (length body)) 1)) < 2048"
    by (rule strncat_length)
  have exact: "strncat body (''=================='' @ [LF]) (size_sub (size_sub 2048 (length body)) 1) =
      ?h @ concat (map room_info_line (filter is_active (rooms m))) @ ''=================='' @ [LF]"
    if cnt: "0 < room_count m" "room_count m \<le> 20"
  proof -
    let ?act = "filter is_active (rooms m)"
    have len: "length ?act \<le> 20"
      using cnt(2) rm_invD(2) [OF inv] by (simp add: used_count_def)
    have wf: "\<forall>r \<in> set (rooms m). room_wf r" using inv by (simp add: rm_inv_def room_ok_def)
    have ne: "room_count m \<noteq> 0" using cnt(1) by simp
    have body: "body = ?h @ concat (map room_info_line ?act)"
      unfolding body_def if_not_P [OF ne] by (rule list_rooms_loop_exact) (use wf len in simp_all)
    have "length (concat (map room_info_line ?act)) \<le> 96 * length (map room_info_line ?act)"
      by (rule length_concat_bound) (use wf room_info_line_exact(2) in auto)
    then have "length body + 19 < 2048" using body len by simp
    then show ?thesis unfolding body [symmetric] by (subst strncat_fits) (simp_all add: body)
  qed
  have lines: "map room_info_line (filter is_active (rooms m)) = map (\<lambda>r. ''ID: '' @ cstr (room_id r) @
      '' | Name: '' @ cstr (room_name r) @ '' | Users: '' @ show_int (client_count r) @ [LF]) (filter is_active (rooms m))"
    using inv room_info_line_exact(1) by (intro map_cong) (auto simp: rm_inv_def room_ok_def)
  show ?thesis unfolding code lines [symmetric] using bound exact by (auto simp: n simp del: append.simps)
qed

theorem room_list_text_witness:
  "\<exists>s. room_manager_list_rooms (Some demo_rm) (Some []) (BUFFER_SIZE * 2) = Some s \<and> length s < 2048"
  using room_list_text [OF demo_rm_inv, of "[]"] by (auto simp: limits)

text \<open>The reply to /users is exactly the name of the room and one line per connected member in
  the order of the member list; it always fits its array of 1024 bytes.\<close>

theorem room_users_text:
  assumes "cm_inv cm" and "rm_inv rm" and "room_manager_find_room (Some rm) (Some rid) = Some i"
  shows "room_manager_get_room_users (Some cm) (Some rm) (Some rid) (Some b) BUFFER_SIZE =
    Some (''=== Users in Room '' @ cstr (room_name (rooms rm ! i)) @ '' ==='' @ [LF] @
      concat (map (\<lambda>s. ''- '' @ cstr (nickname s) @ [LF])
        (listed_users (Some cm) (client_ids (rooms rm ! i)))) @
      ''======================'' @ [LF])"
  using assms by (rule room_users_exact)

lemma demo_find: "room_manager_find_room (Some demo_rm) (Some demo_room_id) = Some 0"
  by (simp add: room_manager_find_room_def demo_rm_def demo_room_def demo_room_id_def cstr_def)

theorem room_users_text_witness:
  "\<exists>s. room_manager_get_room_users (Some demo_cm) (Some demo_rm) (Some demo_room_id) (Some []) BUFFER_SIZE = Some s \<and>
    take 17 s = ''=== Users in Room''"
  using room_users_text [OF demo_cm_inv demo_rm_inv demo_find, of "[]"] by simp

end
