(* ===== verification/ClientTableProperties.thy ===== *)
theory ClientTableProperties
  imports ServerLoop Demo
begin

text \<open>
  The properties of the table of connected clients: who gets a broadcast, which slot a new client
  gets, the text of the user list, and what happens to a refused connection.
\<close>

section \<open>Broadcast\<close>

lemma recipients_filter:
  "recipients sender k ss =
     map (\<lambda>j. ss ! j) (filter (\<lambda>j. active (ss ! j) \<and> int (k + j) \<noteq> sender) [0 ..< length ss])"
proof (induction ss arbitrary: k)
  case Nil
  then show ?case by simp
next
  case (Cons s ss)
  have "[0 ..< length (s # ss)] = 0 # map Suc [0 ..< length ss]"
    by (simp add: upt_conv_Cons map_Suc_upt del: upt_Suc)
  with Cons show ?case by (simp add: filter_map o_def ac_simps)
qed

text \<open>The whole effect of the loop, with \<open>res j\<close> the result of the send to slot \<open>j\<close>.\<close>

definition addressed :: "int \<Rightarrow> client_session list \<Rightarrow> nat list" where
  "addressed sender ss = filter (\<lambda>j. active (ss ! j) \<and> int j \<noteq> sender) [0 ..< length ss]"

definition send_events :: "client_session \<Rightarrow> byte list \<Rightarrow> int \<Rightarrow> sysev list" where
  "send_events s d r = Sent (socket_fd s) d r # (if r < 0 then [Closed (socket_fd s)] else [])"

lemma broadcast_loop_effect:
  assumes "broadcast_loop w msg sender i ss = (w', ss', k)" and "\<forall>s \<in> set ss. active s \<longrightarrow> 0 \<le> socket_fd s"
  shows "\<exists>res. emitted w w' = concat (map (\<lambda>j. send_events (ss ! j) (bytes_of (cstr msg)) (res j))
        (addressed (sender - int i) ss)) \<and>
      (\<forall>j < length ss. ss' ! j = (if j \<in> set (addressed (sender - int i) ss) \<and> res j < 0
         then closed_session (ss ! j) else ss ! j))"
  using assms
proof (induction ss arbitrary: w i w' ss' k)
  case Nil
  then show ?case by (simp add: addressed_def)
next
  case (Cons s ss)
  let ?d = "bytes_of (cstr msg)" and ?js = "addressed (sender - int (Suc i)) ss"
  have shift: "addressed (sender - int i) (s # ss) =
      (if active s \<and> int i \<noteq> sender then [0] else []) @ map Suc ?js"
  proof -
    have "[0 ..< length (s # ss)] = 0 # map Suc [0 ..< length ss]"
      by (simp add: upt_conv_Cons map_Suc_upt del: upt_Suc)
    then show ?thesis by (auto simp: addressed_def filter_map o_def algebra_simps)
  qed
  have fds: "\<forall>s \<in> set ss. active s \<longrightarrow> 0 \<le> socket_fd s" using Cons.prems(2) by simp
  show ?case
  proof (cases "active s \<and> int i \<noteq> sender")
    case False
    from Cons.prems(1) False obtain ss1 where
      l: "broadcast_loop w msg sender (Suc i) ss = (w', ss1, k)" and ss': "ss' = s # ss1"
      by (auto split: prod.splits)
    from Cons.IH [OF l fds] obtain res where
      res: "emitted w w' = concat (map (\<lambda>j. send_events (ss ! j) ?d (res j)) ?js)"
        "\<forall>j < length ss. ss1 ! j = (if j \<in> set ?js \<and> res j < 0 then closed_session (ss ! j) else ss ! j)" by blast
    then show ?thesis using False unfolding shift ss'
      by (intro exI [of _ "case_nat 0 res"]) (auto simp: less_Suc_eq_0_disj o_def)
  next
    case True
    obtain r w1 where snd: "sys_send w (socket_fd s) ?d = (r, w1)" by fastforce
    have w1: "extends w w1" "emitted w w1 = [Sent (socket_fd s) ?d r]"
      using extends_send [of w "socket_fd s" ?d] emitted_send [of w "socket_fd s" ?d] snd by simp_all
    have fd: "0 \<le> socket_fd s" using Cons.prems(2) True by simp
    define w2 where "w2 = (if r < 0 then sys_close w1 (socket_fd s) else w1)"
    define s2 where "s2 = (if r < 0 then closed_session s else s)"
    have w2: "extends w1 w2" "emitted w1 w2 = (if r < 0 then [Closed (socket_fd s)] else [])"
      by (simp_all add: w2_def)
    from Cons.prems(1) True snd fd obtain ss1 k1 where
      l: "broadcast_loop w2 msg sender (Suc i) ss = (w', ss1, k1)" and ss': "ss' = s2 # ss1"
      by (auto simp: Let_def w2_def s2_def session_cleanup_pair split: prod.splits if_splits)
    from Cons.IH [OF l fds] obtain res where
      res: "emitted w2 w' = concat (map (\<lambda>j. send_events (ss ! j) ?d (res j)) ?js)"
        "\<forall>j < length ss. ss1 ! j = (if j \<in> set ?js \<and> res j < 0 then closed_session (ss ! j) else ss ! j)" by blast
    have ext: "extends w2 w'" using broadcast_loop_spec [OF l] by blast
    have "emitted w w' = send_events s ?d r @ emitted w2 w'"
      using emitted_trans [OF extends_trans [OF w1(1) w2(1)] ext] emitted_trans [OF w1(1) w2(1)] w1(2) w2(2)
      by (simp add: send_events_def)
    then show ?thesis using True res unfolding shift ss'
      by (intro exI [of _ "case_nat r res"]) (auto simp: less_Suc_eq_0_disj o_def s2_def)
  qed
qed

text \<open>C15: A broadcast is sent once to every connected client except the sender, in the order of the table,
  with the whole text as data. A client whose send failed is closed at once and marked as gone;
  every other slot is unchanged, the count falls by the number of dropped clients, and the
  table is consistent.\<close>

theorem broadcast_reaches_all_others:
  assumes "cm_inv m"
    and "client_manager_broadcast_message w (Some m) (Some msg) sender = (w', mp')"
  defines "js \<equiv> filter (\<lambda>j. active (clients m ! j) \<and> int j \<noteq> sender) [0 ..< MAX_CLIENTS]"
  shows "\<exists>m' res. mp' = Some m' \<and> cm_inv m' \<and> extends w w' \<and>
    emitted w w' = concat (map (\<lambda>j. Sent (socket_fd (clients m ! j)) (bytes_of (cstr msg)) (res j) #
      (if res j < 0 then [Closed (socket_fd (clients m ! j))] else [])) js) \<and>
    (\<forall>j < MAX_CLIENTS. clients m' ! j = (if j \<in> set js \<and> res j < 0
       then closed_session (clients m ! j) else clients m ! j)) \<and>
    cm_client_count m' = cm_client_count m - int (card {j \<in> set js. res j < 0})"
proof -
  note L = cm_invD(1) [OF assms(1)]
  obtain w1 ss k where l: "broadcast_loop w msg sender 0 (clients m) = (w1, ss, k)"
    using prod_cases3 by blast
  let ?m = "m\<lparr>clients := ss, cm_client_count := cm_client_count m - k\<rparr>"
  have eq: "w' = w1" "mp' = Some ?m"
    using assms(2) l by (simp_all add: client_manager_broadcast_message_def)
  have inv: "cm_inv ?m" using broadcast_inv [OF assms(1)] assms(2) eq by blast
  have fds: "\<forall>s \<in> set (clients m). active s \<longrightarrow> 0 \<le> socket_fd s"
    using assms(1) session_okD(3) by (auto simp: cm_inv_def)
  have js: "addressed (sender - int 0) (clients m) = js" by (simp add: addressed_def js_def L)
  from broadcast_loop_effect [OF l fds] obtain res where
    ev: "emitted w w1 = concat (map (\<lambda>j. send_events (clients m ! j) (bytes_of (cstr msg)) (res j)) js)"
    and slots: "\<forall>j < MAX_CLIENTS. ss ! j = (if j \<in> set js \<and> res j < 0
      then closed_session (clients m ! j) else clients m ! j)" unfolding js L by blast
  have len: "length ss = MAX_CLIENTS" using cm_invD(1) [OF inv] by simp
  have "{j \<in> set js. res j < 0} \<subseteq> {j. j < MAX_CLIENTS \<and> active (clients m ! j)}"
    by (auto simp: js_def)
  moreover have "{j. j < MAX_CLIENTS \<and> active (ss ! j)} =
      {j. j < MAX_CLIENTS \<and> active (clients m ! j)} - {j \<in> set js. res j < 0}"
    using slots by (auto split: if_splits)
  ultimately have "int (card {j. j < MAX_CLIENTS \<and> active (ss ! j)}) =
      int (card {j. j < MAX_CLIENTS \<and> active (clients m ! j)}) - int (card {j \<in> set js. res j < 0})"
    by (simp add: card_Diff_subset card_mono of_nat_diff)
  then have "cm_client_count ?m = cm_client_count m - int (card {j \<in> set js. res j < 0})"
    using cm_invD(3) [OF inv] cm_invD(3) [OF assms(1)] len L by (simp add: used_count_def length_filter_conv_card)
  moreover have "extends w w1" using broadcast_loop_spec [OF l] by blast
  ultimately show ?thesis using inv ev slots unfolding eq send_events_def
    by (intro exI [of _ ?m] exI [of _ res]) simp
qed

text \<open>The demo table when every send to socket 5 fails: Alice is dropped, Carol is not.\<close>

theorem broadcast_reaches_all_others_witness:
  "\<exists>w' m' res. client_manager_broadcast_message (demo_world\<lparr>send_res := (\<lambda>_ fd len. if fd = 5 then -1 else int len)\<rparr>)
      (Some demo_cm) (Some ''hello'') 1 = (w', Some m') \<and>
    trace w' = Sent 5 (bytes_of ''hello'') (res 0) # (if res 0 < 0 then [Closed 5] else []) @
      Sent 7 (bytes_of ''hello'') (res 2) # (if res 2 < 0 then [Closed 7] else []) \<and>
    (active (clients m' ! 0) \<longleftrightarrow> \<not> res (0 :: nat) < 0)"
proof -
  let ?w = "demo_world\<lparr>send_res := (\<lambda>_ fd len. if fd = 5 then -1 else int len)\<rparr>"
  obtain w' mp' where b: "client_manager_broadcast_message ?w (Some demo_cm) (Some ''hello'') 1 = (w', mp')"
    by fastforce
  let ?js = "filter (\<lambda>j. active (clients demo_cm ! j) \<and> int j \<noteq> 1) [0 ..< MAX_CLIENTS]"
  have "[0 ..< MAX_CLIENTS] = [0, 1, 2] @ [3 ..< MAX_CLIENTS]" by (simp add: limits upt_rec)
  moreover have "filter (\<lambda>j. active (clients demo_cm ! j) \<and> int j \<noteq> 1) [3 ..< MAX_CLIENTS] = []"
    by (auto simp: filter_empty_conv demo_cm_def nth_Cons' limits)
  ultimately have js: "?js = [0, 2]" by (simp add: demo_cm_def)
  have "cstr ''hello'' = ''hello''" by (simp add: cstr_def)
  moreover have "extends ?w w' \<Longrightarrow> trace w' = emitted ?w w'"
    using extends_trace [of ?w w'] by (simp add: demo_world_def)
  ultimately show ?thesis
    using broadcast_reaches_all_others [OF demo_cm_inv b] b unfolding js
    by (auto simp: demo_cm_def limits)
qed

section \<open>Adding a client\<close>

text \<open>C16: A new connection is refused (-1) exactly when all 100 slots are in use or one of the four
  resources of its security context (two allocations, two mutexes) is not to be had; then the set of
  connected clients and their count are as before, and the socket is closed only in the second case.
  Otherwise it gets the lowest free slot: its session is active, carries its own slot number and
  socket and the nickname User<socket>, and its security context has the shared key with both
  counters at 0. In all cases all invariants hold.\<close>

theorem add_client_outcome:
  assumes "cm_inv m" and "sm_inv sec" and "0 \<le> fd"
    and "client_manager_add_new_client e w (Some sec) (Some m) fd a = (r, w', smp, mp)"
  defines "full \<equiv> \<forall>j < MAX_CLIENTS. active (clients m ! j)"
    and "memory \<equiv> \<forall>n < 4. libc_alloc e n"
  shows "(r = -1 \<longleftrightarrow> full \<or> \<not> memory) \<and> (\<exists>sec' m'. smp = Some sec' \<and> mp = Some m' \<and> cm_inv m' \<and> sm_inv sec' \<and>
    (if full \<or> \<not> memory then cm_client_count m' = cm_client_count m \<and>
        (\<forall>j < MAX_CLIENTS. active (clients m' ! j) = active (clients m ! j)) \<and>
        w' = (if full then w else sys_close w fd)
     else (\<exists>i < MAX_CLIENTS. r = int i \<and> \<not> active (clients m ! i) \<and> (\<forall>j < i. active (clients m ! j)) \<and>
        active (clients m' ! i) \<and> session_client_id (clients m' ! i) = int i \<and>
        socket_fd (clients m' ! i) = fd \<and> cstr (nickname (clients m' ! i)) = take 31 (''User'' @ show_int fd) \<and>
        (\<forall>j < MAX_CLIENTS. j \<noteq> i \<longrightarrow> clients m' ! j = clients m ! j) \<and>
        cm_client_count m' = cm_client_count m + 1 \<and> w' = w \<and> fresh_context sec' i)))"
proof -
  note L = cm_invD(1) [OF assms(1)]
  have full: "full \<longleftrightarrow> find_index (\<lambda>s. \<not> active s) (clients m) = None"
    by (auto simp: full_def find_index_None_iff L all_set_conv_all_nth)
  have mem: "server_security_context_create e lvl = None \<longleftrightarrow> \<not> memory" for lvl
    by (simp add: server_security_context_create_def memory_def numeral_eq_Suc less_Suc_eq conj_disj_distribR ex_disj_distrib)
  from assms(2,4) L obtain sec' m' where some: "smp = Some sec'" "mp = Some m'"
    by (cases rule: add_new_client_cases) auto
  have inv: "cm_inv m'" "sm_inv sec'" by (rule add_new_client_inv [OF assms(1-3) assms(4) [unfolded some]])+
  from assms(2,4) L show ?thesis
  proof (cases rule: add_new_client_cases)
    case full: full
    then show ?thesis using \<open>full \<longleftrightarrow> _\<close> inv some by simp
  next
    case (added i sec1)
    note f = find_index_SomeD [OF added(1)]
    have ok: "\<not> full" "memory"
      using added(3) full added(1) mem add_new_client_refused_iff [OF assms(2) L added(1) assms(4)] by auto
    have "length (nickname (clients m ! i)) = MAX_NICKNAME_LEN"
      using cm_invD(2) [OF assms(1) added(2)] by (simp add: session_ok_def buf_ok_def)
    then have nick: "cstr (nickname (new_session (clients m ! i) i fd a)) = take 31 (''User'' @ show_int fd)"
      using session_initialize_nickname by (simp add: new_session_def limits)
    have len: "i < length (clients m)" using added(2) L by simp
    show ?thesis using ok inv some added(2-8) nick len f by (auto intro!: exI [of _ i])
  next
    case (refused i sec1)
    have no: "\<not> full" "\<not> memory"
      using refused(3) full refused(1) mem add_new_client_refused_iff [OF assms(2) L refused(1) assms(4)] by auto
    have "\<not> active (clients m ! i)" using find_index_sat [OF refused(1)] .
    with no inv some refused L assms(3) show ?thesis by (auto simp: nth_list_update split: if_splits)
  qed
qed

theorem add_client_outcome_witness:
  "(\<exists>sm' m'. client_manager_add_new_client demo_libc demo_world (Some demo_sm) (Some demo_cm) 8 demo_addr =
      (3, demo_world, Some sm', Some m') \<and> fresh_context sm' 3) \<and>
   fst (client_manager_add_new_client (demo_libc\<lparr>libc_alloc := (\<lambda>n. n \<noteq> 2)\<rparr>) demo_world (Some demo_sm)
      (Some demo_cm) 8 demo_addr) = -1"
proof -
  have free: "\<not> (\<forall>j < MAX_CLIENTS. active (clients demo_cm ! j))"
    by (rule notI, drule spec [of _ 3]) (simp add: demo_cm_def limits)
  have low: "i = 3" if "i < MAX_CLIENTS" "\<not> active (clients demo_cm ! i)" "\<forall>j < i. active (clients demo_cm ! j)" for i
  proof -
    have 3: "\<not> active (clients demo_cm ! 3)" by (simp add: demo_cm_def)
    have "active (clients demo_cm ! 0)" "active (clients demo_cm ! 1)" "active (clients demo_cm ! 2)"
      by (simp_all add: demo_cm_def)
    with that(2) have "i \<noteq> 0" "i \<noteq> 1" "i \<noteq> 2" by metis+
    then have "\<not> i < 3" by linarith
    then show ?thesis using 3 that(3) by (metis linorder_neqE_nat)
  qed
  obtain r w' smp mp where
    add: "client_manager_add_new_client demo_libc demo_world (Some demo_sm) (Some demo_cm) 8 demo_addr =
      (r, w', smp, mp)" by (metis prod_cases4)
  obtain r2 w2 smp2 mp2 where
    add2: "client_manager_add_new_client (demo_libc\<lparr>libc_alloc := (\<lambda>n. n \<noteq> 2)\<rparr>) demo_world (Some demo_sm)
      (Some demo_cm) 8 demo_addr = (r2, w2, smp2, mp2)" by (metis prod_cases4)
  have bad: "\<not> (\<forall>n < 4. libc_alloc (demo_libc\<lparr>libc_alloc := (\<lambda>n. n \<noteq> 2)\<rparr>) n)" by auto
  have r2: "r2 = -1" using conjunct1 [OF add_client_outcome [OF demo_cm_inv demo_sm_inv _ add2]] bad by simp
  have good: "\<forall>n < 4. libc_alloc demo_libc n" by (simp add: demo_libc_def)
  from conjunct2 [OF add_client_outcome [OF demo_cm_inv demo_sm_inv _ add]] good free
  obtain sec' m' i where o: "smp = Some sec'" "mp = Some m'" "i < MAX_CLIENTS" "r = int i"
    "\<not> active (clients demo_cm ! i)" "\<forall>j < i. active (clients demo_cm ! j)" "w' = demo_world" "fresh_context sec' i"
    by (simp only: if_not_P if_False not_True_eq_False disj_not1 simp_thms) force
  note i = low [OF o(3,5,6)]
  show ?thesis using add add2 r2 o(1,2,4,7,8) i by simp
qed

text \<open>A connection the server refuses for lack of memory is closed twice: adding the client closes the
  socket while cleaning up the slot, and the accept loop closes the same number again (which by then
  may belong to another connection). Nothing else happens to the network.\<close>

theorem refused_connection_closed_twice:
  assumes "server_inv st" and "0 \<le> fd" and "\<not> libc_alloc e 0"
    and "i < MAX_CLIENTS" and "\<not> active (session_at st i)"
  shows "emitted (net st) (net (accept_client e st fd a th)) = [Closed fd, Closed fd]"
proof -
  from assms(1) obtain cm sm where cm: "g_client_manager st = Some cm" "cm_inv cm"
    and sm: "g_security_manager st = Some sm" "sm_inv sm" by (auto simp: server_inv_def)
  note L = cm_invD(1) [OF cm(2)]
  have "clients cm ! i \<in> set (clients cm)" "\<not> active (clients cm ! i)"
    using assms(4,5) L cm(1) by (simp_all add: session_at_def)
  then obtain k where slot: "find_index (\<lambda>s. \<not> active s) (clients cm) = Some k"
    using find_index_ex [of "clients cm ! i" "clients cm" "\<lambda>s. \<not> active s"] by blast
  obtain r w smp cmp where
    add: "client_manager_add_new_client e (net st) (Some sm) (Some cm) fd a = (r, w, smp, cmp)"
    by (metis prod_cases4)
  have ref: "r = -1"
    using add_new_client_refused_iff [OF sm(2) L slot add] assms(3)
    by (simp add: server_security_context_create_def)
  from sm(2) add L have "w = sys_close (net st) fd"
    by (cases rule: add_new_client_cases) (use slot ref assms(2) in auto)
  then show ?thesis using add cm(1) sm(1) ref
    by (simp add: accept_client_def emitted_def sys_close_def)
qed

theorem refused_connection_closed_twice_witness:
  "emitted demo_world (net (accept_client (demo_libc\<lparr>libc_alloc := (\<lambda>_. False)\<rparr>) demo_state 8 demo_addr None)) =
    [Closed 8, Closed 8]"
proof -
  have "\<not> active (session_at demo_state 3)" by (simp add: session_at_def demo_cm_def)
  moreover have "3 < MAX_CLIENTS" by (simp add: limits)
  ultimately show ?thesis
    using refused_connection_closed_twice [OF demo_server_inv, of 8 "demo_libc\<lparr>libc_alloc := (\<lambda>_. False)\<rparr>"]
    by simp
qed

section \<open>The list of users\<close>

text \<open>The text the user list is meant to be.\<close>

definition online_text :: "string list \<Rightarrow> string" where
  "online_text names = ''*** Online users: '' @
     (if names = [] then ''None'' else drop 2 (concat (map (\<lambda>n. '', '' @ n) names))) @ '' ***'' @ [LF]"

definition online_names :: "client_session list \<Rightarrow> string list" where
  "online_names ss = map (\<lambda>s. cstr (nickname s)) (filter active ss)"

lemma user_list_loop_more:
  assumes "length buf < BUFFER_SIZE" and "0 < k"
  shows "user_list_loop ss buf k =
    (let t = buf @ concat (map (\<lambda>n. '', '' @ n) (online_names ss))
     in if length t < BUFFER_SIZE then Some (t, k + length (online_names ss)) else None)"
  using assms
  by (induction ss buf k rule: user_list_loop.induct)
    (auto simp: strcat_into_def online_names_def Let_def split: option.splits if_splits)

lemma user_list_loop_first:
  assumes "length buf < BUFFER_SIZE"
  shows "user_list_loop ss buf 0 =
    (let t = buf @ drop 2 (concat (map (\<lambda>n. '', '' @ n) (online_names ss)))
     in if length t < BUFFER_SIZE then Some (t, length (online_names ss)) else None)"
  using assms
proof (induction ss arbitrary: buf)
  case Nil
  then show ?case by (simp add: online_names_def)
next
  case (Cons s ss)
  show ?case
  proof (cases "active s \<and> length (buf @ cstr (nickname s)) < BUFFER_SIZE")
    case True
    with user_list_loop_more [of "buf @ cstr (nickname s)" 1 ss] show ?thesis
      by (simp add: strcat_into_def online_names_def Let_def)
  next
    case False
    with Cons show ?thesis by (auto simp: strcat_into_def online_names_def Let_def)
  qed
qed

lemma user_list_text_eq:
  "user_list_text ss =
     (if length (online_text (online_names ss)) < BUFFER_SIZE then Some (online_text (online_names ss)) else None)"
proof -
  have "length ''*** Online users: '' < BUFFER_SIZE" by (simp add: limits)
  note L = user_list_loop_first [OF this, of ss]
  show ?thesis
    unfolding user_list_text_def L
    by (cases "online_names ss = []") (auto simp: Let_def strcat_into_def online_text_def limits)
qed

text \<open>C22: The user list is built with strcat in an array of 1024 characters without a check of its length:
  the broadcast is defined (no write outside the array) exactly when the whole text, with a
  separator between every two nicknames, is shorter than 1024 characters; then every connected client
  gets exactly that text.\<close>

theorem user_list_defined_iff:
  fixes m :: client_manager
  defines "txt \<equiv> online_text (online_names (clients m))"
  shows "client_manager_broadcast_user_list w (Some m) =
    (if length txt < BUFFER_SIZE then Some (client_manager_broadcast_message w (Some m) (Some txt) (-1))
     else None)"
  by (simp add: client_manager_broadcast_user_list_def user_list_text_eq txt_def)

definition crowded_cm :: client_manager where
  "crowded_cm = \<lparr>clients = map (\<lambda>i. live_session i (int i) (replicate 31 CHR ''x'')) [0 ..< 40] @
     replicate 60 idle_session, cm_client_count = 40\<rparr>"

text \<open>The overflow happens for a consistent table of clients: 40 of the 100 clients with nicknames of
  31 characters (which the program allows) suffice.\<close>

theorem user_list_overflow_possible:
  "cm_inv crowded_cm \<and> cm_client_count crowded_cm = 40 \<and>
   client_manager_broadcast_user_list w (Some crowded_cm) = None"
proof -
  have act: "filter active (map (\<lambda>i. live_session i (int i) (replicate 31 CHR ''x'')) is) =
      map (\<lambda>i. live_session i (int i) (replicate 31 CHR ''x'')) is" for "is"
    by (induction "is") auto
  have cnt: "used_count active (clients crowded_cm) = 40"
    by (simp add: crowded_cm_def used_count_def act)
  have "session_ok s" if "s \<in> set (clients crowded_cm)" for s
    using that live_session_ok [of "replicate 31 CHR ''x''"] idle_session_ok
    by (auto simp: crowded_cm_def)
  moreover have "active (clients crowded_cm ! i) \<longrightarrow> session_client_id (clients crowded_cm ! i) = int i"
    if "i < MAX_CLIENTS" for i
    using that by (auto simp: crowded_cm_def nth_append limits)
  ultimately have inv: "cm_inv crowded_cm"
    using cnt by (simp add: cm_inv_def crowded_cm_def limits)
  have "online_names (clients crowded_cm) = replicate 40 (replicate 31 CHR ''x'')"
    by (simp add: online_names_def crowded_cm_def act o_def demo_nickname(1) map_replicate_const)
  then have "\<not> length (online_text (online_names (clients crowded_cm))) < BUFFER_SIZE"
    by (simp add: online_text_def length_concat sum_list_replicate limits o_def)
  then have "client_manager_broadcast_user_list w (Some crowded_cm) = None"
    by (simp add: client_manager_broadcast_user_list_def user_list_text_eq)
  with inv show ?thesis by (simp add: crowded_cm_def)
qed

end
