(* ===== verification/HandshakeProperties.thy ===== *)
theory HandshakeProperties
  imports Demo
begin

text \<open>
  The properties of the three way handshake: what both sides reach when they talk to each other, and
  what the server demands before it marks a session as established.
\<close>

text \<open>C10: An honest client and the server complete the handshake with each other: when each side
  receives exactly the packets the other side sent, both functions return 0 and consume all their
  input, the server sends one packet (SYN-ACK) and the client two (SYN, ACK), the session is
  established with the server's own sequence number, and its nickname is the client's, cut to 31
  characters.\<close>

theorem handshake_completes:
  assumes "send_all_ok w" and "send_all_ok v" and "length (nickname s) = MAX_NICKNAME_LEN"
    and "0 < strlen nick"
  shows "\<exists>w' v' s'.
    handshake_perform_client_side ce True w fd (Some nick)
      (map RecvData (sent_on (socket_fd s) (emitted v v'))) = (0, w', []) \<and>
    handshake_perform_server_side se v s (map RecvData (sent_on fd (emitted w w'))) = (0, v', s', []) \<and>
    length (emitted v v') = 1 \<and> length (emitted w w') = 2 \<and>
    handshake_state s' = HANDSHAKE_ESTABLISHED \<and>
    session_seq s' = handshake_generate_sequence_number se \<and>
    cstr (nickname s') = take (MAX_NICKNAME_LEN - 1) (cstr nick)"
proof -
  let ?cs = "handshake_generate_sequence_number ce" and ?ss = "handshake_generate_sequence_number se"
  let ?syn = "packet_bytes (client_syn ?cs nick)" and ?ack = "packet_bytes (client_ack ?cs ?ss nick)"
  let ?synack = "packet_bytes (server_syn_ack ?ss ?cs)" and ?n = "int packet_size"
  let ?w = "w\<lparr>trace := trace w @ [Sent fd ?syn ?n, Sent fd ?ack ?n]\<rparr>"
  let ?v = "v\<lparr>trace := trace v @ [Sent (socket_fd s) ?synack ?n]\<rparr>"
  let ?s = "(syn_session s (client_syn ?cs nick))\<lparr>session_seq := ?ss,
      handshake_state := HANDSHAKE_ESTABLISHED\<rparr>"
  have "handshake_perform_client_side ce True w fd (Some nick) [RecvData ?synack] = (0, ?w, [])"
    by (rule client_side_ok [OF assms(1) refl])
  moreover have "handshake_perform_server_side se v s [RecvData ?syn, RecvData ?ack] = (0, ?v, ?s, [])"
    by (rule server_side_ok [OF assms(2) refl])
  moreover have "cstr (nickname ?s) = take (MAX_NICKNAME_LEN - 1) (cstr nick)"
    using syn_session_nickname [OF assms(3,4), of ?cs] by simp
  ultimately show ?thesis
    by (intro exI [of _ ?w] exI [of _ ?v] exI [of _ ?s]) simp
qed

lemma demo_send_all_ok: "send_all_ok demo_world"
  by (simp add: send_all_ok_def demo_world_def)

theorem handshake_completes_witness:
  "\<exists>v' s'. handshake_state s' = HANDSHAKE_ESTABLISHED \<and> cstr (nickname s') = ''Dave'' \<and>
    (\<exists>ins. handshake_perform_server_side demo_libc demo_world idle_session ins = (0, v', s', []))"
proof -
  have "length (nickname idle_session) = MAX_NICKNAME_LEN" "0 < strlen ''Dave''"
    by (simp_all add: idle_session_def limits strlen_def cstr_def)
  from handshake_completes [OF demo_send_all_ok demo_send_all_ok this, where ce = demo_libc and se = demo_libc and fd = 3]
  show ?thesis by (auto simp: limits cstr_def)
qed

text \<open>C11: The server's handshake succeeds exactly when the first thing it receives is a whole packet
  of type SYN, its answer is sent completely, and the second is a whole packet of type ACK that
  acknowledges its sequence number plus one; in every other case it returns -1 and the session is
  marked as failed. A session is never left in a state in between.\<close>

theorem handshake_established_iff:
  assumes "handshake_perform_server_side e w s (r1 # r2 # ins) = (res, w', s', ins')"
  defines "seq \<equiv> handshake_generate_sequence_number e"
  shows "(res = 0 \<longleftrightarrow> (\<exists>syn ack. server_handshake_receive_packet r1 = Some syn \<and>
      pkt_type syn = HANDSHAKE_TYPE_SYN \<and>
      send_res w (length (trace w)) (socket_fd s) packet_size = int packet_size \<and>
      server_handshake_receive_packet r2 = Some ack \<and> pkt_type ack = HANDSHAKE_TYPE_ACK \<and>
      ack_num ack = seq + 1)) \<and>
    (res = 0 \<or> res = -1) \<and>
    handshake_state s' = (if res = 0 then HANDSHAKE_ESTABLISHED else HANDSHAKE_FAILED)"
proof -
  have n: "next_recv (r1 # r2 # ins) = (r1, r2 # ins)" "next_recv (r2 # ins) = (r2, ins)" by simp_all
  have sent: "fst (handshake_send_packet w (socket_fd s) (server_syn_ack q c)) < 0 \<longleftrightarrow>
      send_res w (length (trace w)) (socket_fd s) packet_size \<noteq> int packet_size" for q c
    using packet_bytes_length [OF packets_ok(1), of q c]
    by (simp add: handshake_send_packet_def sys_send_def Let_def)
  have "syn_received r1 = Some syn \<longleftrightarrow>
      server_handshake_receive_packet r1 = Some syn \<and> pkt_type syn = HANDSHAKE_TYPE_SYN" for syn
    by (auto simp: syn_received_def split: option.splits)
  moreover have "ack_received seq r2 \<longleftrightarrow> (\<exists>ack. server_handshake_receive_packet r2 = Some ack \<and>
      pkt_type ack = HANDSHAKE_TYPE_ACK \<and> ack_num ack = seq + 1)"
    by (auto simp: ack_received_def split: option.splits)
  ultimately show ?thesis
    using assms(1) [unfolded server_side_eq [OF n refl], folded seq_def] sent [of seq]
    by (auto simp: Let_def split_def split: option.splits if_splits)
qed

theorem handshake_established_iff_witness:
  "\<exists>w' s'. handshake_perform_server_side demo_libc demo_world idle_session [RecvClosed, RecvClosed] =
      (-1, w', s', [RecvClosed]) \<and> handshake_state s' = HANDSHAKE_FAILED"
proof -
  obtain res w' s' ins' where h: "handshake_perform_server_side demo_libc demo_world idle_session
      [RecvClosed, RecvClosed] = (res, w', s', ins')" by (metis prod_cases4)
  have r: "server_handshake_receive_packet RecvClosed = None" by (simp add: server_handshake_receive_packet_def)
  then have "ins' = [RecvClosed]" using h by (simp add: handshake_perform_server_side_def)
  with handshake_established_iff [OF h] r h show ?thesis by auto
qed

end
