(* ===== verification/CipherProperties.thy ===== *)
theory CipherProperties
  imports Demo CipherChannel
begin

text \<open>
  The properties of the message cipher between client and server: delivery, what the tag detects
  and what it does not, and the key rotation of the client.
\<close>

text \<open>C17: The first 1000 messages after the keys are set arrive: whatever the client encrypts with
  client buffers of size \<open>wcap\<close>, the server decrypts, in order and unchanged, as long as each message
  fits both buffers.\<close>

theorem first_thousand_messages_arrive:
  assumes "session_key a = session_key b" and "key_rotation_counter a = 0"
    and "length ps \<le> 1000" and "\<forall>p \<in> set ps. length p + 16 \<le> wcap \<and> length p \<le> rcap"
  shows "\<exists>ds a' b'. enc_all client_encrypt_data a wcap ps = Some (ds, a') \<and>
    dec_all server_decrypt_data b rcap ds = Some (ps, b')"
  by (rule c2s.channel_delivers) (use assms in \<open>simp_all add: c2s_in_step_def\<close>)

theorem first_thousand_messages_arrive_witness:
  "\<exists>ds a' b'. enc_all client_encrypt_data demo_enc 1040 [[1, 2], [3]] = Some (ds, a') \<and>
    dec_all server_decrypt_data demo_enc 1023 ds = Some ([[1, 2], [3]], b')"
  by (rule first_thousand_messages_arrive)
    (simp_all add: demo_enc_def zero_encryption_context_def)

section \<open>The tag\<close>

lemma foldr_xor: "foldr (XOR) bs (x :: byte) = foldr (XOR) bs 0 XOR x"
  by (induction bs) (simp_all add: ac_simps)

text \<open>C20: The tag, which the code computes in one pass that updates the 16 tag bytes in turn, is the column
  parity of the text: tag byte \<open>j\<close> is the exclusive or of the bytes at the positions with remainder
  \<open>j\<close> modulo 16. No key enters it.\<close>

theorem tag_is_column_parity:
  "tag_loop p = map (\<lambda>j. foldr (XOR) (map ((!) p) (filter (\<lambda>i. i mod 16 = j) [0 ..< length p])) 0) [0 ..< 16]"
proof (induction p rule: rev_induct)
  case Nil
  show ?case by (simp add: map_replicate_const)
next
  case (snoc x p)
  let ?col = "\<lambda>q j. foldr (XOR) (map ((!) q) (filter (\<lambda>i. i mod 16 = j) [0 ..< length q])) 0"
  have old: "map ((!) (p @ [x])) (filter (\<lambda>i. i mod 16 = j) [0 ..< length p]) =
      map ((!) p) (filter (\<lambda>i. i mod 16 = j) [0 ..< length p])" for j
    by (rule map_cong) (auto simp: nth_append)
  show ?case
  proof (rule nth_equalityI)
    fix j assume "j < length (tag_loop (p @ [x]))"
    then have "j < 16" by simp
    then show "tag_loop (p @ [x]) ! j = map (?col (p @ [x])) [0 ..< 16] ! j"
      using snoc by (simp add: tag_loop_snoc nth_list_update old foldr_xor [of _ x] del: map_eq_conv)
  qed simp
qed

text \<open>The tag of a short change is the change itself, so a change of a short message without a change of
  the tag is noticed.\<close>

lemma tag_short_nonzero:
  assumes "length e \<le> 16" and "i < length e" and "e ! i \<noteq> 0"
  shows "tag_loop e \<noteq> replicate 16 0"
  using tag_short [OF assms(1,2)] assms by (metis nth_replicate order_less_le_trans)

text \<open>C18: The tag detects an error but no attack: a message whose data were changed by any pattern
  \<open>e\<close> and whose tag by \<open>f\<close> is accepted exactly when \<open>f\<close> is the tag of \<open>e\<close>, which needs no
  key to compute, and the server then reads the plaintext changed by \<open>e\<close>; otherwise it is
  rejected and the context is left alone.\<close>

theorem modified_message_accepted_iff:
  assumes "client_encrypt_data (Some a) (Some p) wcap = (Some d, ap)"
    and "session_key a = session_key b" and "length e = length p" and "length f = 16"
    and "length p \<le> cap"
  shows "server_decrypt_data (Some b) (Some (xor_bytes d (e @ f))) cap =
    (if f = tag_loop e then (Some (xor_bytes p e), Some (b\<lparr>sequence_number := sequence_number b + 1\<rparr>))
     else (None, Some b))"
proof -
  have "d = perform_xor (session_key a) p @ tag_loop p" using assms(1) by (simp add: client_encrypt_Some)
  then have d: "xor_bytes d (e @ f) = xor_bytes (perform_xor (session_key a) p) e @ xor_bytes (tag_loop p) f"
    using assms(3,4) by (simp add: zip_append)
  have "xor_bytes (replicate (length e) 0) e = e" by (rule nth_equalityI) simp_all
  then have "xor_bytes (key_delta (session_key a) (session_key b) (length p)) e = e"
    using assms(2,3) by (simp add: key_delta_same)
  then show ?thesis unfolding d server_decrypt_modified [OF assms(3-5)] by (simp add: Let_def)
qed

theorem modified_message_accepted_iff_witness:
  "\<exists>d. fst (client_encrypt_data (Some demo_enc) (Some [1, 2]) 1040) = Some d \<and>
    fst (server_decrypt_data (Some demo_enc) (Some (xor_bytes d ([7, 0] @ tag_loop [7, 0]))) 1023) = Some [6, 2] \<and>
    fst (server_decrypt_data (Some demo_enc) (Some (xor_bytes d ([7, 0] @ replicate 16 0))) 1023) = None"
proof -
  obtain d ap where e: "client_encrypt_data (Some demo_enc) (Some [1, 2]) 1040 = (Some d, ap)"
    using c2s.enc_ok [of "[1, 2]" 1040 demo_enc] by auto
  have t: "tag_loop [7, 0] \<noteq> replicate 16 0" by (rule tag_short_nonzero [where i = 0]) simp_all
  from t have t': "replicate 16 0 \<noteq> tag_loop [7, 0]" by metis
  have "fst (server_decrypt_data (Some demo_enc) (Some (xor_bytes d ([7, 0] @ tag_loop [7, 0]))) 1023) =
      Some (xor_bytes [1, 2] [7, 0])"
    by (subst modified_message_accepted_iff [OF e refl]) simp_all
  moreover have "fst (server_decrypt_data (Some demo_enc) (Some (xor_bytes d ([7, 0] @ replicate 16 0))) 1023) = None"
    by (subst modified_message_accepted_iff [OF e refl]) (use t' in simp_all)
  ultimately show ?thesis using e by simp
qed

text \<open>C19: The client changes its key with its 1000th message and the server never does: the server
  still reads the 1000th message, but rejects the next one (of 1 to 16 bytes), whatever it says.\<close>

theorem message_after_rotation_rejected:
  assumes "session_key a = session_key b" and "length (session_key a) = 32"
    and "key_rotation_counter a = 999"
    and "client_encrypt_data (Some a) (Some p) wcap = (Some d, Some a')" and "length p \<le> cap"
    and "client_encrypt_data (Some a') (Some q) wcap = (Some d', ap'')"
    and "q \<noteq> []" and "length q \<le> 16" and "length q \<le> cap"
  shows "\<exists>b'. server_decrypt_data (Some b) (Some d) cap = (Some p, Some b') \<and>
    server_decrypt_data (Some b') (Some d') cap = (None, Some b')"
proof -
  let ?b = "b\<lparr>sequence_number := sequence_number b + 1\<rparr>"
  let ?k = "session_key a'" and ?e = "key_delta (session_key a') (session_key b) (length q)"
  have first: "server_decrypt_data (Some b) (Some d) cap = (Some p, Some ?b)"
    by (rule server_decrypt_client_encrypt [OF assms(1,5,4)])
  have a': "session_key a' = map (\<lambda>x. (x + 1) AND 255) (session_key a)"
    using assms(3,4) by (simp add: client_encrypt_Some check_key_rotation_def)
  have d': "d' = xor_bytes (perform_xor ?k q) (replicate (length q) 0) @ xor_bytes (tag_loop q) (replicate 16 0)"
    using assms(6) xor_bytes_zero [of "perform_xor ?k q"] xor_bytes_zero [of "tag_loop q"]
    by (simp add: client_encrypt_Some)
  have "?e ! 0 \<noteq> 0"
    using assms(1,2,7) byte_plus_one_neq [of "session_key b ! 0"] by (simp add: a' xor_eq_0_iff)
  then have "tag_loop ?e \<noteq> replicate 16 0"
    by (intro tag_short_nonzero [where i = 0]) (use assms(7,8) in simp_all)
  then have "replicate 16 0 \<noteq> tag_loop ?e" by metis
  then have "server_decrypt_data (Some ?b) (Some d') cap = (None, Some ?b)"
    unfolding d' using server_decrypt_modified [of "replicate (length q) 0" q "replicate 16 0" cap ?b ?k] assms(9)
      xor_bytes_zero [of ?e] by (simp add: Let_def)
  with first show ?thesis by blast
qed

theorem message_after_rotation_rejected_witness:
  "\<exists>a d d' b'. session_key a = default_session_key \<and>
    fst (client_encrypt_data (Some a) (Some [5]) 1040) = Some d \<and>
    server_decrypt_data (Some demo_enc) (Some d) 1023 = (Some [5], Some b') \<and>
    server_decrypt_data (Some b') (Some d') 1023 = (None, Some b')"
proof -
  let ?a = "demo_enc\<lparr>key_rotation_counter := 999\<rparr>"
  have k: "session_key ?a = session_key demo_enc" "length (session_key ?a) = 32"
    "session_key ?a = default_session_key" "key_rotation_counter ?a = 999"
    by (simp_all add: demo_enc_def)
  obtain d a' where e: "client_encrypt_data (Some ?a) (Some [5]) 1040 = (Some d, Some a')"
    using c2s.enc_ok [of "[5]" 1040 ?a] by auto
  obtain d' a'' where e': "client_encrypt_data (Some a') (Some [6]) 1040 = (Some d', Some a'')"
    using c2s.enc_ok [of "[6]" 1040 a'] by auto
  from message_after_rotation_rejected [OF k(1,2,4) e _ e', of 1023] e k(3) show ?thesis
    by (intro exI [of _ ?a]) auto
qed

end
