(* ===== verification/ClientProgram.thy ===== *)
theory ClientProgram
  imports ClientMain CliArgs
begin

text \<open>
  The client program as a whole, \<^verbatim>\<open>main()\<close> of \<^verbatim>\<open>client/src/main.c\<close>: the input loop and the receiver
  thread run side by side on the same client, so their inputs are one list of events in the order in
  which they are handled, a typed line being one turn of the loop and arrived data one turn of the
  thread. Further the signal handler, and what the programs print about themselves (log lines
  without their prefix).
\<close>

section \<open>Two threads\<close>

datatype client_event =
  Typed string \<comment> \<open>a line read from the terminal\<close>
| Arrived bool recv_result \<comment> \<open>whether the receive timed out, and its result\<close>

record client_run =
  run_client :: chat_client
  run_world :: world
  run_rng :: rng
  run_reading :: bool \<comment> \<open>the input loop has not been left\<close>
  run_receiving :: bool \<comment> \<open>the receiver thread has not ended\<close>
  run_shown :: "shown list"

definition typed_step ::
  "libc \<Rightarrow> global_security \<Rightarrow> e2e_key_exchange_packet \<Rightarrow> e2e_encrypted_packet \<Rightarrow> client_run \<Rightarrow> string \<Rightarrow> client_run" where
  "typed_step e gs kx0 enc0 s line =
     (if \<not> run_reading s then s
      else (let c = run_client s; w = run_world s; g = run_rng s
            in case main_parse_line line of
                 LineQuit \<Rightarrow> s\<lparr>run_reading := False\<rparr>
               | LineE2E recipient message \<Rightarrow>
                   (let (_, g', w', c') = client_send_e2e_message e g gs enc0 w c (Some message) (Some recipient)
                    in s\<lparr>run_client := c', run_world := w', run_rng := g'\<rparr>)
               | LineLocal \<Rightarrow> s
               | LineKeyRefresh \<Rightarrow>
                   (let (_, w', c') = client_broadcast_public_key gs kx0 w c
                    in s\<lparr>run_client := c', run_world := w'\<rparr>)
               | LineSend input \<Rightarrow>
                   if \<not> connected c then s\<lparr>run_reading := False\<rparr>
                   else (let (r, w', c') = client_send_message gs w c (Some input)
                         in s\<lparr>run_client := c', run_world := w', run_reading := \<not> r < 0\<rparr>)))"

definition arrived_step :: "client_run \<Rightarrow> bool \<Rightarrow> recv_result \<Rightarrow> client_run option" where
  "arrived_step s timed_out r =
     (if \<not> run_receiving s then Some s
      else if \<not> connected (run_client s) then Some (s\<lparr>run_receiving := False\<rparr>)
      else (case receiver_iteration timed_out (run_client s) r of
              None \<Rightarrow> None
            | Some (go_on, c', out) \<Rightarrow>
                Some (s\<lparr>run_client := c', run_receiving := go_on, run_shown := run_shown s @ out\<rparr>)))"

fun client_events ::
  "libc \<Rightarrow> global_security \<Rightarrow> e2e_key_exchange_packet \<Rightarrow> e2e_encrypted_packet \<Rightarrow> client_run \<Rightarrow>
     client_event list \<Rightarrow> client_run option" where
  "client_events e gs kx0 enc0 s [] = Some s"
| "client_events e gs kx0 enc0 s (Typed line # evs) =
     client_events e gs kx0 enc0 (typed_step e gs kx0 enc0 s line) evs"
| "client_events e gs kx0 enc0 s (Arrived timed_out r # evs) =
     (case arrived_step s timed_out r of
        None \<Rightarrow> None
      | Some s' \<Rightarrow> client_events e gs kx0 enc0 s' evs)"

section \<open>The program\<close>

text \<open>What the system answers: \<^verbatim>\<open>socket()\<close>, \<^verbatim>\<open>connect()\<close>, \<^verbatim>\<open>setsockopt()\<close>, the mutex of the encryption
  context, the data of the handshake, and \<^verbatim>\<open>pthread_create()\<close>.\<close>

record client_system =
  sys_socket :: int
  sys_connect :: bool
  sys_timeout :: bool
  sys_mutex :: bool
  sys_handshake :: "recv_result list"
  sys_thread :: bool

text \<open>The result is the exit code with the final world. \<open>sel\<close> are the lines typed during the room
  selection, \<open>evs\<close> the events after it, until the input ends.\<close>

definition client_main ::
  "libc \<Rightarrow> u64 \<Rightarrow> u64 \<Rightarrow> global_security \<Rightarrow> client_setup \<Rightarrow> chat_client \<Rightarrow> security_context \<Rightarrow>
     encryption_context \<Rightarrow> rng \<Rightarrow> e2e_key_exchange_packet \<Rightarrow> e2e_encrypted_packet \<Rightarrow> client_system \<Rightarrow>
     string list \<Rightarrow> world \<Rightarrow> string list \<Rightarrow> client_event list \<Rightarrow> (int \<times> world \<times> shown list) option" where
  "client_main e la fa gs u c0 raw raw_enc g kx0 enc0 sys argv w sel evs =
     (case client_parse_args argv of
        None \<Rightarrow> None
      | Some args \<Rightarrow>
          if \<not> ca_valid args then Some (1, w, [])
          else (case client_create e la fa gs u c0 raw raw_enc False g (Some (ca_ip args)) (ca_port args)
                       (ca_nickname args) of
                  (None, g1) \<Rightarrow> Some (1, w, [])
                | (Some c, g1) \<Rightarrow>
                    (let (r, w1, c1) = client_connect_to_server e gs kx0 (sys_socket sys) (sys_connect sys)
                                         (sys_timeout sys) (sys_mutex sys) w c (sys_handshake sys)
                     in if r < 0 then Some (1, fst (client_destroy w1 c1), [])
                        else if \<not> sys_thread sys then Some (1, fst (client_destroy w1 c1), [])
                        else (let (r2, w2, c2, _) = main_handle_room_selection gs w1 c1 sel
                              in if r2 < 0 then Some (0, fst (main_exit w2 c2), [])
                                 else (case client_events e gs kx0 enc0
                                              \<lparr>run_client = c2, run_world = w2, run_rng = g1, run_reading = True,
                                               run_receiving = True, run_shown = []\<rparr> evs of
                                         None \<Rightarrow> None
                                       | Some s \<Rightarrow> Some (0, fst (main_exit (run_world s) (run_client s)),
                                                         run_shown s))))))"

text \<open>The handler of SIGINT and SIGTERM; the program exits with 0 after it.\<close>

definition client_signal_handler :: "world \<Rightarrow> chat_client ptr \<Rightarrow> int \<times> world \<times> chat_client ptr" where
  "client_signal_handler w cp =
     (case cp of
        None \<Rightarrow> (0, w, None)
      | Some c \<Rightarrow> (let (w', c') = client_disconnect w c in (0, w', Some c')))"

section \<open>Output\<close>

definition client_print_usage :: "string \<Rightarrow> string list" where
  "client_print_usage name =
     [''Usage: '' @ name @ '' <nickname> [options]'', ''Options:'',
      ''  -h, --host <ip>    Server IP address (default: 127.0.0.1)'',
      ''  -p, --port <port>  Server port (default: 8080)'',
      ''  --help             Show this help message'', ''Example:'',
      ''  '' @ name @ '' Alice'', ''  '' @ name @ '' Bob --host 192.168.1.100 --port 9000'']"

definition server_print_usage :: "string \<Rightarrow> string list" where
  "server_print_usage name =
     [''Usage: '' @ name @ '' [port] [ip]'',
      ''  port: Port number to listen on (1-65535, default: 8080)'',
      ''  ip:   IP address to bind to (default: 127.0.0.1)'']"

text \<open>The terminator is written at index 32 of an array of twice the key length and one: outside of it
  for a key of less than 16 bytes (\<open>None\<close>).\<close>

definition e2e_print_key :: "byte list ptr \<Rightarrow> string ptr \<Rightarrow> string list option" where
  "e2e_print_key keyp labelp =
     (case (keyp, labelp) of
        (Some key, Some label) \<Rightarrow>
          if 32 < length key * 2 + 1
          then Some [label @ '': '' @ hex_bytes (take 16 key) @ ''...''] else None
      | _ \<Rightarrow> Some [])"

section \<open>The loop without arrivals\<close>

lemma client_events_append:
  "client_events e gs kx0 enc0 s (evs @ fs) =
     (case client_events e gs kx0 enc0 s evs of
        None \<Rightarrow> None | Some s' \<Rightarrow> client_events e gs kx0 enc0 s' fs)"
  by (induction e gs kx0 enc0 s evs rule: client_events.induct) (auto split: option.splits)

lemma typed_after_end: "\<not> run_reading s \<Longrightarrow> typed_step e gs kx0 enc0 s line = s"
  by (simp add: typed_step_def)

lemma typed_lines_after_end:
  "\<not> run_reading s \<Longrightarrow> client_events e gs kx0 enc0 s (map Typed lines) = Some s"
  by (induction lines) (simp_all add: typed_after_end)

lemma typed_lines_loop:
  "run_reading s \<Longrightarrow> \<exists>s'. client_events e gs kx0 enc0 s (map Typed lines) = Some s' \<and>
     main_chat_loop e gs kx0 enc0 (run_rng s) (run_world s) (run_client s) lines = (run_world s', run_client s')"
proof (induction lines arbitrary: s)
  case Nil
  then show ?case by simp
next
  case (Cons line lines)
  let ?s1 = "typed_step e gs kx0 enc0 s line"
  have ev: "client_events e gs kx0 enc0 s (map Typed (line # lines)) =
      client_events e gs kx0 enc0 ?s1 (map Typed lines)" by simp
  show ?case
  proof (cases "run_reading ?s1")
    case True
    then have "main_chat_loop e gs kx0 enc0 (run_rng s) (run_world s) (run_client s) (line # lines) =
        main_chat_loop e gs kx0 enc0 (run_rng ?s1) (run_world ?s1) (run_client ?s1) lines"
      using Cons.prems by (auto simp: typed_step_def Let_def split: line_action.splits prod.splits if_splits)
    with Cons.IH [OF True] ev show ?thesis by simp
  next
    case False
    then have "main_chat_loop e gs kx0 enc0 (run_rng s) (run_world s) (run_client s) (line # lines) =
        (run_world ?s1, run_client ?s1)"
      using Cons.prems by (auto simp: typed_step_def Let_def split: line_action.splits prod.splits if_splits)
    with typed_lines_after_end [OF False] ev show ?thesis by simp
  qed
qed

text \<open>Once both threads have ended, nothing happens.\<close>

lemma events_after_end:
  "\<not> run_reading s \<Longrightarrow> \<not> run_receiving s \<Longrightarrow> client_events e gs kx0 enc0 s evs = Some s"
proof (induction evs)
  case (Cons ev evs)
  then show ?case by (cases ev) (simp_all add: typed_after_end arrived_step_def)
qed simp

end
