(* ===== verification/E2EProperties.thy ===== *)
theory E2EProperties
  imports E2ECrypto Demo
begin

text \<open>
  The properties of the end-to-end layer: the exchange of keys, and what its secrets, its packets and
  its removal of padding amount to.
\<close>

section \<open>Generated keys\<close>

definition keypair_ok :: "e2e_keypair \<Rightarrow> bool" where
  "keypair_ok k \<longleftrightarrow> length (private_key k) = E2E_KEY_SIZE \<and> length (user_id k) = 16 \<and>
     public_key k = public_key_of (private_key k) (user_id k)"

lemma generate_keypair_ok:
  assumes "e2e_generate_keypair e g (Some k0) (Some nick) = (r, g', Some k)"
  shows "r = 0 \<and> keypair_ok k"
proof -
  have len: "length (fst (generate_random_bytes e g' n)) = n" for g' n
    by (simp add: generate_random_bytes_def rand_bytes_def)
  show ?thesis
    using assms len [of g E2E_KEY_SIZE]
    by (auto simp: e2e_generate_keypair_def e2e_generate_user_id_def keypair_ok_def Let_def split: prod.splits)
qed

text \<open>C25: Two parties with generated keys derive the same secret from each other's public key exactly when
  their user ids are equal and the second halves of their private keys are equal; for two distinct
  users it never happens.\<close>

theorem secrets_agree_iff:
  assumes "e2e_generate_keypair ea ga (Some a0) (Some na) = (ra, ga', Some a)"
    and "e2e_generate_keypair eb gb (Some b0) (Some nb) = (rb, gb', Some b)"
  shows "derive_shared_secret (private_key a) (public_key b) =
      derive_shared_secret (private_key b) (public_key a) \<longleftrightarrow>
    user_id a = user_id b \<and> drop 16 (private_key a) = drop 16 (private_key b)"
  using generate_keypair_ok [OF assms(1)] generate_keypair_ok [OF assms(2)]
    derive_agree_iff [of "private_key a" "private_key b" "user_id a" "user_id b"]
  by (auto simp: keypair_ok_def E2E_KEY_SIZE_def)

definition demo_rng :: rng where
  "demo_rng = \<lparr>seeded = False, rng_seed = 0, rng_pos = 0\<rparr>"

lemma generate_demo:
  "\<exists>g k. e2e_generate_keypair e demo_rng (Some zero_keypair) (Some nick) = (0, g, Some k) \<and>
     Some (user_id k) = e2e_generate_user_id e (Some nick)"
  by (auto simp: e2e_generate_keypair_def e2e_generate_user_id_def Let_def split: prod.splits)

lemma demo_ids:
  assumes "e2e_generate_user_id demo_libc (Some ''Alice'') = Some a"
    and "e2e_generate_user_id demo_libc (Some ''Bob'') = Some b"
  shows "a \<noteq> b"
proof -
  have "a ! 0 \<noteq> b ! 0"
    using assms by (auto simp: e2e_generate_user_id_def strlen_def cstr_def Let_def upt_rec demo_libc_def)
  then show ?thesis by auto
qed

theorem secrets_agree_iff_witness:
  "\<exists>a b g h. e2e_generate_keypair demo_libc demo_rng (Some zero_keypair) (Some ''Alice'') = (0, g, Some a) \<and>
    e2e_generate_keypair demo_libc demo_rng (Some zero_keypair) (Some ''Bob'') = (0, h, Some b) \<and>
    derive_shared_secret (private_key a) (public_key b) \<noteq> derive_shared_secret (private_key b) (public_key a)"
proof -
  obtain g a where a: "e2e_generate_keypair demo_libc demo_rng (Some zero_keypair) (Some ''Alice'') = (0, g, Some a)"
    "Some (user_id a) = e2e_generate_user_id demo_libc (Some ''Alice'')" using generate_demo by blast
  obtain h b where b: "e2e_generate_keypair demo_libc demo_rng (Some zero_keypair) (Some ''Bob'') = (0, h, Some b)"
    "Some (user_id b) = e2e_generate_user_id demo_libc (Some ''Bob'')" using generate_demo by blast
  from secrets_agree_iff [OF a(1) b(1)] demo_ids [OF a(2) [symmetric] b(2) [symmetric]] a(1) b(1)
  show ?thesis by blast
qed

text \<open>C28: The public part of a key exchange packet contains half of the private key: whoever reads a packet
  made by \<^verbatim>\<open>e2e_create_key_exchange_packet\<close> computes the last 16 bytes of the sender's private
  key from the public key and the user id in it.\<close>

theorem key_packet_reveals_private_half:
  assumes "e2e_generate_keypair e g (Some k0) (Some nick) = (r, g', Some k)" and "my_keys c = k"
    and "e2e_create_key_exchange_packet (Some c) (Some p0) = (r', Some p)"
  shows "recovered_key_half (kx_public_key p) (kx_user_id p) = drop 16 (private_key k)"
  using generate_keypair_ok [OF assms(1)] assms(2,3) recovered_key_half_eq [of "private_key k" "user_id k"]
  by (auto simp: e2e_create_key_exchange_packet_def keypair_ok_def E2E_KEY_SIZE_def Let_def)

definition demo_kx :: e2e_key_exchange_packet where
  "demo_kx = \<lparr>kx_user_id = [], kx_public_key = [], kx_nickname = replicate 64 NUL, kx_signature = []\<rparr>"

theorem key_packet_reveals_private_half_witness:
  "\<exists>k p. recovered_key_half (kx_public_key p) (kx_user_id p) = drop 16 (private_key k) \<and>
    e2e_create_key_exchange_packet (Some (zero_e2e_context\<lparr>my_keys := k\<rparr>)) (Some demo_kx) = (0, Some p)"
proof -
  obtain g k where k: "e2e_generate_keypair demo_libc demo_rng (Some zero_keypair) (Some ''Alice'') = (0, g, Some k)"
    using generate_demo by blast
  obtain p where p: "e2e_create_key_exchange_packet (Some (zero_e2e_context\<lparr>my_keys := k\<rparr>)) (Some demo_kx) = (0, Some p)"
    by (auto simp: e2e_create_key_exchange_packet_def Let_def)
  from key_packet_reveals_private_half [OF k _ p] p show ?thesis by auto
qed

section \<open>The exchange of keys\<close>

lemma peer_registration:
  assumes "e2e_create_key_exchange_packet (Some a) (Some p0) = (r, Some p)" and "peers_ok b"
    and "length (kx_nickname p0) = E2E_NICKNAME_LEN"
  shows "\<exists>b'. e2e_add_peer_key (Some b) (Some p) = (if num_peers b < MAX_CLIENTS_E2E then 0 else -1, Some b') \<and>
    peers_ok b' \<and> peer_lookup b' = (if num_peers b < MAX_CLIENTS_E2E
      then (peer_lookup b)(user_id (my_keys a) \<mapsto>
             (public_key (my_keys a), take 63 (cstr (kp_nickname (my_keys a)))))
      else peer_lookup b)"
proof -
  have p: "kx_user_id p = user_id (my_keys a)" "kx_public_key p = public_key (my_keys a)"
    and sig: "packet_verifies p" and nick: "kx_nickname p =
      (strncpy (kx_nickname p0) (kp_nickname (my_keys a)) 63)[63 := NUL]"
    using assms(1) by (auto simp: e2e_create_key_exchange_packet_def packet_verifies_def
        e2e_verify_key_exchange_packet_def Let_def limits)
  have "cstr (kx_nickname p) = take 63 (cstr (kp_nickname (my_keys a)))"
    unfolding nick by (rule strncpy_terminated(2)) (simp add: assms(3) limits)
  then have val: "peer_key_value p = (public_key (my_keys a), take 63 (cstr (kp_nickname (my_keys a))))"
    by (simp add: peer_key_value_def p limits)
  have code: "e2e_add_peer_key (Some b) (Some p) = (r, Some b') \<longleftrightarrow> peer_add b p = (r, b')" for r b'
    by (auto simp: peer_add_def e2e_add_peer_key_def split: option.splits)
  show ?thesis
  proof (cases "num_peers b < MAX_CLIENTS_E2E")
    case True
    then have "\<not> peers_full b" by (simp add: peers_full_def)
    from peer_table.add_ok [OF assms(2) this sig] val p(1) True show ?thesis by (auto simp: code)
  next
    case False
    then have "peers_full b" by (simp add: peers_full_def)
    with peer_table.add_refused [of b p] False assms(2) show ?thesis by (simp add: code)
  qed
qed

text \<open>C24: A key exchange packet made by a client is accepted by every client whose table of peers is not
  full, and registers the sender: a lookup of the sender's user id then gives the sender's public key
  and nickname (cut to 63 characters), no other lookup changes, and the table stays well formed. A full table of
  64 entries refuses the packet, even from a peer it already knows.\<close>

theorem key_exchange_registers_sender:
  assumes "e2e_create_key_exchange_packet (Some a) (Some p0) = (r, Some p)" and "peers_ok b"
    and "length (kx_nickname p0) = E2E_NICKNAME_LEN"
  shows "\<exists>b'. e2e_add_peer_key (Some b) (Some p) = (if num_peers b < MAX_CLIENTS_E2E then 0 else -1, Some b') \<and>
    peers_ok b' \<and> peer_lookup b' = (if num_peers b < MAX_CLIENTS_E2E
      then (peer_lookup b)(user_id (my_keys a) \<mapsto>
             (public_key (my_keys a), take 63 (cstr (kp_nickname (my_keys a)))))
      else peer_lookup b)"
  using assms by (rule peer_registration)

lemma zero_peers_ok: "peers_ok zero_e2e_context"
  by (simp add: peers_ok_def zero_e2e_context_def zero_peer_def)

theorem key_exchange_registers_sender_witness:
  "\<exists>p b'. e2e_create_key_exchange_packet (Some zero_e2e_context) (Some demo_kx) = (0, Some p) \<and>
    e2e_add_peer_key (Some zero_e2e_context) (Some p) = (0, Some b') \<and>
    peer_lookup b' (replicate 16 0) = Some (replicate 32 0, [])"
proof -
  obtain p where p: "e2e_create_key_exchange_packet (Some zero_e2e_context) (Some demo_kx) = (0, Some p)"
    by (auto simp: e2e_create_key_exchange_packet_def Let_def)
  have "length (kx_nickname demo_kx) = E2E_NICKNAME_LEN" by (simp add: demo_kx_def limits)
  from key_exchange_registers_sender [OF p zero_peers_ok this] p show ?thesis
    by (auto simp: zero_e2e_context_def zero_keypair_def limits)
qed

section \<open>Messages\<close>

lemma peer_lookup_key:
  "peer_lookup c uid = Some (pub, nick) \<Longrightarrow>
     \<exists>q. e2e_find_peer_key (Some c) (Some uid) = Some q \<and> peer_public_key q = pub"
  by (auto simp: peer_lookup_def peer_entry_def)

lemma e2e_encrypt_ok:
  assumes "peer_lookup c rid = Some v" and "strlen txt < E2E_MAX_MESSAGE_SIZE - 32"
  shows "\<exists>g' p. e2e_encrypt_message e g (Some c) (Some txt) (Some rid) (Some p0) = (0, g', Some p)"
  using assms by (auto simp: e2e_encrypt_message_def peer_lookup_def Let_def split: prod.splits)

text \<open>C26: No end-to-end message between two different users is ever read: when both have exchanged
  their keys and the sender encrypts a message for the recipient successfully, the recipient rejects the
  packet, because the two derive different secrets.\<close>

theorem honest_message_rejected:
  assumes "keypair_ok (my_keys a)" and "keypair_ok (my_keys b)"
    and "user_id (my_keys a) \<noteq> user_id (my_keys b)"
    and "peer_lookup a (user_id (my_keys b)) = Some (public_key (my_keys b), nb)"
    and "peer_lookup b (user_id (my_keys a)) = Some (public_key (my_keys a), na)"
    and "e2e_encrypt_message e g (Some a) (Some txt) (Some (user_id (my_keys b))) (Some p0) = (0, g', Some p)"
  shows "e2e_decrypt_message (Some b) (Some p) (Some cap) = Some None"
proof -
  let ?a = "my_keys a" and ?b = "my_keys b"
  let ?ka = "derive_shared_secret (private_key ?a) (public_key ?b)"
  let ?kb = "derive_shared_secret (private_key ?b) (public_key ?a)"
  obtain peer where peer: "e2e_find_peer_key (Some a) (Some (user_id ?b)) = Some peer"
    and s: "sender_id p = user_id ?a" "recipient_id p = user_id ?b"
    and mac: "enc_signature p = e2e_mac (user_id ?a) (user_id ?b)
        (derive_shared_secret (private_key ?a) (peer_public_key peer))"
    by (rule encrypt_success [OF assms(6)]) auto
  obtain q where q: "e2e_find_peer_key (Some b) (Some (user_id ?a)) = Some q" "peer_public_key q = public_key ?a"
    using peer_lookup_key [OF assms(5)] by blast
  have ids: "length (user_id ?a) = 16" "length (user_id ?b) = 16"
    using assms(1,2) by (simp_all add: keypair_ok_def)
  have "?ka \<noteq> ?kb"
    using assms(1-3) derive_agree_iff [of "private_key ?a" "private_key ?b" "user_id ?a" "user_id ?b"]
    by (simp add: keypair_ok_def E2E_KEY_SIZE_def)
  then have "e2e_mac (user_id ?a) (user_id ?b) ?ka \<noteq> e2e_mac (user_id ?a) (user_id ?b) ?kb"
    using mac_inject [OF ids, of ?ka ?kb] by simp
  moreover have "enc_signature p = e2e_mac (user_id ?a) (user_id ?b) ?ka"
    using mac peer peer_lookup_key [OF assms(4)] by auto
  ultimately show ?thesis using q s by (simp add: e2e_decrypt_message_def)
qed

text \<open>The contexts of two users who know each other.\<close>

definition knows :: "e2e_keypair \<Rightarrow> e2e_keypair \<Rightarrow> e2e_context" where
  "knows k l = zero_e2e_context\<lparr>my_keys := k, num_peers := 1,
     peer_keys := (peer_keys zero_e2e_context)[0 := \<lparr>peer_public_key = public_key l,
       peer_user_id = user_id l, peer_nickname = kp_nickname l, peer_active = True\<rparr>]\<rparr>"

lemma knows_lookup:
  "peer_lookup (knows k l) (user_id l) = Some (public_key l, cstr (kp_nickname l))" "my_keys (knows k l) = k"
proof -
  have "take 1 (peer_keys (knows k l)) = [\<lparr>peer_public_key = public_key l, peer_user_id = user_id l,
      peer_nickname = kp_nickname l, peer_active = True\<rparr>]"
    by (simp add: knows_def zero_e2e_context_def MAX_CLIENTS_E2E_def numeral_eq_Suc)
  then show "peer_lookup (knows k l) (user_id l) = Some (public_key l, cstr (kp_nickname l))"
    by (simp add: peer_lookup_map_of peer_entry_def) (simp add: knows_def peer_entry_def)
qed (simp add: knows_def)

theorem honest_message_rejected_witness:
  "\<exists>a b g' p0 p. e2e_encrypt_message demo_libc demo_rng (Some a) (Some ''hi'') (Some (user_id (my_keys b)))
      (Some p0) = (0, g', Some p) \<and>
    e2e_decrypt_message (Some b) (Some p) (Some 1024) = Some None"
proof -
  obtain g a where a: "e2e_generate_keypair demo_libc demo_rng (Some zero_keypair) (Some ''Alice'') = (0, g, Some a)"
    "Some (user_id a) = e2e_generate_user_id demo_libc (Some ''Alice'')" using generate_demo by blast
  obtain h b where b: "e2e_generate_keypair demo_libc demo_rng (Some zero_keypair) (Some ''Bob'') = (0, h, Some b)"
    "Some (user_id b) = e2e_generate_user_id demo_libc (Some ''Bob'')" using generate_demo by blast
  have ne: "user_id a \<noteq> user_id b" by (rule demo_ids [OF a(2) [symmetric] b(2) [symmetric]])
  let ?a = "knows a b" and ?b = "knows b a"
  have "strlen ''hi'' < E2E_MAX_MESSAGE_SIZE - 32" by (simp add: strlen_def cstr_def limits)
  from e2e_encrypt_ok [OF knows_lookup(1) [of a b] this] obtain g' p and p0 :: e2e_encrypted_packet where
    e: "e2e_encrypt_message demo_libc demo_rng (Some ?a) (Some ''hi'') (Some (user_id b)) (Some p0) = (0, g', Some p)"
    by blast
  have "e2e_decrypt_message (Some ?b) (Some p) (Some 1024) = Some None"
    by (rule honest_message_rejected [of ?a ?b "cstr (kp_nickname b)" "cstr (kp_nickname a)"])
      (use generate_keypair_ok [OF a(1)] generate_keypair_ok [OF b(1)] ne e in
        \<open>simp_all add: knows_lookup\<close>)
  with e show ?thesis by (intro exI [of _ ?a] exI [of _ ?b]) (auto simp: knows_lookup)
qed

text \<open>C27: Anyone who sees an end-to-end packet reads the message: the signature field gives the secret away,
  and the secret decrypts the data to the text and its padding. No key is needed.\<close>

theorem packet_reveals_message:
  assumes "e2e_encrypt_message e g (Some a) (Some txt) (Some rid) (Some p0) = (0, g', Some p)"
    and "keypair_ok (my_keys a)" and "length rid = 16"
  shows "take (strlen txt) (simple_encrypt (recovered_secret p) (take (encrypted_length p) (encrypted_data p))) =
    bytes_of (cstr txt)"
proof -
  obtain peer pad where peer: "e2e_find_peer_key (Some a) (Some rid) = Some peer"
    and d: "take (encrypted_length p) (encrypted_data p) = simple_encrypt
        (derive_shared_secret (private_key (my_keys a)) (peer_public_key peer)) (bytes_of (cstr txt) @ pad)"
    and s: "sender_id p = user_id (my_keys a)" "recipient_id p = rid"
    and mac: "enc_signature p = e2e_mac (user_id (my_keys a)) rid
        (derive_shared_secret (private_key (my_keys a)) (peer_public_key peer))"
    by (rule encrypt_success [OF assms(1)]) blast
  have "recovered_secret p = derive_shared_secret (private_key (my_keys a)) (peer_public_key peer)"
    using assms(2,3) s mac by (intro recovered_secret_eq) (simp_all add: keypair_ok_def)
  then show ?thesis by (simp add: d strlen_def)
qed

theorem packet_reveals_message_witness:
  "\<exists>a g' p0 p. e2e_encrypt_message demo_libc demo_rng (Some a) (Some ''hi'') (Some (user_id (my_keys a)))
      (Some p0) = (0, g', Some p) \<and>
    take 2 (simple_encrypt (recovered_secret p) (take (encrypted_length p) (encrypted_data p))) = bytes_of ''hi''"
proof -
  obtain g k where k: "e2e_generate_keypair demo_libc demo_rng (Some zero_keypair) (Some ''Alice'') = (0, g, Some k)"
    using generate_demo by blast
  note ok = conjunct2 [OF generate_keypair_ok [OF k]]
  have len: "strlen ''hi'' = 2" "cstr ''hi'' = ''hi''" by (simp_all add: strlen_def cstr_def)
  then have "strlen ''hi'' < E2E_MAX_MESSAGE_SIZE - 32" by (simp add: limits)
  from e2e_encrypt_ok [OF knows_lookup(1) [of k k] this] obtain g' p and p0 :: e2e_encrypted_packet where
    e: "e2e_encrypt_message demo_libc demo_rng (Some (knows k k)) (Some ''hi'') (Some (user_id k)) (Some p0) = (0, g', Some p)"
    by blast
  from packet_reveals_message [OF e] ok len e show ?thesis
    by (intro exI [of _ "knows k k"]) (auto simp: knows_lookup keypair_ok_def)
qed

text \<open>C29: The removal of the padding cuts into the message: even when the recipient does derive the sender's
  secret, a text whose length is a multiple of 16 (32 or more) has no padding, and decryption returns
  it without its last 16 characters.\<close>

theorem last_block_dropped:
  assumes "e2e_encrypt_message e g (Some a) (Some txt) (Some (user_id (my_keys b))) (Some p0) = (0, g', Some p)"
    and "peer_lookup a (user_id (my_keys b)) = Some (pb, nb)"
    and "peer_lookup b (user_id (my_keys a)) = Some (pa, na)"
    and "derive_shared_secret (private_key (my_keys a)) pb = derive_shared_secret (private_key (my_keys b)) pa"
    and "strlen txt mod 16 = 0" and "32 \<le> strlen txt"
  shows "e2e_decrypt_message (Some b) (Some p) (Some 1024) =
    Some (Some (bytes_of (take (strlen txt - 16) (cstr txt))))"
proof -
  let ?n = "strlen txt" and ?k = "derive_shared_secret (private_key (my_keys a)) pb"
  obtain peer pad where peer: "e2e_find_peer_key (Some a) (Some (user_id (my_keys b))) = Some peer"
    and short: "?n < E2E_MAX_MESSAGE_SIZE - 32"
    and n: "encrypted_length p = ((?n + 15) div 16) * 16" "length pad = encrypted_length p - ?n"
    and d: "take (encrypted_length p) (encrypted_data p) = simple_encrypt
        (derive_shared_secret (private_key (my_keys a)) (peer_public_key peer)) (bytes_of (cstr txt) @ pad)"
    and s: "sender_id p = user_id (my_keys a)" "recipient_id p = user_id (my_keys b)"
    and mac: "enc_signature p = e2e_mac (user_id (my_keys a)) (user_id (my_keys b))
        (derive_shared_secret (private_key (my_keys a)) (peer_public_key peer))"
    by (rule encrypt_success [OF assms(1)]) blast
  have pk: "peer_public_key peer = pb" using peer peer_lookup_key [OF assms(2)] by auto
  obtain q where q: "e2e_find_peer_key (Some b) (Some (user_id (my_keys a))) = Some q" "peer_public_key q = pa"
    using peer_lookup_key [OF assms(3)] by blast
  have len: "encrypted_length p = ?n" using n(1) assms(5) by presburger
  then have pad: "pad = []" using n(2) by simp
  let ?t = "bytes_of (cstr txt)"
  have lt: "length ?t = ?n" by (simp add: strlen_def)
  have "?t ! i \<noteq> 0" if "i < ?n" for i
  proof
    assume "?t ! i = 0"
    then have "chars_of ?t ! i = NUL" using that lt by (simp add: chars_of_def char_of_eq_iff)
    then have "cstr txt ! i = NUL" by simp
    then show False using that nth_mem [of i "cstr txt"] by (simp add: strlen_def)
  qed
  then have "padding_loop ?t ?n ((?n - 16) + 15) = ?n - 16"
    by (intro padding_loop_last_block) (use assms(6) in auto)
  then have "padding_loop ?t ?n (?n - 1) = ?n - 16" using assms(6) by simp
  moreover have "take (?n - 16) ?t = bytes_of (take (?n - 16) (cstr txt))"
    by (simp add: bytes_of_def take_map)
  ultimately show ?thesis
    using q s mac d pk len pad short assms(4,6) by (auto simp: e2e_decrypt_message_def limits Let_def)
qed

theorem last_block_dropped_witness:
  "\<exists>a g' p0 p. e2e_encrypt_message demo_libc demo_rng (Some a) (Some (replicate 48 CHR ''m''))
      (Some (user_id (my_keys a))) (Some p0) = (0, g', Some p) \<and>
    e2e_decrypt_message (Some a) (Some p) (Some 1024) = Some (Some (bytes_of (replicate 32 CHR ''m'')))"
proof -
  obtain g k where k: "e2e_generate_keypair demo_libc demo_rng (Some zero_keypair) (Some ''Alice'') = (0, g, Some k)"
    using generate_demo by blast
  let ?m = "replicate 48 CHR ''m''" and ?a = "knows k k"
  have len: "cstr ?m = ?m" by (rule cstr_id) simp
  then have n: "strlen ?m = 48" by (simp add: strlen_def)
  then have "strlen ?m < E2E_MAX_MESSAGE_SIZE - 32" by (simp add: limits)
  from e2e_encrypt_ok [OF knows_lookup(1) [of k k] this] obtain g' p and p0 :: e2e_encrypted_packet where
    e: "e2e_encrypt_message demo_libc demo_rng (Some ?a) (Some ?m) (Some (user_id k)) (Some p0) = (0, g', Some p)"
    by blast
  have "e2e_decrypt_message (Some ?a) (Some p) (Some 1024) = Some (Some (bytes_of (take (strlen ?m - 16) (cstr ?m))))"
    using last_block_dropped [of demo_libc demo_rng ?a ?m ?a p0 g' p, OF _ _ _ refl] e n
    by (simp add: knows_lookup)
  with e show ?thesis by (intro exI [of _ ?a]) (auto simp: knows_lookup n len)
qed

end
