(* ===== verification/ClientProperties.thy ===== *)
theory ClientProperties
  imports EndToEnd CliArgs E2EProperties HandshakeProperties
begin

text \<open>
  The properties of the client: what its operations send, what it accepts, its guarded memory and its
  command line.
\<close>

section \<open>The connection\<close>

definition demo_client :: "e2e_context \<Rightarrow> chat_client" where
  "demo_client x = \<lparr>client_fd = 9, client_server_ip = replicate 16 NUL, client_server_port = 8080,
     client_nickname = ''Alice'' @ replicate 27 NUL, connected = True, security_ctx = Some demo_ctx,
     e2e_ctx = Some x\<rparr>"

lemma demo_client_fields [simp]:
  "connected (demo_client x)" "client_fd (demo_client x) = 9" "e2e_ctx (demo_client x) = Some x"
  "client_enc_ctx (demo_client x) = Some demo_enc" "g_global_context initial_global = None"
  by (simp_all add: demo_client_def initial_global_def client_enc_ctx_def demo_ctx_def)

lemma demo_keys_match: "keys_match demo_state 0 (demo_client x)"
  by (simp add: keys_match_def demo_sm_def demo_ctx_def)

text \<open>C31: Connecting to an honest server sends the two packets of the handshake and nothing else: the client
  is then connected with the shared key and fresh counters, but its public key has not been
  announced, because the announcement runs before \<^verbatim>\<open>connected\<close> is set and refuses to send.\<close>

theorem connect_sends_handshake_only:
  assumes "\<not> connected c" and "0 \<le> sock" and "send_all_ok w" and "client_enc_ctx c = Some ec"
    and cs: "cs = handshake_generate_sequence_number e"
  shows "\<exists>c' ec'. client_connect_to_server e gs kxp sock True True True w c
      [RecvData (packet_bytes (server_syn_ack ss cs))] =
    (0, w\<lparr>trace := trace w @
      [Sent sock (packet_bytes (client_syn cs (client_nickname c))) (int packet_size),
       Sent sock (packet_bytes (client_ack cs ss (client_nickname c))) (int packet_size)]\<rparr>, c') \<and>
    connected c' \<and> client_fd c' = sock \<and> client_enc_ctx c' = Some ec' \<and>
    session_key ec' = default_session_key \<and> key_rotation_counter ec' = 0 \<and> sequence_number ec' = 0"
proof -
  let ?w = "w\<lparr>trace := trace w @
      [Sent sock (packet_bytes (client_syn cs (client_nickname c))) (int packet_size),
       Sent sock (packet_bytes (client_ack cs ss (client_nickname c))) (int packet_size)]\<rparr>"
  obtain s where s: "security_ctx c = Some s" "enc_ctx s = Some ec"
    using assms(4) by (auto simp: client_enc_ctx_def split: option.splits)
  have key: "client_session_key = default_session_key"
    by (simp add: client_session_key_def default_session_key_def)
  have "handshake_perform_client_side e True w sock (Some (client_nickname c))
      [RecvData (packet_bytes (server_syn_ack ss cs))] = (0, ?w, [])"
    by (rule client_side_ok [OF assms(3) cs])
  then show ?thesis using assms(1,2) s
    by (simp add: client_connect_to_server_def client_init_encryption_context_def client_enc_ctx_def
        set_client_enc_def client_broadcast_public_key_def Let_def key)
qed

theorem connect_sends_handshake_only_witness:
  "\<exists>w' c'. client_connect_to_server demo_libc initial_global demo_kx 9 True True True demo_world
      ((demo_client zero_e2e_context)\<lparr>connected := False\<rparr>)
      [RecvData (packet_bytes (server_syn_ack 77 (handshake_generate_sequence_number demo_libc)))] =
    (0, w', c') \<and> connected c' \<and> length (trace w') = 2"
proof -
  have "client_enc_ctx ((demo_client zero_e2e_context)\<lparr>connected := False\<rparr>) = Some demo_enc"
    by (simp add: client_enc_ctx_def demo_client_def demo_ctx_def)
  from connect_sends_handshake_only [where e = demo_libc and sock = 9 and gs = initial_global and kxp = demo_kx and ss = 77,
      OF _ _ demo_send_all_ok this refl]
  show ?thesis by (fastforce simp: demo_world_def)
qed

text \<open>Leaving the program is silent: the exit path of \<^verbatim>\<open>main\<close> clears \<^verbatim>\<open>connected\<close> before it destroys
  the client, so the disconnect neither sends \<^verbatim>\<open>/quit\<close> nor closes the socket; called on a
  connected client the disconnect does both.\<close>

theorem exit_is_silent:
  shows "fst (main_exit w c) = w \<and> client_fd (snd (main_exit w c)) = client_fd c \<and>
    (connected c \<and> 0 \<le> client_fd c \<longrightarrow>
      (\<exists>r. emitted w (fst (client_disconnect w c)) =
        [Sent (client_fd c) (bytes_of ''/quit'') r, Closed (client_fd c)]))"
  by (auto simp: main_exit_def client_destroy_def client_disconnect_def Let_def emitted_def
      sys_close_def sys_send_def)

theorem exit_is_silent_witness:
  "fst (main_exit demo_world (demo_client zero_e2e_context)) = demo_world \<and>
   (\<exists>r. emitted demo_world (fst (client_disconnect demo_world (demo_client zero_e2e_context))) =
     [Sent 9 (bytes_of ''/quit'') r, Closed 9])"
  using exit_is_silent [of demo_world "demo_client zero_e2e_context"] by simp

text \<open>C30: An end-to-end message is never sent: whatever its recipient and text, the hexadecimal form of the
  packet is longer than the buffer for the encrypted message, so \<^verbatim>\<open>client_send_e2e_message\<close> returns
  -1 and makes no system call.\<close>

theorem e2e_message_never_sent:
  assumes "length (encrypted_data p0) = E2E_MAX_MESSAGE_SIZE"
    and "client_send_e2e_message e g gs p0 w c msgp nickp = (r, g', w', c')"
  shows "r = -1 \<and> w' = w"
proof -
  have long: "r'' = -1 \<and> w'' = w"
    if "length (encrypted_data p) = E2E_MAX_MESSAGE_SIZE"
      "client_send_message gs w c (Some (enc_message p)) = (r'', w'', c'')" for p r'' w'' c''
  proof -
    have "NUL \<notin> set (enc_message p)" using hex_bytes_no_NUL [of "enc_bytes p"] by (simp add: enc_message_def)
    then have "BUFFER_SIZE * 2 < length (cstr (enc_message p)) + 16"
      using that(1) by (simp add: cstr_id enc_message_def enc_bytes_def limits)
    then have "fst (client_encrypt_data ec (Some (bytes_of (cstr (enc_message p)))) (BUFFER_SIZE * 2)) = None" for ec
      by (simp add: client_encrypt_data_def split: option.splits)
    then obtain q where "client_encrypt_data (client_enc_ctx c) (Some (bytes_of (cstr (enc_message p))))
        (BUFFER_SIZE * 2) = (None, q)" by (metis prod.collapse)
    then show ?thesis using that(2) by (auto simp: client_send_message_def split: if_splits)
  qed
  have len: "length (encrypted_data p) = E2E_MAX_MESSAGE_SIZE"
    if "e2e_encrypt_message e g x (Some t) rid (Some p0) = (q, g1, Some p)" for x t rid q g1 p
  proof -
    have "strlen t < 992 \<Longrightarrow> (strlen t + 15) div 16 * 16 \<le> 1024" by presburger
    then show ?thesis using that assms(1)
      by (auto simp: e2e_encrypt_message_def Let_def rand_bytes_def limits strlen_def
          split: option.splits if_splits)
  qed
  show ?thesis
    using assms(2)
    by (auto simp: client_send_e2e_message_def Let_def dest!: long [OF len] split: option.splits if_splits prod.splits)
qed

theorem e2e_message_never_sent_witness:
  "\<exists>g' c'. client_send_e2e_message demo_libc demo_rng initial_global
      \<lparr>sender_id = [], recipient_id = [], encrypted_data = replicate 1024 0, encrypted_length = 0,
        enc_signature = []\<rparr>
      demo_world (demo_client (knows zero_keypair zero_keypair)) (Some ''hi'') (Some ''Bob'') =
    (-1, g', demo_world, c')"
proof -
  let ?p = "\<lparr>sender_id = [], recipient_id = [], encrypted_data = replicate 1024 0, encrypted_length = 0,
        enc_signature = []\<rparr>"
  obtain r g' w' c' where s: "client_send_e2e_message demo_libc demo_rng initial_global ?p
      demo_world (demo_client (knows zero_keypair zero_keypair)) (Some ''hi'') (Some ''Bob'') = (r, g', w', c')"
    by (metis prod_cases4)
  with e2e_message_never_sent [OF _ s] show ?thesis by (simp add: limits)
qed

section \<open>What the client accepts\<close>

text \<open>The client's own receive function rejects the server's replies: the server sends its texts
  unencrypted, and \<^verbatim>\<open>client_receive_message\<close> reports an error for every one of less than 32 bytes
  that does not end in a zero byte.\<close>

theorem plain_reply_rejected:
  assumes "connected c" and "client_enc_ctx c = Some ec" and "bs \<noteq> []" and "length bs < 32" and "last bs \<noteq> 0"
  shows "fst (client_receive_message gs to c n (RecvData bs)) = None"
proof -
  have "fst (client_decrypt_data (Some ec) (Some bs) (n - 1)) = None"
  proof (cases "length bs < 16")
    case False
    let ?n = "length bs - 16" and ?p = "perform_xor (session_key ec) (take (length bs - 16) bs)"
    have "drop ?n bs ! 15 = last bs" using False assms(3) by (simp add: last_conv_nth)
    moreover have "tag_loop ?p ! 15 = 0" using assms(4) False by (intro tag_tail_zero) simp_all
    ultimately have "drop ?n bs \<noteq> tag_loop ?p" using assms(5) by metis
    then show ?thesis by (simp add: client_decrypt_data_def Let_def)
  qed (simp add: client_decrypt_data_def)
  then show ?thesis using assms(1-3) by (auto simp: client_receive_message_def split: prod.splits)
qed

theorem plain_reply_rejected_witness:
  "fst (client_receive_message initial_global False (demo_client zero_e2e_context) 1024
    (RecvData (bytes_of (''You left the room.'' @ [LF])))) = None"
  by (rule plain_reply_rejected [OF demo_client_fields(1,4)]) (simp_all add: bytes_of_def)

text \<open>A key exchange message survives its way through the network: the text the client sends for a packet
  is parsed back into the same packet.\<close>

theorem key_exchange_text_roundtrip:
  assumes "kx_packet_ok p"
  shows "client_parse_key_exchange (Some (drop 13 (kx_message p))) = Some p"
  using assms by (rule parse_kx_message)

theorem key_exchange_text_roundtrip_witness:
  "\<exists>p. e2e_create_key_exchange_packet (Some zero_e2e_context) (Some demo_kx) = (0, Some p) \<and>
    client_parse_key_exchange (Some (drop 13 (kx_message p))) = Some p"
proof -
  obtain p where p: "e2e_create_key_exchange_packet (Some zero_e2e_context) (Some demo_kx) = (0, Some p)"
    by (auto simp: e2e_create_key_exchange_packet_def Let_def)
  then have "kx_packet_ok p"
    by (auto simp: e2e_create_key_exchange_packet_def kx_packet_ok_def kx_expected_signature_def
        zero_e2e_context_def zero_keypair_def demo_kx_def Let_def limits)
  from key_exchange_text_roundtrip [OF this] p show ?thesis by auto
qed

section \<open>Guarded memory and process checks\<close>

text \<open>Guarded memory of up to 2^63 bytes is laid out without overflow: the size of the mapping is a
  whole number of pages, holds header, block and two guard pages, and exceeds that by less than a
  page.\<close>

theorem guarded_allocation_bounds:
  assumes "unat sz \<le> 2 ^ 63"
  shows "unat (total_alloc_size sz) mod 4096 = 0 \<and>
    unat header_size + unat sz + 2 * unat PAGE_SIZE \<le> unat (total_alloc_size sz) \<and>
    unat (total_alloc_size sz) < unat header_size + unat sz + 3 * unat PAGE_SIZE"
  using total_alloc_size_bounds [OF assms] by simp

theorem guarded_allocation_bounds_witness:
  "unat (total_alloc_size 100) mod 4096 = 0 \<and> 100 + 2 * 4096 \<le> unat (total_alloc_size 100)"
  using guarded_allocation_bounds [of 100] by (simp add: header_size_def PAGE_SIZE_def)

section \<open>Command lines\<close>

text \<open>Accepted command lines are usable: the server starts only with a port from 1 to 65535 and at
  most two arguments; the client only with such a port and a nickname, which is its first
  argument.\<close>

theorem accepted_arguments:
  shows "(server_parse_args argv = Some sa \<and> sa_valid sa \<longrightarrow>
      0 < sa_port sa \<and> sa_port sa \<le> 65535 \<and> length argv \<le> 3) \<and>
    (client_parse_args argv = Some ca \<and> ca_valid ca \<longrightarrow>
      0 < ca_port ca \<and> ca_port ca \<le> 65535 \<and> 2 \<le> length argv \<and> ca_nickname ca = Some (argv ! 1))"
proof (intro conjI impI)
  assume s: "server_parse_args argv = Some sa \<and> sa_valid sa"
  then show "0 < sa_port sa" "sa_port sa \<le> 65535" "length argv \<le> 3"
    by (auto simp: server_parse_args_def Let_def split: if_splits option.splits)
next
  let ?args = "\<lparr>ca_ip = ''127.0.0.1'', ca_port = 8080, ca_nickname = Some (argv ! 1), ca_valid = False\<rparr>"
  assume "client_parse_args argv = Some ca \<and> ca_valid ca"
  then have c: "client_parse_options ?args (drop 2 argv) = Some ca" "ca_valid ca" and "2 \<le> length argv"
    by (auto simp: client_parse_args_def Let_def split: if_splits)
  then show "2 \<le> length argv" "0 < ca_port ca" "ca_port ca \<le> 65535" "ca_nickname ca = Some (argv ! 1)"
    using client_options_port [OF c(1)] client_options_nickname [OF c(1)] by simp_all
qed

theorem accepted_arguments_witness:
  "\<exists>ca. client_parse_args [''client'', ''Alice'', ''-p'', ''9000''] = Some ca \<and> ca_valid ca \<and>
    0 < ca_port ca \<and> ca_port ca \<le> 65535 \<and> ca_nickname ca = Some ''Alice''"
proof -
  have "atoi ''9000'' = Some 9000"
    by (simp add: atoi_def cstr_def is_blank_def is_digit_def Let_def)
  then obtain ca where "client_parse_args [''client'', ''Alice'', ''-p'', ''9000''] = Some ca" "ca_valid ca"
    by (simp add: client_parse_args_def)
  with accepted_arguments [of "[''client'', ''Alice'', ''-p'', ''9000'']" undefined ca] show ?thesis by auto
qed

section \<open>The end-to-end context\<close>

text \<open>The states of a context: initialised, then changed by key exchange messages with any text that
  the client can parse and by removed peers, in any order.\<close>

definition e2e_start :: "e2e_context \<Rightarrow> bool" where
  "e2e_start c \<longleftrightarrow> (\<exists>e g c0 nick g'. e2e_context_init e g (Some c0) (Some nick) = (0, g', Some c))"

inductive e2e_step :: "e2e_context \<Rightarrow> e2e_context \<Rightarrow> bool" where
  e2e_add: "client_parse_key_exchange (Some msg) = Some p \<Longrightarrow>
    e2e_add_peer_key (Some c) (Some p) = (r, Some c') \<Longrightarrow> e2e_step c c'"
| e2e_remove: "e2e_remove_peer_key (Some c) (Some uid) = (r, Some c') \<Longrightarrow> e2e_step c c'"

inductive_cases e2e_stepE: "e2e_step c c'"

text \<open>A packet that was parsed fills the fixed-size fields of the C structure.\<close>

lemma parse_hex_length: "parse_hex n s = Some bs \<Longrightarrow> length bs = n"
  by (induction n s arbitrary: bs rule: parse_hex.induct) (auto split: option.splits)

lemma parsed_packet_ok:
  assumes "client_parse_key_exchange (Some msg) = Some p"
  shows "kx_packet_ok p"
proof -
  obtain bs where bs: "parse_hex kx_packet_size (cstr msg) = Some bs" "p = bytes_kx bs"
    using assms by (auto simp: client_parse_key_exchange_def split: if_splits)
  have "length bs = 144" using parse_hex_length [OF bs(1)] by (simp add: kx_packet_size_def)
  then show ?thesis by (simp add: bs(2) kx_packet_ok_def bytes_kx_def)
qed

definition peer_sized :: "e2e_peer_key \<Rightarrow> bool" where
  "peer_sized q \<longleftrightarrow> length (peer_public_key q) = E2E_KEY_SIZE \<and> length (peer_user_id q) = 16"

definition peers_sized :: "e2e_context \<Rightarrow> bool" where
  "peers_sized c \<longleftrightarrow> (\<forall>q \<in> set (peer_keys c). peer_sized q)"

definition e2e_typed :: "e2e_context \<Rightarrow> bool" where
  "e2e_typed c \<longleftrightarrow> peers_ok c \<and> peers_sized c \<and> keypair_ok (my_keys c) \<and>
     length (kp_nickname (my_keys c)) = E2E_NICKNAME_LEN \<and> length (session_entropy c) = 64"

lemma peers_sized_update:
  "peers_sized c \<Longrightarrow> peer_sized q \<Longrightarrow> peers_sized (c\<lparr>peer_keys := (peer_keys c)[i := q]\<rparr>)"
  using all_set_update [of "peer_keys c" peer_sized q i] by (simp add: peers_sized_def)

lemma add_peer_sized:
  assumes "peers_ok c" and "peers_sized c" and "kx_packet_ok p"
    and add: "e2e_add_peer_key (Some c) (Some p) = (r, Some c')"
  shows "peers_sized c'"
proof -
  have old: "peer_sized (peer_keys c ! i)" if "i < length (peer_keys c)" for i
    using assms(2) that by (simp add: peers_sized_def)
  have len: "length (peer_keys c) = MAX_CLIENTS_E2E" using assms(1) by (simp add: peers_ok_def)
  let ?find = "find_index (\<lambda>q. peer_user_id q = kx_user_id p) (take (num_peers c) (peer_keys c))"
  have known: "peer_sized (peer_from_packet (peer_keys c ! i) p)" if "?find = Some i" for i
    using find_index_less [OF that] old [of i] assms(3) by (simp add: peer_sized_def kx_packet_ok_def limits)
  have fresh: "peer_sized ((peer_from_packet (peer_keys c ! num_peers c) p)\<lparr>peer_user_id := kx_user_id p\<rparr>)"
    using assms(3) by (simp add: peer_sized_def kx_packet_ok_def limits)
  show ?thesis
  proof (cases "num_peers c \<ge> MAX_CLIENTS_E2E \<or> e2e_verify_key_exchange_packet (Some p) < 0")
    case True
    with add assms(2) show ?thesis by (auto simp: e2e_add_peer_key_def split: if_splits)
  next
    case False
    show ?thesis
    proof (cases ?find)
      case None
      with False add have "peer_keys c' = (peer_keys c)[num_peers c :=
          (peer_from_packet (peer_keys c ! num_peers c) p)\<lparr>peer_user_id := kx_user_id p\<rparr>]"
        by (auto simp: e2e_add_peer_key_def)
      with peers_sized_update [OF assms(2) fresh] show ?thesis by (simp add: peers_sized_def)
    next
      case (Some i)
      with False add have "c' = c\<lparr>peer_keys := (peer_keys c)[i := peer_from_packet (peer_keys c ! i) p]\<rparr>"
        by (auto simp: e2e_add_peer_key_def)
      with peers_sized_update [OF assms(2) known [OF Some]] show ?thesis by simp
    qed
  qed
qed

lemma remove_peer_sized:
  assumes "peers_sized c" and rem: "e2e_remove_peer_key (Some c) (Some uid) = (r, Some c')"
  shows "peers_sized c'"
proof (cases "find_index (\<lambda>q. peer_user_id q = uid) (take (num_peers c) (peer_keys c))")
  case None
  with assms show ?thesis by (simp add: e2e_remove_peer_key_def)
next
  case (Some i)
  have "peer_sized (peer_keys c ! i)" using assms(1) find_index_less [OF Some] by (simp add: peers_sized_def)
  then have "peer_sized ((peer_keys c ! i)\<lparr>peer_active := False, peer_public_key := replicate E2E_KEY_SIZE 0\<rparr>)"
    by (simp add: peer_sized_def)
  from peers_sized_update [OF assms(1) this] rem Some show ?thesis by (auto simp: e2e_remove_peer_key_def)
qed

lemma e2e_step_typed:
  assumes "e2e_typed c" and "e2e_step c c'"
  shows "e2e_typed c'"
  using assms(2)
proof (rule e2e_stepE)
  fix msg p r
  assume t: "client_parse_key_exchange (Some msg) = Some p" and a: "e2e_add_peer_key (Some c) (Some p) = (r, Some c')"
  have "snd (peer_add c p) = c'" using a by (simp add: peer_add_def)
  then have "peers_ok c'" using peer_table.add_preserves [of c p] assms(1) by (simp add: e2e_typed_def)
  moreover have "peers_sized c'"
    using add_peer_sized [OF _ _ parsed_packet_ok [OF t] a] assms(1) by (simp add: e2e_typed_def)
  ultimately show ?thesis using a assms(1)
    by (auto simp: e2e_typed_def e2e_add_peer_key_def split: if_splits option.splits)
next
  fix uid r assume a: "e2e_remove_peer_key (Some c) (Some uid) = (r, Some c')"
  have "snd (peer_remove c uid) = c'" using a by (simp add: peer_remove_def)
  then have "peers_ok c'" using peer_table.remove_keeps [of c uid] assms(1) by (simp add: e2e_typed_def)
  moreover have "peers_sized c'" using remove_peer_sized [OF _ a] assms(1) by (simp add: e2e_typed_def)
  ultimately show ?thesis using a assms(1)
    by (auto simp: e2e_typed_def e2e_remove_peer_key_def split: option.splits)
qed

lemma length_random [simp]: "length (fst (generate_random_bytes e g n)) = n"
  by (simp add: generate_random_bytes_def rand_bytes_def)

lemma e2e_start_typed:
  assumes "e2e_start c"
  shows "e2e_typed c"
proof -
  obtain e g c0 nick g' where i: "e2e_context_init e g (Some c0) (Some nick) = (0, g', Some c)"
    using assms by (auto simp: e2e_start_def)
  obtain r g1 kp where k: "e2e_generate_keypair e g (Some (my_keys zero_e2e_context)) (Some nick) = (r, g1, kp)"
    using prod_cases3 by blast
  then obtain key where key: "kp = Some key" "r = 0" "length (kp_nickname key) = E2E_NICKNAME_LEN"
    by (auto simp: e2e_generate_keypair_def e2e_generate_user_id_def zero_e2e_context_def zero_keypair_def limits
        Let_def split: prod.splits)
  have "c = zero_e2e_context\<lparr>my_keys := key, session_entropy := fst (generate_random_bytes e g1 64), num_peers := 0\<rparr>"
    using i k key by (auto simp: e2e_context_init_def Let_def split: prod.splits)
  with generate_keypair_ok [OF k [unfolded key]] key zero_peers_ok show ?thesis
    by (simp add: e2e_typed_def peers_ok_def peers_sized_def peer_sized_def zero_e2e_context_def zero_peer_def limits)
qed

interpretation e2e_system: invariant_system e2e_start e2e_step e2e_typed
  by unfold_locales (auto intro: e2e_start_typed e2e_step_typed)

text \<open>C23: Every end-to-end context a client can have keeps the sizes of its C arrays, whatever key exchange
  messages it parses and whatever peers it removes: its own key pair has 32-byte keys, a 16-byte user id and a
  nickname of 64 characters, the session entropy 64 bytes; the table has 64 peers, each with a 32-byte
  public key, a 16-byte user id and a nickname of 64 characters; at most 64 are used and no two of these have
  the same user id. So every key exchange packet it makes has the layout of 144 bytes that the other
  side reads back.\<close>

theorem e2e_context_well_typed:
  assumes "reach e2e_start e2e_step c" and "length (kx_nickname p0) = 64"
  shows "length (private_key (my_keys c)) = 32 \<and> length (public_key (my_keys c)) = 32 \<and>
    length (user_id (my_keys c)) = 16 \<and> length (kp_nickname (my_keys c)) = 64 \<and>
    length (session_entropy c) = 64 \<and> length (peer_keys c) = 64 \<and> num_peers c \<le> 64 \<and>
    (\<forall>q \<in> set (peer_keys c). length (peer_public_key q) = 32 \<and> length (peer_user_id q) = 16 \<and>
      length (peer_nickname q) = 64) \<and>
    distinct (map peer_user_id (take (num_peers c) (peer_keys c))) \<and>
    (\<exists>p. e2e_create_key_exchange_packet (Some c) (Some p0) = (0, Some p) \<and> kx_packet_ok p \<and>
      length (kx_bytes p) = 144 \<and> bytes_kx (kx_bytes p) = p)"
proof -
  have t: "e2e_typed c" by (rule e2e_system.reach_inv [OF assms(1)])
  then have pub: "length (public_key (my_keys c)) = 32"
    by (simp add: e2e_typed_def keypair_ok_def limits)
  obtain p where p: "e2e_create_key_exchange_packet (Some c) (Some p0) = (0, Some p)"
    by (auto simp: e2e_create_key_exchange_packet_def Let_def)
  have "kx_packet_ok p" using p t pub assms(2)
    by (auto simp: e2e_create_key_exchange_packet_def kx_packet_ok_def kx_expected_signature_def Let_def
        e2e_typed_def keypair_ok_def limits)
  with t pub p kx_bytes_length [of p] kx_bytes_roundtrip [of p] show ?thesis
    by (simp add: e2e_typed_def keypair_ok_def peers_ok_def peers_sized_def peer_sized_def kx_packet_size_def limits)
qed

lemma demo_context: "\<exists>g c. e2e_context_init e demo_rng (Some c0) (Some nick) = (0, g, Some c)"
proof -
  obtain g k where k: "e2e_generate_keypair e demo_rng (Some zero_keypair) (Some nick) = (0, g, Some k)"
    using generate_demo by blast
  obtain b g' where "generate_random_bytes e g 64 = (b, g')" by fastforce
  with k show ?thesis by (simp add: e2e_context_init_def zero_e2e_context_def)
qed

text \<open>Alice's context after she has registered Bob's key from his message.\<close>

theorem e2e_context_well_typed_witness:
  "\<exists>c. reach e2e_start e2e_step c \<and> num_peers c = 1 \<and> length (peer_public_key (peer_keys c ! 0)) = 32 \<and>
    length (peer_user_id (peer_keys c ! 0)) = 16"
proof -
  obtain g b where b: "e2e_context_init demo_libc demo_rng (Some zero_e2e_context) (Some ''Bob'') = (0, g, Some b)"
    using demo_context by blast
  obtain g' a where a: "e2e_context_init demo_libc demo_rng (Some zero_e2e_context) (Some ''Alice'') = (0, g', Some a)"
    using demo_context by blast
  have nick: "length (kx_nickname demo_kx) = 64" by (simp add: demo_kx_def)
  have r: "reach e2e_start e2e_step x" if "e2e_start x" for x by (rule reach_start) (rule that)
  have "e2e_start a" "e2e_start b" using a b unfolding e2e_start_def by blast+
  note ra = r [OF this(1)] and rb = r [OF this(2)]
  obtain p where p: "e2e_create_key_exchange_packet (Some b) (Some demo_kx) = (0, Some p)" "kx_packet_ok p"
    using e2e_context_well_typed [OF rb nick] by blast
  have zero: "num_peers a = 0"
    using a by (auto simp: e2e_context_init_def zero_e2e_context_def Let_def split: prod.splits option.splits if_splits)
  have "e2e_verify_key_exchange_packet (Some p) = 0"
    using p(1) by (auto simp: e2e_create_key_exchange_packet_def e2e_verify_key_exchange_packet_def Let_def)
  then obtain a' where add: "e2e_add_peer_key (Some a) (Some p) = (0, Some a')" "num_peers a' = 1"
    using zero by (simp add: e2e_add_peer_key_def limits)
  have "reach e2e_start e2e_step a'"
    by (rule reach_step [OF ra]) (rule e2e_add [OF parse_kx_message [OF p(2)] add(1)])
  moreover from e2e_context_well_typed [OF this nick] have "length (peer_keys a') = 64"
    "\<forall>q \<in> set (peer_keys a'). length (peer_public_key q) = 32 \<and> length (peer_user_id q) = 16" by simp_all
  ultimately show ?thesis using add(2) by (intro exI [of _ a']) simp
qed

end
