(* ===== verification/ClientProgramProperties.thy ===== *)
theory ClientProgramProperties
  imports ClientProgram ClientProperties
begin

text \<open>
  The properties of the client program with its two threads.
\<close>

text \<open>C32: A lost connection ends the client program: when the receiver thread finds the connection closed or
  broken, it ends, and the next chat line that the user types leaves the input loop. From then on
  neither further lines nor further data do anything, and nothing is sent or closed any more, also
  not by the cleanup at the exit.\<close>

theorem lost_connection_ends_client:
  assumes "run_reading s" and "run_receiving s"
    and "r = RecvClosed \<or> r = RecvError \<or> r = RecvData []"
    and "main_parse_line line = LineSend m"
  shows "\<exists>s'. client_events e gs kx0 enc0 s (Arrived False r # Typed line # evs) = Some s' \<and>
    \<not> run_reading s' \<and> \<not> run_receiving s' \<and> run_world s' = run_world s \<and> run_shown s' = run_shown s \<and>
    fst (main_exit (run_world s') (run_client s')) = run_world s"
proof -
  have "\<exists>s1. arrived_step s False r = Some s1 \<and> \<not> connected (run_client s1) \<and> run_reading s1 \<and>
      \<not> run_receiving s1 \<and> run_world s1 = run_world s \<and> run_shown s1 = run_shown s"
    using assms(1-3) by (cases "connected (run_client s)") (auto simp: arrived_step_def receiver_iteration_def)
  then obtain s1 where s1: "arrived_step s False r = Some s1" "\<not> connected (run_client s1)"
    "run_reading s1" "\<not> run_receiving s1" "run_world s1 = run_world s" "run_shown s1 = run_shown s" by blast
  let ?s2 = "s1\<lparr>run_reading := False\<rparr>"
  have "typed_step e gs kx0 enc0 s1 line = ?s2"
    using s1(2,3) assms(4) by (simp add: typed_step_def)
  then have ev: "client_events e gs kx0 enc0 s (Arrived False r # Typed line # evs) = Some ?s2"
    using s1(1,4) by (simp add: events_after_end)
  have "fst (main_exit (run_world ?s2) (run_client ?s2)) = run_world s"
    using s1(5) by (simp add: main_exit_def client_destroy_def client_disconnect_def)
  with ev s1 show ?thesis by (intro exI [of _ ?s2]) simp
qed

theorem lost_connection_ends_client_witness:
  "\<exists>s'. client_events demo_libc initial_global demo_kx undefined
      \<lparr>run_client = demo_client zero_e2e_context, run_world = demo_world, run_rng = demo_rng,
       run_reading = True, run_receiving = True, run_shown = []\<rparr>
      [Arrived False RecvClosed, Typed ''hello'', Typed ''again''] = Some s' \<and> trace (run_world s') = []"
proof -
  have "main_parse_line ''hello'' = LineSend ''hello''"
    by (simp add: main_parse_line_def strip_newline_def cstr_def strncmp_eq_def)
  from lost_connection_ends_client [OF _ _ _ this, of "\<lparr>run_client = demo_client zero_e2e_context,
      run_world = demo_world, run_rng = demo_rng, run_reading = True, run_receiving = True, run_shown = []\<rparr>"
      RecvClosed demo_libc initial_global demo_kx undefined "[Typed ''again'']"]
  show ?thesis by (auto simp: demo_world_def)
qed

end
