(* ===== verification/ProcessChecks.thy ===== *)
theory ProcessChecks
  imports ClientSecurity CliArgs
begin

text \<open>
  The debugger detection of the client, \<^verbatim>\<open>client/src/anti_debugging.c\<close>: \<^verbatim>\<open>detect_debugger\<close> with its two
  checks. The status file of the process is a function of its tracer, which \<^verbatim>\<open>ptrace(PTRACE_TRACEME)\<close>
  sets; the clock readings are inputs. \<open>None\<close> is undefined behaviour: a number that \<^verbatim>\<open>atoi\<close> cannot
  represent, or a signed overflow in the elapsed time.
\<close>

section \<open>Reading a file by lines\<close>

text \<open>\<^verbatim>\<open>fgets(line, n, f)\<close> on the unread rest of a file: the line it stores and the new rest.\<close>

definition fgets :: "nat \<Rightarrow> string \<Rightarrow> string \<times> string" where
  "fgets n s =
     (let upto = length (takeWhile (\<lambda>c. c \<noteq> LF) s);
          k = min (n - 1) (Suc upto)
      in (take k s, drop k s))"

lemma fgets_line: "LF \<notin> set l \<Longrightarrow> Suc (length l) < n \<Longrightarrow> fgets n (l @ LF # r) = (l @ [LF], r)"
proof -
  assume l: "LF \<notin> set l" "Suc (length l) < n"
  have "takeWhile (\<lambda>c. c \<noteq> LF) (l @ LF # r) = l" using l(1) by (subst takeWhile_no_stop) auto
  moreover have "min (n - 1) (Suc (length l)) = Suc (length l)" using l(2) by simp
  ultimately show ?thesis unfolding fgets_def Let_def by simp
qed

lemma fgets_progress: "1 < n \<Longrightarrow> s \<noteq> [] \<Longrightarrow> length (snd (fgets n s)) < length s"
  by (simp add: fgets_def Let_def)

section \<open>The tracer in the status file\<close>

function tracer_loop :: "string \<Rightarrow> int option" where
  "tracer_loop s =
     (if s = [] then Some 0
      else (let line = fst (fgets 256 s)
            in if strncmp_eq (cstr line) ''TracerPid:'' 10
               then map_option (\<lambda>tracer_pid. if tracer_pid \<noteq> 0 then 1 else 0) (atoi (drop 10 line))
               else tracer_loop (snd (fgets 256 s))))"
  by pat_completeness auto
termination by (relation "measure length") (auto intro: fgets_progress)

declare tracer_loop.simps [simp del]

text \<open>The argument is the content of \<^verbatim>\<open>/proc/self/status\<close>, or \<open>None\<close> if it cannot be opened.\<close>

definition check_tracer_pid :: "string option \<Rightarrow> int option" where
  "check_tracer_pid status = (case status of None \<Rightarrow> Some 0 | Some s \<Rightarrow> tracer_loop s)"

section \<open>The timing check\<close>

definition fits_long :: "int \<Rightarrow> bool" where
  "fits_long x \<longleftrightarrow> - (2 ^ 63) \<le> x \<and> x < 2 ^ 63"

text \<open>The two readings of \<^verbatim>\<open>CLOCK_MONOTONIC\<close> as seconds and nanoseconds; the loop between them only
  takes time.\<close>

definition check_execution_timing :: "int \<times> int \<Rightarrow> int \<times> int \<Rightarrow> int option" where
  "check_execution_timing start stop =
     (let secs = fst stop - fst start; nsecs = snd stop - snd start;
          elapsed_ns = secs * 1000000000 + nsecs
      in if fits_long secs \<and> fits_long (secs * 1000000000) \<and> fits_long nsecs \<and> fits_long elapsed_ns
         then Some (if elapsed_ns > 100000000 then 1 else 0) else None)"

section \<open>The detection\<close>

text \<open>The process as the kernel sees it: its tracer (0 for none) and its parent, which becomes the tracer
  by \<^verbatim>\<open>PTRACE_TRACEME\<close>; a process that is traced already gets -1.\<close>

record process =
  proc_tracer :: nat
  proc_parent :: nat

definition ptrace_traceme :: "process \<Rightarrow> int \<times> process" where
  "ptrace_traceme p =
     (if proc_tracer p \<noteq> 0 then (-1, p) else (0, p\<lparr>proc_tracer := proc_parent p\<rparr>))"

definition detect_debugger ::
  "process \<Rightarrow> (process \<Rightarrow> string option) \<Rightarrow> int \<times> int \<Rightarrow> int \<times> int \<Rightarrow> (int \<times> process) option" where
  "detect_debugger p status start stop =
     (let (r, p1) = ptrace_traceme p
      in if r = -1 then Some (1, p1)
         else (case check_tracer_pid (status p1) of
                 None \<Rightarrow> None
               | Some traced \<Rightarrow>
                   if traced = 1 then Some (1, p1)
                   else (case check_execution_timing start stop of
                           None \<Rightarrow> None
                         | Some slow \<Rightarrow> if slow = 1 then Some (1, p1) else Some (0, p1))))"

section \<open>What the loop finds\<close>

text \<open>Decimal output is read back.\<close>

lemma digit_char:
  assumes "d < 10"
  shows "is_digit (char_of (48 + d :: nat))" and "of_char (char_of (48 + d :: nat)) = 48 + d"
proof -
  show v: "of_char (char_of (48 + d :: nat)) = 48 + d" using assms by simp
  show "is_digit (char_of (48 + d :: nat))" using assms by (simp only: is_digit_def v) simp
qed

lemma show_nat_digits: "\<forall>c \<in> set (show_nat n). is_digit c"
proof (induction n rule: show_nat.induct)
  case (1 n)
  then show ?case using digit_char(1) [of n] digit_char(1) [of "n mod 10"]
    by (auto simp: show_nat.simps [of n])
qed

lemma show_nat_nonempty: "show_nat n \<noteq> []"
  by (simp add: show_nat.simps [of n])

lemma decimal_value_show_nat:
  "r = [] \<or> \<not> is_digit (hd r) \<Longrightarrow>
     decimal_value acc (show_nat n @ r) = acc * 10 ^ length (show_nat n) + n"
proof (induction n arbitrary: acc r rule: show_nat.induct)
  case (1 n)
  have stop: "decimal_value a r = a" for a using "1.prems" by (cases r) auto
  show ?case
  proof (cases "n < 10")
    case True
    then show ?thesis using digit_char [OF True] stop by (simp add: show_nat.simps [of n])
  next
    case False
    have "decimal_value a (show_nat m @ char_of (48 + d :: nat) # r) =
        (a * 10 ^ length (show_nat m) + m) * 10 + d" if "d < 10" "m = n div 10" for a m d
    proof -
      have "decimal_value a (xs @ char_of (48 + d :: nat) # r) = decimal_value a xs * 10 + d"
        if "\<forall>c \<in> set xs. is_digit c" for a xs
        using that \<open>d < 10\<close> digit_char [of d] stop by (induction xs arbitrary: a) simp_all
      moreover have "\<forall>c \<in> set (show_nat m). is_digit c" by (rule show_nat_digits)
      moreover have "decimal_value a (show_nat m) = a * 10 ^ length (show_nat m) + m"
        using "1.IH" [OF False, of "[]" a] that(2) by simp
      ultimately show ?thesis by simp
    qed
    from this [of "n mod 10" "n div 10" acc] False show ?thesis
      by (simp add: show_nat.simps [of n] algebra_simps)
  qed
qed

lemma digit_no_sign: "is_digit c \<Longrightarrow> \<not> is_blank c \<and> c \<noteq> CHR ''-'' \<and> c \<noteq> CHR ''+'' \<and> c \<noteq> NUL"
  by (auto simp: is_digit_def is_blank_def)

lemma atoi_show_nat:
  assumes "n < 2 ^ 31"
  shows "atoi (TAB # show_nat n @ [LF]) = Some (int n)"
proof -
  obtain c cs where c: "show_nat n = c # cs" using show_nat_nonempty by (cases "show_nat n") auto
  with show_nat_digits [of n] have "is_digit c" by simp
  note D = digit_no_sign [OF this]
  have tab: "is_blank TAB" by (simp add: is_blank_def)
  have id: "cstr (TAB # show_nat n @ [LF]) = TAB # show_nat n @ [LF]"
    using show_nat_no_NUL [of n] by (intro cstr_id) (auto simp del: show_nat_no_NUL)
  have "dropWhile is_blank (TAB # show_nat n @ [LF]) = show_nat n @ [LF]"
    using c D by (simp add: tab)
  moreover have "decimal_value 0 (show_nat n @ [LF]) = n"
    using decimal_value_show_nat [of "[LF]" 0 n] by (simp add: is_digit_def)
  ultimately show ?thesis using c D assms id by (simp add: atoi_def)
qed

text \<open>The layout of the status file: short lines, one of which names the tracer.\<close>

definition plain_line :: "string \<Rightarrow> bool" where
  "plain_line l \<longleftrightarrow> LF \<notin> set l \<and> length l < 255 \<and> \<not> strncmp_eq (cstr (l @ [LF])) ''TracerPid:'' 10"

definition status_text :: "string list \<Rightarrow> nat \<Rightarrow> string \<Rightarrow> string" where
  "status_text before tracer after =
     concat (map (\<lambda>l. l @ [LF]) before) @ ''TracerPid:'' @ TAB # show_nat tracer @ LF # after"

lemma tracer_loop_status:
  "\<forall>l \<in> set before. plain_line l \<Longrightarrow> n < 2 ^ 31 \<Longrightarrow>
     tracer_loop (status_text before n after) = Some (if n = 0 then 0 else 1)"
proof (induction before)
  case Nil
  let ?l = "''TracerPid:'' @ TAB # show_nat n"
  have "length (show_nat n) \<le> Suc 9" using Nil.prems(2) by (intro show_nat_length) simp
  moreover have "LF \<notin> set (show_nat n)"
    using show_nat_digits [of n] by (auto simp: is_digit_def)
  ultimately have f: "fgets 256 (?l @ LF # after) = (?l @ [LF], after)"
    by (intro fgets_line) auto
  have "cstr (?l @ [LF]) = ?l @ [LF]"
    using show_nat_no_NUL [of n] by (intro cstr_id) (auto simp del: show_nat_no_NUL)
  then have m: "strncmp_eq (cstr (?l @ [LF])) ''TracerPid:'' 10" by (simp add: strncmp_eq_def)
  have d: "drop 10 (?l @ [LF]) = TAB # show_nat n @ [LF]" by simp
  have ne: "?l @ LF # after \<noteq> []" by simp
  have "tracer_loop (?l @ LF # after) = map_option (\<lambda>p. if p \<noteq> 0 then 1 else 0) (atoi (drop 10 (?l @ [LF])))"
    using m by (subst tracer_loop.simps) (simp only: f ne Let_def fst_conv if_True if_False)
  then show ?case unfolding d atoi_show_nat [OF Nil.prems(2)] by (simp add: status_text_def)
next
  case (Cons l ls)
  then have l: "plain_line l" by simp
  let ?r = "status_text ls n after"
  have f: "fgets 256 (l @ LF # ?r) = (l @ [LF], ?r)"
    using l by (intro fgets_line) (auto simp: plain_line_def)
  have "tracer_loop (l @ LF # ?r) = tracer_loop ?r"
    using l f by (subst tracer_loop.simps) (simp add: plain_line_def)
  moreover have "status_text (l # ls) n after = l @ LF # ?r" by (simp add: status_text_def)
  ultimately show ?case using Cons by simp
qed

end
