(* ===== verification/ContextLifecycle.thy ===== *)
theory ContextLifecycle
  imports ClientSecurity
begin

text \<open>
  Creation and destruction of the client's security contexts, \<^verbatim>\<open>client/src/security_context.c\<close>, with the
  resources they take and give back. An operation also yields the list of its resource events;
  \<open>held\<close> replays such a list and is \<open>None\<close> when a resource is taken twice or given back without
  being held. \<open>libc_alloc\<close> answers the requests in their order: the context's memory, three mutexes,
  the memory of the encryption context.
\<close>

datatype context_mutex = ContextMutex | PoolMutex | MemoryMutex

datatype resource = ContextMemory | EncryptionMemory | MutexOf context_mutex | GuardPage nat

datatype resource_event = Acquire resource | Release resource

fun held :: "resource_event list \<Rightarrow> resource set \<Rightarrow> resource set option" where
  "held [] R = Some R"
| "held (Acquire r # es) R = (if r \<in> R then None else held es (insert r R))"
| "held (Release r # es) R = (if r \<in> R then held es (R - {r}) else None)"

lemma held_append: "held (es @ fs) R = (case held es R of None \<Rightarrow> None | Some R' \<Rightarrow> held fs R')"
  by (induction es R rule: held.induct) auto

section \<open>The code\<close>

definition initialize_context_mutexes :: "libc \<Rightarrow> int \<times> resource_event list" where
  "initialize_context_mutexes e =
     (if \<not> libc_alloc e 1 then (-1, [])
      else if \<not> libc_alloc e 2
      then (-1, [Acquire (MutexOf ContextMutex), Release (MutexOf ContextMutex)])
      else if \<not> libc_alloc e 3
      then (-1, [Acquire (MutexOf ContextMutex), Acquire (MutexOf PoolMutex),
                 Release (MutexOf PoolMutex), Release (MutexOf ContextMutex)])
      else (0, [Acquire (MutexOf ContextMutex), Acquire (MutexOf PoolMutex),
                Acquire (MutexOf MemoryMutex)]))"

definition cleanup_context_mutexes :: "resource_event list" where
  "cleanup_context_mutexes =
     [Release (MutexOf MemoryMutex), Release (MutexOf PoolMutex), Release (MutexOf ContextMutex)]"

text \<open>Guarded memory goes back to the system if its header is intact.\<close>

definition free_events :: "secure_block \<Rightarrow> resource \<Rightarrow> resource_event list" where
  "free_events b r = (case secure_memory_free b of Inl _ \<Rightarrow> [Release r] | Inr _ \<Rightarrow> [])"

definition initialize_encryption_context ::
  "libc \<Rightarrow> global_security \<Rightarrow> nat \<Rightarrow> security_level \<Rightarrow> secure_block ptr \<times> resource_event list" where
  "initialize_encryption_context e g esz level =
     (case secure_memory_allocate e (libc_alloc e 4) (g_global_context g \<noteq> None) esz level of
        None \<Rightarrow> (None, [])
      | Some b \<Rightarrow> (Some b, [Acquire EncryptionMemory]))"

definition initialize_context_fields ::
  "libc \<Rightarrow> u64 \<Rightarrow> u64 \<Rightarrow> security_context \<Rightarrow> security_level \<Rightarrow> security_context" where
  "initialize_context_fields e la fa c level =
     c\<lparr>mem_protection := (mem_protection c)\<lparr>num_guard_pages := 0\<rparr>, current_level := level,
       crypto_operations := 0, entropy_collected := 0, memory_allocations := 1,
       debugger_detected := False, integrity_checksum := calculate_integrity_checksum e la fa\<rparr>"

text \<open>\<open>csz\<close> and \<open>esz\<close> are the sizes of the two structures; the result is the context with its two memory
  blocks.\<close>

definition create_context_trace ::
  "libc \<Rightarrow> u64 \<Rightarrow> u64 \<Rightarrow> global_security \<Rightarrow> security_context \<Rightarrow> encryption_context \<Rightarrow> nat \<Rightarrow> nat \<Rightarrow>
     security_level \<Rightarrow> (security_context \<times> secure_block \<times> secure_block) ptr \<times> resource_event list" where
  "create_context_trace e la fa g raw raw_enc csz esz level =
     (case secure_memory_allocate e (libc_alloc e 0) (g_global_context g \<noteq> None) csz level of
        None \<Rightarrow> (None, [])
      | Some b \<Rightarrow>
          (let (r, evs) = initialize_context_mutexes e;
               evs1 = Acquire ContextMemory # evs
           in if r \<noteq> 0 then (None, evs1 @ free_events b ContextMemory)
              else (case initialize_encryption_context e g esz level of
                      (None, evs2) \<Rightarrow>
                        (None, evs1 @ evs2 @ cleanup_context_mutexes @ free_events b ContextMemory)
                    | (Some eb, evs2) \<Rightarrow>
                        (Some (initialize_context_fields e la fa
                                 (initialize_canaries g (raw\<lparr>enc_ctx := Some raw_enc\<rparr>)) level, b, eb),
                         evs1 @ evs2))))"

definition cleanup_encryption_context :: "security_context \<Rightarrow> secure_block \<Rightarrow> resource_event list" where
  "cleanup_encryption_context c eb = (if enc_ctx c \<noteq> None then free_events eb EncryptionMemory else [])"

definition cleanup_guard_pages :: "security_context \<Rightarrow> resource_event list" where
  "cleanup_guard_pages c =
     concat (map (\<lambda>i. case guard_pages (mem_protection c) ! i of
                        None \<Rightarrow> [] | Some page \<Rightarrow> [Release (GuardPage page)])
       [0 ..< num_guard_pages (mem_protection c)])"

definition security_context_destroy ::
  "(security_context \<times> secure_block \<times> secure_block) ptr \<Rightarrow> resource_event list" where
  "security_context_destroy cp =
     (case cp of
        None \<Rightarrow> []
      | Some (c, b, eb) \<Rightarrow>
          cleanup_encryption_context c eb @ cleanup_guard_pages c @ cleanup_context_mutexes @
          free_events b ContextMemory)"

section \<open>Balance\<close>

lemma fresh_block:
  "secure_memory_allocate e ok glob sz level = Some b \<Longrightarrow> free_events b r = [Release r]"
  by (auto simp: secure_memory_allocate_def free_events_def secure_memory_free_def split: if_splits)

lemma allocate_refused_iff:
  "0 < sz \<Longrightarrow> secure_memory_allocate e ok glob sz level = None \<longleftrightarrow> \<not> ok"
  by (simp add: secure_memory_allocate_def)

text \<open>The context without its blocks and events is the one of \<^const>\<open>security_context_create\<close>.\<close>

lemma create_trace_context:
  assumes "0 < csz" and "0 < esz"
  shows "map_option fst (fst (create_context_trace e la fa g raw raw_enc csz esz level)) =
    security_context_create e la fa g raw raw_enc level"
  using assms
  by (auto simp: create_context_trace_def security_context_create_def initialize_context_mutexes_def
      initialize_encryption_context_def initialize_context_fields_def initialize_canaries_def
      secure_memory_allocate_def Let_def)

definition context_resources :: "resource set" where
  "context_resources = {ContextMemory, EncryptionMemory, MutexOf ContextMutex, MutexOf PoolMutex,
     MutexOf MemoryMutex}"

lemma create_trace_held:
  assumes "create_context_trace e la fa g raw raw_enc csz esz level = (cp, evs)"
  shows "held evs {} = Some (if cp = None then {} else context_resources)"
  using assms
  by (auto simp: create_context_trace_def initialize_context_mutexes_def initialize_encryption_context_def
      fresh_block cleanup_context_mutexes_def context_resources_def Let_def split: option.splits if_splits)

lemma destroy_events:
  assumes "create_context_trace e la fa g raw raw_enc csz esz level = (Some (c, b, eb), evs)"
  shows "security_context_destroy (Some (c, b, eb')) =
    free_events eb' EncryptionMemory @ cleanup_context_mutexes @ [Release ContextMemory]"
    and "free_events eb EncryptionMemory = [Release EncryptionMemory]"
  using assms
  by (auto simp: create_context_trace_def initialize_context_mutexes_def initialize_encryption_context_def
      initialize_context_fields_def initialize_canaries_def security_context_destroy_def
      cleanup_encryption_context_def cleanup_guard_pages_def fresh_block Let_def
      split: option.splits if_splits)

end
