(* ===== verification/ClientSecurityProperties.thy ===== *)
theory ClientSecurityProperties
  imports ProcessChecks ContextLifecycle Demo
begin

text \<open>
  The properties of the client's security layer: the resources of a security context, and what the
  debugger detection answers.
\<close>

text \<open>C37: A security context takes its resources all or not at all. When any step of its creation fails,
  nothing stays held; when it succeeds, its two memory blocks and three mutexes are held, and
  destroying it gives back each of them once. If the memory header of the encryption context was
  overwritten meanwhile, exactly that block is not given back.\<close>

theorem context_resources_balanced:
  assumes "create_context_trace e la fa g raw raw_enc csz esz level = (cp, evs)"
  shows "(cp = None \<longrightarrow> held evs {} = Some {}) \<and>
    (\<forall>c b eb. cp = Some (c, b, eb) \<longrightarrow> held evs {} = Some context_resources \<and>
      held (evs @ security_context_destroy cp) {} = Some {} \<and>
      (\<forall>eb'. blk_magic eb' \<noteq> ALLOCATION_MAGIC \<longrightarrow>
        held (evs @ security_context_destroy (Some (c, b, eb'))) {} = Some {EncryptionMemory}))"
proof (intro conjI impI allI)
  fix c b eb assume cp: "cp = Some (c, b, eb)"
  note D = destroy_events [OF assms [unfolded cp]]
  note H = create_trace_held [OF assms]
  show "held evs {} = Some context_resources" using H cp by simp
  show "held (evs @ security_context_destroy cp) {} = Some {}"
    unfolding cp D(1) [of eb] D(2) held_append using H cp
    by (auto simp: cleanup_context_mutexes_def context_resources_def)
  fix eb' :: secure_block assume "blk_magic eb' \<noteq> ALLOCATION_MAGIC"
  then have "free_events eb' EncryptionMemory = []" by (simp add: free_events_def secure_memory_free_def)
  then show "held (evs @ security_context_destroy (Some (c, b, eb'))) {} = Some {EncryptionMemory}"
    unfolding D(1) [of eb'] held_append using H cp
    by (auto simp: cleanup_context_mutexes_def context_resources_def)
qed (use create_trace_held [OF assms] in simp)

theorem context_resources_balanced_witness:
  "\<exists>c b eb evs. create_context_trace demo_libc 0 0 initial_global demo_ctx demo_enc 100 100 SECURITY_LEVEL_HIGH =
      (Some (c, b, eb), evs) \<and> held (evs @ security_context_destroy (Some (c, b, eb))) {} = Some {}"
proof -
  obtain cp evs where t: "create_context_trace demo_libc 0 0 initial_global demo_ctx demo_enc 100 100
      SECURITY_LEVEL_HIGH = (cp, evs)" by fastforce
  have "security_context_create demo_libc 0 0 initial_global demo_ctx demo_enc SECURITY_LEVEL_HIGH \<noteq> None"
    by (simp add: security_context_create_def demo_libc_def)
  then obtain c b eb where cp: "cp = Some (c, b, eb)"
    using create_trace_context [of 100 100 demo_libc 0 0 initial_global demo_ctx demo_enc SECURITY_LEVEL_HIGH] t
    by (cases cp) auto
  from context_resources_balanced [OF t] t show ?thesis unfolding cp by blast
qed

text \<open>C38: The debugger detection always reports a debugger. Suppose the kernel's status file names the tracer
  of the process, as documented. Then the check of the file is exact: 1 if the process has a tracer,
  0 if not. But \<^verbatim>\<open>detect_debugger\<close> calls \<^verbatim>\<open>ptrace(PTRACE_TRACEME)\<close> first: a traced process is refused
  and reported, an untraced one becomes traced by its parent, which the check then finds.\<close>

theorem debugger_always_detected:
  assumes kernel: "\<And>q. \<exists>before after. (\<forall>l \<in> set before. plain_line l) \<and>
      status q = Some (status_text before (proc_tracer q) after)"
    and pids: "proc_tracer p < 2 ^ 31" "0 < proc_parent p" "proc_parent p < 2 ^ 31"
  shows "check_tracer_pid (status p) = Some (if proc_tracer p = 0 then 0 else 1) \<and>
    (\<exists>p'. detect_debugger p status start stop = Some (1, p'))"
proof -
  have check: "check_tracer_pid (status q) = Some (if proc_tracer q = 0 then 0 else 1)"
    if "proc_tracer q < 2 ^ 31" for q
    using kernel [of q] tracer_loop_status that by (fastforce simp: check_tracer_pid_def)
  show ?thesis
    using check [OF pids(1)] check [of "p\<lparr>proc_tracer := proc_parent p\<rparr>"] pids
    by (simp add: detect_debugger_def ptrace_traceme_def)
qed

theorem debugger_always_detected_witness:
  "\<exists>p'. detect_debugger \<lparr>proc_tracer = 0, proc_parent = 812\<rparr>
      (\<lambda>q. Some (status_text [''Name: client''] (proc_tracer q) ''Uid: 0'')) (0, 0) (0, 500) = Some (1, p')"
proof -
  let ?status = "\<lambda>q. Some (status_text [''Name: client''] (proc_tracer q) ''Uid: 0'')"
  have "plain_line ''Name: client''" by (simp add: plain_line_def strncmp_eq_def cstr_def)
  then have k: "\<exists>before after. (\<forall>l \<in> set before. plain_line l) \<and>
      ?status q = Some (status_text before (proc_tracer q) after)" for q
    by (intro exI [of _ "[''Name: client'']"] exI [of _ "''Uid: 0''"]) simp
  show ?thesis
    using debugger_always_detected [of ?status "\<lparr>proc_tracer = 0, proc_parent = 812\<rparr>", OF k] by simp
qed

end
