(* ===== verification/HardwareEntropy.thy ===== *)
theory HardwareEntropy
  imports ClientSecurity CliArgs Handshake
begin

text \<open>
  The entropy sources of the client and their mixing, \<^verbatim>\<open>client/src/hardware_security.c\<close>. What the
  processor's \<^verbatim>\<open>rdrand\<close> and time stamp counter, the clocks and the thermal sensor answer are
  inputs. A write behind the end of a buffer is undefined behaviour and is the value \<open>None\<close>. The
  estimate of the entropy is computed by the code in floating point; here it is a parameter, a
  function of the two integer statistics the code computes.
\<close>

text \<open>\<open>memcpy(buffer + off, bs, n)\<close>\<close>

definition write_at :: "byte list \<Rightarrow> nat \<Rightarrow> byte list \<Rightarrow> byte list option" where
  "write_at buf off bs =
     (if off + length bs \<le> length buf then Some (take off buf @ bs @ drop (off + length bs) buf) else None)"

lemma write_at_length: "write_at buf off bs = Some buf' \<Longrightarrow> length buf' = length buf"
  by (auto simp: write_at_def split: if_splits)

lemma write_at_Some: "off + length bs \<le> length buf \<Longrightarrow> \<exists>buf'. write_at buf off bs = Some buf' \<and> length buf' = length buf"
  by (simp add: write_at_def)

section \<open>The processor\<close>

text \<open>The loop over \<^verbatim>\<open>rdrand\<close>; \<open>rd n\<close> is the answer of its n-th use.\<close>

function rdrand_loop ::
  "(nat \<Rightarrow> u32 option) \<Rightarrow> nat \<Rightarrow> nat \<Rightarrow> nat \<Rightarrow> nat \<Rightarrow> byte list \<Rightarrow> (nat \<times> byte list) option" where
  "rdrand_loop rd sz n i collected buf =
     (if i < sz \<and> collected < size_sub sz 4
      then (case rd n of
              None \<Rightarrow> Some (collected, buf)
            | Some v \<Rightarrow>
                (case write_at buf collected (u32_bytes v) of
                   None \<Rightarrow> None
                 | Some buf' \<Rightarrow> rdrand_loop rd sz (n + 1) (i + 4) (collected + 4) buf'))
      else Some (collected, buf))"
  by pat_completeness auto
termination by (relation "measure (\<lambda>(rd, sz, n, i, collected, buf). sz - i)") auto

declare rdrand_loop.simps [simp del]

function tsc_loop :: "(nat \<Rightarrow> u64) \<Rightarrow> nat \<Rightarrow> nat \<Rightarrow> nat \<Rightarrow> byte list \<Rightarrow> (nat \<times> byte list) option" where
  "tsc_loop tsc sz n collected buf =
     (if collected < sz
      then (let copy_size = (if sz - collected > 8 then 8 else sz - collected)
            in case write_at buf collected (take copy_size (le_bytes 8 (unat (tsc n)))) of
                 None \<Rightarrow> None
               | Some buf' \<Rightarrow> tsc_loop tsc sz (n + 1) (collected + copy_size) buf')
      else Some (collected, buf))"
  by pat_completeness auto
termination by (relation "measure (\<lambda>(tsc, sz, n, collected, buf). sz - collected)") (auto split: if_splits)

declare tsc_loop.simps [simp del]

text \<open>The result is the return value (the number of bytes as an \<^verbatim>\<open>int\<close>) and the buffer.\<close>

definition collect_hardware_entropy ::
  "cpuid \<Rightarrow> (nat \<Rightarrow> u32 option) \<Rightarrow> (nat \<Rightarrow> u64) \<Rightarrow> byte list ptr \<Rightarrow> nat \<Rightarrow> (int \<times> byte list ptr) option" where
  "collect_hardware_entropy cpu rd tsc bufp sz =
     (case bufp of
        None \<Rightarrow> Some (-1, None)
      | Some buf \<Rightarrow>
          if sz = 0 then Some (-1, bufp)
          else
            (let caps = detect_hardware_security cpu
             in case (if rdrand_available caps then rdrand_loop rd sz 0 0 0 buf else Some (0, buf)) of
                  None \<Rightarrow> None
                | Some (collected, buf1) \<Rightarrow>
                    (case tsc_loop tsc sz 0 collected buf1 of
                       None \<Rightarrow> None
                     | Some (collected', buf2) \<Rightarrow>
                         Some (sint (word_of_nat collected' :: 32 word), Some buf2))))"

text \<open>\<open>rdrand_test\<close> is whether the test instruction succeeds.\<close>

definition enable_hardware_security_features :: "bool \<Rightarrow> hw_security_caps ptr \<Rightarrow> int" where
  "enable_hardware_security_features rdrand_test capsp =
     (case capsp of
        None \<Rightarrow> -1
      | Some caps \<Rightarrow>
          (let features_enabled = of_bool (cet_supported caps) +
                 of_bool (rdrand_available caps \<and> rdrand_test) + of_bool (aes_ni_present caps) +
                 of_bool (mpk_supported caps) + of_bool (tsx_available caps) :: nat
           in if features_enabled > 0 then 0 else -1))"

section \<open>The clocks\<close>

text \<open>\<open>ns i\<close> and \<open>us i\<close> are the nanoseconds and microseconds read in round \<open>i\<close>, if the call succeeds.\<close>

definition timing_round ::
  "nat \<Rightarrow> u64 option \<Rightarrow> u64 option \<Rightarrow> byte list \<Rightarrow> nat \<Rightarrow> (byte list \<times> nat \<times> bool) option" where
  "timing_round sz ns us buf collected =
     (let clock_part =
            (case ns of
               None \<Rightarrow> Some (buf, collected, False)
             | Some t \<Rightarrow>
                 (case write_at buf collected [ucast (t AND 0xFF)] of
                    None \<Rightarrow> None
                  | Some b1 \<Rightarrow>
                      if collected + 1 \<ge> sz then Some (b1, collected + 1, True)
                      else (case write_at b1 (collected + 1) [ucast (drop_bit 8 t AND 0xFF)] of
                              None \<Rightarrow> None
                            | Some b2 \<Rightarrow> Some (b2, collected + 2, False))))
      in case clock_part of
           None \<Rightarrow> None
         | Some (buf1, c1, stop) \<Rightarrow>
             if stop \<or> c1 \<ge> sz then Some (buf1, c1, True)
             else (case us of
                     None \<Rightarrow> Some (buf1, c1, False)
                   | Some t \<Rightarrow>
                       (case write_at buf1 c1 [ucast (t AND 0xFF)] of
                          None \<Rightarrow> None
                        | Some b3 \<Rightarrow> Some (b3, c1 + 1, c1 + 1 \<ge> sz))))"

function timing_loop ::
  "(nat \<Rightarrow> u64 option) \<Rightarrow> (nat \<Rightarrow> u64 option) \<Rightarrow> nat \<Rightarrow> nat \<Rightarrow> nat \<Rightarrow> byte list \<Rightarrow> (nat \<times> byte list) option" where
  "timing_loop ns us sz i collected buf =
     (if i < sz \<and> collected < sz
      then (case timing_round sz (ns i) (us i) buf collected of
              None \<Rightarrow> None
            | Some (buf', collected', stop) \<Rightarrow>
                if stop then Some (collected', buf') else timing_loop ns us sz (i + 1) collected' buf')
      else Some (collected, buf))"
  by pat_completeness auto
termination by (relation "measure (\<lambda>(ns, us, sz, i, collected, buf). sz - i)") auto

declare timing_loop.simps [simp del]

definition collect_timing_entropy ::
  "(nat \<Rightarrow> u64 option) \<Rightarrow> (nat \<Rightarrow> u64 option) \<Rightarrow> byte list ptr \<Rightarrow> nat \<Rightarrow> (int \<times> byte list ptr) option" where
  "collect_timing_entropy ns us bufp sz =
     (case bufp of
        None \<Rightarrow> Some (-1, None)
      | Some buf \<Rightarrow>
          if sz = 0 then Some (-1, bufp)
          else (case timing_loop ns us sz 0 0 buf of
                  None \<Rightarrow> None
                | Some (collected, buf') \<Rightarrow> Some (sint (word_of_nat collected :: 32 word), Some buf')))"

section \<open>Mixing\<close>

text \<open>The thermal part from what was read of the sensor, if it could be opened and read.\<close>

definition thermal_fill :: "u32 \<Rightarrow> byte list \<Rightarrow> byte list" where
  "thermal_fill temp b =
     u32_bytes temp @ map (\<lambda>i. ucast (drop_bit ((i mod 4) * 8) temp)) [4 ..< length b]"

definition thermal_update :: "string option \<Rightarrow> byte list \<Rightarrow> byte list option" where
  "thermal_update sensor b =
     (case sensor of
        None \<Rightarrow> Some b
      | Some s \<Rightarrow>
          if s = [] then Some b
          else map_option (\<lambda>temp. thermal_fill (word_of_int temp) b) (atoi s))"

definition mix_byte :: "byte \<Rightarrow> byte" where
  "mix_byte b = push_bit 3 b OR drop_bit 5 b"

definition mixed_byte :: "byte list \<Rightarrow> byte list \<Rightarrow> byte list \<Rightarrow> nat \<Rightarrow> byte" where
  "mixed_byte hw tim thermal i =
     mix_byte ((if i < length hw then hw ! i else 0) XOR
       (if i < length tim then tim ! (i mod length tim) else 0) XOR thermal ! (i mod length thermal))"

definition bit_count :: "byte list \<Rightarrow> nat list" where
  "bit_count m = fold (\<lambda>b cs. cs[unat b := cs ! unat b + 1]) m (replicate 256 0)"

definition transitions :: "byte list \<Rightarrow> nat" where
  "transitions m = (\<Sum>i \<leftarrow> [1 ..< length m]. length (filter (\<lambda>k. bit (m ! i XOR m ! (i - 1)) k) [0 ..< 8]))"

text \<open>\<open>est\<close> gives, from the counts of the byte values and the number of transitions, the value
  stored in \<^verbatim>\<open>entropy_estimate\<close> and whether the combined entropy reaches 3.0.\<close>

definition mix_entropy_sources ::
  "cpuid \<Rightarrow> (nat \<Rightarrow> u32 option) \<Rightarrow> (nat \<Rightarrow> u64) \<Rightarrow> (nat \<Rightarrow> u64 option) \<Rightarrow> (nat \<Rightarrow> u64 option) \<Rightarrow>
     string option \<Rightarrow> (nat list \<Rightarrow> nat \<Rightarrow> u32 \<times> bool) \<Rightarrow> entropy_pool ptr \<Rightarrow> (int \<times> entropy_pool ptr) option" where
  "mix_entropy_sources cpu rd tsc ns us sensor est poolp =
     (case poolp of
        None \<Rightarrow> Some (-1, None)
      | Some p \<Rightarrow>
          (case collect_hardware_entropy cpu rd tsc (Some (hw_entropy p)) 1024 of
             None \<Rightarrow> None
           | Some (_, hw) \<Rightarrow>
               (case thermal_update sensor (thermal_entropy p) of
                  None \<Rightarrow> None
                | Some thermal \<Rightarrow>
                    (case collect_timing_entropy ns us (Some (timing_entropy p)) 512 of
                       None \<Rightarrow> None
                     | Some (_, tim) \<Rightarrow>
                         (let mixed = map (mixed_byte (the hw) (the tim) thermal) [0 ..< 2048];
                              (estimate, enough) = est (bit_count mixed) (transitions mixed)
                          in Some (if enough then 0 else -1,
                               Some (p\<lparr>hw_entropy := the hw, timing_entropy := the tim,
                                 thermal_entropy := thermal, mixed_pool := mixed,
                                 entropy_estimate := estimate\<rparr>)))))))"

definition pool_ok :: "entropy_pool \<Rightarrow> bool" where
  "pool_ok p \<longleftrightarrow> length (hw_entropy p) = 1024 \<and> length (timing_entropy p) = 512 \<and>
     length (thermal_entropy p) = 256 \<and> length (mixed_pool p) = 2048"

section \<open>What the collectors write\<close>

lemma write_at_append:
  assumes "length pre = off" and "off + length bs \<le> length (pre @ rest)"
  shows "write_at (pre @ rest) off bs = Some (pre @ bs @ drop (length bs) rest)"
  using assms by (simp add: write_at_def)

text \<open>The words of the processor's generator, at most \<open>(sz - 1) div 4\<close> of them, up to the first failure.\<close>

definition rdrand_count :: "(nat \<Rightarrow> u32 option) \<Rightarrow> nat \<Rightarrow> nat" where
  "rdrand_count rd sz = length (takeWhile (\<lambda>j. rd j \<noteq> None) [0 ..< (sz - 1) div 4])"

definition rdrand_bytes :: "(nat \<Rightarrow> u32 option) \<Rightarrow> nat list \<Rightarrow> byte list" where
  "rdrand_bytes rd js = concat (map (\<lambda>j. u32_bytes (the (rd j))) js)"

definition tsc_bytes :: "(nat \<Rightarrow> u64) \<Rightarrow> nat list \<Rightarrow> byte list" where
  "tsc_bytes tsc js = concat (map (\<lambda>j. le_bytes 8 (unat (tsc j))) js)"

lemma length_rdrand_bytes [simp]: "length (rdrand_bytes rd js) = 4 * length js"
  by (induction js) (simp_all add: rdrand_bytes_def)

lemma length_tsc_bytes [simp]: "length (tsc_bytes tsc js) = 8 * length js"
  by (induction js) (simp_all add: tsc_bytes_def)

lemma tsc_bytes_Cons: "tsc_bytes tsc (j # js) = le_bytes 8 (unat (tsc j)) @ tsc_bytes tsc js"
  by (simp add: tsc_bytes_def)

lemma rdrand_loop_fills:
  fixes rd :: "nat \<Rightarrow> u32 option"
  assumes "4 * n = length pre" and "n \<le> (sz - 1) div 4" and "4 \<le> sz" and "length (pre @ rest) = sz"
  defines "js \<equiv> takeWhile (\<lambda>j. rd j \<noteq> None) [n ..< (sz - 1) div 4]"
  shows "rdrand_loop rd sz n (4 * n) (4 * n) (pre @ rest) =
    Some (4 * (n + length js), pre @ rdrand_bytes rd js @ drop (4 * length js) rest)"
  using assms(1,2,4) unfolding js_def
proof (induction "(sz - 1) div 4 - n" arbitrary: n pre rest)
  case 0
  then have "\<not> 4 * n < size_sub sz 4" using assms(3) by (auto simp: size_sub_def)
  with 0 show ?case by (subst rdrand_loop.simps) (simp add: rdrand_bytes_def)
next
  case (Suc k)
  then have n: "n < (sz - 1) div 4" "k = (sz - 1) div 4 - Suc n" by simp_all
  then have go: "4 * n < sz" "4 * n < size_sub sz 4" using assms(3) by (auto simp: size_sub_def)
  have up: "[n ..< (sz - 1) div 4] = n # [Suc n ..< (sz - 1) div 4]" using n by (simp add: upt_rec)
  show ?case
  proof (cases "rd n")
    case None
    with go up show ?thesis by (subst rdrand_loop.simps) (simp add: rdrand_bytes_def)
  next
    case (Some v)
    let ?rest = "drop 4 rest"
    have "4 * n + 4 \<le> sz" using go(2) assms(3) by (auto simp: size_sub_def)
    then have "write_at (pre @ rest) (4 * n) (u32_bytes v) = Some ((pre @ u32_bytes v) @ ?rest)"
      using write_at_append [of pre "4 * n" "u32_bytes v" rest] Suc.prems by simp
    moreover have "rdrand_loop rd sz (Suc n) (4 * Suc n) (4 * Suc n) ((pre @ u32_bytes v) @ ?rest) =
        Some (4 * (Suc n + length (takeWhile (\<lambda>j. rd j \<noteq> None) [Suc n ..< (sz - 1) div 4])),
          (pre @ u32_bytes v) @ rdrand_bytes rd (takeWhile (\<lambda>j. rd j \<noteq> None) [Suc n ..< (sz - 1) div 4]) @
          drop (4 * length (takeWhile (\<lambda>j. rd j \<noteq> None) [Suc n ..< (sz - 1) div 4])) ?rest)"
      by (rule Suc.hyps(1) [OF n(2)]) (use Suc.prems n \<open>4 * n + 4 \<le> sz\<close> in simp_all)
    ultimately show ?thesis using go up Some
      by (subst rdrand_loop.simps) (simp add: rdrand_bytes_def add.commute)
  qed
qed

lemma tsc_loop_fills:
  assumes "length pre = c" and "length (pre @ rest) = sz"
  shows "tsc_loop tsc sz n c (pre @ rest) =
    Some (sz, pre @ take (sz - c) (tsc_bytes tsc [n ..< n + (sz - c + 7) div 8]))"
  using assms
proof (induction "sz - c" arbitrary: n c pre rest rule: less_induct)
  case less
  show ?case
  proof (cases "c < sz")
    case False
    with less.prems have "rest = []" by (cases rest) auto
    with False less.prems show ?thesis by (subst tsc_loop.simps) simp
  next
    case True
    define k where "k = (if sz - c > 8 then 8 else sz - c)"
    let ?bs = "take k (le_bytes 8 (unat (tsc n)))"
    have k: "0 < k" "c + k \<le> sz" "k \<le> 8" using True by (auto simp: k_def)
    then have len: "length ?bs = k" by simp
    have w: "write_at (pre @ rest) c ?bs = Some ((pre @ ?bs) @ drop k rest)"
      using write_at_append [of pre c ?bs rest] less.prems k len by simp
    have IH: "tsc_loop tsc sz (Suc n) (c + k) ((pre @ ?bs) @ drop k rest) =
        Some (sz, (pre @ ?bs) @ take (sz - (c + k)) (tsc_bytes tsc [Suc n ..< Suc n + (sz - (c + k) + 7) div 8]))"
      by (rule less.hyps) (use less.prems k len in simp_all)
    have up: "[n ..< n + (sz - c + 7) div 8] = n # [Suc n ..< n + (sz - c + 7) div 8]"
      using True by (subst upt_conv_Cons) auto
    have "take (sz - c) (tsc_bytes tsc [n ..< n + (sz - c + 7) div 8]) =
        ?bs @ take (sz - (c + k)) (tsc_bytes tsc [Suc n ..< Suc n + (sz - (c + k) + 7) div 8])"
    proof (cases "sz - c > 8")
      case True
      then have k8: "k = 8" "Suc n + (sz - (c + k) + 7) div 8 = n + (sz - c + 7) div 8" "sz - (c + k) = sz - c - 8"
        by (auto simp: k_def)
      have "take (sz - c) (le_bytes 8 (unat (tsc n))) = le_bytes 8 (unat (tsc n))" using True by simp
      then show ?thesis unfolding up k8(2) tsc_bytes_Cons take_append using k8(1,3) by simp
    next
      case False
      then have "k = sz - c" "sz - (c + k) = 0" by (auto simp: k_def)
      moreover have "sz - c - length (le_bytes 8 (unat (tsc n))) = 0" using False by simp
      ultimately show ?thesis unfolding up tsc_bytes_Cons take_append by simp
    qed
    with IH show ?thesis using True w
      by (subst tsc_loop.simps) (simp add: k_def [symmetric] Let_def)
  qed
qed

text \<open>The bytes of one round of the clocks and of all rounds.\<close>

definition round_bytes :: "u64 option \<Rightarrow> u64 option \<Rightarrow> byte list" where
  "round_bytes ns us =
     (case ns of None \<Rightarrow> [] | Some t \<Rightarrow> [ucast (t AND 0xFF), ucast (drop_bit 8 t AND 0xFF)]) @
     (case us of None \<Rightarrow> [] | Some t \<Rightarrow> [ucast (t AND 0xFF)])"

definition clock_bytes :: "(nat \<Rightarrow> u64 option) \<Rightarrow> (nat \<Rightarrow> u64 option) \<Rightarrow> nat list \<Rightarrow> byte list" where
  "clock_bytes ns us js = concat (map (\<lambda>j. round_bytes (ns j) (us j)) js)"

lemma timing_round_fills:
  fixes ns us :: "u64 option"
  assumes "length pre = c" and "length (pre @ rest) = sz" and "c < sz"
  defines "bs \<equiv> take (sz - c) (round_bytes ns us)"
  shows "timing_round sz ns us (pre @ rest) c =
    Some (pre @ bs @ drop (length bs) rest, c + length bs, c + length bs = sz)"
proof -
  obtain x xs where rest: "rest = x # xs" using assms(1-3) by (cases rest) auto
  have sz: "sz = c + Suc (length xs)" using assms(1,2) rest by simp
  show ?thesis
    unfolding bs_def rest sz using assms(1)
    by (cases xs; cases "tl xs")
      (auto simp: timing_round_def write_at_def round_bytes_def Let_def split: option.splits)
qed

lemma timing_loop_fills:
  fixes ns us :: "nat \<Rightarrow> u64 option" and i :: nat
  assumes "length pre = c" and "length (pre @ rest) = sz"
  defines "bs \<equiv> take (sz - c) (clock_bytes ns us [i ..< sz])"
  shows "timing_loop ns us sz i c (pre @ rest) = Some (c + length bs, pre @ bs @ drop (length bs) rest)"
  using assms(1,2) unfolding bs_def
proof (induction "sz - i" arbitrary: i c pre rest)
  case 0
  then show ?case by (subst timing_loop.simps) (simp add: clock_bytes_def)
next
  case (Suc k)
  have i: "i < sz" "k = sz - Suc i" using Suc.hyps(2) by simp_all
  show ?case
  proof (cases "c < sz")
    case False
    then show ?thesis using Suc.prems by (subst timing_loop.simps) simp
  next
    case True
    let ?r = "round_bytes (ns i) (us i)"
    let ?bs = "take (sz - c) ?r"
    note r = timing_round_fills [OF Suc.prems True, of "ns i" "us i"]
    have cb: "clock_bytes ns us [i ..< sz] = ?r @ clock_bytes ns us [Suc i ..< sz]"
      using i by (simp add: clock_bytes_def upt_conv_Cons)
    show ?thesis
    proof (cases "c + length ?bs = sz")
      case full: True
      then have "take (sz - c) (?r @ clock_bytes ns us [Suc i ..< sz]) = ?bs" by auto
      with full show ?thesis using r i True unfolding cb by (subst timing_loop.simps) simp
    next
      case False
      then have short: "length ?r < sz - c" "?bs = ?r" using True by auto
      have "timing_loop ns us sz (Suc i) (c + length ?r) ((pre @ ?r) @ drop (length ?r) rest) =
          Some (c + length ?r + length (take (sz - (c + length ?r)) (clock_bytes ns us [Suc i ..< sz])),
            (pre @ ?r) @ take (sz - (c + length ?r)) (clock_bytes ns us [Suc i ..< sz]) @
            drop (length (take (sz - (c + length ?r)) (clock_bytes ns us [Suc i ..< sz]))) (drop (length ?r) rest))"
        by (rule Suc.hyps(1) [OF i(2)]) (use Suc.prems short in simp_all)
      with False show ?thesis using r i True short unfolding cb
        by (subst timing_loop.simps) (simp add: add.commute add.left_commute)
    qed
  qed
qed

text \<open>With a working clock every round collects a byte or more, so the buffer is filled.\<close>

lemma clock_bytes_enough:
  "(\<And>j. ns j \<noteq> None \<or> us j \<noteq> None) \<Longrightarrow> length js \<le> length (clock_bytes ns us js)"
proof (induction js)
  case (Cons j js)
  have "1 \<le> length (round_bytes (ns j) (us j))"
    using Cons.prems [of j] by (auto simp: round_bytes_def split: option.splits)
  with Cons show ?case by (simp add: clock_bytes_def)
qed simp

text \<open>The collectors as a whole.\<close>

lemma rdrand_count_le: "rdrand_count rd sz \<le> (sz - 1) div 4"
  unfolding rdrand_count_def using length_takeWhile_le [of _ "[0 ..< (sz - 1) div 4]"] by simp

lemma collect_hardware_fills:
  fixes rd :: "nat \<Rightarrow> u32 option" and cpu :: cpuid
  assumes "length buf = sz" and "4 \<le> sz"
  defines "k \<equiv> if rdrand_available (detect_hardware_security cpu) then rdrand_count rd sz else 0"
  shows "collect_hardware_entropy cpu rd tsc (Some buf) sz =
    Some (sint (word_of_nat sz :: 32 word), Some (rdrand_bytes rd [0 ..< k] @
      take (sz - 4 * k) (tsc_bytes tsc [0 ..< (sz - 4 * k + 7) div 8])))"
proof -
  let ?js = "takeWhile (\<lambda>j. rd j \<noteq> None) [0 ..< (sz - 1) div 4]"
  have js: "?js = [0 ..< rdrand_count rd sz]"
  proof -
    have "?js = take (rdrand_count rd sz) [0 ..< (sz - 1) div 4]"
      unfolding rdrand_count_def by (rule takeWhile_eq_take)
    then show ?thesis using rdrand_count_le [of rd sz] by simp
  qed
  have le: "4 * k \<le> sz" using rdrand_count_le [of rd sz] by (auto simp: k_def)
  have rd: "(if rdrand_available (detect_hardware_security cpu) then rdrand_loop rd sz 0 0 0 buf
      else Some (0, buf)) = Some (4 * k, rdrand_bytes rd [0 ..< k] @ drop (4 * k) buf)"
    using rdrand_loop_fills [of 0 "[]" sz buf rd] assms(1,2) unfolding js
    by (simp add: k_def rdrand_bytes_def)
  have "tsc_loop tsc sz 0 (4 * k) (rdrand_bytes rd [0 ..< k] @ drop (4 * k) buf) =
      Some (sz, rdrand_bytes rd [0 ..< k] @ take (sz - 4 * k) (tsc_bytes tsc [0 ..< (sz - 4 * k + 7) div 8]))"
    using tsc_loop_fills [of "rdrand_bytes rd [0 ..< k]" "4 * k" "drop (4 * k) buf" sz tsc 0] le assms(1) by simp
  with rd assms(2) show ?thesis by (simp add: collect_hardware_entropy_def Let_def)
qed

lemma collect_timing_fills:
  fixes ns us :: "nat \<Rightarrow> u64 option"
  assumes "length buf = sz" and "0 < sz"
  defines "bs \<equiv> take sz (clock_bytes ns us [0 ..< sz])"
  shows "collect_timing_entropy ns us (Some buf) sz =
    Some (sint (word_of_nat (length bs) :: 32 word), Some (bs @ drop (length bs) buf))"
  using timing_loop_fills [of "[]" 0 buf sz ns us 0] assms by (simp add: collect_timing_entropy_def)

lemma collect_hardware_length:
  assumes "collect_hardware_entropy cpu rd tsc (Some buf) sz = Some (r, out)"
    and "length buf = sz" and "4 \<le> sz"
  shows "length (the out) = sz"
proof -
  let ?k = "if rdrand_available (detect_hardware_security cpu) then rdrand_count rd sz else 0"
  have "4 * ?k \<le> sz" using rdrand_count_le [of rd sz] by auto
  moreover have "sz - 4 * ?k \<le> 8 * ((sz - 4 * ?k + 7) div 8)" by simp
  ultimately show ?thesis
    using collect_hardware_fills [OF assms(2,3), of cpu rd tsc] assms(1) by auto
qed

section \<open>The thermal bytes\<close>

lemma thermal_update_length:
  "thermal_update sensor b = Some b' \<Longrightarrow> 4 \<le> length b \<Longrightarrow> length b' = length b"
  by (auto simp: thermal_update_def thermal_fill_def split: option.splits if_splits)

lemma le_bytes_nth: "i < k \<Longrightarrow> le_bytes k n ! i = word_of_nat (n div 256 ^ i)"
proof (induction k n arbitrary: i rule: le_bytes.induct)
  case (2 k n)
  then show ?case by (cases i) (simp_all add: div_mult2_eq)
qed simp

lemma unat_ucast_byte: "ucast (w :: 32 word) = (word_of_nat (unat w) :: byte)"
  by simp

lemma u32_byte:
  assumes "i < 4"
  shows "u32_bytes w ! i = ucast (drop_bit (i * 8) w)"
proof -
  have "take_bit 32 (unat w) = unat w" using unsigned_less [of w, where ?'a = nat] by (simp add: take_bit_nat_eq_self)
  then have "unat (drop_bit (i * 8) w) = drop_bit (i * 8) (unat w)"
    by (simp add: unsigned_drop_bit_eq)
  then have "unat (drop_bit (i * 8) w) = unat w div 2 ^ (i * 8)" by (simp only: drop_bit_eq_div)
  moreover have "(256 :: nat) ^ i = 2 ^ (i * 8)" by (simp add: power_mult mult.commute [of i])
  ultimately show ?thesis using le_bytes_nth [OF assms] by (simp add: u32_bytes_def unat_ucast_byte)
qed

lemma thermal_byte:
  assumes "i < length b" and "4 \<le> length b"
  shows "thermal_fill temp b ! i = ucast (drop_bit ((i mod 4) * 8) temp)"
  using assms u32_byte [of i temp] by (auto simp: thermal_fill_def nth_append)

end
