(* ===== verification/EntropyProperties.thy ===== *)
theory EntropyProperties
  imports HardwareEntropy
begin

text \<open>
  The properties of the entropy sources of the client: the bounds of the collectors and what the mixed
  pool is made of.
\<close>

lemma sint_small: "n < 2 ^ 31 \<Longrightarrow> sint (word_of_nat n :: 32 word) = int n"
  by (simp add: signed_of_nat signed_take_bit_int_eq_self)

text \<open>C39: For a buffer of 1 to 2^31 - 1 bytes. The hardware collector, given 4 bytes or more, writes every
  byte of the buffer and returns its size: first the words of \<^verbatim>\<open>rdrand\<close> in order, up to its first
  failure and at most as many as leave 1 to 4 bytes over, then readings of the time stamp counter, 8 bytes
  each, the last one cut. The timing collector writes from the front the low bytes of the clocks in the
  order of its rounds, returns how many these are, leaves the rest of the buffer alone, never writes
  outside it, and fills it if in every round one of the two clocks works. A buffer of 1 to 3 bytes is
  overrun by the hardware collector as soon as \<^verbatim>\<open>rdrand\<close> works once, because
  \<^verbatim>\<open>size - sizeof(uint32_t)\<close> wraps.\<close>

theorem collectors_bounds:
  fixes cpu :: cpuid and rd :: "nat \<Rightarrow> u32 option" and tsc :: "nat \<Rightarrow> u64" and ns us :: "nat \<Rightarrow> u64 option"
  assumes "length buf = sz" and "sz < 2 ^ 31" and "0 < sz"
  defines "k \<equiv> if rdrand_available (detect_hardware_security cpu) then rdrand_count rd sz else 0"
    and "clocks \<equiv> take sz (clock_bytes ns us [0 ..< sz])"
  shows "(4 \<le> sz \<longrightarrow> (\<exists>out. collect_hardware_entropy cpu rd tsc (Some buf) sz = Some (int sz, Some out) \<and>
      length out = sz \<and>
      out = rdrand_bytes rd [0 ..< k] @ take (sz - 4 * k) (tsc_bytes tsc [0 ..< (sz - 4 * k + 7) div 8]))) \<and>
    (sz < 4 \<and> rdrand_available (detect_hardware_security cpu) \<and> rd 0 \<noteq> None \<longrightarrow>
      collect_hardware_entropy cpu rd tsc (Some buf) sz = None) \<and>
    collect_timing_entropy ns us (Some buf) sz =
      Some (int (length clocks), Some (clocks @ drop (length clocks) buf)) \<and>
    ((\<forall>j. ns j \<noteq> None \<or> us j \<noteq> None) \<longrightarrow> length clocks = sz)"
proof (intro conjI impI)
  assume sz: "4 \<le> sz"
  note C = collect_hardware_fills [OF assms(1) sz, of cpu rd tsc, folded k_def]
  show "\<exists>out. collect_hardware_entropy cpu rd tsc (Some buf) sz = Some (int sz, Some out) \<and>
      length out = sz \<and>
      out = rdrand_bytes rd [0 ..< k] @ take (sz - 4 * k) (tsc_bytes tsc [0 ..< (sz - 4 * k + 7) div 8])"
    using C collect_hardware_length [OF C assms(1) sz] sint_small [OF assms(2)] by simp
next
  assume a: "sz < 4 \<and> rdrand_available (detect_hardware_security cpu) \<and> rd 0 \<noteq> None"
  have "0 < size_sub sz 4" using a by (auto simp: size_sub_def)
  then have "rdrand_loop rd sz 0 0 0 buf = None"
    using a assms(1,3) by (subst rdrand_loop.simps) (auto simp: write_at_def)
  then show "collect_hardware_entropy cpu rd tsc (Some buf) sz = None"
    using a assms(3) by (simp add: collect_hardware_entropy_def)
next
  have "length clocks \<le> sz" by (simp add: clocks_def)
  then have "sint (word_of_nat (length clocks) :: 32 word) = int (length clocks)"
    using assms(2) by (intro sint_small) simp
  with collect_timing_fills [OF assms(1,3), of ns us]
  show "collect_timing_entropy ns us (Some buf) sz =
      Some (int (length clocks), Some (clocks @ drop (length clocks) buf))"
    by (simp only: clocks_def)
next
  assume "\<forall>j. ns j \<noteq> None \<or> us j \<noteq> None"
  then show "length clocks = sz"
    using clock_bytes_enough [of ns us "[0 ..< sz]"] by (simp add: clocks_def)
qed

definition demo_cpu :: cpuid where
  "demo_cpu = \<lparr>cpuid_max = 7, cpuid_leaf1 = Some bit_RDRND, cpuid_leaf7 = None\<rparr>"

lemma le_bytes_numeral: "le_bytes (numeral k) n = word_of_nat n # le_bytes (pred_numeral k) (n div 256)"
  by (subst numeral_eq_Suc) simp

theorem collectors_bounds_witness:
  "collect_hardware_entropy demo_cpu (\<lambda>_. Some 5) (\<lambda>_. 9) (Some (replicate 10 1)) 10 =
      Some (10, Some [5, 0, 0, 0, 5, 0, 0, 0, 9, 0]) \<and>
   collect_hardware_entropy demo_cpu (\<lambda>_. Some 5) (\<lambda>_. 9) (Some [0, 0]) 2 = None \<and>
   collect_timing_entropy (\<lambda>_. Some 0x102) (\<lambda>_. None) (Some [7, 7, 7]) 3 = Some (3, Some [2, 1, 2])"
proof -
  have a: "rdrand_available (detect_hardware_security demo_cpu)"
    by (simp add: demo_cpu_def detect_hardware_security_def bit_RDRND_def no_caps_def)
  have two: "rdrand_count (\<lambda>_. Some 5) 10 = 2" by (simp add: rdrand_count_def upt_rec)
  have rdb: "rdrand_bytes (\<lambda>_. Some 5) [0 ..< 2] = [5, 0, 0, 0, 5, 0, 0, 0]"
    by (simp add: rdrand_bytes_def upt_rec u32_bytes_def le_bytes_numeral)
  have tscb: "take 2 (tsc_bytes (\<lambda>_. 9) [0 ..< 1]) = [9, 0]"
    by (simp add: tsc_bytes_def upt_rec le_bytes_numeral)
  have clk: "take 3 (clock_bytes (\<lambda>_. Some 0x102) (\<lambda>_. None) [0 ..< 3]) = [2, 1, 2]"
    by (simp add: clock_bytes_def round_bytes_def upt_rec)
  have "\<exists>out. collect_hardware_entropy demo_cpu (\<lambda>_. Some 5) (\<lambda>_. 9) (Some (replicate 10 1)) 10 = Some (10, Some out) \<and>
      out = rdrand_bytes (\<lambda>_. Some 5) [0 ..< 2] @ take (10 - 4 * 2) (tsc_bytes (\<lambda>_. 9) [0 ..< (10 - 4 * 2 + 7) div 8])"
    using collectors_bounds [of "replicate 10 1" 10 demo_cpu "\<lambda>_. Some 5" "\<lambda>_. 9" "\<lambda>_. None" "\<lambda>_. None"] a two
    by simp
  moreover have "collect_hardware_entropy demo_cpu (\<lambda>_. Some 5) (\<lambda>_. 9) (Some [0, 0]) 2 = None"
    using collectors_bounds [of "[0, 0]" 2 demo_cpu "\<lambda>_. Some 5" "\<lambda>_. 9" "\<lambda>_. None" "\<lambda>_. None"] a by simp
  moreover have "collect_timing_entropy (\<lambda>_. Some 0x102) (\<lambda>_. None) (Some [7, 7, 7]) 3 = Some (3, Some [2, 1, 2])"
    using collectors_bounds [of "[7, 7, 7]" 3 demo_cpu "\<lambda>_. None" "\<lambda>_. 9" "\<lambda>_. Some 0x102" "\<lambda>_. None"] clk by simp
  ultimately show ?thesis using rdb tscb by simp
qed

text \<open>Half of the mixed pool carries no hardware or clock entropy: bytes 1024 to 2047 are a fixed
  rotation of the thermal bytes, which hold one temperature repeated; so, starting from a fresh
  pool, this half consists of four bytes repeated, and of zeros when there is no thermal sensor.\<close>

theorem mixed_pool_half_constant:
  assumes "pool_ok p" and "thermal_entropy p = replicate 256 0"
    and "mix_entropy_sources cpu rd tsc ns us sensor est (Some p) = Some (r, Some p')"
    and "1024 \<le> i" and "i < 2048"
  shows "mixed_pool p' ! i = mix_byte (thermal_entropy p' ! (i mod 256)) \<and>
    mixed_pool p' ! i = mixed_pool p' ! (1024 + i mod 4) \<and> (sensor = None \<longrightarrow> mixed_pool p' ! i = 0)"
proof -
  obtain x hw where hw: "collect_hardware_entropy cpu rd tsc (Some (hw_entropy p)) 1024 = Some (x, hw)"
    using assms(3) by (auto simp: mix_entropy_sources_def split: option.splits)
  obtain thermal where th: "thermal_update sensor (thermal_entropy p) = Some thermal"
    using assms(3) by (auto simp: mix_entropy_sources_def split: option.splits)
  have l: "length (hw_entropy p) = 1024" "length (timing_entropy p) = 512" using assms(1) by (simp_all add: pool_ok_def)
  note timing = collect_timing_fills [OF l(2), of ns us]
  then obtain y tim where tim: "collect_timing_entropy ns us (Some (timing_entropy p)) 512 = Some (y, tim)" by simp
  have len: "length (the hw) = 1024" "length (the tim) = 512" "length thermal = 256"
  proof -
    show "length thermal = 256" using thermal_update_length [OF th] assms(1) by (simp add: pool_ok_def)
    show "length (the tim) = 512" using timing tim l(2) by auto
    show "length (the hw) = 1024" using collect_hardware_length [OF hw l(1)] by simp
  qed
  let ?m = "map (mixed_byte (the hw) (the tim) thermal) [0 ..< 2048]"
  have p': "mixed_pool p' = ?m" "thermal_entropy p' = thermal"
    using assms(3) hw th tim by (auto simp: mix_entropy_sources_def Let_def split: prod.splits)
  have byte: "?m ! j = mix_byte (thermal ! (j mod 256))" if "1024 \<le> j" "j < 2048" for j
    using that len by (simp add: mixed_byte_def)
  have four: "thermal ! k = thermal ! (k mod 4)" if "k < 256" for k
  proof (cases "thermal = thermal_entropy p")
    case True
    have "k mod 4 < 256" by simp
    with True have "thermal ! k = 0" "thermal ! (k mod 4) = 0"
      using that assms(2) by (simp_all only: nth_replicate)
    then show ?thesis by simp
  next
    case False
    then obtain temp where t: "thermal = thermal_fill temp (thermal_entropy p)"
      using th by (auto simp: thermal_update_def split: option.splits if_splits)
    have l: "k mod 4 < 256" "length (thermal_entropy p) = 256" using assms(1) that by (simp_all add: pool_ok_def)
    have "thermal ! k = ucast (drop_bit ((k mod 4) * 8) temp)"
      unfolding t by (rule thermal_byte) (use that l in simp_all)
    moreover have "thermal ! (k mod 4) = ucast (drop_bit ((k mod 4 mod 4) * 8) temp)"
      unfolding t by (rule thermal_byte) (use l in simp_all)
    ultimately show ?thesis by (simp only: mod_mod_trivial)
  qed
  have "i mod 256 mod 4 = i mod 4" by (simp add: mod_mod_cancel)
  moreover have "(4 * 256 + i mod 4) mod 256 = i mod 4 mod 256" by (rule mod_mult_self3)
  ultimately have "?m ! i = ?m ! (1024 + i mod 4)"
    using byte [OF assms(4,5)] byte [of "1024 + i mod 4"] four [of "i mod 256"] by (simp add: mod_less)
  moreover have "?m ! i = 0" if "sensor = None"
  proof -
    have "thermal = replicate 256 0" using that th assms(2) by (simp add: thermal_update_def)
    moreover have "i mod 256 < 256" by simp
    ultimately have "thermal ! (i mod 256) = 0" by (simp only: nth_replicate)
    with byte [OF assms(4,5)] show ?thesis by (simp add: mix_byte_def)
  qed
  ultimately show ?thesis using p' byte [OF assms(4,5)] by simp
qed

definition fresh_pool :: entropy_pool where
  "fresh_pool = \<lparr>hw_entropy = replicate 1024 0, timing_entropy = replicate 512 0,
     thermal_entropy = replicate 256 0, mixed_pool = replicate 2048 0, entropy_estimate = 0\<rparr>"

theorem mixed_pool_half_constant_witness:
  "\<exists>r p'. mix_entropy_sources demo_cpu (\<lambda>_. None) (\<lambda>_. 9) (\<lambda>_. None) (\<lambda>_. Some 1) None (\<lambda>_ _. (0, False))
      (Some fresh_pool) = Some (r, Some p') \<and> mixed_pool p' ! 1500 = 0"
proof -
  have "length (replicate 1024 0) = 1024" "4 \<le> (1024 :: nat)" "length (replicate 512 0) = 512" "0 < (512 :: nat)"
    by simp_all
  note L = this
  have "\<exists>r p'. mix_entropy_sources demo_cpu (\<lambda>_. None) (\<lambda>_. 9) (\<lambda>_. None) (\<lambda>_. Some 1) None
      (\<lambda>_ _. (0, False)) (Some fresh_pool) = Some (r, Some p')"
    using collect_hardware_fills [OF L(1,2), of demo_cpu "\<lambda>_. None" "\<lambda>_. 9"]
      collect_timing_fills [OF L(3,4), of "\<lambda>_. None" "\<lambda>_. Some 1"]
    by (simp add: mix_entropy_sources_def fresh_pool_def thermal_update_def Let_def
        del: replicate.simps replicate_Suc)
  then obtain r p' where m: "mix_entropy_sources demo_cpu (\<lambda>_. None) (\<lambda>_. 9) (\<lambda>_. None) (\<lambda>_. Some 1) None
      (\<lambda>_ _. (0, False)) (Some fresh_pool) = Some (r, Some p')" by blast
  have "pool_ok fresh_pool" "thermal_entropy fresh_pool = replicate 256 0"
    by (simp_all add: pool_ok_def fresh_pool_def)
  from mixed_pool_half_constant [OF this m, of 1500] m show ?thesis by auto
qed

end
