(* ===== verification/Logger.thy ===== *)
theory Logger
  imports CLib "HOL-Library.Monad_Syntax"
begin

text \<open>
  The logger of both programs, \<^verbatim>\<open>utils/src/logger.c\<close>, and its demo program. The state is the global
  \<^verbatim>\<open>g_logger\<close>, the flag \<^verbatim>\<open>g_logger_initialized\<close>, whether the calling thread holds
  \<^verbatim>\<open>g_logger_mutex\<close>, what was written and which files were closed. The mutex is not recursive: a
  thread that locks it a second time waits for itself, so the call does not return, which is the
  value \<open>None\<close>. The formatted user message (the result of \<^verbatim>\<open>vsnprintf\<close>) is an argument; the clock,
  the terminal, \<^verbatim>\<open>fopen\<close> and the values of \<^verbatim>\<open>__FILE__\<close> and \<^verbatim>\<open>__LINE__\<close> are in the record
  \<open>log_env\<close>. The rest of the development leaves log output away: no function of client or server reads it back.
\<close>

datatype log_level =
  LOG_LEVEL_DEBUG | LOG_LEVEL_INFO | LOG_LEVEL_WARN | LOG_LEVEL_ERROR | LOG_LEVEL_FATAL

fun log_level_value :: "log_level \<Rightarrow> nat" where
  "log_level_value LOG_LEVEL_DEBUG = 0"
| "log_level_value LOG_LEVEL_INFO = 1"
| "log_level_value LOG_LEVEL_WARN = 2"
| "log_level_value LOG_LEVEL_ERROR = 3"
| "log_level_value LOG_LEVEL_FATAL = 4"

lemma log_level_value_inject [simp]: "log_level_value a = log_level_value b \<longleftrightarrow> a = b"
  by (cases a; cases b) simp_all

instantiation log_level :: linorder
begin

definition less_eq_log_level :: "log_level \<Rightarrow> log_level \<Rightarrow> bool" where
  "less_eq_log_level a b \<longleftrightarrow> log_level_value a \<le> log_level_value b"

definition less_log_level :: "log_level \<Rightarrow> log_level \<Rightarrow> bool" where
  "less_log_level a b \<longleftrightarrow> log_level_value a < log_level_value b"

instance
  by standard (auto simp: less_eq_log_level_def less_log_level_def)

end

lemmas log_order = less_eq_log_level_def less_log_level_def

fun level_names :: "log_level \<Rightarrow> string" where
  "level_names LOG_LEVEL_DEBUG = ''DEBUG''"
| "level_names LOG_LEVEL_INFO = ''INFO''"
| "level_names LOG_LEVEL_WARN = ''WARN''"
| "level_names LOG_LEVEL_ERROR = ''ERROR''"
| "level_names LOG_LEVEL_FATAL = ''FATAL''"

definition ansi :: "string \<Rightarrow> string" where
  "ansi code = CHR 0x1B # ''['' @ code @ ''m''"

fun level_colors :: "log_level \<Rightarrow> string" where
  "level_colors LOG_LEVEL_DEBUG = ansi ''36''"
| "level_colors LOG_LEVEL_INFO = ansi ''32''"
| "level_colors LOG_LEVEL_WARN = ansi ''33''"
| "level_colors LOG_LEVEL_ERROR = ansi ''31''"
| "level_colors LOG_LEVEL_FATAL = ansi ''35''"

definition COLOR_RESET :: string where "COLOR_RESET = ansi ''0''"
definition COLOR_BOLD :: string where "COLOR_BOLD = ansi ''1''"

datatype log_output = Stdout | Stderr | LogFile string

record logger_config =
  min_level :: log_level
  output_file :: "log_output option"
  use_colors :: bool
  show_timestamp :: bool
  show_level :: bool
  show_file_info :: bool
  component_name :: "char list"

record log_state =
  g_logger :: logger_config
  mutex_held :: bool
  g_logger_initialized :: bool
  log_written :: "(log_output \<times> string) list"
  log_closed :: "log_output list"

text \<open>The broken-down time \<^verbatim>\<open>localtime\<close> gives and the microseconds.\<close>

record log_time =
  tm_year :: int
  tm_mon :: int
  tm_mday :: int
  tm_hour :: int
  tm_min :: int
  tm_sec :: int
  tm_usec :: int

record log_env =
  log_now :: log_time
  is_tty :: "log_output \<Rightarrow> bool"
  fopen_ok :: "string \<Rightarrow> bool"
  fopen_error :: string \<comment> \<open>\<^verbatim>\<open>strerror(errno)\<close> when it fails\<close>
  macro_site :: "string \<Rightarrow> string \<times> int" \<comment> \<open>file and line of the calls in a function\<close>

definition initial_logger :: log_state where
  "initial_logger = \<lparr>g_logger = \<lparr>min_level = LOG_LEVEL_INFO, output_file = None, use_colors = True,
       show_timestamp = True, show_level = True, show_file_info = False,
       component_name = replicate 64 NUL\<rparr>,
     mutex_held = False, g_logger_initialized = False, log_written = [], log_closed = []\<rparr>"

section \<open>The mutex\<close>

definition mutex_lock :: "log_state \<Rightarrow> log_state option" where
  "mutex_lock st = (if mutex_held st then None else Some (st\<lparr>mutex_held := True\<rparr>))"

definition mutex_unlock :: "log_state \<Rightarrow> log_state" where
  "mutex_unlock st = st\<lparr>mutex_held := False\<rparr>"

section \<open>One log line\<close>

definition pad_int :: "nat \<Rightarrow> int \<Rightarrow> string" where
  "pad_int n i =
     (let d = show_nat (nat \<bar>i\<bar>); d' = replicate (n - length d - of_bool (i < 0)) CHR ''0'' @ d
      in if i < 0 then CHR ''-'' # d' else d')"
  \<comment> \<open>\<^verbatim>\<open>%0nd\<close>\<close>

definition time_text :: "log_time \<Rightarrow> string" where
  "time_text t = ''['' @ pad_int 4 (tm_year t + 1900) @ ''-'' @ pad_int 2 (tm_mon t + 1) @ ''-'' @
     pad_int 2 (tm_mday t) @ '' '' @ pad_int 2 (tm_hour t) @ '':'' @ pad_int 2 (tm_min t) @ '':'' @
     pad_int 2 (tm_sec t) @ ''.'' @ pad_int 3 (tm_usec t div 1000) @ '']''"

definition get_basename :: "string \<Rightarrow> string" where
  "get_basename path = rev (takeWhile (\<lambda>c. c \<noteq> CHR ''/'') (rev path))"

text \<open>One \<^verbatim>\<open>snprintf(buf_ptr, remaining, ...)\<close>: it writes at most \<open>remaining - 1\<close> characters, but
  returns the length of the whole text.\<close>

definition put :: "string \<Rightarrow> string \<times> int \<Rightarrow> string \<times> int" where
  "put s br = (fst br @ take (nat (snd br) - 1) s, snd br - int (length s))"

definition put_if :: "bool \<Rightarrow> string \<Rightarrow> string \<times> int \<Rightarrow> string \<times> int" where
  "put_if b s br = (if b \<and> snd br > 0 then put s br else br)"

definition log_buffer ::
  "log_time \<Rightarrow> logger_config \<Rightarrow> log_level \<Rightarrow> string \<Rightarrow> int \<Rightarrow> string \<Rightarrow> string \<Rightarrow> string" where
  "log_buffer t g level file line func msg =
     (let b0 = ([], 4096);
          b1 = (if use_colors g then put (level_colors level) b0 else b0);
          b2 = put_if (show_timestamp g) (time_text t) b1;
          b3 = put_if (strlen (component_name g) > 0) (''['' @ cstr (component_name g) @ '']'') b2;
          b4 = put_if (show_level g)
                 (if use_colors g then ''['' @ COLOR_BOLD @ level_names level @ COLOR_RESET @ '']''
                  else ''['' @ level_names level @ '']'') b3;
          b5 = put_if (show_file_info g)
                 (''['' @ get_basename file @ '':'' @ show_int line @ '':'' @ func @ '']'') b4;
          b6 = put_if True '' '' b5;
          b7 = put_if (use_colors g) COLOR_RESET b6;
          b8 = put_if True msg b7;
          b9 = put_if True [LF] b8
      in fst b9)"

definition logger_log ::
  "log_env \<Rightarrow> log_level \<Rightarrow> string \<Rightarrow> int \<Rightarrow> string \<Rightarrow> string \<Rightarrow> log_state \<Rightarrow> log_state option" where
  "logger_log e level file line func msg st =
     (if \<not> g_logger_initialized st \<or> level < min_level (g_logger st) then Some st
      else do {
        st1 \<leftarrow> mutex_lock st;
        let out = (case output_file (g_logger st1) of None \<Rightarrow> Stdout | Some f \<Rightarrow> f);
        let g = (g_logger st1)\<lparr>output_file := Some out\<rparr>;
        Some (mutex_unlock (st1\<lparr>g_logger := g,
          log_written := log_written st1 @ [(out, log_buffer (log_now e) g level file line func msg)]\<rparr>))
      })"

text \<open>A macro like \<^verbatim>\<open>LOG_INFO\<close> used in function \<open>func\<close>.\<close>

definition log_macro :: "log_env \<Rightarrow> string \<Rightarrow> log_level \<Rightarrow> string \<Rightarrow> log_state \<Rightarrow> log_state option" where
  "log_macro e func level msg =
     logger_log e level (fst (macro_site e func)) (snd (macro_site e func)) func msg"

section \<open>Configuration\<close>

definition set_component :: "string option \<Rightarrow> logger_config \<Rightarrow> logger_config" where
  "set_component namep g =
     (case namep of
        None \<Rightarrow> g
      | Some name \<Rightarrow> g\<lparr>component_name := (strncpy (component_name g) name 63)[63 := NUL]\<rparr>)"

definition name_text :: "string option \<Rightarrow> string" where
  "name_text namep = (case namep of None \<Rightarrow> ''UNKNOWN'' | Some name \<Rightarrow> cstr name)"

definition logger_init ::
  "log_env \<Rightarrow> string option \<Rightarrow> log_level \<Rightarrow> log_state \<Rightarrow> log_state option" where
  "logger_init e namep level st = do {
     st1 \<leftarrow> mutex_lock st;
     let g = set_component namep ((g_logger st1)\<lparr>min_level := level, output_file := Some Stdout,
               use_colors := is_tty e Stdout, show_timestamp := True, show_level := True,
               show_file_info := False\<rparr>);
     log_macro e ''logger_init'' LOG_LEVEL_INFO
       (''Logger initialized for component '' @ [CHR 0x27] @ name_text namep @ [CHR 0x27] @
        '' with level '' @ level_names level)
       (mutex_unlock (st1\<lparr>g_logger := g, g_logger_initialized := True\<rparr>))
   }"

definition logger_init_with_file ::
  "log_env \<Rightarrow> string option \<Rightarrow> log_level \<Rightarrow> string \<Rightarrow> log_state \<Rightarrow> log_state option" where
  "logger_init_with_file e namep level log_file st = do {
     st1 \<leftarrow> mutex_lock st;
     if \<not> fopen_ok e log_file
     then (let st2 = mutex_unlock st1
           in logger_init e namep level (st2\<lparr>log_written := log_written st2 @
                [(Stderr, ''Failed to open log file '' @ [CHR 0x27] @ log_file @ [CHR 0x27] @ '': '' @
                   fopen_error e @ [LF])]\<rparr>))
     else
       (let g = set_component namep ((g_logger st1)\<lparr>min_level := level,
                  output_file := Some (LogFile log_file), use_colors := False, show_timestamp := True,
                  show_level := True, show_file_info := True\<rparr>)
        in log_macro e ''logger_init_with_file'' LOG_LEVEL_INFO
             (''Logger initialized for component '' @ [CHR 0x27] @ name_text namep @ [CHR 0x27] @
              '' with level '' @ level_names level @ '', output to file '' @ [CHR 0x27] @ log_file @ [CHR 0x27])
             (mutex_unlock (st1\<lparr>g_logger := g, g_logger_initialized := True\<rparr>)))
   }"

definition is_log_file :: "log_output option \<Rightarrow> bool" where
  "is_log_file out \<longleftrightarrow> out \<noteq> None \<and> out \<noteq> Some Stdout \<and> out \<noteq> Some Stderr"

definition logger_cleanup :: "log_env \<Rightarrow> log_state \<Rightarrow> log_state option" where
  "logger_cleanup e st = do {
     st1 \<leftarrow> mutex_lock st;
     st2 \<leftarrow> (if g_logger_initialized st1 \<and> is_log_file (output_file (g_logger st1))
             then do {
               st' \<leftarrow> log_macro e ''logger_cleanup'' LOG_LEVEL_INFO ''Logger shutting down'' st1;
               Some (st'\<lparr>log_closed := log_closed st' @ [the (output_file (g_logger st'))]\<rparr>)
             }
             else Some st1);
     Some (mutex_unlock (st2\<lparr>g_logger := (g_logger st2)\<lparr>output_file := None\<rparr>,
       g_logger_initialized := False\<rparr>))
   }"

definition logger_set_level :: "log_level \<Rightarrow> log_state \<Rightarrow> log_state option" where
  "logger_set_level level st =
     map_option (\<lambda>st1. mutex_unlock (st1\<lparr>g_logger := (g_logger st1)\<lparr>min_level := level\<rparr>\<rparr>)) (mutex_lock st)"

definition logger_enable_colors :: "log_env \<Rightarrow> bool \<Rightarrow> log_state \<Rightarrow> log_state option" where
  "logger_enable_colors e enable st =
     map_option (\<lambda>st1. mutex_unlock (st1\<lparr>g_logger := (g_logger st1)\<lparr>use_colors := enable \<and>
         (output_file (g_logger st1) = Some Stdout \<or> output_file (g_logger st1) = Some Stderr) \<and>
         is_tty e (the (output_file (g_logger st1)))\<rparr>\<rparr>)) (mutex_lock st)"

definition logger_enable_timestamps :: "bool \<Rightarrow> log_state \<Rightarrow> log_state option" where
  "logger_enable_timestamps enable st =
     map_option (\<lambda>st1. mutex_unlock (st1\<lparr>g_logger := (g_logger st1)\<lparr>show_timestamp := enable\<rparr>\<rparr>))
       (mutex_lock st)"

definition logger_enable_file_info :: "bool \<Rightarrow> log_state \<Rightarrow> log_state option" where
  "logger_enable_file_info enable st =
     map_option (\<lambda>st1. mutex_unlock (st1\<lparr>g_logger := (g_logger st1)\<lparr>show_file_info := enable\<rparr>\<rparr>))
       (mutex_lock st)"

section \<open>The demo program\<close>

text \<open>\<^verbatim>\<open>main\<close> of \<^verbatim>\<open>utils/demo_logger.c\<close>; \<open>ms\<close> is the elapsed time it prints.\<close>

definition demo_main :: "log_env \<Rightarrow> string \<Rightarrow> log_state \<Rightarrow> log_state option" where
  "demo_main e ms st = do {
     st \<leftarrow> logger_init e (Some ''DEMO'') LOG_LEVEL_DEBUG st;
     st \<leftarrow> log_macro e ''main'' LOG_LEVEL_INFO ''=== Logger Demo Started ==='' st;
     st \<leftarrow> log_macro e ''main'' LOG_LEVEL_DEBUG ''This is a debug message - shows internal details'' st;
     st \<leftarrow> log_macro e ''main'' LOG_LEVEL_INFO ''This is an info message - general information'' st;
     st \<leftarrow> log_macro e ''main'' LOG_LEVEL_WARN ''This is a warning message - something might be wrong'' st;
     st \<leftarrow> log_macro e ''main'' LOG_LEVEL_ERROR ''This is an error message - something went wrong'' st;
     st \<leftarrow> log_macro e ''main'' LOG_LEVEL_INFO ''[CONNECTION] Client connected from 192.168.1.100:5432'' st;
     st \<leftarrow> log_macro e ''main'' LOG_LEVEL_INFO
       (''[HANDSHAKE] 3-way handshake initiated with client '' @ [CHR 0x27] @ ''john'' @ [CHR 0x27]) st;
     st \<leftarrow> log_macro e ''main'' LOG_LEVEL_DEBUG ''[PROTOCOL] Sending SYN packet (seq=12345, ack=0)'' st;
     st \<leftarrow> log_macro e ''main'' LOG_LEVEL_INFO ''[SERVER] Server started on port 8080'' st;
     st \<leftarrow> log_macro e ''main'' LOG_LEVEL_INFO
       (''[CLIENT] Client '' @ [CHR 0x27] @ ''alice'' @ [CHR 0x27] @ '' joined the chat room'') st;
     st \<leftarrow> log_macro e ''main'' LOG_LEVEL_DEBUG ''[PERF] Starting database_query'' st;
     st \<leftarrow> log_macro e ''main'' LOG_LEVEL_DEBUG (''[PERF] database_query completed in '' @ ms @ '' ms'') st;
     st \<leftarrow> log_macro e ''main'' LOG_LEVEL_WARN ''High connection count detected: 5 connections'' st;
     st \<leftarrow> log_macro e ''main'' LOG_LEVEL_INFO ''Switching to file logging...'' st;
     st \<leftarrow> logger_cleanup e st;
     st \<leftarrow> logger_init_with_file e (Some ''DEMO-FILE'') LOG_LEVEL_DEBUG ''/tmp/chat_demo.log'' st;
     st \<leftarrow> log_macro e ''main'' LOG_LEVEL_INFO ''This message goes to file: /tmp/chat_demo.log'' st;
     st \<leftarrow> log_macro e ''main'' LOG_LEVEL_ERROR ''Error messages are also written to file'' st;
     st \<leftarrow> log_macro e ''main'' LOG_LEVEL_INFO ''[HANDSHAKE] File logging preserves all formatting'' st;
     logger_cleanup e st
   }"

section \<open>What a line holds\<close>

definition log_parts ::
  "log_time \<Rightarrow> logger_config \<Rightarrow> log_level \<Rightarrow> string \<Rightarrow> int \<Rightarrow> string \<Rightarrow> string \<Rightarrow> string list" where
  "log_parts t g level file line func msg =
     (if use_colors g then [level_colors level] else []) @
     (if show_timestamp g then [time_text t] else []) @
     (if strlen (component_name g) > 0 then [''['' @ cstr (component_name g) @ '']''] else []) @
     (if show_level g
      then [if use_colors g then ''['' @ COLOR_BOLD @ level_names level @ COLOR_RESET @ '']''
            else ''['' @ level_names level @ '']''] else []) @
     (if show_file_info g
      then [''['' @ get_basename file @ '':'' @ show_int line @ '':'' @ func @ '']''] else []) @
     ['' ''] @ (if use_colors g then [COLOR_RESET] else []) @ [msg, [LF]]"

lemma log_parts_output [simp]:
  "log_parts t (g\<lparr>output_file := out\<rparr>) level file line func msg = log_parts t g level file line func msg"
  by (simp add: log_parts_def)

text \<open>The state of the writer after the texts whose concatenation is \<open>L\<close>.\<close>

definition writer_at :: "string \<Rightarrow> string \<times> int \<Rightarrow> bool" where
  "writer_at L br \<longleftrightarrow> fst br = take 4095 L \<and>
     (if length L < 4096 then snd br = 4096 - int (length L) else snd br \<le> 0)"

lemma put_if_writer:
  assumes "writer_at L br"
  shows "writer_at (L @ (if b then s else [])) (put_if b s br)"
proof (cases "b \<and> length L < 4096")
  case True
  then have "snd br = 4096 - int (length L)" "fst br = L" using assms by (auto simp: writer_at_def)
  moreover have "nat (4096 - int (length L)) - 1 = 4095 - length L" using True by simp
  ultimately show ?thesis using True by (simp add: put_if_def put_def writer_at_def)
next
  case False
  with assms show ?thesis by (auto simp: put_if_def writer_at_def)
qed

lemma log_buffer_eq: "log_buffer t g level file line func msg = take 4095 (concat (log_parts t g level file line func msg))"
proof -
  have start: "writer_at [] ([], 4096)" by (simp add: writer_at_def)
  have "writer_at (concat (log_parts t g level file line func msg))
      (put_if True [LF] (put_if True msg (put_if (use_colors g) COLOR_RESET (put_if True '' ''
        (put_if (show_file_info g) (''['' @ get_basename file @ '':'' @ show_int line @ '':'' @ func @ '']'')
          (put_if (show_level g) (if use_colors g then ''['' @ COLOR_BOLD @ level_names level @ COLOR_RESET @ '']''
              else ''['' @ level_names level @ '']'')
            (put_if (strlen (component_name g) > 0) (''['' @ cstr (component_name g) @ '']'')
              (put_if (show_timestamp g) (time_text t)
                (put_if (use_colors g) (level_colors level) ([], 4096))))))))))"
    by (rule back_subst [where P = "\<lambda>L. writer_at L _",
          OF put_if_writer [OF put_if_writer [OF put_if_writer [OF put_if_writer [OF put_if_writer
            [OF put_if_writer [OF put_if_writer [OF put_if_writer [OF put_if_writer [OF start]]]]]]]]]])
      (simp add: log_parts_def)
  then show ?thesis by (simp add: writer_at_def log_buffer_def put_if_def [of "use_colors g" "level_colors level"])
qed

section \<open>Which calls return\<close>

lemma logger_log_free:
  assumes "\<not> mutex_held st"
  shows "logger_log e level file line func msg st =
    Some (if g_logger_initialized st \<and> min_level (g_logger st) \<le> level
      then let out = (case output_file (g_logger st) of None \<Rightarrow> Stdout | Some f \<Rightarrow> f);
               g = (g_logger st)\<lparr>output_file := Some out\<rparr>
           in st\<lparr>g_logger := g, log_written := log_written st @
                [(out, log_buffer (log_now e) g level file line func msg)]\<rparr>
      else st)"
  using assms by (auto simp: logger_log_def mutex_lock_def mutex_unlock_def Let_def not_le)

lemma logger_log_held:
  "mutex_held st \<Longrightarrow> logger_log e level file line func msg st =
     (if g_logger_initialized st \<and> min_level (g_logger st) \<le> level then None else Some st)"
  by (auto simp: logger_log_def mutex_lock_def not_le)

end
