(* ===== verification/LoggerProperties.thy ===== *)
theory LoggerProperties
  imports Logger
begin

text \<open>
  The properties of the logger: the exact text of a line, and which calls do not return.
\<close>

text \<open>A call of the logger below the minimum level (or before initialisation) does nothing. Any other
  call, with the mutex free, appends exactly one line to the current output and leaves the mutex
  free: the configured parts (colour, time, component, level, place), a blank, the message and a
  line break, cut to 4095 characters (a line that is longer than this loses its line break with its end).\<close>

theorem log_line_exact:
  assumes "\<not> mutex_held st"
  shows "\<exists>st'. logger_log e level file line func msg st = Some st' \<and> \<not> mutex_held st' \<and>
    (if g_logger_initialized st \<and> min_level (g_logger st) \<le> level
     then log_written st' = log_written st @
       [(case output_file (g_logger st) of None \<Rightarrow> Stdout | Some f \<Rightarrow> f,
         take 4095 (concat (log_parts (log_now e) (g_logger st) level file line func msg)))]
     else st' = st)"
  using assms by (simp add: logger_log_free log_buffer_eq Let_def)

definition demo_log_env :: log_env where
  "demo_log_env = \<lparr>log_now = \<lparr>tm_year = 124, tm_mon = 0, tm_mday = 2, tm_hour = 3, tm_min = 4, tm_sec = 5,
       tm_usec = 6000\<rparr>, is_tty = (\<lambda>_. False), fopen_ok = (\<lambda>_. True), fopen_error = [],
     macro_site = (\<lambda>_. (''x.c'', 1))\<rparr>"

theorem log_line_exact_witness:
  "\<exists>st'. logger_log demo_log_env LOG_LEVEL_ERROR ''x.c'' 1 ''f'' ''oops''
      (initial_logger\<lparr>g_logger_initialized := True\<rparr>) = Some st' \<and> length (log_written st') = 1"
proof -
  have "\<not> mutex_held (initial_logger\<lparr>g_logger_initialized := True\<rparr>)" by (simp add: initial_logger_def)
  from log_line_exact [OF this, of demo_log_env LOG_LEVEL_ERROR "''x.c''" 1 "''f''" "''oops''"]
  show ?thesis by (auto simp: initial_logger_def log_order)
qed

text \<open>C40: \<^verbatim>\<open>logger_cleanup\<close> waits for itself exactly when the log goes to a file and INFO lines are
  enabled: it logs its farewell while it holds the mutex that the logger takes for every line. In
  every other case it returns with the logger off. The demo program, which ends with such a cleanup,
  never ends when the log file can be opened.\<close>

theorem cleanup_blocks_iff:
  shows "(\<not> mutex_held st \<longrightarrow>
      (logger_cleanup e st = None \<longleftrightarrow> g_logger_initialized st \<and>
        is_log_file (output_file (g_logger st)) \<and> min_level (g_logger st) \<le> LOG_LEVEL_INFO) \<and>
      (\<forall>st'. logger_cleanup e st = Some st' \<longrightarrow>
        \<not> g_logger_initialized st' \<and> \<not> mutex_held st' \<and> output_file (g_logger st') = None)) \<and>
    (fopen_ok e ''/tmp/chat_demo.log'' \<longrightarrow> demo_main e ms initial_logger = None)"
proof (intro conjI impI)
  assume free: "\<not> mutex_held st"
  then show "logger_cleanup e st = None \<longleftrightarrow> g_logger_initialized st \<and>
      is_log_file (output_file (g_logger st)) \<and> min_level (g_logger st) \<le> LOG_LEVEL_INFO"
    by (auto simp: logger_cleanup_def mutex_lock_def log_macro_def logger_log_held)
  show "\<forall>st'. logger_cleanup e st = Some st' \<longrightarrow>
      \<not> g_logger_initialized st' \<and> \<not> mutex_held st' \<and> output_file (g_logger st') = None"
    using free by (auto simp: logger_cleanup_def mutex_lock_def mutex_unlock_def split: if_splits bind_splits)
next
  assume "fopen_ok e ''/tmp/chat_demo.log''"
  then show "demo_main e ms initial_logger = None"
    by (simp add: demo_main_def logger_init_def logger_init_with_file_def logger_cleanup_def mutex_lock_def
        mutex_unlock_def log_macro_def logger_log_def initial_logger_def set_component_def is_log_file_def
        log_order Let_def)
qed

theorem cleanup_blocks_iff_witness:
  "demo_main demo_log_env ''room list'' initial_logger = None \<and> logger_cleanup demo_log_env initial_logger \<noteq> None"
  using cleanup_blocks_iff [of initial_logger demo_log_env "''room list''"]
  by (simp add: demo_log_env_def initial_logger_def)

end
