(* ===== verification/Spec2Isabelle.thy ===== *)
theory Spec2Isabelle
  imports ServerProperties RoomProperties ClientTableProperties HandshakeProperties CipherProperties
    ClientProgramProperties ClientSecurityProperties EntropyProperties LoggerProperties
begin

text \<open>
  A model of the TCP chat program: a server with chat rooms, a client with an end-to-end layer, and the
  logger both use. This theory imports the whole development and holds the properties that span client
  and server. Paths are relative to \<^verbatim>\<open>src/\<close>; a definition has the name of the C function or type it
  models (with \<open>client_\<close> or \<open>server_\<close> in front where both programs have one of that name).

  \<^bold>\<open>The parts of the program and their theories.\<close>

  \<^item> \<open>Prelude\<close>, \<open>CLib\<close>, \<open>World\<close>: search loops and counters over slot arrays, invariants of transition
    systems; C strings in arrays, \<^verbatim>\<open>strncpy\<close>, \<^verbatim>\<open>snprintf\<close>, bytes; the system calls as a trace of what
    was sent, closed and cancelled, and the answers of the system as inputs.
  \<^item> The server's tables. \<open>ServerTypes\<close> (\<^verbatim>\<open>server/include/types.h\<close>); \<open>Room\<close>, \<open>RoomManager\<close>,
    \<open>RoomDirectory\<close>, \<open>RoomMessaging\<close> (\<^verbatim>\<open>server/src/room_manager.c\<close>: 50 rooms of 20 members);
    \<open>ClientSession\<close>, \<open>ClientManager\<close> (\<^verbatim>\<open>server/src/client_session.c\<close>, \<^verbatim>\<open>client_manager.c\<close>: 100 slots);
    \<open>SecurityTypes\<close>, \<open>SecurityManager\<close> (\<^verbatim>\<open>server/src/security_foundation.c\<close>: a security context per
    slot).
  \<^item> The server's behaviour. \<open>ChatProtocol\<close> (\<^verbatim>\<open>server/src/chat_protocol.c\<close>: the dispatcher and every command),
    \<open>ChatBehaviour\<close> (what the commands do, as lemmas), \<open>ServerInvariant\<close>, \<open>FineSteps\<close>, \<open>ServerLoop\<close>
    (\<^verbatim>\<open>client_session.c\<close>, \<^verbatim>\<open>server.c\<close>: the thread of a client, the accept loop, creation and destruction),
    \<open>ServerMain\<close> (\<^verbatim>\<open>server/src/main.c\<close>, \<^verbatim>\<open>signal_handler.c\<close>).
  \<^item> What both sides share. \<open>EncryptionContext\<close>, \<open>CipherChannel\<close> (the message cipher of
    \<^verbatim>\<open>client/src/encryption_context.c\<close> and \<^verbatim>\<open>server/src/security_foundation.c\<close>), \<open>Handshake\<close> (the three packets,
    both \<^verbatim>\<open>handshake_protocol.c\<close>), \<open>CliArgs\<close> (both \<^verbatim>\<open>cli_args.c\<close>).
  \<^item> The client. \<open>E2E\<close>, \<open>E2EKeys\<close>, \<open>E2ECrypto\<close> (\<^verbatim>\<open>client/src/e2e_encryption.c\<close>); \<open>Client\<close>
    (\<^verbatim>\<open>client/src/client.c\<close>); \<open>ClientMain\<close>, \<open>ClientProgram\<close> (\<^verbatim>\<open>client/src/main.c\<close>); \<open>ClientSecurity\<close>,
    \<open>ContextLifecycle\<close> (\<^verbatim>\<open>secure_memory.c\<close>, \<^verbatim>\<open>security_context.c\<close>, \<^verbatim>\<open>global_security.c\<close>,
    \<^verbatim>\<open>security_foundation.c\<close>), \<open>ProcessChecks\<close> (\<^verbatim>\<open>anti_debugging.c\<close>), \<open>HardwareEntropy\<close>
    (\<^verbatim>\<open>hardware_security.c\<close>).
  \<^item> \<open>Logger\<close> (\<^verbatim>\<open>utils/src/logger.c\<close>, \<^verbatim>\<open>utils/demo_logger.c\<close>).
  \<^item> The theories named \<open>...Properties\<close> state the properties, each with an instance on a concrete state
    where it has hypotheses; \<open>Demo\<close> is a concrete server for these, \<open>EndToEnd\<close> puts client and server
    together.

  \<^bold>\<open>State.\<close> The state of the server (\<open>server_state\<close>) are its three global managers and the world; a
  pointer that may be NULL is an option (\<open>'a ptr\<close>), a pointer to a session or a room is its index. An
  operation takes the state and returns the new one with its result; the return value -1 is kept as an
  integer, or is \<open>None\<close> where the operation otherwise produces data. Undefined behaviour (a write or read
  outside an array, \<^verbatim>\<open>atoi\<close> of a number that is no \<^verbatim>\<open>int\<close>) is a value \<open>None\<close> of the whole operation, and
  so is a call that never returns in \<open>Logger\<close>. Counters of 32 and 64 bits are words and wrap; a
  \<^verbatim>\<open>size_t\<close> subtraction that may wrap is \<open>size_sub\<close>.

  \<^bold>\<open>Steps.\<close> A function that holds its mutex over all its accesses is one atomic step, and in \<open>srv_step\<close> so
  is a handler with the operations it calls. \<open>srv_step\<close> interleaves accepted connections, handshakes,
  messages and thread ends of all clients in any order. \<open>FineSteps\<close> takes the handlers apart: a
  \<open>fine_step\<close> is the critical section of one outermost mutex, one \<^verbatim>\<open>send()\<close> or one update of a session by its
  thread; every \<open>srv_step\<close> is a sequence of these, and the invariant of the server holds whatever comes
  between them. \<open>client_events\<close> interleaves the two threads of
  the client. Loops over arrays recurse over the array or a count, loops on input over the list of
  inputs (with none left a live program waits, which is a result of its own), the collectors of
  \<open>HardwareEntropy\<close> and the file reader of \<open>ProcessChecks\<close> have termination proofs; no fuel is used.

  \<^bold>\<open>What is shown.\<close> The server: in every reachable state the three tables are consistent (counters, ids,
  member lists, terminated strings), with undivided handlers and at the grain of the mutexes; a message typed in a room reaches exactly the other members,
  also end to end from the client's keyboard to the other client's screen; the room commands refine
  operations on an abstract directory from room ids to member sets (the locale of \<open>RoomDirectory\<close>); the
  handshake completes and nothing else establishes a session; an ended thread frees its slot; a
  damaged packet ends the session without any other effect; a signal in the accept loop ends the
  program. The cipher: up to 1000 messages are decrypted in order, which changes the tag does not notice, and
  what the key rotation does. The client: its end-to-end context stays well formed under any packets,
  its resources are balanced, a lost connection ends it. Where the code does not do what it is meant to do, the property
  states what it does: two rooms made in one second share their id, a refused join strands the
  client, a reused slot inherits a membership, a text longer than the client's buffer is shown in two
  pieces, a thread that outlives its session ends that of another client, honest end-to-end
  messages are rejected, the keys leak,
  a short or long message is never sent, the cleanup of a logging-to-file logger blocks, the debugger check
  always fires.

  \<^bold>\<open>Interfaces.\<close> \<open>invariant_system\<close> (start, step and invariant; interpreted for the server, at both grains, and for the
  client's end-to-end context), the bounded set of member ids in \<open>Room\<close>, the directory of rooms, the directory of
  peer keys in \<open>E2EKeys\<close>, the channel of \<open>CipherChannel\<close> (interpreted for both directions) are locales,
  each interpreted on the definitions of the component that provides them.

  \<^bold>\<open>Not modelled.\<close> The log calls inside the components and the prompts and help texts of the client;
  protection and locking of memory pages; the disposition of SIGPIPE; the floating point estimate of the
  entropy (a parameter); accesses that overlap without a mutex (the fields of a session that another
  thread reads while they are written; a step reads and writes them at one moment); use of a server that \<^verbatim>\<open>main\<close> has freed by
  client threads that still run. The result of \<^verbatim>\<open>rand()\<close> is a parameter, a function of the seed and the
  number of the call.
\<close>

section \<open>A chat line from one client to the others\<close>

text \<open>C3: A line typed in a room arrives: the sending client encrypts it and sends it as one packet; the
  server's thread for that client decrypts it and sends "nickname: line" to exactly the
  connected members of the room other than the sender, and goes on. A receiving client at which exactly
  these bytes wait shows exactly this text if it is shorter than its receive buffer of 1024
  bytes. A longer text (a line of 990 characters can make one) is cut after 1023 characters and shown in two
  pieces with a line break between them that nobody typed. Required is that both sides have the
  same session key, that the network takes the packet, that the line fits the buffer and is no
  command, and for the receiver that neither piece starts with a slash, as messages between clients do.\<close>

theorem chat_line_end_to_end:
  assumes inv: "server_inv st" and i: "i < MAX_CLIENTS" and act: "active (session_at st i)"
    and room: "in_room (session_at st i)"
    and mgr: "g_room_manager st = Some rm" "g_client_manager st = Some cm"
    and keys: "keys_match st i c" and c: "connected c" and gs: "g_global_context gs = None"
    and w: "send_all_ok w" and len: "strlen line < BUFFER_SIZE"
    and m: "clean_line BUFFER_SIZE [LF, CR] line = m" "m \<noteq> []" "hd m \<noteq> CHR ''/''"
  defines "line_text \<equiv> cstr (nickname (session_at st i)) @ '': '' @ m @ [LF]"
  shows "\<exists>w' c' d st'. client_send_message gs w c (Some line) = (0, w', c') \<and>
    sent_on (client_fd c) (emitted w w') = [d] \<and>
    session_iteration e st i (int i) (RecvData d) = Some (True, st') \<and> server_inv st' \<and>
    set (deliveries (emitted (net st) (net st'))) = (\<lambda>t. (socket_fd t, bytes_of line_text))
      ` room_recipients cm rm (current_room_id (session_at st i)) (int i) \<and>
    (hd line_text \<noteq> CHR ''/'' \<longrightarrow> (1023 < length line_text \<longrightarrow> line_text ! 1023 \<noteq> CHR ''/'') \<longrightarrow>
      (\<forall>c2. connected c2 \<longrightarrow>
        message_receiver_thread c2 (map (Pair False) (recv_chunks 1023 (bytes_of line_text))) = Some (c2,
          if length line_text \<le> 1023 then [ShownText line_text]
          else [ShownText (take 1023 line_text @ [LF]), ShownText (drop 1023 line_text)])))"
proof -
  obtain sm sc eb ec where k: "g_security_manager st = Some sm" "contexts sm ! i = Some sc"
    "enc_ctx sc = Some eb" "client_enc_ctx c = Some ec" "session_key ec = session_key eb"
    using keys by (auto simp: keys_match_def)
  let ?p = "bytes_of (cstr line)" and ?rid = "current_room_id (session_at st i)"
  let ?d = "perform_xor (session_key eb) ?p @ tag_loop ?p"
  let ?st1 = "st\<lparr>g_security_manager :=
      Some (set_enc_ctx sm i (Some (eb\<lparr>sequence_number := sequence_number eb + 1\<rparr>)))\<rparr>"
  have "strlen line + 16 \<le> BUFFER_SIZE * 2" using len by (simp add: limits)
  from client_sends [OF c k(4) gs w this] k(5) obtain c' where
    s: "client_send_message gs w c (Some line) =
      (0, w\<lparr>trace := trace w @ [Sent (client_fd c) ?d (int (length ?d))]\<rparr>, c')" by auto
  have "cstr line \<noteq> []" using m(1,2) by (auto simp: clean_line_eq limits)
  then have p: "?p \<noteq> []" "length ?p < BUFFER_SIZE" using len by (simp_all add: bytes_of_def strlen_def)
  have "clean_line BUFFER_SIZE [LF, CR] (cstr line) = m" using m(1) by (simp add: clean_line_eq limits)
  note h = handle_plain_message [OF server_reads(2) [OF inv i act k(1-3) p] i this m(2,3), of e "int i"]
  have fits: "cstr line_text = line_text" unfolding line_text_def using m(1) by (intro cstr_formatted) auto
  let ?st' = "to_room ?st1 ?rid line_text (int i)"
  have same: "session_at ?st1 i = session_at st i" by (simp add: session_at_def)
  have it: "session_iteration e st i (int i) (RecvData ?d) = Some (True, ?st')"
    using server_reads(1) [OF inv i act k(1-3) p, of e] h room same by (simp add: line_text_def)
  have "set (deliveries (emitted (net st) (net ?st'))) =
      (\<lambda>t. (socket_fd t, bytes_of line_text)) ` room_recipients cm rm ?rid (int i)"
    using to_room_deliveries(2) [of ?st1 cm rm ?rid line_text "int i"] mgr fits by simp
  moreover have "server_inv ?st'" using server_reads(2) [OF inv i act k(1-3) p] by simp
  moreover have "message_receiver_thread c2 (map (Pair False) (recv_chunks 1023 (bytes_of line_text))) = Some (c2,
      if length line_text \<le> 1023 then [ShownText line_text]
      else [ShownText (take 1023 line_text @ [LF]), ShownText (drop 1023 line_text)])"
    if "hd line_text \<noteq> CHR ''/''" "1023 < length line_text \<longrightarrow> line_text ! 1023 \<noteq> CHR ''/''" "connected c2" for c2
  proof -
    note shape = chat_line_shape [OF session_at_ok [OF inv i] m(1)]
    have "NUL \<notin> set line_text" using cstr_no_NUL [of line_text] unfolding fits .
    moreover have "line_text \<noteq> []" by (simp add: line_text_def)
    ultimately show ?thesis
      using receiver_thread_shows [of line_text c2] that shape unfolding line_text_def [symmetric]
      by (simp add: limits shown_as_def)
  qed
  ultimately show ?thesis using s it
    by (intro exI [of _ "w\<lparr>trace := trace w @ [Sent (client_fd c) ?d (int (length ?d))]\<rparr>"]
        exI [of _ c'] exI [of _ ?d] exI [of _ ?st']) simp
qed

theorem chat_line_end_to_end_witness:
  "\<exists>d st'. session_iteration demo_libc demo_state 0 (int 0) (RecvData d) = Some (True, st') \<and>
    set (deliveries (emitted demo_world (net st'))) = (\<lambda>t. (socket_fd t, bytes_of (''Alice: hi'' @ [LF])))
      ` room_recipients demo_cm demo_rm (demo_room_id @ [NUL]) (int 0) \<and>
    message_receiver_thread (demo_client zero_e2e_context)
      (map (Pair False) (recv_chunks 1023 (bytes_of (''Alice: hi'' @ [LF])))) =
      Some (demo_client zero_e2e_context, [ShownText (''Alice: hi'' @ [LF])])"
proof -
  have nick: "cstr (nickname (session_at demo_state 0)) = ''Alice''"
    using demo_nickname(1) [of "''Alice''" 0 5] by (simp add: demo_session_at demo_nickname(2))
  have room: "in_room (session_at demo_state 0)" "current_room_id (session_at demo_state 0) = demo_room_id @ [NUL]"
    "active (session_at demo_state 0)"
    by (simp_all add: demo_session_at demo_in_room)
  have hi: "clean_line BUFFER_SIZE [LF, CR] ''hi'' = ''hi''" "strlen ''hi'' < BUFFER_SIZE"
    by (simp_all add: clean_line_eq limits cstr_def strlen_def)
  from chat_line_end_to_end [OF demo_server_inv demo_max(1) room(3,1) demo_state_fields(1,2)
      demo_keys_match demo_client_fields(1,5) demo_send_all_ok hi(2,1)]
  show ?thesis unfolding nick room(2) by fastforce
qed

section \<open>A public key from one client to the others\<close>

text \<open>C9: A public key announced in a room reaches the members: the client's \<^verbatim>\<open>/keyrefresh\<close> sends one
  packet; the server relays its text unchanged to exactly the connected members other than the
  sender; and a client that receives it, is another user and has room in its table, afterwards
  finds the sender's public key and nickname under the sender's user id, and shows nothing.\<close>

theorem key_announcement_end_to_end:
  assumes inv: "server_inv st" and i: "i < MAX_CLIENTS" and act: "active (session_at st i)"
    and room: "in_room (session_at st i)"
    and mgr: "g_room_manager st = Some rm" "g_client_manager st = Some cm"
    and keys: "keys_match st i c" and c: "connected c" and gs: "g_global_context gs = None"
    and w: "send_all_ok w"
    and x: "e2e_ctx c = Some x" "keypair_ok (my_keys x)" and p0: "length (kx_nickname p0) = E2E_NICKNAME_LEN"
  shows "\<exists>w' c' d st' msg. client_broadcast_public_key gs p0 w c = (0, w', c') \<and>
    sent_on (client_fd c) (emitted w w') = [d] \<and>
    session_iteration e st i (int i) (RecvData d) = Some (True, st') \<and>
    set (deliveries (emitted (net st) (net st'))) = (\<lambda>t. (socket_fd t, msg))
      ` room_recipients cm rm (current_room_id (session_at st i)) (int i) \<and>
    (\<forall>c2 y. e2e_ctx c2 = Some y \<longrightarrow> peers_ok y \<longrightarrow> num_peers y < MAX_CLIENTS_E2E \<longrightarrow>
       user_id (my_keys y) \<noteq> user_id (my_keys x) \<longrightarrow>
       (\<exists>y'. receiver_iteration False c2 (RecvData msg) = Some (True, c2\<lparr>e2e_ctx := Some y'\<rparr>, []) \<and>
          peers_ok y' \<and> peer_lookup y' = (peer_lookup y)(user_id (my_keys x) \<mapsto>
            (public_key (my_keys x), take 63 (cstr (kp_nickname (my_keys x)))))))"
proof -
  obtain sm sc eb ec where k: "g_security_manager st = Some sm" "contexts sm ! i = Some sc"
    "enc_ctx sc = Some eb" "client_enc_ctx c = Some ec" "session_key ec = session_key eb"
    using keys by (auto simp: keys_match_def)
  obtain p where p: "e2e_create_key_exchange_packet (Some x) (Some p0) = (0, Some p)"
    by (auto simp: e2e_create_key_exchange_packet_def Let_def)
  have ok: "kx_packet_ok p" using p x(2) p0
    by (auto simp: e2e_create_key_exchange_packet_def kx_packet_ok_def keypair_ok_def
        kx_expected_signature_def Let_def limits)
  note K = kx_message_props [OF ok]
  let ?m = "kx_message p" and ?rid = "current_room_id (session_at st i)"
  let ?p = "bytes_of ?m"
  let ?d = "perform_xor (session_key eb) ?p @ tag_loop ?p"
  let ?st1 = "st\<lparr>g_security_manager :=
      Some (set_enc_ctx sm i (Some (eb\<lparr>sequence_number := sequence_number eb + 1\<rparr>)))\<rparr>"
  have "strlen ?m + 16 \<le> BUFFER_SIZE * 2" using K(1,2) by (simp add: limits strlen_def)
  from client_sends [OF c k(4) gs w this] k(5) K(2) obtain c' where
    s: "client_send_message gs w c (Some ?m) =
      (0, w\<lparr>trace := trace w @ [Sent (client_fd c) ?d (int (length ?d))]\<rparr>, c')" by auto
  have bc: "client_broadcast_public_key gs p0 w c =
      (0, w\<lparr>trace := trace w @ [Sent (client_fd c) ?d (int (length ?d))]\<rparr>, c')"
    using c x(1) p s by (simp add: client_broadcast_public_key_def)
  have ne: "?p \<noteq> []" "length ?p < BUFFER_SIZE" using K(1) by (auto simp: bytes_of_def limits)
  let ?st' = "to_room ?st1 ?rid ?m (int i)"
  have same: "session_at ?st1 i = session_at st i" by (simp add: session_at_def)
  have it: "session_iteration e st i (int i) (RecvData ?d) = Some (True, ?st')"
    using server_reads(1) [OF inv i act k(1-3) ne, of e] server_relays_kx [OF ok, of ?st1 cm i e "int i"]
      room mgr same by simp
  have del: "set (deliveries (emitted (net st) (net ?st'))) =
      (\<lambda>t. (socket_fd t, ?p)) ` room_recipients cm rm ?rid (int i)"
    using to_room_deliveries(2) [of ?st1 cm rm ?rid ?m "int i"] mgr K(2) by simp
  have "\<exists>y'. receiver_iteration False c2 (RecvData ?p) = Some (True, c2\<lparr>e2e_ctx := Some y'\<rparr>, []) \<and>
      peers_ok y' \<and> peer_lookup y' = (peer_lookup y)(user_id (my_keys x) \<mapsto>
        (public_key (my_keys x), take 63 (cstr (kp_nickname (my_keys x)))))"
    if y: "e2e_ctx c2 = Some y" "peers_ok y" "num_peers y < MAX_CLIENTS_E2E"
      "user_id (my_keys y) \<noteq> user_id (my_keys x)" for c2 y
  proof -
    have "kx_user_id p \<noteq> user_id (my_keys y)"
      using p y(4) by (auto simp: e2e_create_key_exchange_packet_def Let_def)
    then show ?thesis
      using peer_registration [OF p y(2) p0] y receiver_takes_kx [OF ok, of False c2]
      by (auto simp: client_handle_key_exchange_def)
  qed
  then show ?thesis using bc it del
    by (intro exI [of _ "w\<lparr>trace := trace w @ [Sent (client_fd c) ?d (int (length ?d))]\<rparr>"]
        exI [of _ c'] exI [of _ ?d] exI [of _ ?st'] exI [of _ ?p]) simp
qed

theorem key_announcement_end_to_end_witness:
  "\<exists>(k :: e2e_keypair) d st' msg. session_iteration demo_libc demo_state 0 (int 0) (RecvData d) = Some (True, st') \<and>
    set (deliveries (emitted demo_world (net st'))) = (\<lambda>t. (socket_fd t, msg))
      ` room_recipients demo_cm demo_rm (demo_room_id @ [NUL]) (int 0) \<and>
    (\<exists>y'. receiver_iteration False (demo_client zero_e2e_context) (RecvData msg) =
        Some (True, demo_client y', []) \<and> peer_lookup y' (user_id k) \<noteq> None)"
proof -
  obtain g k where gk: "e2e_generate_keypair demo_libc demo_rng (Some zero_keypair) (Some ''Alice'') = (0, g, Some k)"
    "Some (user_id k) = e2e_generate_user_id demo_libc (Some ''Alice'')" using generate_demo by blast
  let ?x = "zero_e2e_context\<lparr>my_keys := k\<rparr>"
  have room: "in_room (session_at demo_state 0)" "current_room_id (session_at demo_state 0) = demo_room_id @ [NUL]"
    "active (session_at demo_state 0)"
    by (simp_all add: demo_session_at demo_in_room)
  have ok: "keypair_ok (my_keys ?x)" "length (kx_nickname demo_kx) = E2E_NICKNAME_LEN"
    using generate_keypair_ok [OF gk(1)] by (simp_all add: demo_kx_def limits)
  have "user_id k ! 1 \<noteq> 0"
    using gk(2) by (auto simp: e2e_generate_user_id_def strlen_def cstr_def Let_def upt_rec demo_libc_def)
  moreover have "replicate 16 (0 :: byte) ! 1 = 0" by simp
  ultimately have "user_id k \<noteq> replicate 16 0" by metis
  then have other: "user_id (my_keys zero_e2e_context) \<noteq> user_id (my_keys ?x)"
    by (simp add: zero_e2e_context_def zero_keypair_def)
  have space: "num_peers zero_e2e_context < MAX_CLIENTS_E2E" by (simp add: zero_e2e_context_def limits)
  have upd: "demo_client x\<lparr>e2e_ctx := Some y\<rparr> = demo_client y" for x y by (simp add: demo_client_def)
  from key_announcement_end_to_end [OF demo_server_inv demo_max(1) room(3,1) demo_state_fields(1,2)
      demo_keys_match demo_client_fields(1,5) demo_send_all_ok demo_client_fields(3) ok, of demo_libc,
      unfolded room(2) demo_state_fields(4)]
  show ?thesis
  proof (elim exE conjE)
    fix w' c' d st' msg
    assume it: "session_iteration demo_libc demo_state 0 (int 0) (RecvData d) = Some (True, st')"
      and del: "set (deliveries (emitted demo_world (net st'))) = (\<lambda>t. (socket_fd t, msg))
        ` room_recipients demo_cm demo_rm (demo_room_id @ [NUL]) (int 0)"
      and rcv: "\<forall>c2 y. e2e_ctx c2 = Some y \<longrightarrow> peers_ok y \<longrightarrow> num_peers y < MAX_CLIENTS_E2E \<longrightarrow>
        user_id (my_keys y) \<noteq> user_id (my_keys ?x) \<longrightarrow>
        (\<exists>y'. receiver_iteration False c2 (RecvData msg) = Some (True, c2\<lparr>e2e_ctx := Some y'\<rparr>, []) \<and>
           peers_ok y' \<and> peer_lookup y' = (peer_lookup y)(user_id (my_keys ?x) \<mapsto>
             (public_key (my_keys ?x), take 63 (cstr (kp_nickname (my_keys ?x))))))"
    from rcv [rule_format, OF demo_client_fields(3) zero_peers_ok space other] obtain y' where
      "receiver_iteration False (demo_client zero_e2e_context) (RecvData msg) = Some (True, demo_client y', [])"
      "peer_lookup y' (user_id k) \<noteq> None"
      unfolding upd by auto
    with it del show ?thesis by (intro exI [of _ k] exI conjI)
  qed
qed

end
